(* ===== verification/Prelude.thy ===== *)
theory Prelude
  imports Main "HOL-Library.Word" "HOL-Library.Char_ord" "HOL-Library.List_Lexorder"
begin

text \<open>
  The vocabulary every theory of the development shares.

  \<^item> Rust results: \<open>('e, 'a) result\<close> is a sum whose left side is the error; the
    combinators of \<^verbatim>\<open>core::result\<close> and \<^verbatim>\<open>core::option\<close> the code calls
    (\<^verbatim>\<open>map_err\<close>, \<^verbatim>\<open>and_then\<close>, \<^verbatim>\<open>ok_or_else\<close>, collecting an iterator of
    results) are functions on it.
  \<^item> Unwinding: \<open>'a exec\<close> is a computation that either returns a value or panics.
  \<^item> \<^verbatim>\<open>std::time::Duration\<close>: nanoseconds as a natural number, whose addition and
    doubling panic above \<open>DURATION_MAX\<close> as the standard library's do.
  \<^item> \<^verbatim>\<open>std::sync::Mutex\<close>: a guarded value with its poison flag; a body that unwinds
    while it holds the guard poisons the mutex, and locking a poisoned mutex with
    \<^verbatim>\<open>.lock().unwrap()\<close> panics.
  \<^item> \<^verbatim>\<open>std::collections::BTreeMap\<close>: an association list kept in strictly ascending
    key order, and \<^verbatim>\<open>HashMap\<close> as a partial function.
  \<^item> Text: a Rust \<^verbatim>\<open>String\<close> is the list of its UTF-8 bytes, so \<open>string\<close> (whose
    characters are bytes) models it; \<open>show_nat\<close> is the decimal \<^verbatim>\<open>Display\<close> of an
    unsigned integer, \<open>show_int\<close> of a signed one and \<open>hex02\<close> the \<^verbatim>\<open>{b:02x}\<close> format of a byte.
\<close>

named_theorems exec_simps \<open>unfolding of panicking computations and durations\<close>
named_theorems result_simps \<open>combinators of Result and Option\<close>

section \<open>Identifiers, results and unwinding\<close>

type_synonym uuid = "128 word"
type_synonym ('e, 'a) result = "'e + 'a"

datatype 'a exec = Ret 'a | Unwind

fun exec_map :: "('a \<Rightarrow> 'b) \<Rightarrow> 'a exec \<Rightarrow> 'b exec" where
  "exec_map f (Ret a) = Ret (f a)"
| "exec_map f Unwind = Unwind"

fun exec_bind :: "'a exec \<Rightarrow> ('a \<Rightarrow> 'b exec) \<Rightarrow> 'b exec" where
  "exec_bind (Ret a) k = k a"
| "exec_bind Unwind k = Unwind"

fun is_unwind :: "'a exec \<Rightarrow> bool" where
  "is_unwind (Ret a) = False"
| "is_unwind Unwind = True"

fun map_err :: "('e \<Rightarrow> 'f) \<Rightarrow> ('e, 'a) result \<Rightarrow> ('f, 'a) result" where
  "map_err g (Inl e) = Inl (g e)"
| "map_err g (Inr a) = Inr a"

fun map_ok :: "('a \<Rightarrow> 'b) \<Rightarrow> ('e, 'a) result \<Rightarrow> ('e, 'b) result" where
  "map_ok f (Inl e) = Inl e"
| "map_ok f (Inr a) = Inr (f a)"

fun and_then :: "('e, 'a) result \<Rightarrow> ('a \<Rightarrow> ('e, 'b) result) \<Rightarrow> ('e, 'b) result" where
  "and_then (Inl e) k = Inl e"
| "and_then (Inr a) k = k a"

fun ok_or :: "'e \<Rightarrow> 'a option \<Rightarrow> ('e, 'a) result" where
  "ok_or e None = Inl e"
| "ok_or e (Some a) = Inr a"

fun unwrap_or :: "'a \<Rightarrow> 'a option \<Rightarrow> 'a" where
  "unwrap_or d None = d"
| "unwrap_or d (Some a) = a"

text \<open>\<^verbatim>\<open>iter.map(f).collect::<Result<Vec<_>, _>>()\<close>: the first error ends it.\<close>

fun collect_results :: "('a \<Rightarrow> ('e, 'b) result) \<Rightarrow> 'a list \<Rightarrow> ('e, 'b list) result" where
  "collect_results f [] = Inr []"
| "collect_results f (x # xs) =
     (case f x of
        Inl e \<Rightarrow> Inl e
      | Inr y \<Rightarrow> (case collect_results f xs of Inl e \<Rightarrow> Inl e | Inr ys \<Rightarrow> Inr (y # ys)))"

section \<open>Durations\<close>

type_synonym duration = nat
type_synonym instant = nat

definition DURATION_MAX :: duration where
  "DURATION_MAX = (2 ^ 64 - 1) * 1000000000 + 999999999"

definition from_millis :: "nat \<Rightarrow> duration" where
  "from_millis n = n * 1000000"

definition from_secs :: "nat \<Rightarrow> duration" where
  "from_secs n = n * 1000000000"

text \<open>\<^verbatim>\<open>Duration + Duration\<close> and \<^verbatim>\<open>Duration * u32\<close> panic on overflow;
  \<^verbatim>\<open>saturating_sub\<close> is subtraction on naturals.\<close>

definition dur_add :: "duration \<Rightarrow> duration \<Rightarrow> duration exec" where
  "dur_add a b = (if a + b \<le> DURATION_MAX then Ret (a + b) else Unwind)"

definition dur_mul :: "duration \<Rightarrow> nat \<Rightarrow> duration exec" where
  "dur_mul d n = (if d * n \<le> DURATION_MAX then Ret (d * n) else Unwind)"

text \<open>
  \<^verbatim>\<open>Instant + Duration\<close> panics when the sum is not representable; on the 64-bit
  Unix targets an instant is a signed 64-bit count of seconds with nanoseconds.
\<close>

definition INSTANT_MAX :: instant where
  "INSTANT_MAX = (2 ^ 63 - 1) * 1000000000 + 999999999"

definition instant_add :: "instant \<Rightarrow> duration \<Rightarrow> instant exec" where
  "instant_add t d = (if t + d \<le> INSTANT_MAX then Ret (t + d) else Unwind)"

definition saturating_duration_since :: "instant \<Rightarrow> instant \<Rightarrow> duration" where
  "saturating_duration_since later earlier = later - earlier"

section \<open>A mutex with poisoning\<close>

record 'i mutex =
  poisoned :: bool
  guarded :: 'i

definition new_mutex :: "'i \<Rightarrow> 'i mutex" where
  "new_mutex i = \<lparr>poisoned = False, guarded = i\<rparr>"

text \<open>
  \<^verbatim>\<open>m.lock().unwrap()\<close> with the guard alive over the whole of \<open>body\<close>: what the
  body did before it unwound stays, and the mutex is poisoned from then on.
\<close>

definition with_lock :: "('i \<Rightarrow> 'i \<times> 'a exec) \<Rightarrow> 'i mutex \<Rightarrow> 'i mutex \<times> 'a exec" where
  "with_lock body m =
     (if poisoned m then (m, Unwind)
      else let (i, r) = body (guarded m)
           in (\<lparr>poisoned = is_unwind r, guarded = i\<rparr>, r))"

section \<open>Ordered maps\<close>

text \<open>\<^verbatim>\<open>BTreeMap::insert\<close>: a present key keeps its place and gets the new value.\<close>

fun btree_insert :: "'k::linorder \<Rightarrow> 'v \<Rightarrow> ('k \<times> 'v) list \<Rightarrow> ('k \<times> 'v) list" where
  "btree_insert k v [] = [(k, v)]"
| "btree_insert k v (e # es) =
     (if fst e = k then (k, v) # es
      else if k < fst e then (k, v) # e # es
      else e # btree_insert k v es)"

fun btree_insert_opt :: "'k::linorder \<Rightarrow> 'v option \<Rightarrow> ('k \<times> 'v) list \<Rightarrow> ('k \<times> 'v) list" where
  "btree_insert_opt k None es = es"
| "btree_insert_opt k (Some v) es = btree_insert k v es"

definition btree_wf :: "('k::linorder \<times> 'v) list \<Rightarrow> bool" where
  "btree_wf es \<longleftrightarrow> sorted_wrt (<) (map fst es)"

section \<open>Printing\<close>

definition digit_char :: "nat \<Rightarrow> char" where
  "digit_char d = char_of (if d < 10 then 48 + d else 87 + d)"

fun show_nat :: "nat \<Rightarrow> string" where
  "show_nat n = (if n < 10 then [digit_char n] else show_nat (n div 10) @ [digit_char (n mod 10)])"

declare show_nat.simps [simp del]

definition hex02 :: "nat \<Rightarrow> string" where
  "hex02 b = [digit_char (b div 16), digit_char (b mod 16)]"

definition show_int :: "int \<Rightarrow> string" where
  "show_int i = (if i < 0 then ''-'' @ show_nat (nat (- i)) else show_nat (nat i))"

text \<open>A string between double quotes, and a list of strings with a separator between them.\<close>

definition quoted :: "string \<Rightarrow> string" where
  "quoted s = [CHR 34] @ s @ [CHR 34]"

fun join :: "string \<Rightarrow> string list \<Rightarrow> string" where
  "join sep [] = []"
| "join sep [x] = x"
| "join sep (x # y # zs) = x @ sep @ join sep (y # zs)"

section \<open>Lemmas on results\<close>

declare exec_map.simps [exec_simps] exec_bind.simps [exec_simps]
declare map_err.simps [result_simps] map_ok.simps [result_simps] and_then.simps [result_simps]
declare ok_or.simps [result_simps]

lemma and_then_Inr_iff: "and_then r k = Inr b \<longleftrightarrow> (\<exists>a. r = Inr a \<and> k a = Inr b)"
  by (cases r) auto

lemma map_ok_Inr_iff: "map_ok f r = Inr b \<longleftrightarrow> (\<exists>a. r = Inr a \<and> b = f a)"
  by (cases r) auto

lemma map_err_Inr_iff [simp]: "map_err g r = Inr b \<longleftrightarrow> r = Inr b"
  by (cases r) auto

lemma ok_or_Inr_iff [simp]: "ok_or e opt = Inr a \<longleftrightarrow> opt = Some a"
  by (cases opt) auto

lemma collect_results_Inr_iff:
  "collect_results f xs = Inr ys \<longleftrightarrow> list_all2 (\<lambda>x y. f x = Inr y) xs ys"
proof (induction xs arbitrary: ys)
  case Nil
  then show ?case by auto
next
  case (Cons x xs)
  then show ?case
    by (cases "f x"; cases "collect_results f xs") (auto simp: list_all2_Cons1)
qed

text \<open>An error of the collection is the error of the first element that fails.\<close>

lemma collect_results_InlD:
  "collect_results f xs = Inl e \<Longrightarrow>
     \<exists>pre x post. xs = pre @ x # post \<and> (\<forall>y \<in> set pre. \<exists>b. f y = Inr b) \<and> f x = Inl e"
proof (induction xs)
  case Nil
  then show ?case by simp
next
  case (Cons x xs)
  show ?case
  proof (cases "f x")
    case (Inl e')
    with Cons.prems have "x # xs = [] @ x # xs \<and> (\<forall>y \<in> set []. \<exists>b. f y = Inr b) \<and> f x = Inl e"
      by simp
    then show ?thesis by blast
  next
    case (Inr y)
    with Cons obtain pre z post where
      "xs = pre @ z # post" "\<forall>y \<in> set pre. \<exists>b. f y = Inr b" "f z = Inl e"
      by (auto split: sum.splits)
    with Inr have "x # xs = (x # pre) @ z # post \<and> (\<forall>y \<in> set (x # pre). \<exists>b. f y = Inr b) \<and> f z = Inl e"
      by simp
    then show ?thesis by blast
  qed
qed

lemma exec_map_Ret_iff: "exec_map f r = Ret b \<longleftrightarrow> (\<exists>a. r = Ret a \<and> b = f a)"
  by (cases r) auto

lemma is_unwind_iff: "is_unwind r \<longleftrightarrow> r = Unwind"
  by (cases r) auto

section \<open>Lemmas on durations\<close>

lemma dur_add_Ret: "a + b \<le> DURATION_MAX \<Longrightarrow> dur_add a b = Ret (a + b)"
  by (simp add: dur_add_def)

lemma dur_mul_Ret: "d * n \<le> DURATION_MAX \<Longrightarrow> dur_mul d n = Ret (d * n)"
  by (simp add: dur_mul_def)

lemmas dur_ret = dur_add_Ret dur_mul_Ret

section \<open>Lemmas on the mutex\<close>

lemma with_lock_new [simp]:
  "with_lock body (new_mutex i) =
     (\<lparr>poisoned = is_unwind (snd (body i)), guarded = fst (body i)\<rparr>, snd (body i))"
  by (simp add: with_lock_def new_mutex_def split_beta)

lemma with_lock_poisoned: "poisoned m \<Longrightarrow> with_lock body m = (m, Unwind)"
  by (simp add: with_lock_def)

lemma with_lock_clean:
  "\<not> poisoned m \<Longrightarrow> body (guarded m) = (i, r) \<Longrightarrow>
     with_lock body m = (\<lparr>poisoned = is_unwind r, guarded = i\<rparr>, r)"
  by (simp add: with_lock_def)

text \<open>A locked body poisons exactly when it unwinds.\<close>

lemma with_lock_poison_iff: "with_lock body m = (m', r) \<Longrightarrow> poisoned m' \<longleftrightarrow> r = Unwind"
  by (auto simp: with_lock_def is_unwind_iff split: if_splits prod.splits)

section \<open>Lemmas on ordered maps\<close>

lemma map_of_btree_insert: "map_of (btree_insert k v es) = (map_of es)(k \<mapsto> v)"
  by (induction es) auto

lemma fst_btree_insert: "fst ` set (btree_insert k v es) = insert k (fst ` set es)"
  by (induction es) auto

lemma btree_wf_Nil [simp]: "btree_wf []"
  by (simp add: btree_wf_def)

lemma btree_wf_insert: "btree_wf es \<Longrightarrow> btree_wf (btree_insert k v es)"
proof (induction es)
  case Nil
  then show ?case by (simp add: btree_wf_def)
next
  case (Cons e es)
  then have IH: "btree_wf (btree_insert k v es)" by (simp add: btree_wf_def)
  have "\<forall>x \<in> fst ` set es. fst e < x" using Cons.prems by (simp add: btree_wf_def)
  then show ?case
    using IH Cons.prems fst_btree_insert [of k v es]
    by (auto simp: btree_wf_def)
qed

lemma map_of_btree_insert_opt:
  "map_of (btree_insert_opt k ov es) = (case ov of None \<Rightarrow> map_of es | Some v \<Rightarrow> (map_of es)(k \<mapsto> v))"
  by (cases ov) (simp_all add: map_of_btree_insert)

lemma btree_wf_insert_opt: "btree_wf es \<Longrightarrow> btree_wf (btree_insert_opt k ov es)"
  by (cases ov) (simp_all add: btree_wf_insert)

lemma btree_wf_distinct: "btree_wf es \<Longrightarrow> distinct (map fst es)"
  by (simp add: btree_wf_def strict_sorted_iff)

text \<open>Two ordered maps with the same entries are the same list.\<close>

lemma btree_wf_ext:
  assumes "btree_wf xs" "btree_wf ys" "map_of xs = map_of ys"
  shows "xs = ys"
proof -
  have d: "distinct (map fst xs)" "distinct (map fst ys)"
    using assms by (auto dest: btree_wf_distinct)
  have s: "set xs = set ys"
    using map_of_eq_Some_iff d assms(3) by (metis subrelI subset_antisym)
  have "sorted (map fst xs)" "sorted (map fst ys)"
    using assms by (simp_all add: btree_wf_def strict_sorted_iff)
  moreover have "inj_on fst (set xs \<union> set ys)"
    using d s by (simp add: distinct_map)
  ultimately show ?thesis
    using d s by (intro map_sorted_distinct_set_unique [of fst xs ys])
qed

section \<open>Lemmas on printed numbers\<close>

lemma show_nat_nonempty [simp]: "show_nat n \<noteq> []"
  by (subst show_nat.simps) simp

lemma show_nat_small [simp]:
  "show_nat 0 = ''0''" "show_nat 1 = ''1''" "show_nat (Suc 0) = ''1''" "show_nat 2 = ''2''"
  "show_nat 3 = ''3''" "show_nat 4 = ''4''" "show_nat 5 = ''5''"
  by code_simp+

lemma length_hex02 [simp]: "length (hex02 b) = 2"
  by (simp add: hex02_def)

end
