(* ===== verification/Port_Errors.thy ===== *)
theory Port_Errors
  imports Prelude
begin

text \<open>
  The error types of the five ports (\<^verbatim>\<open>engagement-hub-ports/src/error.rs\<close>). Each is an
  enum with the same five variants. The traits \<^verbatim>\<open>IsRetryable\<close>, \<^verbatim>\<open>FromPanic\<close> and
  \<^verbatim>\<open>FromDeadline\<close> that the retry combinator is generic over become the dictionary
  \<open>error_traits\<close>, one value of it per error type, and what the combinator's callers rely on is
  the locale \<open>retry_error\<close>: the errors that stand for a caught panic and for a refused retry
  are distinct and final. The locale is interpreted on all five dictionaries.
\<close>

section \<open>The trait dictionary\<close>

record 'e error_traits =
  is_retryable :: "'e \<Rightarrow> bool"
  from_panic :: 'e
  from_deadline :: 'e

text \<open>The UTF-8 bytes of the dash in the message of the deadline variant.\<close>

definition em_dash :: string where
  "em_dash = [CHR 0xE2, CHR 0x80, CHR 0x94]"

section \<open>The error enums\<close>

datatype RegistryError =
    Registry_Transient string
  | Registry_Permanent string
  | Registry_Unavailable
  | Registry_InternalPanic
  | Registry_DeadlineExceeded

fun registry_display :: "RegistryError \<Rightarrow> string" where
  "registry_display (Registry_Transient m) = ''transient: '' @ m"
| "registry_display (Registry_Permanent m) = ''permanent: '' @ m"
| "registry_display Registry_Unavailable = ''unavailable''"
| "registry_display Registry_InternalPanic = ''internal panic in adapter''"
| "registry_display Registry_DeadlineExceeded = ''deadline exceeded '' @ em_dash @ '' refused retry''"

fun registry_is_retryable :: "RegistryError \<Rightarrow> bool" where
  "registry_is_retryable (Registry_Transient m) = True"
| "registry_is_retryable Registry_Unavailable = True"
| "registry_is_retryable e = False"

definition registry_error_traits :: "RegistryError error_traits" where
  "registry_error_traits =
     \<lparr>is_retryable = registry_is_retryable,
      from_panic = Registry_InternalPanic,
      from_deadline = Registry_DeadlineExceeded\<rparr>"

datatype JmError =
    Jm_Transient string
  | Jm_Permanent string
  | Jm_Unavailable
  | Jm_InternalPanic
  | Jm_DeadlineExceeded

fun jm_display :: "JmError \<Rightarrow> string" where
  "jm_display (Jm_Transient m) = ''transient: '' @ m"
| "jm_display (Jm_Permanent m) = ''permanent: '' @ m"
| "jm_display Jm_Unavailable = ''unavailable''"
| "jm_display Jm_InternalPanic = ''internal panic in adapter''"
| "jm_display Jm_DeadlineExceeded = ''deadline exceeded '' @ em_dash @ '' refused retry''"

fun jm_is_retryable :: "JmError \<Rightarrow> bool" where
  "jm_is_retryable (Jm_Transient m) = True"
| "jm_is_retryable Jm_Unavailable = True"
| "jm_is_retryable e = False"

definition jm_error_traits :: "JmError error_traits" where
  "jm_error_traits =
     \<lparr>is_retryable = jm_is_retryable,
      from_panic = Jm_InternalPanic,
      from_deadline = Jm_DeadlineExceeded\<rparr>"

datatype VmError =
    Vm_Transient string
  | Vm_Permanent string
  | Vm_Unavailable
  | Vm_InternalPanic
  | Vm_DeadlineExceeded

fun vm_display :: "VmError \<Rightarrow> string" where
  "vm_display (Vm_Transient m) = ''transient: '' @ m"
| "vm_display (Vm_Permanent m) = ''permanent: '' @ m"
| "vm_display Vm_Unavailable = ''unavailable''"
| "vm_display Vm_InternalPanic = ''internal panic in adapter''"
| "vm_display Vm_DeadlineExceeded = ''deadline exceeded '' @ em_dash @ '' refused retry''"

fun vm_is_retryable :: "VmError \<Rightarrow> bool" where
  "vm_is_retryable (Vm_Transient m) = True"
| "vm_is_retryable Vm_Unavailable = True"
| "vm_is_retryable e = False"

definition vm_error_traits :: "VmError error_traits" where
  "vm_error_traits =
     \<lparr>is_retryable = vm_is_retryable,
      from_panic = Vm_InternalPanic,
      from_deadline = Vm_DeadlineExceeded\<rparr>"

datatype PostCallError =
    PostCall_Transient string
  | PostCall_Permanent string
  | PostCall_Unavailable
  | PostCall_InternalPanic
  | PostCall_DeadlineExceeded

fun post_call_display :: "PostCallError \<Rightarrow> string" where
  "post_call_display (PostCall_Transient m) = ''transient: '' @ m"
| "post_call_display (PostCall_Permanent m) = ''permanent: '' @ m"
| "post_call_display PostCall_Unavailable = ''unavailable''"
| "post_call_display PostCall_InternalPanic = ''internal panic in adapter''"
| "post_call_display PostCall_DeadlineExceeded = ''deadline exceeded '' @ em_dash @ '' refused retry''"

fun post_call_is_retryable :: "PostCallError \<Rightarrow> bool" where
  "post_call_is_retryable (PostCall_Transient m) = True"
| "post_call_is_retryable PostCall_Unavailable = True"
| "post_call_is_retryable e = False"

definition post_call_error_traits :: "PostCallError error_traits" where
  "post_call_error_traits =
     \<lparr>is_retryable = post_call_is_retryable,
      from_panic = PostCall_InternalPanic,
      from_deadline = PostCall_DeadlineExceeded\<rparr>"

datatype AnalyticsError =
    Analytics_Transient string
  | Analytics_Permanent string
  | Analytics_Unavailable
  | Analytics_InternalPanic
  | Analytics_DeadlineExceeded

fun analytics_display :: "AnalyticsError \<Rightarrow> string" where
  "analytics_display (Analytics_Transient m) = ''transient: '' @ m"
| "analytics_display (Analytics_Permanent m) = ''permanent: '' @ m"
| "analytics_display Analytics_Unavailable = ''unavailable''"
| "analytics_display Analytics_InternalPanic = ''internal panic in adapter''"
| "analytics_display Analytics_DeadlineExceeded = ''deadline exceeded '' @ em_dash @ '' refused retry''"

fun analytics_is_retryable :: "AnalyticsError \<Rightarrow> bool" where
  "analytics_is_retryable (Analytics_Transient m) = True"
| "analytics_is_retryable Analytics_Unavailable = True"
| "analytics_is_retryable e = False"

definition analytics_error_traits :: "AnalyticsError error_traits" where
  "analytics_error_traits =
     \<lparr>is_retryable = analytics_is_retryable,
      from_panic = Analytics_InternalPanic,
      from_deadline = Analytics_DeadlineExceeded\<rparr>"

section \<open>The contract of an error type\<close>

locale retry_error =
  fixes E :: "'e error_traits"
  assumes panic_final: "\<not> is_retryable E (from_panic E)"
    and deadline_final: "\<not> is_retryable E (from_deadline E)"
    and panic_not_deadline: "from_panic E \<noteq> from_deadline E"

interpretation registry_err: retry_error registry_error_traits
  by unfold_locales (simp_all add: registry_error_traits_def)

interpretation jm_err: retry_error jm_error_traits
  by unfold_locales (simp_all add: jm_error_traits_def)

interpretation vm_err: retry_error vm_error_traits
  by unfold_locales (simp_all add: vm_error_traits_def)

interpretation post_call_err: retry_error post_call_error_traits
  by unfold_locales (simp_all add: post_call_error_traits_def)

interpretation analytics_err: retry_error analytics_error_traits
  by unfold_locales (simp_all add: analytics_error_traits_def)

lemmas error_traits_defs =
  registry_error_traits_def
  jm_error_traits_def
  vm_error_traits_def
  post_call_error_traits_def
  analytics_error_traits_def

lemma traits_is_retryable [simp]:
  "is_retryable registry_error_traits = registry_is_retryable"
  "is_retryable jm_error_traits = jm_is_retryable"
  "is_retryable vm_error_traits = vm_is_retryable"
  "is_retryable post_call_error_traits = post_call_is_retryable"
  "is_retryable analytics_error_traits = analytics_is_retryable"
  by (simp_all add: error_traits_defs)

end
