(* ===== verification/Adapter_Metrics.thy ===== *)
theory Adapter_Metrics
  imports Prelude
begin

text \<open>
  Observability of the adapters: the saga labels
  (\<^verbatim>\<open>engagement-hub-adapters/src/saga.rs\<close>) and the three counter vectors of
  \<^verbatim>\<open>AdapterMetrics\<close> (\<^verbatim>\<open>engagement-hub-adapters/src/metrics.rs\<close>).

  The Prometheus client is not part of the repository. The model keeps what the code asks of it:
  the list of operations (\<open>metric_op\<close>) in the order the code issues them, and the result of
  each registration as a parameter \<open>register\<close> of the constructor.
\<close>

section \<open>Operations on the metrics client\<close>

text \<open>An increment of a counter series (metric name, label values, amount), a gauge that is
  set, and an observation of a histogram.\<close>

datatype metric_op =
    CounterAdd string "string list" nat
  | GaugeSet string "string list" int
  | HistogramObserve string "string list"

type_synonym metric_log = "metric_op list"

text \<open>What a log adds to one counter series.\<close>

fun counter_total :: "string \<Rightarrow> string list \<Rightarrow> metric_log \<Rightarrow> nat" where
  "counter_total n ls [] = 0"
| "counter_total n ls (CounterAdd n' ls' k # ops) =
     (if n' = n \<and> ls' = ls then k else 0) + counter_total n ls ops"
| "counter_total n ls (_ # ops) = counter_total n ls ops"

text \<open>The series a log has touched: a series with an increment of zero exists at zero.\<close>

fun counter_series :: "metric_log \<Rightarrow> (string \<times> string list) list" where
  "counter_series [] = []"
| "counter_series (CounterAdd n ls k # ops) = (n, ls) # counter_series ops"
| "counter_series (_ # ops) = counter_series ops"

section \<open>Saga compensation labels\<close>

datatype CompensationStage = JmCancel | VmStop

fun stage_as_label :: "CompensationStage \<Rightarrow> string" where
  "stage_as_label JmCancel = ''jm_cancel''"
| "stage_as_label VmStop = ''vm_stop''"

definition CompensationStage_ALL :: "CompensationStage list" where
  "CompensationStage_ALL = [JmCancel, VmStop]"

datatype CompensationOutcome =
    Compensation_Success
  | TransientFailureRetried
  | ExhaustedToReconciler
  | NoCompensationNeeded

fun outcome_as_label :: "CompensationOutcome \<Rightarrow> string" where
  "outcome_as_label Compensation_Success = ''success''"
| "outcome_as_label TransientFailureRetried = ''transient_failure_retried''"
| "outcome_as_label ExhaustedToReconciler = ''exhausted_to_reconciler''"
| "outcome_as_label NoCompensationNeeded = ''no_compensation_needed''"

definition CompensationOutcome_ALL :: "CompensationOutcome list" where
  "CompensationOutcome_ALL =
     [Compensation_Success, TransientFailureRetried, ExhaustedToReconciler, NoCompensationNeeded]"

section \<open>The counter vectors\<close>

text \<open>A counter vector as it is created: its name, its help text and its label names.\<close>

record counter_vec =
  vec_name :: string
  vec_help :: string
  vec_labels :: "string list"

definition retries_total :: counter_vec where
  "retries_total =
     \<lparr>vec_name = ''engagementhub_adapter_retries_total'',
      vec_help = ''Retry attempts per adapter target and attempt number'',
      vec_labels = [''target'', ''attempt'']\<rparr>"

definition deadline_exceeded_total :: counter_vec where
  "deadline_exceeded_total =
     \<lparr>vec_name = ''engagementhub_deadline_exceeded_total'',
      vec_help = ''Adapter calls refused due to deadline too close'',
      vec_labels = [''target'']\<rparr>"

definition saga_compensation_outcome_total :: counter_vec where
  "saga_compensation_outcome_total =
     \<lparr>vec_name = ''engagementhub_saga_compensation_outcome_total'',
      vec_help = ''Saga compensation attempt outcomes by stage (PRD '' @ [CHR 0xC2, CHR 0xA7] @ ''7)'',
      vec_labels = [''stage'', ''result'']\<rparr>"

text \<open>\<^verbatim>\<open>vec.with_label_values(ls).inc_by(k)\<close>; the client panics when the number of
  values differs from the number of label names, which the length lemmas below exclude.\<close>

definition inc_by :: "counter_vec \<Rightarrow> string list \<Rightarrow> nat \<Rightarrow> metric_op" where
  "inc_by v ls k = CounterAdd (vec_name v) ls k"

section \<open>The constructor and the recorder\<close>

text \<open>
  \<^verbatim>\<open>AdapterMetrics::new\<close>: three registrations, each of which may fail and end the
  constructor, then the loop that creates the eight saga series at zero. \<open>register\<close> is the
  client's \<^verbatim>\<open>Registry::register\<close> on the registry's state.
\<close>

definition saga_zero_init :: metric_log where
  "saga_zero_init =
     concat (map (\<lambda>stage.
       map (\<lambda>outcome. inc_by saga_compensation_outcome_total
              [stage_as_label stage, outcome_as_label outcome] 0) CompensationOutcome_ALL)
       CompensationStage_ALL)"

definition AdapterMetrics_new ::
  "(counter_vec \<Rightarrow> 'r \<Rightarrow> 'r \<times> ('e, unit) result) \<Rightarrow> 'r \<Rightarrow> 'r \<times> ('e, metric_log) result" where
  "AdapterMetrics_new register r0 =
     (let (r1, a) = register retries_total r0 in
      case a of Inl e \<Rightarrow> (r1, Inl e) | Inr _ \<Rightarrow>
     (let (r2, b) = register deadline_exceeded_total r1 in
      case b of Inl e \<Rightarrow> (r2, Inl e) | Inr _ \<Rightarrow>
     (let (r3, c) = register saga_compensation_outcome_total r2 in
      case c of Inl e \<Rightarrow> (r3, Inl e) | Inr _ \<Rightarrow> (r3, Inr saga_zero_init))))"

definition record_compensation :: "CompensationStage \<Rightarrow> CompensationOutcome \<Rightarrow> metric_log" where
  "record_compensation stage outcome =
     [inc_by saga_compensation_outcome_total [stage_as_label stage, outcome_as_label outcome] 1]"

section \<open>Lemmas\<close>

lemmas counter_vec_defs =
  retries_total_def deadline_exceeded_total_def saga_compensation_outcome_total_def

lemma counter_total_append [simp]:
  "counter_total n ls (xs @ ys) = counter_total n ls xs + counter_total n ls ys"
  by (induction xs rule: counter_total.induct) auto

lemma counter_total_inc_by [simp]:
  "counter_total n ls (inc_by v ls' k # ops) =
     (if vec_name v = n \<and> ls' = ls then k else 0) + counter_total n ls ops"
  by (simp add: inc_by_def)

lemma stage_as_label_inj: "inj stage_as_label"
proof (rule injI)
  fix a b assume "stage_as_label a = stage_as_label b"
  then show "a = b" by (cases a; cases b) simp_all
qed

lemma outcome_as_label_inj: "inj outcome_as_label"
proof (rule injI)
  fix a b assume "outcome_as_label a = outcome_as_label b"
  then show "a = b" by (cases a; cases b) simp_all
qed

lemma stage_ALL_complete: "set CompensationStage_ALL = UNIV"
  by (auto simp: CompensationStage_ALL_def) (metis CompensationStage.exhaust)

lemma outcome_ALL_complete: "set CompensationOutcome_ALL = UNIV"
  by (auto simp: CompensationOutcome_ALL_def) (metis CompensationOutcome.exhaust)

lemma label_distinct:
  "distinct (map (\<lambda>(a, b). [stage_as_label a, outcome_as_label b])
     (List.product CompensationStage_ALL CompensationOutcome_ALL))"
  by (simp add: CompensationStage_ALL_def CompensationOutcome_ALL_def)

lemma counter_series_append: "counter_series (xs @ ys) = counter_series xs @ counter_series ys"
  by (induction xs rule: counter_series.induct) auto

text \<open>What a process has logged after the constructor and a sequence of recordings.\<close>

definition saga_log :: "metric_log \<Rightarrow> (CompensationStage \<times> CompensationOutcome) list \<Rightarrow> metric_log" where
  "saga_log init calls = init @ concat (map (\<lambda>(stage, outcome). record_compensation stage outcome) calls)"

lemma AdapterMetrics_new_log: "AdapterMetrics_new register r0 = (r, Inr init) \<Longrightarrow> init = saga_zero_init"
  by (auto simp: AdapterMetrics_new_def Let_def split: prod.splits sum.splits)

lemma saga_zero_init_total: "counter_total n ls saga_zero_init = 0"
  by (simp add: saga_zero_init_def CompensationStage_ALL_def CompensationOutcome_ALL_def)

lemma saga_zero_init_series:
  "set (counter_series saga_zero_init) =
     {(vec_name saga_compensation_outcome_total, [stage_as_label a, outcome_as_label b]) | a b. True}"
  (is "?L = ?R")
proof -
  have "?L = (\<lambda>(a, b). (vec_name saga_compensation_outcome_total, [stage_as_label a, outcome_as_label b])) `
      (set CompensationStage_ALL \<times> set CompensationOutcome_ALL)"
    by (simp add: saga_zero_init_def CompensationStage_ALL_def CompensationOutcome_ALL_def inc_by_def
        insert_commute)
  then show ?thesis by (auto simp: stage_ALL_complete outcome_ALL_complete)
qed

lemma recordings_total:
  "counter_total (vec_name saga_compensation_outcome_total) [stage_as_label a, outcome_as_label b]
     (concat (map (\<lambda>(s, out). record_compensation s out) calls)) = count_list calls (a, b)"
  by (induction calls)
     (auto simp: record_compensation_def stage_as_label_inj outcome_as_label_inj inj_eq split: if_splits)

lemma recordings_series:
  "set (counter_series (concat (map (\<lambda>(s, out). record_compensation s out) calls))) =
     (\<lambda>(a, b). (vec_name saga_compensation_outcome_total, [stage_as_label a, outcome_as_label b])) ` set calls"
  by (induction calls) (auto simp: record_compensation_def inc_by_def)

text \<open>Once the constructor has succeeded, and whatever is recorded afterwards, the saga counter has
  exactly the eight series of its stages and outcomes, so none is missing before its first event and none
  is ever added; each holds the number of times its stage and outcome were recorded.\<close>

theorem saga_counter_exact:
  assumes "AdapterMetrics_new register r0 = (r, Inr init)"
  shows "set (counter_series (saga_log init calls)) =
      {(vec_name saga_compensation_outcome_total, [stage_as_label a, outcome_as_label b]) | a b. True} \<and>
    card (set (counter_series (saga_log init calls))) = 8 \<and>
    counter_total (vec_name saga_compensation_outcome_total) [stage_as_label a, outcome_as_label b]
      (saga_log init calls) = count_list calls (a, b)"
proof (intro conjI)
  note init = AdapterMetrics_new_log [OF assms]
  show series: "set (counter_series (saga_log init calls)) =
      {(vec_name saga_compensation_outcome_total, [stage_as_label a, outcome_as_label b]) | a b. True}"
    unfolding saga_log_def counter_series_append set_append init saga_zero_init_series recordings_series
    by auto
  have "card (set (counter_series saga_zero_init)) = 8"
    by (simp add: saga_zero_init_def CompensationStage_ALL_def CompensationOutcome_ALL_def inc_by_def)
  then show "card (set (counter_series (saga_log init calls))) = 8"
    unfolding series saga_zero_init_series .
  show "counter_total (vec_name saga_compensation_outcome_total) [stage_as_label a, outcome_as_label b]
      (saga_log init calls) = count_list calls (a, b)"
    by (simp add: saga_log_def init saga_zero_init_total recordings_total)
qed

theorem saga_counter_exact_witness:
  "set (counter_series (saga_log saga_zero_init [(VmStop, Compensation_Success), (VmStop, Compensation_Success)])) =
      {(vec_name saga_compensation_outcome_total, [stage_as_label a, outcome_as_label b]) | a b. True} \<and>
    card (set (counter_series
      (saga_log saga_zero_init [(VmStop, Compensation_Success), (VmStop, Compensation_Success)]))) = 8 \<and>
    counter_total (vec_name saga_compensation_outcome_total) [stage_as_label VmStop, outcome_as_label Compensation_Success]
      (saga_log saga_zero_init [(VmStop, Compensation_Success), (VmStop, Compensation_Success)]) =
      count_list [(VmStop, Compensation_Success), (VmStop, Compensation_Success)] (VmStop, Compensation_Success)"
  by (rule saga_counter_exact [of "\<lambda>v r. (r, Inr ())" "()" "()"]) (simp add: AdapterMetrics_new_def)

end
