(* ===== verification/Policies.thy ===== *)
theory Policies
  imports Port_Errors Adapter_Metrics
begin

text \<open>
  Retry, back-off and deadline policy of the adapters
  (\<^verbatim>\<open>engagement-hub-adapters/src/policies.rs\<close>).

  \<open>with_retry\<close> is generic over the world \<open>'w\<close> it runs in: an attempt is a function
  from the world to a new world and its outcome, and what the combinator takes from outside the
  repository (the clock, the random jitter of the \<^verbatim>\<open>rand\<close> crate, the timer) is the record
  \<open>retry_env\<close>, a parameter. The deadline gate, the metrics it records, the back-off
  schedule, the two-stage panic catch and the panics of \<^verbatim>\<open>Duration\<close> arithmetic are as in
  the source.

  The lemmas relate the loop to a closed form (\<open>retry_spec\<close>): attempt \<open>i\<close> runs in
  the world \<open>retry_world i\<close>, reached by the attempts before it with one jittered sleep
  between two of them, and the answer is the outcome of the first attempt that is not a retryable
  error, or of the last one.
\<close>

section \<open>Retry configuration\<close>

record RetryConfig =
  max_attempts :: nat
  initial_backoff :: duration
  max_backoff :: duration

definition REGISTRY_RESOLVE_RETRY :: RetryConfig where
  "REGISTRY_RESOLVE_RETRY =
     \<lparr>max_attempts = 5, initial_backoff = from_millis 50, max_backoff = from_secs 2\<rparr>"

definition DEFAULT_RETRY :: RetryConfig where
  "DEFAULT_RETRY =
     \<lparr>max_attempts = 3, initial_backoff = from_millis 50, max_backoff = from_secs 2\<rparr>"

definition WRITE_RETRY :: RetryConfig where
  "WRITE_RETRY =
     \<lparr>max_attempts = 2, initial_backoff = from_millis 50, max_backoff = from_secs 2\<rparr>"

definition CLEANUP_RETRY :: RetryConfig where
  "CLEANUP_RETRY =
     \<lparr>max_attempts = 5, initial_backoff = from_millis 50, max_backoff = from_secs 2\<rparr>"

definition GRACEFUL_STOP_RETRY :: RetryConfig where
  "GRACEFUL_STOP_RETRY =
     \<lparr>max_attempts = 1, initial_backoff = from_millis 50, max_backoff = from_secs 2\<rparr>"

section \<open>Deadlines\<close>

definition PROPAGATION_MARGIN :: duration where
  "PROPAGATION_MARGIN = from_millis 50"

definition ADAPTER_FLOOR :: duration where
  "ADAPTER_FLOOR = from_millis 200"

record DeadlineContext =
  deadline :: "instant option"

definition deadline_none :: DeadlineContext where
  "deadline_none = \<lparr>deadline = None\<rparr>"

text \<open>\<open>now\<close> is the reading of \<^verbatim>\<open>Instant::now()\<close>; the addition to it can panic.\<close>

definition from_remaining :: "instant \<Rightarrow> duration \<Rightarrow> duration \<Rightarrow> DeadlineContext exec" where
  "from_remaining now remaining adapter_default =
     (let budget = min (remaining - PROPAGATION_MARGIN) adapter_default
      in exec_map (\<lambda>d. \<lparr>deadline = Some d\<rparr>) (instant_add now budget))"

definition is_too_close :: "instant \<Rightarrow> DeadlineContext \<Rightarrow> bool" where
  "is_too_close now ctx =
     (case deadline ctx of
        None \<Rightarrow> False
      | Some d \<Rightarrow> saturating_duration_since d now < ADAPTER_FLOOR)"

definition remaining :: "instant \<Rightarrow> DeadlineContext \<Rightarrow> duration option" where
  "remaining now ctx = map_option (\<lambda>d. saturating_duration_since d now) (deadline ctx)"

section \<open>The retry combinator\<close>

text \<open>
  One evaluation of the closure: it panics before it returns a future, the future panics while it
  is polled, or the future completes with a result.
\<close>

datatype 'r attempt = Sync_Panic | Poll_Panic | Completed 'r

type_synonym ('w, 'e, 't) attempt_fn = "'w \<Rightarrow> 'w \<times> ('e, 't) result attempt"

record 'w retry_env =
  env_now :: "'w \<Rightarrow> instant"
  env_jitter :: "duration \<Rightarrow> 'w \<Rightarrow> duration \<times> 'w"
  env_sleep :: "duration \<Rightarrow> 'w \<Rightarrow> 'w"

fun catch_attempt :: "'e error_traits \<Rightarrow> ('e, 't) result attempt \<Rightarrow> ('e, 't) result" where
  "catch_attempt E Sync_Panic = Inl (from_panic E)"
| "catch_attempt E Poll_Panic = Inl (from_panic E)"
| "catch_attempt E (Completed r) = r"

text \<open>Whether the retry is refused: the time left is less than the next back-off plus the
  adapter floor. Without a deadline context nothing is computed.\<close>

definition deadline_gate :: "instant \<Rightarrow> DeadlineContext option \<Rightarrow> duration \<Rightarrow> bool exec" where
  "deadline_gate now dl backoff =
     (case dl of
        None \<Rightarrow> Ret False
      | Some d \<Rightarrow>
          exec_map (\<lambda>need. case remaining now d of None \<Rightarrow> False | Some r \<Rightarrow> r < need)
            (dur_add backoff ADAPTER_FLOOR))"

definition metrics_ops :: "bool \<Rightarrow> metric_log \<Rightarrow> metric_log" where
  "metrics_ops metrics ops = (if metrics then ops else [])"

text \<open>
  The loop \<^verbatim>\<open>for attempt in 0..config.max_attempts\<close>, with the log of metric operations.
  Falling out of it is the \<^verbatim>\<open>unreachable!()\<close> at the end of the function.
\<close>

function retry_loop ::
  "'e error_traits \<Rightarrow> ('w, 'z) retry_env_scheme \<Rightarrow> RetryConfig \<Rightarrow> DeadlineContext option \<Rightarrow> string \<Rightarrow> bool
     \<Rightarrow> ('w, 'e, 't) attempt_fn \<Rightarrow> nat \<Rightarrow> duration \<Rightarrow> 'w \<Rightarrow> metric_log
     \<Rightarrow> 'w \<times> metric_log \<times> ('e, 't) result exec" where
  "retry_loop E env config dl target metrics f attempt backoff w log =
     (if attempt < max_attempts config then
        (case f w of (w1, out) \<Rightarrow>
          (case catch_attempt E out of
             Inl e \<Rightarrow>
               if is_retryable E e \<and> attempt + 1 < max_attempts config then
                 (let log1 = log @ metrics_ops metrics
                               [inc_by retries_total [target, show_nat (attempt + 1)] 1]
                  in case deadline_gate (env_now env w1) dl backoff of
                       Unwind \<Rightarrow> (w1, log1, Unwind)
                     | Ret True \<Rightarrow>
                         (w1, log1 @ metrics_ops metrics
                                [inc_by deadline_exceeded_total [target] 1],
                          Ret (Inl (from_deadline E)))
                     | Ret False \<Rightarrow>
                         (case env_jitter env backoff w1 of (jitter, w2) \<Rightarrow>
                           (let w3 = env_sleep env jitter w2
                            in case dur_mul backoff 2 of
                                 Unwind \<Rightarrow> (w3, log1, Unwind)
                               | Ret b \<Rightarrow>
                                   retry_loop E env config dl target metrics f (attempt + 1)
                                     (min b (max_backoff config)) w3 log1)))
               else (w1, log, Ret (Inl e))
           | Inr v \<Rightarrow> (w1, log, Ret (Inr v))))
      else (w, log, Unwind))"
  by pat_completeness auto
termination
  by (relation "measure (\<lambda>(E, env, config, dl, target, metrics, f, attempt, _).
        max_attempts config - attempt)") auto

declare retry_loop.simps [simp del]

definition with_retry ::
  "'e error_traits \<Rightarrow> ('w, 'z) retry_env_scheme \<Rightarrow> RetryConfig \<Rightarrow> DeadlineContext option \<Rightarrow> string \<Rightarrow> bool
     \<Rightarrow> ('w, 'e, 't) attempt_fn \<Rightarrow> 'w \<Rightarrow> 'w \<times> metric_log \<times> ('e, 't) result exec" where
  "with_retry E env config dl target metrics f w =
     retry_loop E env config dl target metrics f 0 (initial_backoff config) w []"

section \<open>The closed form\<close>

text \<open>The back-off before the attempt after attempt \<open>i\<close>.\<close>

primrec backoff_at :: "RetryConfig \<Rightarrow> nat \<Rightarrow> duration" where
  "backoff_at config 0 = initial_backoff config"
| "backoff_at config (Suc i) = min (backoff_at config i * 2) (max_backoff config)"

text \<open>No doubling of the back-off overflows.\<close>

definition backoff_fits :: "RetryConfig \<Rightarrow> bool" where
  "backoff_fits config \<longleftrightarrow>
     initial_backoff config * 2 \<le> DURATION_MAX \<and> max_backoff config * 2 \<le> DURATION_MAX"

text \<open>The pause after attempt \<open>i\<close> ended in world \<open>w\<close>, and the world in which
  attempt \<open>i\<close> starts.\<close>

definition pause ::
  "('w, 'z) retry_env_scheme \<Rightarrow> duration \<Rightarrow> 'w \<Rightarrow> 'w" where
  "pause env b w = (case env_jitter env b w of (j, w') \<Rightarrow> env_sleep env j w')"

primrec retry_world ::
  "('w, 'z) retry_env_scheme \<Rightarrow> RetryConfig \<Rightarrow> ('w, 'e, 't) attempt_fn \<Rightarrow> 'w \<Rightarrow> nat \<Rightarrow> 'w" where
  "retry_world env config f w 0 = w"
| "retry_world env config f w (Suc i) =
     pause env (backoff_at config i) (fst (f (retry_world env config f w i)))"

definition attempt_result ::
  "'e error_traits \<Rightarrow> ('w, 'z) retry_env_scheme \<Rightarrow> RetryConfig \<Rightarrow> ('w, 'e, 't) attempt_fn \<Rightarrow> 'w \<Rightarrow> nat
     \<Rightarrow> ('e, 't) result" where
  "attempt_result E env config f w i = catch_attempt E (snd (f (retry_world env config f w i)))"

fun retryable_result :: "'e error_traits \<Rightarrow> ('e, 't) result \<Rightarrow> bool" where
  "retryable_result E (Inl e) = is_retryable E e"
| "retryable_result E (Inr v) = False"

text \<open>The number of the last attempt: the first whose result is not a retryable error, else the
  last the configuration allows.\<close>

definition last_attempt ::
  "'e error_traits \<Rightarrow> ('w, 'z) retry_env_scheme \<Rightarrow> RetryConfig \<Rightarrow> ('w, 'e, 't) attempt_fn \<Rightarrow> 'w \<Rightarrow> nat" where
  "last_attempt E env config f w =
     length (takeWhile (\<lambda>i. retryable_result E (attempt_result E env config f w i))
       [0..<max_attempts config - 1])"

definition retry_metrics :: "string \<Rightarrow> nat \<Rightarrow> metric_log" where
  "retry_metrics target n =
     map (\<lambda>i. inc_by retries_total [target, show_nat (i + 1)] 1) [0..<n]"

definition retry_spec ::
  "'e error_traits \<Rightarrow> ('w, 'z) retry_env_scheme \<Rightarrow> RetryConfig \<Rightarrow> string \<Rightarrow> bool
     \<Rightarrow> ('w, 'e, 't) attempt_fn \<Rightarrow> 'w \<Rightarrow> 'w \<times> metric_log \<times> ('e, 't) result exec" where
  "retry_spec E env config target metrics f w =
     (let k = last_attempt E env config f w
      in (fst (f (retry_world env config f w k)),
          metrics_ops metrics (retry_metrics target k),
          Ret (attempt_result E env config f w k)))"

text \<open>A clock, a jitter source and a timer over a world that also counts the attempts, and one
  that adds up the time slept.\<close>

definition counting :: "('w, 'e, 't) attempt_fn \<Rightarrow> ('w \<times> nat, 'e, 't) attempt_fn" where
  "counting f = (\<lambda>(w, n). case f w of (w', out) \<Rightarrow> ((w', Suc n), out))"

definition counting_env :: "('w, 'z) retry_env_scheme \<Rightarrow> ('w \<times> nat) retry_env" where
  "counting_env env =
     \<lparr>env_now = (\<lambda>(w, n). env_now env w),
      env_jitter = (\<lambda>b (w, n). case env_jitter env b w of (j, w') \<Rightarrow> (j, (w', n))),
      env_sleep = (\<lambda>d (w, n). (env_sleep env d w, n))\<rparr>"

definition metered :: "('w, 'e, 't) attempt_fn \<Rightarrow> ('w \<times> duration, 'e, 't) attempt_fn" where
  "metered f = (\<lambda>(w, n). case f w of (w', out) \<Rightarrow> ((w', n), out))"

definition metered_env :: "('w, 'z) retry_env_scheme \<Rightarrow> ('w \<times> duration) retry_env" where
  "metered_env env =
     \<lparr>env_now = (\<lambda>(w, n). env_now env w),
      env_jitter = (\<lambda>b (w, n). case env_jitter env b w of (j, w') \<Rightarrow> (j, (w', n))),
      env_sleep = (\<lambda>d (w, n). (env_sleep env d w, n + d))\<rparr>"

text \<open>What the \<^verbatim>\<open>rand\<close> crate documents of \<^verbatim>\<open>gen_range(Duration::ZERO..=b)\<close>.\<close>

definition jitter_in_range :: "('w, 'z) retry_env_scheme \<Rightarrow> bool" where
  "jitter_in_range env \<longleftrightarrow> (\<forall>b w. fst (env_jitter env b w) \<le> b)"

text \<open>A world that is the list of outcomes still to come, a clock that stands still, and a jitter
  that is always the whole back-off.\<close>

definition still_env :: "'w retry_env" where
  "still_env = \<lparr>env_now = (\<lambda>w. 0), env_jitter = (\<lambda>b w. (b, w)), env_sleep = (\<lambda>d w. w)\<rparr>"

fun scripted :: "('e, 't) result attempt list \<Rightarrow> ('e, 't) result attempt list \<times> ('e, 't) result attempt" where
  "scripted [] = ([], Sync_Panic)"
| "scripted (out # outs) = (outs, out)"

section \<open>The back-off schedule\<close>

lemmas retry_config_defs =
  REGISTRY_RESOLVE_RETRY_def DEFAULT_RETRY_def WRITE_RETRY_def CLEANUP_RETRY_def
  GRACEFUL_STOP_RETRY_def

lemmas duration_defs = from_millis_def from_secs_def DURATION_MAX_def PROPAGATION_MARGIN_def
  ADAPTER_FLOOR_def

lemma backoff_at_fits: "backoff_fits config \<Longrightarrow> backoff_at config i * 2 \<le> DURATION_MAX"
  by (induction i) (auto simp: backoff_fits_def)

lemma backoff_at_floor_fits:
  "backoff_fits config \<Longrightarrow> backoff_at config i + ADAPTER_FLOOR \<le> DURATION_MAX"
  using backoff_at_fits [of config i] by (simp add: duration_defs)

lemma backoff_at_Suc_le: "backoff_at config (Suc i) \<le> max_backoff config"
  by simp

lemma backoff_at_closed:
  "backoff_at config (Suc i) = min (initial_backoff config * 2 ^ Suc i) (max_backoff config)"
proof (induction i)
  case 0
  then show ?case by (simp add: mult.commute)
next
  case (Suc i)
  have "backoff_at config (Suc (Suc i)) =
      min (min (initial_backoff config * 2 ^ Suc i) (max_backoff config) * 2) (max_backoff config)"
    by (subst backoff_at.simps(2)) (simp only: Suc.IH)
  also have "\<dots> = min (initial_backoff config * 2 ^ Suc (Suc i)) (max_backoff config)"
    by (simp add: min_def)
  finally show ?case .
qed

lemma config_backoff_fits:
  "backoff_fits REGISTRY_RESOLVE_RETRY" "backoff_fits DEFAULT_RETRY" "backoff_fits WRITE_RETRY"
  "backoff_fits CLEANUP_RETRY" "backoff_fits GRACEFUL_STOP_RETRY"
  by (simp_all add: backoff_fits_def retry_config_defs duration_defs)

lemma config_max_attempts [simp]:
  "max_attempts REGISTRY_RESOLVE_RETRY = 5" "max_attempts DEFAULT_RETRY = 3"
  "max_attempts WRITE_RETRY = 2" "max_attempts CLEANUP_RETRY = 5"
  "max_attempts GRACEFUL_STOP_RETRY = 1"
  by (simp_all add: retry_config_defs)

lemma deadline_gate_None [simp]: "deadline_gate now None b = Ret False"
  by (simp add: deadline_gate_def)

lemma deadline_gate_fits:
  "backoff_fits config \<Longrightarrow> deadline_gate now dl (backoff_at config i) =
     Ret (case dl of None \<Rightarrow> False | Some d \<Rightarrow>
            (case remaining now d of None \<Rightarrow> False
             | Some r \<Rightarrow> r < backoff_at config i + ADAPTER_FLOOR))"
  by (simp add: deadline_gate_def dur_ret backoff_at_floor_fits split: option.splits)

lemma metrics_ops_append [simp]:
  "metrics_ops m xs @ metrics_ops m ys = metrics_ops m (xs @ ys)"
  by (simp add: metrics_ops_def)

section \<open>One iteration of the loop\<close>

text \<open>The three ways an iteration ends, with the pause folded into \<open>pause\<close>.\<close>

lemma retry_loop_stop:
  assumes "i < max_attempts config"
    and "\<not> (retryable_result E (catch_attempt E (snd (f w))) \<and> i + 1 < max_attempts config)"
  shows "retry_loop E env config dl t m f i b w log =
     (fst (f w), log, Ret (catch_attempt E (snd (f w))))"
  using assms
  by (subst retry_loop.simps) (auto split: prod.splits sum.splits)

lemma retry_loop_retry:
  assumes "i + 1 < max_attempts config" "backoff_fits config"
    and "retryable_result E (catch_attempt E (snd (f w)))"
    and "deadline_gate (env_now env (fst (f w))) dl (backoff_at config i) = Ret False"
  shows "retry_loop E env config dl t m f i (backoff_at config i) w log =
     retry_loop E env config dl t m f (i + 1) (backoff_at config (i + 1))
       (pause env (backoff_at config i) (fst (f w)))
       (log @ metrics_ops m [inc_by retries_total [t, show_nat (i + 1)] 1])"
proof -
  obtain e where e: "catch_attempt E (snd (f w)) = Inl e" "is_retryable E e"
    using assms(3) by (cases "catch_attempt E (snd (f w))") auto
  have d: "dur_mul (backoff_at config i) 2 = Ret (backoff_at config i * 2)"
    using assms(2) by (simp add: dur_ret backoff_at_fits)
  show ?thesis
    using assms(1,4) e
    by (subst retry_loop.simps) (simp add: d pause_def Let_def split_beta)
qed

lemma retry_loop_refused:
  assumes "i + 1 < max_attempts config"
    and "retryable_result E (catch_attempt E (snd (f w)))"
    and "deadline_gate (env_now env (fst (f w))) dl b = Ret True"
  shows "retry_loop E env config dl t m f i b w log =
     (fst (f w),
      log @ metrics_ops m [inc_by retries_total [t, show_nat (i + 1)] 1,
                           inc_by deadline_exceeded_total [t] 1],
      Ret (Inl (from_deadline E)))"
proof -
  obtain e where e: "catch_attempt E (snd (f w)) = Inl e" "is_retryable E e"
    using assms(2) by (cases "catch_attempt E (snd (f w))") auto
  show ?thesis
    using assms(1,3) e
    by (subst retry_loop.simps) (simp add: Let_def split_beta)
qed

section \<open>A Hoare rule for the combinator\<close>

text \<open>
  \<open>A i w\<close>: \<open>w\<close> is the world before attempt \<open>i\<close>; \<open>B i w r\<close>: attempt
  \<open>i\<close> ended in \<open>w\<close> with the caught result \<open>r\<close>.
\<close>

lemma retry_loop_rule:
  assumes fits: "backoff_fits config"
    and att: "\<And>i w. i < max_attempts config \<Longrightarrow> A i w \<Longrightarrow>
                B i (fst (f w)) (catch_attempt E (snd (f w)))"
    and pau: "\<And>i w r. Suc i < max_attempts config \<Longrightarrow> B i w r \<Longrightarrow> retryable_result E r \<Longrightarrow>
                A (Suc i) (pause env (backoff_at config i) w)"
  shows "i < max_attempts config \<Longrightarrow> A i w \<Longrightarrow>
     \<exists>w' log' r k s. retry_loop E env config dl t m f i (backoff_at config i) w log = (w', log', Ret r)
       \<and> k < max_attempts config \<and> B k w' s \<and>
       (r = s \<and> (\<not> retryable_result E s \<or> k + 1 = max_attempts config) \<or>
        r = Inl (from_deadline E) \<and> dl \<noteq> None \<and> retryable_result E s)"
proof (induction "max_attempts config - i" arbitrary: i w log rule: less_induct)
  case less
  define s where "s = catch_attempt E (snd (f w))"
  have B: "B i (fst (f w)) s" using att less.prems by (simp add: s_def)
  show ?case
  proof (cases "retryable_result E s \<and> i + 1 < max_attempts config")
    case False
    then have "retry_loop E env config dl t m f i (backoff_at config i) w log = (fst (f w), log, Ret s)"
      using retry_loop_stop [OF less.prems(1)] unfolding s_def by simp
    moreover have "\<not> retryable_result E s \<or> i + 1 = max_attempts config"
      using False less.prems(1) by linarith
    ultimately show ?thesis using B less.prems(1) by blast
  next
    case True
    obtain g where g: "deadline_gate (env_now env (fst (f w))) dl (backoff_at config i) = Ret g"
      "dl = None \<longrightarrow> \<not> g"
      using deadline_gate_fits [OF fits] by (cases dl) auto
    show ?thesis
    proof (cases g)
      case True
      then have "retry_loop E env config dl t m f i (backoff_at config i) w log =
          (fst (f w), log @ metrics_ops m [inc_by retries_total [t, show_nat (i + 1)] 1,
             inc_by deadline_exceeded_total [t] 1], Ret (Inl (from_deadline E)))"
        using retry_loop_refused [of i config E f w env dl "backoff_at config i"] g
          \<open>retryable_result E s \<and> i + 1 < max_attempts config\<close> unfolding s_def by simp
      then show ?thesis
        using B True g \<open>retryable_result E s \<and> i + 1 < max_attempts config\<close> less.prems(1) by blast
    next
      case False
      have lt: "max_attempts config - Suc i < max_attempts config - i" "Suc i < max_attempts config"
        using True by auto
      have "A (Suc i) (pause env (backoff_at config i) (fst (f w)))"
        using pau B True by simp
      note IH = less.hyps [OF lt this,
          of "log @ metrics_ops m [inc_by retries_total [t, show_nat (i + 1)] 1]"]
      have "retry_loop E env config dl t m f i (backoff_at config i) w log =
          retry_loop E env config dl t m f (Suc i) (backoff_at config (Suc i))
            (pause env (backoff_at config i) (fst (f w)))
            (log @ metrics_ops m [inc_by retries_total [t, show_nat (i + 1)] 1])"
        using True retry_loop_retry [OF _ fits, of i E f w env dl t m log] g False
        unfolding s_def by (simp del: backoff_at.simps)
      with IH show ?thesis by (simp del: backoff_at.simps)
    qed
  qed
qed

lemma with_retry_rule:
  assumes "backoff_fits config" "0 < max_attempts config" "A 0 w"
    and "\<And>i w. i < max_attempts config \<Longrightarrow> A i w \<Longrightarrow>
           B i (fst (f w)) (catch_attempt E (snd (f w)))"
    and "\<And>i w r. Suc i < max_attempts config \<Longrightarrow> B i w r \<Longrightarrow> retryable_result E r \<Longrightarrow>
           A (Suc i) (pause env (backoff_at config i) w)"
  obtains w' log r k s where
    "with_retry E env config dl t m f w = (w', log, Ret r)" "k < max_attempts config" "B k w' s"
    "r = s \<and> (\<not> retryable_result E s \<or> k + 1 = max_attempts config) \<or>
     r = Inl (from_deadline E) \<and> dl \<noteq> None \<and> retryable_result E s"
proof -
  have "\<exists>w' log' r k s. with_retry E env config dl t m f w = (w', log', Ret r)
       \<and> k < max_attempts config \<and> B k w' s \<and>
       (r = s \<and> (\<not> retryable_result E s \<or> k + 1 = max_attempts config) \<or>
        r = Inl (from_deadline E) \<and> dl \<noteq> None \<and> retryable_result E s)"
    using retry_loop_rule [of config A B f E env 0 w dl t m "[]"] assms
    unfolding with_retry_def by simp
  then show thesis using that by blast
qed

section \<open>The loop computes the closed form\<close>

lemma retry_loop_closed:
  fixes E :: "'e error_traits" and env :: "('w, 'z) retry_env_scheme"
    and f :: "('w, 'e, 't) attempt_fn" and w :: 'w
  assumes fits: "backoff_fits config"
  defines "P \<equiv> \<lambda>i. retryable_result E (attempt_result E env config f w i)"
  shows "i < max_attempts config \<Longrightarrow>
    retry_loop E env config None t m f i (backoff_at config i) (retry_world env config f w i) log =
      (let k = i + length (takeWhile P [i..<max_attempts config - 1])
       in (fst (f (retry_world env config f w k)),
           log @ metrics_ops m (map (\<lambda>j. inc_by retries_total [t, show_nat (j + 1)] 1) [i..<k]),
           Ret (attempt_result E env config f w k)))"
proof (induction "max_attempts config - i" arbitrary: i log rule: less_induct)
  case less
  let ?w = "retry_world env config f w i"
  show ?case
  proof (cases "P i \<and> i + 1 < max_attempts config")
    case False
    then have "takeWhile P [i..<max_attempts config - 1] = []"
      by (cases "i < max_attempts config - 1") (auto simp: upt_conv_Cons)
    moreover have "retry_loop E env config None t m f i (backoff_at config i) ?w log =
        (fst (f ?w), log, Ret (attempt_result E env config f w i))"
      using retry_loop_stop [OF less.prems, of E f ?w] False
      unfolding P_def attempt_result_def by simp
    ultimately show ?thesis by (simp add: metrics_ops_def)
  next
    case True
    then have lt: "max_attempts config - Suc i < max_attempts config - i"
      "Suc i < max_attempts config" by auto
    have "i < max_attempts config - 1" using lt(2) by linarith
    then have tw: "takeWhile P [i..<max_attempts config - 1] =
        i # takeWhile P [Suc i..<max_attempts config - 1]"
      using True by (simp add: upt_conv_Cons)
    have step: "retry_loop E env config None t m f i (backoff_at config i) ?w log =
        retry_loop E env config None t m f (Suc i) (backoff_at config (Suc i))
          (retry_world env config f w (Suc i))
          (log @ metrics_ops m [inc_by retries_total [t, show_nat (i + 1)] 1])"
      using retry_loop_retry [OF _ fits, of i E f ?w env None t m log] True
      unfolding P_def attempt_result_def by (simp del: backoff_at.simps)
    show ?thesis
      unfolding step less.hyps [OF lt] tw Let_def by (simp add: upt_conv_Cons del: upt_Suc)
  qed
qed

lemma last_attempt_less: "0 < max_attempts config \<Longrightarrow> last_attempt E env config f w < max_attempts config"
  unfolding last_attempt_def
  by (rule le_less_trans [OF length_takeWhile_le]) simp

lemma last_attempt_eqI:
  assumes "i < max_attempts config"
    and "\<And>j. j < i \<Longrightarrow> retryable_result E (attempt_result E env config f w j)"
    and "\<not> retryable_result E (attempt_result E env config f w i) \<or> Suc i = max_attempts config"
  shows "last_attempt E env config f w = i"
proof -
  let ?P = "\<lambda>i. retryable_result E (attempt_result E env config f w i)"
  have split: "[0..<max_attempts config - 1] = [0..<i] @ [i..<max_attempts config - 1]"
    using assms(1) by (metis Suc_pred' add_leD2 le_add_diff_inverse less_Suc_eq_le not_gr_zero
        upt_add_eq_append zero_le not_less_zero)
  have "takeWhile ?P [i..<max_attempts config - 1] = []"
    using assms(1,3) by (cases "i < max_attempts config - 1") (auto simp: upt_conv_Cons)
  then have "takeWhile ?P [0..<max_attempts config - 1] = [0..<i]"
    unfolding split using assms(2) by (subst takeWhile_append2) auto
  then show ?thesis by (simp add: last_attempt_def)
qed

lemma with_retry_eq_spec:
  assumes "0 < max_attempts config" "backoff_fits config"
  shows "with_retry E env config None target metrics f w = retry_spec E env config target metrics f w"
  using retry_loop_closed [OF assms(2), where i = 0 and log = "[]"] assms(1)
  by (simp add: with_retry_def retry_spec_def last_attempt_def retry_metrics_def Let_def)

text \<open>C1. Without a deadline the retry loop is its closed form: it runs attempts until one is not a
  retryable error (or the configured number is used up), sleeps one jittered back-off between two
  attempts, records one retry per pause under its number, and returns the last attempt's result.\<close>

theorem with_retry_closed_form:
  assumes "0 < max_attempts config" "backoff_fits config"
  shows "with_retry E env config None target metrics f w = retry_spec E env config target metrics f w"
  using assms by (rule with_retry_eq_spec)

theorem with_retry_closed_form_witness:
  "with_retry vm_error_traits still_env DEFAULT_RETRY None ''vm'' True scripted
     [Completed (Inl Vm_Unavailable), Completed (Inr (7::nat)), Poll_Panic] =
   ([Poll_Panic], [inc_by retries_total [''vm'', ''1''] 1], Ret (Inr 7))"
  unfolding with_retry_closed_form [of DEFAULT_RETRY, simplified, OF config_backoff_fits(2)]
  by (simp add: retry_spec_def last_attempt_def attempt_result_def retry_metrics_def still_env_def
      pause_def metrics_ops_def numeral_2_eq_2)

section \<open>Two runs side by side\<close>

text \<open>Two closures that stay in related worlds and give related results are retried alike.\<close>

lemma with_retry_bisim:
  assumes "backoff_fits config" "0 < max_attempts config" "R w v"
    and att: "\<And>w v. R w v \<Longrightarrow> R (fst (f w)) (fst (g v)) \<and>
           Q (catch_attempt E (snd (f w))) (catch_attempt E (snd (g v)))"
    and pau: "\<And>b w v. R w v \<Longrightarrow> R (pause env b w) (pause env' b v)"
    and ret: "\<And>r s. Q r s \<Longrightarrow> retryable_result E r = retryable_result E s"
  shows "\<exists>w' v' k r s. with_retry E env config None t m f w = (w', metrics_ops m (retry_metrics t k), Ret r) \<and>
     with_retry E env' config None t' m g v = (v', metrics_ops m (retry_metrics t' k), Ret s) \<and> R w' v' \<and> Q r s"
proof -
  have R: "R (retry_world env config f w i) (retry_world env' config g v i)" for i
    by (induction i) (use assms(3) att pau in auto)
  then have Q: "Q (attempt_result E env config f w i) (attempt_result E env' config g v i)" for i
    using att unfolding attempt_result_def by blast
  then have k: "last_attempt E env config f w = last_attempt E env' config g v"
    using ret unfolding last_attempt_def by (metis (no_types, lifting))
  show ?thesis
    unfolding with_retry_eq_spec [OF assms(2,1)] retry_spec_def Let_def k [symmetric]
    using R Q att by blast
qed

section \<open>Projections of the world\<close>

text \<open>A run in a world with extra bookkeeping is the run in the world without it.\<close>

lemma retry_loop_project:
  assumes "\<And>v. prj (fst (g v)) = fst (f (prj v)) \<and> snd (g v) = snd (f (prj v))"
    and "\<And>v. env_now env' v = env_now env (prj v)"
    and "\<And>b v. fst (env_jitter env' b v) = fst (env_jitter env b (prj v)) \<and>
               prj (snd (env_jitter env' b v)) = snd (env_jitter env b (prj v))"
    and "\<And>d v. prj (env_sleep env' d v) = env_sleep env d (prj v)"
  shows "retry_loop E env config dl t m f i b (prj v) log =
     (case retry_loop E env' config dl t m g i b v log of (v', l, r) \<Rightarrow> (prj v', l, r))"
proof (induction "max_attempts config - i" arbitrary: i b v log rule: less_induct)
  case less
  note sim = assms(1) [THEN conjunct1, symmetric] assms(1) [THEN conjunct2, symmetric]
    assms(2) [symmetric] assms(3) [THEN conjunct1, symmetric] assms(3) [THEN conjunct2, symmetric]
    assms(4) [symmetric]
  show ?case
    by (subst retry_loop.simps, subst (2) retry_loop.simps)
      (auto simp: split_beta Let_def sim less.hyps split: sum.split exec.split bool.split)
qed

lemma with_retry_project:
  assumes "\<And>v. prj (fst (g v)) = fst (f (prj v)) \<and> snd (g v) = snd (f (prj v))"
    and "\<And>v. env_now env' v = env_now env (prj v)"
    and "\<And>b v. fst (env_jitter env' b v) = fst (env_jitter env b (prj v)) \<and>
               prj (snd (env_jitter env' b v)) = snd (env_jitter env b (prj v))"
    and "\<And>d v. prj (env_sleep env' d v) = env_sleep env d (prj v)"
  shows "with_retry E env config dl t m f (prj v) =
     (case with_retry E env' config dl t m g v of (v', l, r) \<Rightarrow> (prj v', l, r))"
  unfolding with_retry_def by (rule retry_loop_project) (use assms in auto)

lemma with_retry_counting:
  "with_retry E env config dl t m f w =
     (case with_retry E (counting_env env) config dl t m (counting f) (w, n) of
        (v, l, r) \<Rightarrow> (fst v, l, r))"
  using with_retry_project [of fst "counting f" f "counting_env env" env E config dl t m "(w, n)"]
  by (simp add: counting_def counting_env_def split_beta)

lemma with_retry_metered:
  "with_retry E env config dl t m f w =
     (case with_retry E (metered_env env) config dl t m (metered f) (w, n) of
        (v, l, r) \<Rightarrow> (fst v, l, r))"
  using with_retry_project [of fst "metered f" f "metered_env env" env E config dl t m "(w, n)"]
  by (simp add: metered_def metered_env_def split_beta)

section \<open>How often and how long\<close>

text \<open>C11. The combinator always returns, and evaluates the closure at least once and at most
  \<open>max_attempts\<close> times, with or without a deadline. The number of evaluations is read off
  the run in a world that counts them, which is otherwise the same run.\<close>

theorem with_retry_attempts_bounded:
  assumes "0 < max_attempts config" "backoff_fits config"
  shows "\<exists>w' n log r.
     with_retry E (counting_env env) config dl target metrics (counting f) (w, 0) = ((w', n), log, Ret r) \<and>
     with_retry E env config dl target metrics f w = (w', log, Ret r) \<and>
     1 \<le> n \<and> n \<le> max_attempts config"
proof -
  obtain v log r k s where run:
    "with_retry E (counting_env env) config dl target metrics (counting f) (w, 0) = (v, log, Ret r)"
    and k: "k < max_attempts config" "snd v = Suc k"
    by (rule with_retry_rule [of config "\<lambda>i v. snd v = i" "(w, 0)" "\<lambda>i v r. snd v = Suc i" "counting f" E
          "counting_env env" dl target metrics])
       (use assms in \<open>auto simp: counting_def counting_env_def pause_def split_beta\<close>)
  obtain w' n where v: "v = (w', n)" by (cases v)
  have "with_retry E env config dl target metrics f w = (w', log, Ret r)"
    using with_retry_counting [of E env config dl target metrics f w 0] run v by simp
  then show ?thesis using run k v by auto
qed

theorem with_retry_attempts_bounded_witness:
  "\<exists>w' n log r.
     with_retry vm_error_traits (counting_env still_env) GRACEFUL_STOP_RETRY None ''vm'' True
       (counting scripted) ([Completed (Inl Vm_Unavailable), Completed (Inr ())], 0) = ((w', n), log, Ret r) \<and>
     with_retry vm_error_traits still_env GRACEFUL_STOP_RETRY None ''vm'' True
       scripted [Completed (Inl Vm_Unavailable), Completed (Inr ())] = (w', log, Ret r) \<and>
     1 \<le> n \<and> n \<le> max_attempts GRACEFUL_STOP_RETRY"
  by (rule with_retry_attempts_bounded) (simp_all add: config_backoff_fits)

lemma metered_sum_step:
  assumes "jitter_in_range env" "n \<le> (\<Sum>j<i. backoff_at config j)"
  shows "snd (pause (metered_env env) (backoff_at config i) (w, n)) \<le> (\<Sum>j<Suc i. backoff_at config j)"
  using assms
  by (auto simp: pause_def metered_env_def jitter_in_range_def split_beta intro: add_mono)

lemma cleanup_backoff_sum:
  "(\<Sum>i<max_attempts CLEANUP_RETRY - 1. backoff_at CLEANUP_RETRY i) = from_millis 750"
proof -
  have b: "backoff_at CLEANUP_RETRY 0 = 50000000" "backoff_at CLEANUP_RETRY (Suc 0) = 100000000"
    "backoff_at CLEANUP_RETRY (Suc (Suc 0)) = 200000000"
    "backoff_at CLEANUP_RETRY (Suc (Suc (Suc 0))) = 400000000"
    by (simp_all add: CLEANUP_RETRY_def from_millis_def from_secs_def)
  have "max_attempts CLEANUP_RETRY - 1 = Suc (Suc (Suc (Suc 0)))" by simp
  then show ?thesis
    by (simp only: sum.lessThan_Suc b lessThan_0 sum.empty) (simp add: from_millis_def)
qed

text \<open>C31. The time spent in back-off pauses is at most the sum of the back-offs of the schedule;
  for the cleanup policy, with its five attempts, that is 750 milliseconds.\<close>

theorem total_backoff_bounded:
  assumes "0 < max_attempts config" "backoff_fits config" "jitter_in_range env"
  shows "(\<exists>w' slept log r.
     with_retry E (metered_env env) config dl target metrics (metered f) (w, 0) = ((w', slept), log, Ret r) \<and>
     with_retry E env config dl target metrics f w = (w', log, Ret r) \<and>
     slept \<le> (\<Sum>i<max_attempts config - 1. backoff_at config i)) \<and>
   (\<Sum>i<max_attempts CLEANUP_RETRY - 1. backoff_at CLEANUP_RETRY i) = from_millis 750"
proof (rule conjI)
  have mono: "(\<Sum>j<k. backoff_at config j) \<le> (\<Sum>j<max_attempts config - 1. backoff_at config j)"
    if "k < max_attempts config" for k
    using that by (intro sum_mono2) auto
  obtain v log r k s where run:
    "with_retry E (metered_env env) config dl target metrics (metered f) (w, 0) = (v, log, Ret r)"
    and k: "k < max_attempts config" "snd v \<le> (\<Sum>j<k. backoff_at config j)"
    by (rule with_retry_rule [of config "\<lambda>i v. snd v \<le> (\<Sum>j<i. backoff_at config j)" "(w, 0)"
          "\<lambda>i v r. snd v \<le> (\<Sum>j<i. backoff_at config j)" "metered f" E
          "metered_env env" dl target metrics])
       (use assms metered_sum_step [OF assms(3)] in \<open>auto simp: metered_def split_beta simp del: sum.lessThan_Suc\<close>)
  obtain w' n where v: "v = (w', n)" by (cases v)
  have "with_retry E env config dl target metrics f w = (w', log, Ret r)"
    using with_retry_metered [of E env config dl target metrics f w 0] run v by simp
  then show "\<exists>w' slept log r.
     with_retry E (metered_env env) config dl target metrics (metered f) (w, 0) = ((w', slept), log, Ret r) \<and>
     with_retry E env config dl target metrics f w = (w', log, Ret r) \<and>
     slept \<le> (\<Sum>i<max_attempts config - 1. backoff_at config i)"
    using run k v mono [of k] by auto
  show "(\<Sum>i<max_attempts CLEANUP_RETRY - 1. backoff_at CLEANUP_RETRY i) = from_millis 750"
    by (rule cleanup_backoff_sum)
qed

theorem total_backoff_bounded_witness:
  "(\<exists>w' slept log r.
     with_retry vm_error_traits (metered_env still_env) WRITE_RETRY None ''vm'' True (metered scripted)
       ([Completed (Inl Vm_Unavailable), Completed (Inr ())], 0) = ((w', slept), log, Ret r) \<and>
     with_retry vm_error_traits still_env WRITE_RETRY None ''vm'' True scripted
       [Completed (Inl Vm_Unavailable), Completed (Inr ())] = (w', log, Ret r) \<and>
     slept \<le> (\<Sum>i<max_attempts WRITE_RETRY - 1. backoff_at WRITE_RETRY i)) \<and>
   (\<Sum>i<max_attempts CLEANUP_RETRY - 1. backoff_at CLEANUP_RETRY i) = from_millis 750"
  by (rule total_backoff_bounded) (simp_all add: config_backoff_fits jitter_in_range_def still_env_def)

section \<open>Panics\<close>

context retry_error
begin

text \<open>A panicking attempt is caught and is never a reason to retry.\<close>

lemma catch_panic_not_retryable:
  "out \<in> {Sync_Panic, Poll_Panic} \<Longrightarrow> \<not> retryable_result E (catch_attempt E out)"
  using panic_final by auto

lemma panic_ends_retries:
  assumes "backoff_fits config" "i < max_attempts config"
    and "\<And>j. j < i \<Longrightarrow> retryable_result E (attempt_result E env config f w j)"
    and "snd (f (retry_world env config f w i)) \<in> {Sync_Panic, Poll_Panic}"
  shows "with_retry E env config None t m f w =
     (fst (f (retry_world env config f w i)), metrics_ops m (retry_metrics t i), Ret (Inl (from_panic E)))"
proof -
  have r: "attempt_result E env config f w i = Inl (from_panic E)"
    using assms(4) by (auto simp: attempt_result_def)
  have "last_attempt E env config f w = i"
    using assms(2,3) r panic_final by (intro last_attempt_eqI) auto
  then show ?thesis
    using with_retry_eq_spec [of config E env t m f w] assms(1,2) r
    by (simp add: retry_spec_def)
qed

end

text \<open>C29. A panic inside a Voice Manager attempt, whether the closure panics before it returns its
  future or while the future is polled, never escapes and is never retried: after any number of
  retried failures before it, the call returns \<open>VmError::InternalPanic\<close> at once.\<close>

theorem vm_panic_is_final:
  assumes "backoff_fits config" "i < max_attempts config"
    and "\<forall>j < i. retryable_result vm_error_traits (attempt_result vm_error_traits env config f w j)"
    and "snd (f (retry_world env config f w i)) \<in> {Sync_Panic, Poll_Panic}"
  shows "with_retry vm_error_traits env config None target metrics f w =
     (fst (f (retry_world env config f w i)), metrics_ops metrics (retry_metrics target i),
      Ret (Inl Vm_InternalPanic))"
  using vm_err.panic_ends_retries [of config i env f w target metrics] assms
  by (simp add: vm_error_traits_def)

theorem vm_panic_is_final_witness:
  "with_retry vm_error_traits still_env CLEANUP_RETRY None ''vm'' True scripted
     [Completed (Inl (Vm_Transient ''reset'')), Poll_Panic, Completed (Inr ())] =
   ([Completed (Inr ())], [inc_by retries_total [''vm'', ''1''] 1], Ret (Inl Vm_InternalPanic))"
proof -
  let ?w = "[Completed (Inl (Vm_Transient ''reset'')), Poll_Panic, Completed (Inr ())]"
  have w1: "retry_world still_env CLEANUP_RETRY scripted ?w (Suc 0) = [Poll_Panic, Completed (Inr ())]"
    by (simp add: still_env_def pause_def)
  have "with_retry vm_error_traits still_env CLEANUP_RETRY None ''vm'' True scripted ?w =
     (fst (scripted (retry_world still_env CLEANUP_RETRY scripted ?w (Suc 0))),
      metrics_ops True (retry_metrics ''vm'' (Suc 0)), Ret (Inl Vm_InternalPanic))"
    by (rule vm_panic_is_final) (simp_all add: config_backoff_fits attempt_result_def w1 del: retry_world.simps(2))
  then show ?thesis unfolding w1 by (simp add: metrics_ops_def retry_metrics_def)
qed

section \<open>Deadlines\<close>



text \<open>The budget of a propagated deadline: what is left when the context is made is the caller's
  time minus the 50 ms margin, capped by the adapter's default; it runs down with the clock and
  never below zero, and the context is too close exactly when the budget is below 200 ms.\<close>

theorem from_remaining_budget:
  assumes "from_remaining now rem adapter_default = Ret ctx"
  shows "remaining (now + t) ctx = Some (min (rem - PROPAGATION_MARGIN) adapter_default - t) \<and>
    (is_too_close now ctx \<longleftrightarrow> min (rem - PROPAGATION_MARGIN) adapter_default < ADAPTER_FLOOR)"
  using assms
  by (auto simp: from_remaining_def Let_def instant_add_def remaining_def is_too_close_def
      saturating_duration_since_def split: if_splits)

theorem from_remaining_budget_witness:
  "remaining (1000 + 5) \<lparr>deadline = Some (1000 + from_millis 50)\<rparr> =
     Some (min (from_millis 100 - PROPAGATION_MARGIN) (from_secs 5) - 5) \<and>
   (is_too_close 1000 \<lparr>deadline = Some (1000 + from_millis 50)\<rparr> \<longleftrightarrow>
     min (from_millis 100 - PROPAGATION_MARGIN) (from_secs 5) < ADAPTER_FLOOR)"
  by (rule from_remaining_budget)
     (simp add: from_remaining_def instant_add_def duration_defs INSTANT_MAX_def)

end
