(* ===== verification/Port_Types.thy ===== *)
theory Port_Types
  imports Port_Errors Adapter_Metrics
begin

text \<open>
  The domain types of the five ports (\<^verbatim>\<open>engagement-hub-ports/src/types.rs\<close>) and the port traits
  themselves (\<^verbatim>\<open>engagement-hub-ports/src/ports.rs\<close>).

  Each struct is a record with its fields in the source's order; field names carry a short prefix
  because several structs share them (\<^verbatim>\<open>org_id\<close>, \<^verbatim>\<open>start_date\<close>). The id newtypes
  wrap a 128-bit word and are ordered as their derived \<^verbatim>\<open>Ord\<close> orders them. An unsigned
  field keeps its width as a word; the two signed 32-bit fields are only moved, so they are integers.
  A \<^verbatim>\<open>f64\<close> is never computed with in the repository and is an uninterpreted type.

  A port trait is the record of its methods. A method runs in a world \<open>'w\<close> (the object's state
  and the service behind it) and yields the new world, the metric operations it issued and its result.
\<close>

section \<open>Primitive types\<close>

type_synonym u32 = "32 word"
type_synonym u64 = "64 word"
type_synonym i32 = int

typedecl f64

section \<open>Id newtypes\<close>

datatype EngagementId = EngagementId uuid

primrec engagement_id_as_uuid :: "EngagementId \<Rightarrow> uuid" where
  "engagement_id_as_uuid (EngagementId u) = u"

definition engagement_id_new :: "('w \<Rightarrow> uuid \<times> 'w) \<Rightarrow> 'w \<Rightarrow> EngagementId \<times> 'w" where
  "engagement_id_new new_v4 w = (case new_v4 w of (u, w') \<Rightarrow> (EngagementId u, w'))"

definition engagement_id_to_string :: "(uuid \<Rightarrow> string) \<Rightarrow> EngagementId \<Rightarrow> string" where
  "engagement_id_to_string uuid_to_string i = uuid_to_string (engagement_id_as_uuid i)"

instantiation EngagementId :: linorder
begin

definition less_eq_EngagementId :: "EngagementId \<Rightarrow> EngagementId \<Rightarrow> bool" where
  "less_eq_EngagementId a b \<longleftrightarrow> engagement_id_as_uuid a \<le> engagement_id_as_uuid b"

definition less_EngagementId :: "EngagementId \<Rightarrow> EngagementId \<Rightarrow> bool" where
  "less_EngagementId a b \<longleftrightarrow> engagement_id_as_uuid a < engagement_id_as_uuid b"

instance
proof
  fix a b c :: EngagementId
  show "a < b \<longleftrightarrow> a \<le> b \<and> \<not> b \<le> a" by (auto simp: less_eq_EngagementId_def less_EngagementId_def)
  show "a \<le> a" by (simp add: less_eq_EngagementId_def)
  show "a \<le> b \<Longrightarrow> b \<le> c \<Longrightarrow> a \<le> c" by (simp add: less_eq_EngagementId_def)
  show "a \<le> b \<Longrightarrow> b \<le> a \<Longrightarrow> a = b" by (cases a; cases b) (simp add: less_eq_EngagementId_def)
  show "a \<le> b \<or> b \<le> a" by (auto simp: less_eq_EngagementId_def)
qed

end

datatype VoiceProfileId = VoiceProfileId uuid

primrec voice_profile_id_as_uuid :: "VoiceProfileId \<Rightarrow> uuid" where
  "voice_profile_id_as_uuid (VoiceProfileId u) = u"

definition voice_profile_id_new :: "('w \<Rightarrow> uuid \<times> 'w) \<Rightarrow> 'w \<Rightarrow> VoiceProfileId \<times> 'w" where
  "voice_profile_id_new new_v4 w = (case new_v4 w of (u, w') \<Rightarrow> (VoiceProfileId u, w'))"

definition voice_profile_id_to_string :: "(uuid \<Rightarrow> string) \<Rightarrow> VoiceProfileId \<Rightarrow> string" where
  "voice_profile_id_to_string uuid_to_string i = uuid_to_string (voice_profile_id_as_uuid i)"

instantiation VoiceProfileId :: linorder
begin

definition less_eq_VoiceProfileId :: "VoiceProfileId \<Rightarrow> VoiceProfileId \<Rightarrow> bool" where
  "less_eq_VoiceProfileId a b \<longleftrightarrow> voice_profile_id_as_uuid a \<le> voice_profile_id_as_uuid b"

definition less_VoiceProfileId :: "VoiceProfileId \<Rightarrow> VoiceProfileId \<Rightarrow> bool" where
  "less_VoiceProfileId a b \<longleftrightarrow> voice_profile_id_as_uuid a < voice_profile_id_as_uuid b"

instance
proof
  fix a b c :: VoiceProfileId
  show "a < b \<longleftrightarrow> a \<le> b \<and> \<not> b \<le> a" by (auto simp: less_eq_VoiceProfileId_def less_VoiceProfileId_def)
  show "a \<le> a" by (simp add: less_eq_VoiceProfileId_def)
  show "a \<le> b \<Longrightarrow> b \<le> c \<Longrightarrow> a \<le> c" by (simp add: less_eq_VoiceProfileId_def)
  show "a \<le> b \<Longrightarrow> b \<le> a \<Longrightarrow> a = b" by (cases a; cases b) (simp add: less_eq_VoiceProfileId_def)
  show "a \<le> b \<or> b \<le> a" by (auto simp: less_eq_VoiceProfileId_def)
qed

end

datatype TelephonyId = TelephonyId uuid

primrec telephony_id_as_uuid :: "TelephonyId \<Rightarrow> uuid" where
  "telephony_id_as_uuid (TelephonyId u) = u"

definition telephony_id_new :: "('w \<Rightarrow> uuid \<times> 'w) \<Rightarrow> 'w \<Rightarrow> TelephonyId \<times> 'w" where
  "telephony_id_new new_v4 w = (case new_v4 w of (u, w') \<Rightarrow> (TelephonyId u, w'))"

definition telephony_id_to_string :: "(uuid \<Rightarrow> string) \<Rightarrow> TelephonyId \<Rightarrow> string" where
  "telephony_id_to_string uuid_to_string i = uuid_to_string (telephony_id_as_uuid i)"

instantiation TelephonyId :: linorder
begin

definition less_eq_TelephonyId :: "TelephonyId \<Rightarrow> TelephonyId \<Rightarrow> bool" where
  "less_eq_TelephonyId a b \<longleftrightarrow> telephony_id_as_uuid a \<le> telephony_id_as_uuid b"

definition less_TelephonyId :: "TelephonyId \<Rightarrow> TelephonyId \<Rightarrow> bool" where
  "less_TelephonyId a b \<longleftrightarrow> telephony_id_as_uuid a < telephony_id_as_uuid b"

instance
proof
  fix a b c :: TelephonyId
  show "a < b \<longleftrightarrow> a \<le> b \<and> \<not> b \<le> a" by (auto simp: less_eq_TelephonyId_def less_TelephonyId_def)
  show "a \<le> a" by (simp add: less_eq_TelephonyId_def)
  show "a \<le> b \<Longrightarrow> b \<le> c \<Longrightarrow> a \<le> c" by (simp add: less_eq_TelephonyId_def)
  show "a \<le> b \<Longrightarrow> b \<le> a \<Longrightarrow> a = b" by (cases a; cases b) (simp add: less_eq_TelephonyId_def)
  show "a \<le> b \<or> b \<le> a" by (auto simp: less_eq_TelephonyId_def)
qed

end

section \<open>Registry types\<close>

record ResolveSnapshotReq =
  rs_org_id :: string
  rs_journey_version :: string

record ResolvedSnapshot =
  snapshot_id :: string
  snap_journey_version :: string

record VoiceProfile =
  profile_id :: VoiceProfileId
  profile_name :: string

section \<open>Journey Manager types\<close>

record CreateExecutionReq =
  ce_journey_version :: string
  ce_org_id :: string
  ce_engagement_id :: EngagementId

record ExecutionRef =
  execution_id :: uuid

datatype CancelReason =
    CompensateFailedBind
  | UserRequested
  | OrchestratorTimeout
  | AdminCancelled

record TimelineOpts =
  after_sequence :: "u64 option"

record TimelineEvent =
  event_sequence :: u64
  event_kind :: string

record Timeline =
  timeline_events :: "TimelineEvent list"

section \<open>Voice Manager types\<close>

record StartVoiceSessionReq =
  sv_engagement_id :: EngagementId
  sv_org_id :: string

record VoiceSessionRef =
  session_id :: uuid

datatype StopMode = Abort | Graceful

record IssueTestTokenReq =
  it_org_id :: string

record TestToken =
  token :: string

record CreateTelephonyReq =
  ct_org_id :: string
  ct_phone_number :: string

record Telephony =
  telephony_id :: TelephonyId
  telephony_org_id :: string
  phone_number :: string

record ListTelephoniesReq =
  lt_org_id :: string
  page_token :: "string option"

record UpdateTelephonyReq =
  ut_id :: TelephonyId
  ut_phone_number :: string

section \<open>Post-call types\<close>

record TranscriptMessage =
  tm_message :: string
  tm_role :: string
  audio_url :: "string option"
  emotion :: "string option"

record Transcript =
  messages :: "TranscriptMessage list"
  transcript_total_size :: i32

record Summary =
  summary :: string
  resolution :: "string option"
  resolution_explanation :: "string option"

record Sentiment =
  label :: string
  justification :: string

record OutputField =
  field_key :: string
  field_value :: string

record OutputExtraction =
  output_fields :: "OutputField list"

record ListAgentCallLogsReq =
  la_agent_id :: string
  la_skip :: "u32 option"
  la_limit :: "u32 option"
  la_start_date :: "string option"
  la_end_date :: "string option"
  la_identity :: "string option"
  la_id :: "string option"
  la_batch_id :: "string option"

record ListOrgCallLogsReq =
  lo_org_id :: string
  lo_skip :: "u32 option"
  lo_limit :: "u32 option"
  lo_start_date :: "string option"
  lo_end_date :: "string option"
  lo_contact_number :: "string option"
  lo_call_id :: "string option"

record CallLog =
  log_id :: string
  room_name :: "string option"
  log_batch_id :: "string option"
  log_duration :: "i32 option"
  log_identity :: "string option"
  created_at :: string

record 't Page =
  items :: "'t list"
  page_total_size :: "u32 option"
  next_page_token :: "string option"

section \<open>Analytics types\<close>

record GetAgentAnalyticsReq =
  gaa_agent_id :: string
  gaa_metric :: "string option"
  gaa_granularity :: "string option"
  gaa_start_date :: "string option"
  gaa_end_date :: "string option"

record GetAgentMetricsReq =
  gam_agent_id :: string
  gam_metric :: "string option"
  gam_granularity :: "string option"
  gam_start_date :: "string option"
  gam_end_date :: "string option"

record GetOrgAnalyticsReq =
  goa_org_id :: string
  goa_metric :: "string option"
  goa_granularity :: "string option"
  goa_start_date :: "string option"
  goa_end_date :: "string option"

record GetOrgMetricsReq =
  gom_org_id :: string
  gom_metric :: "string option"
  gom_granularity :: "string option"
  gom_start_date :: "string option"
  gom_end_date :: "string option"

record Analytics =
  average_conversation_duration :: f64
  containment_rate :: f64
  customer_satisfaction_rate :: f64
  dropoff_rate :: f64
  escalation_rate :: f64
  total_inquiries :: u32
  category_counts :: "string \<rightharpoonup> u32"

record Metrics =
  categories :: "string list"
  series :: "f64 list"

section \<open>The port traits\<close>

type_synonym ('w, 'e, 't) port_call = "'w \<Rightarrow> 'w \<times> metric_log \<times> ('e, 't) result exec"

record 'w RegistryPort =
  resolve_snapshot :: "ResolveSnapshotReq \<Rightarrow> ('w, RegistryError, ResolvedSnapshot) port_call"
  get_voice_profile :: "VoiceProfileId \<Rightarrow> ('w, RegistryError, VoiceProfile) port_call"

record 'w JourneyManagerPort =
  create_execution :: "CreateExecutionReq \<Rightarrow> ('w, JmError, ExecutionRef) port_call"
  cancel_execution :: "ExecutionRef \<Rightarrow> CancelReason \<Rightarrow> ('w, JmError, unit) port_call"
  get_execution_timeline :: "ExecutionRef \<Rightarrow> TimelineOpts \<Rightarrow> ('w, JmError, Timeline) port_call"

record 'w VoiceManagerPort =
  start_voice_session :: "StartVoiceSessionReq \<Rightarrow> ('w, VmError, VoiceSessionRef) port_call"
  stop_voice_session :: "VoiceSessionRef \<Rightarrow> StopMode \<Rightarrow> ('w, VmError, unit) port_call"
  issue_test_token :: "IssueTestTokenReq \<Rightarrow> ('w, VmError, TestToken) port_call"
  create_telephony :: "CreateTelephonyReq \<Rightarrow> ('w, VmError, Telephony) port_call"
  list_telephonies :: "ListTelephoniesReq \<Rightarrow> ('w, VmError, Telephony list) port_call"
  get_telephony :: "TelephonyId \<Rightarrow> ('w, VmError, Telephony) port_call"
  update_telephony :: "UpdateTelephonyReq \<Rightarrow> ('w, VmError, Telephony) port_call"
  delete_telephony :: "TelephonyId \<Rightarrow> string \<Rightarrow> ('w, VmError, unit) port_call"

record 'w PostCallPort =
  get_transcript :: "EngagementId \<Rightarrow> ('w, PostCallError, Transcript) port_call"
  get_summary :: "EngagementId \<Rightarrow> ('w, PostCallError, Summary) port_call"
  get_sentiment :: "EngagementId \<Rightarrow> ('w, PostCallError, Sentiment) port_call"
  get_output_extraction :: "EngagementId \<Rightarrow> ('w, PostCallError, OutputExtraction) port_call"
  list_agent_call_logs :: "ListAgentCallLogsReq \<Rightarrow> ('w, PostCallError, CallLog Page) port_call"
  list_org_call_logs :: "ListOrgCallLogsReq \<Rightarrow> ('w, PostCallError, CallLog Page) port_call"

record 'w AnalyticsPort =
  get_agent_analytics :: "GetAgentAnalyticsReq \<Rightarrow> ('w, AnalyticsError, Analytics) port_call"
  get_agent_metrics :: "GetAgentMetricsReq \<Rightarrow> ('w, AnalyticsError, Metrics) port_call"
  get_org_analytics :: "GetOrgAnalyticsReq \<Rightarrow> ('w, AnalyticsError, Analytics) port_call"
  get_org_metrics :: "GetOrgMetricsReq \<Rightarrow> ('w, AnalyticsError, Metrics) port_call"

end
