(* ===== verification/Adapter_Calls.thy ===== *)
theory Adapter_Calls
  imports Policies Port_Types
begin

text \<open>
  What the six adapters of \<^verbatim>\<open>engagement-hub-adapters\<close> have in common.

  Each operation of an adapter builds one request and hands \<open>with_retry\<close> a closure that sends
  a clone of it and interprets the answer. \<open>exchange\<close> is that closure. The clients it sends
  through (the generated \<^verbatim>\<open>tonic\<close> stubs, \<^verbatim>\<open>reqwest\<close>), the \<^verbatim>\<open>uuid\<close> crate and
  the \<^verbatim>\<open>Debug\<close> form of a gRPC code are parameters.

  The locale \<open>journaled\<close> is the interface between the combinator and an observer of the
  traffic: a journal that the environment leaves alone and that a call extends by its request. It is
  interpreted on \<open>journal_env\<close> and \<open>record_call\<close>, which add a journal to any
  environment and any client call and change nothing else.

  The last section lists the calls a client can make on each port as one datatype per port, so that
  a property of an adapter can be stated once for all its operations.
\<close>

section \<open>Parameters\<close>

text \<open>\<^verbatim>\<open>Uuid::new_v4()\<close> beside the clock, the jitter and the timer.\<close>

record 'w adapter_env = "'w retry_env" +
  env_new_v4 :: "'w \<Rightarrow> uuid \<times> 'w"

text \<open>The codes of a \<^verbatim>\<open>tonic::Status\<close>.\<close>

datatype Code =
    Code_Ok | Cancelled | Unknown | InvalidArgument | DeadlineExceeded | NotFound | AlreadyExists
  | PermissionDenied | ResourceExhausted | FailedPrecondition | Aborted | OutOfRange
  | Unimplemented | Internal | Code_Unavailable | DataLoss | Unauthenticated

record Status =
  code :: Code
  status_message :: string

text \<open>\<^verbatim>\<open>Uuid\<close>'s \<^verbatim>\<open>Display\<close> and \<^verbatim>\<open>FromStr\<close> (whose error is
  the text of its \<^verbatim>\<open>Display\<close>), and the \<^verbatim>\<open>Debug\<close> form of a code.\<close>

record codec =
  uuid_to_string :: "uuid \<Rightarrow> string"
  parse_uuid :: "string \<Rightarrow> (string, uuid) result"
  code_debug :: "Code \<Rightarrow> string"

section \<open>One request and its answer\<close>

type_synonym ('w, 'req, 's, 'r) call = "'req \<Rightarrow> 'w \<Rightarrow> 'w \<times> ('s, 'r) result attempt"

definition exchange ::
  "('w, 'req, 's, 'r) call \<Rightarrow> (('s, 'r) result \<Rightarrow> ('e, 't) result) \<Rightarrow> 'req \<Rightarrow> ('w, 'e, 't) attempt_fn" where
  "exchange send interp req w =
     (case send req w of (w', out) \<Rightarrow> (w', map_attempt interp out))"

section \<open>Journals\<close>

definition journal_env :: "('w, 'z) adapter_env_scheme \<Rightarrow> ('w \<times> 'q list) adapter_env" where
  "journal_env env =
     \<lparr>env_now = (\<lambda>(w, l). env_now env w),
      env_jitter = (\<lambda>b (w, l). case env_jitter env b w of (j, w') \<Rightarrow> (j, (w', l))),
      env_sleep = (\<lambda>d (w, l). (env_sleep env d w, l)),
      env_new_v4 = (\<lambda>(w, l). case env_new_v4 env w of (u, w') \<Rightarrow> (u, (w', l)))\<rparr>"

definition record_call :: "('req \<Rightarrow> 'q) \<Rightarrow> ('w, 'req, 's, 'r) call \<Rightarrow> ('w \<times> 'q list, 'req, 's, 'r) call" where
  "record_call tag send r = (\<lambda>(w, l). case send r w of (w', out) \<Rightarrow> ((w', l @ [tag r]), out))"

text \<open>
  The outcome of a call: \<open>k\<close> requests were sent, at least one and at most what the policy
  allows, and the answer is a retryable error only when all were used.
\<close>

definition within_policy :: "RetryConfig \<Rightarrow> 'e error_traits \<Rightarrow> nat \<Rightarrow> ('e, 't) result \<Rightarrow> bool" where
  "within_policy config E k r =
     (1 \<le> k \<and> k \<le> max_attempts config \<and> (if retryable_result E r then k = max_attempts config else True))"

locale journaled =
  fixes env :: "('w, 'z) adapter_env_scheme"
    and journal :: "'w \<Rightarrow> 'q list"
    and plain_env :: "('v, 'y) adapter_env_scheme"
    and plain :: "'w \<Rightarrow> 'v"
  assumes jitter_journal: "journal (snd (env_jitter env b w)) = journal w"
    and sleep_journal: "journal (env_sleep env d w) = journal w"
    and new_v4_journal: "journal (snd (env_new_v4 env w)) = journal w"
    and now_plain: "env_now env w = env_now plain_env (plain w)"
    and jitter_plain: "fst (env_jitter env b w) = fst (env_jitter plain_env b (plain w)) \<and>
          plain (snd (env_jitter env b w)) = snd (env_jitter plain_env b (plain w))"
    and sleep_plain: "plain (env_sleep env d w) = env_sleep plain_env d (plain w)"
    and new_v4_plain: "fst (env_new_v4 env w) = fst (env_new_v4 plain_env (plain w)) \<and>
          plain (snd (env_new_v4 env w)) = snd (env_new_v4 plain_env (plain w))"
begin

lemma pause_journal: "journal (pause env b w) = journal w"
  by (simp add: pause_def split_beta sleep_journal jitter_journal)

end

locale journaled_call = journaled env journal plain_env plain
  for env :: "('w, 'z) adapter_env_scheme"
    and journal :: "'w \<Rightarrow> 'q list"
    and plain_env :: "('v, 'y) adapter_env_scheme"
    and plain :: "'w \<Rightarrow> 'v" +
  fixes send :: "('w, 'req, 's, 'r) call"
    and tag :: "'req \<Rightarrow> 'q"
    and plain_send :: "('v, 'req, 's, 'r) call"
  assumes send_journal: "journal (fst (send r w)) = journal w @ [tag r]"
    and send_plain: "plain (fst (send r w)) = fst (plain_send r (plain w)) \<and>
          snd (send r w) = snd (plain_send r (plain w))"
begin

lemma exchange_journal: "journal (fst (exchange send interp r w)) = journal w @ [tag r]"
  by (simp add: exchange_def split_beta send_journal)

lemma exchange_plain:
  "plain (fst (exchange send interp r w)) = fst (exchange plain_send interp r (plain w)) \<and>
   snd (exchange send interp r w) = snd (exchange plain_send interp r (plain w))"
  by (simp add: exchange_def split_beta send_plain)

lemma retried_plain:
  "with_retry E plain_env config dl t m (exchange plain_send interp r) (plain w) =
     (case with_retry E env config dl t m (exchange send interp r) w of (v, l, res) \<Rightarrow> (plain v, l, res))"
  by (rule with_retry_project)
     (simp_all add: exchange_plain now_plain jitter_plain sleep_plain)

text \<open>Every attempt of one call sends the same request.\<close>

lemma retried_requests:
  assumes "backoff_fits config" "0 < max_attempts config"
  shows "\<exists>w' k log res.
     with_retry E env config None t m (exchange send interp r) w = (w', log, Ret res) \<and>
     with_retry E plain_env config None t m (exchange plain_send interp r) (plain w) = (plain w', log, Ret res) \<and>
     journal w' = journal w @ replicate k (tag r) \<and> within_policy config E k res"
proof -
  obtain w' log res k s where run:
    "with_retry E env config None t m (exchange send interp r) w = (w', log, Ret res)"
    and k: "k < max_attempts config" "journal w' = journal w @ replicate (Suc k) (tag r)"
    and res: "\<not> retryable_result E res \<or> k + 1 = max_attempts config"
    by (rule with_retry_rule [of config "\<lambda>i v. journal v = journal w @ replicate i (tag r)" w
          "\<lambda>i v r'. journal v = journal w @ replicate (Suc i) (tag r)" "exchange send interp r" E env None t m])
       (use assms in \<open>auto simp: exchange_journal pause_journal replicate_append_same\<close>)
  have "within_policy config E (Suc k) res"
    using k res by (auto simp: within_policy_def)
  moreover have "with_retry E plain_env config None t m (exchange plain_send interp r) (plain w) =
      (plain w', log, Ret res)"
    using run retried_plain [of E config None t m interp r w] by simp
  ultimately show ?thesis using run k by (intro exI [of _ w'] exI [of _ "Suc k"]) simp
qed

end

interpretation jrec: journaled_call "journal_env env" snd env fst "record_call tag send" tag send
  for env tag send
  by unfold_locales (simp_all add: journal_env_def record_call_def split_beta)

lemma new_v4_journal_env [simp]:
  "env_new_v4 (journal_env env) (w, l) = (fst (env_new_v4 env w), (snd (env_new_v4 env w), l))"
  by (simp add: journal_env_def split_beta)

text \<open>The form in which the adapters use it.\<close>

lemma journal_run:
  assumes "backoff_fits config" "0 < max_attempts config"
  obtains w' k log res where
    "with_retry E (journal_env env) config None t m (exchange (record_call tag send) interp r) (w, l) =
       ((w', l @ replicate k (tag r)), log, Ret res)"
    "with_retry E env config None t m (exchange send interp r) w = (w', log, Ret res)"
    "within_policy config E k res"
proof -
  obtain v k log res where
    "with_retry E (journal_env env) config None t m (exchange (record_call tag send) interp r) (w, l) =
       (v, log, Ret res)"
    "with_retry E env config None t m (exchange send interp r) (fst (w, l)) = (fst v, log, Ret res)"
    "snd v = snd (w, l) @ replicate k (tag r)" "within_policy config E k res"
    using jrec.retried_requests [OF assms, of E env t m tag send interp r "(w, l)"] by blast
  then show thesis using that by (cases v) simp
qed

section \<open>Answers that end a call\<close>

text \<open>An answer whose interpretation is final ends the call after one request.\<close>

lemma exchange_final:
  assumes "0 < max_attempts config" "backoff_fits config"
    and "send r w = (w1, Completed res)" "\<not> retryable_result E (interp res)"
  shows "with_retry E env config None t m (exchange send interp r) w = (w1, [], Ret (interp res))"
proof -
  have "last_attempt E env config (exchange send interp r) w = 0"
    using assms by (intro last_attempt_eqI) (auto simp: attempt_result_def exchange_def)
  then show ?thesis
    using assms(3) with_retry_eq_spec [OF assms(1,2), of E env t m "exchange send interp r" w]
    by (simp add: retry_spec_def attempt_result_def retry_metrics_def metrics_ops_def exchange_def)
qed

text \<open>A policy of one attempt ends the call after one request whatever the answer.\<close>

lemma exchange_single:
  assumes "max_attempts config = 1" "backoff_fits config" "send r w = (w1, out)"
  shows "with_retry E env config None t m (exchange send interp r) w =
     (w1, [], Ret (catch_attempt E (map_attempt interp out)))"
proof -
  have "last_attempt E env config (exchange send interp r) w = 0"
    using assms by (intro last_attempt_eqI) (auto simp: attempt_result_def exchange_def)
  then show ?thesis
    using assms with_retry_eq_spec [of config E env t m "exchange send interp r" w]
    by (simp add: retry_spec_def attempt_result_def retry_metrics_def metrics_ops_def exchange_def)
qed

section \<open>Scripted servers\<close>

text \<open>A world that is the list of the server's outcomes still to come, in an environment whose
  clock stands still and which mints the same id.\<close>

definition script_env :: "uuid \<Rightarrow> 'w adapter_env" where
  "script_env u =
     \<lparr>env_now = (\<lambda>w. 0), env_jitter = (\<lambda>b w. (b, w)), env_sleep = (\<lambda>d w. w), env_new_v4 = (\<lambda>w. (u, w))\<rparr>"

definition script_call :: "(('s, 'r) result attempt list, 'req, 's, 'r) call" where
  "script_call r = scripted"

lemma script_env_simps [simp]: "env_new_v4 (script_env u) w = (u, w)" "pause (script_env u) b w = w"
  by (simp_all add: script_env_def pause_def)

lemma scripted_drop: "i < length outs \<Longrightarrow> scripted (drop i outs) = (drop (Suc i) outs, outs ! i)"
  by (simp add: Cons_nth_drop_Suc [symmetric])

lemma retry_world_script:
  "i \<le> length outs \<Longrightarrow>
     retry_world (script_env u) config (exchange script_call interp r) outs i = drop i outs"
proof (induction i)
  case (Suc i)
  then show ?case by (simp add: exchange_def script_call_def scripted_drop)
qed simp

lemma attempt_result_script:
  "i < length outs \<Longrightarrow>
     attempt_result E (script_env u) config (exchange script_call interp r) outs i =
       catch_attempt E (map_attempt interp (outs ! i))"
  by (simp add: attempt_result_def retry_world_script exchange_def script_call_def scripted_drop)

text \<open>The first outcome that is not a retryable error is the answer, if the policy reaches it.\<close>

lemma with_retry_script:
  assumes "backoff_fits config" "n < max_attempts config" "n < length outs"
    and "\<And>j. j < n \<Longrightarrow> retryable_result E (catch_attempt E (map_attempt interp (outs ! j)))"
    and "\<not> retryable_result E (catch_attempt E (map_attempt interp (outs ! n))) \<or> Suc n = max_attempts config"
  shows "with_retry E (script_env u) config None t m (exchange script_call interp r) outs =
     (drop (Suc n) outs, metrics_ops m (retry_metrics t n),
      Ret (catch_attempt E (map_attempt interp (outs ! n))))"
proof -
  have "last_attempt E (script_env u) config (exchange script_call interp r) outs = n"
    using assms by (intro last_attempt_eqI) (auto simp: attempt_result_script)
  then show ?thesis
    using assms(1-3) with_retry_eq_spec [of config E "script_env u" t m "exchange script_call interp r" outs]
    by (simp add: retry_spec_def attempt_result_script retry_world_script exchange_def script_call_def
        scripted_drop)
qed

section \<open>Status codes\<close>

text \<open>The codes that end a call: business and authorisation errors.\<close>

definition permanent_codes :: "Code list" where
  "permanent_codes =
     [NotFound, InvalidArgument, FailedPrecondition, AlreadyExists, PermissionDenied,
      Unauthenticated, Unimplemented, OutOfRange, Cancelled]"

section \<open>The calls of a port\<close>

datatype RegistryCall = ResolveSnapshot ResolveSnapshotReq | GetVoiceProfile VoiceProfileId

datatype RegistryAnswer = A_Snapshot ResolvedSnapshot | A_Profile VoiceProfile

datatype JmCall =
    CreateExecution CreateExecutionReq
  | CancelExecution ExecutionRef CancelReason
  | GetExecutionTimeline ExecutionRef TimelineOpts

datatype JmAnswer = A_Execution ExecutionRef | A_Cancelled | A_Timeline Timeline

datatype VmCall =
    StartVoiceSession StartVoiceSessionReq
  | StopVoiceSession VoiceSessionRef StopMode
  | IssueTestToken IssueTestTokenReq
  | CreateTelephony CreateTelephonyReq
  | ListTelephonies ListTelephoniesReq
  | GetTelephony TelephonyId
  | UpdateTelephony UpdateTelephonyReq
  | DeleteTelephony TelephonyId string

datatype VmAnswer =
    A_Session VoiceSessionRef
  | A_Done
  | A_Token TestToken
  | A_Telephony Telephony
  | A_Telephonies "Telephony list"

datatype PostCallCall =
    GetTranscript EngagementId
  | GetSummary EngagementId
  | GetSentiment EngagementId
  | GetOutputExtraction EngagementId
  | ListAgentCallLogs ListAgentCallLogsReq
  | ListOrgCallLogs ListOrgCallLogsReq

datatype PostCallAnswer =
    A_Transcript Transcript
  | A_Summary Summary
  | A_Sentiment Sentiment
  | A_Extraction OutputExtraction
  | A_CallLogs "CallLog Page"

datatype AnalyticsCall =
    GetAgentAnalytics GetAgentAnalyticsReq
  | GetAgentMetrics GetAgentMetricsReq
  | GetOrgAnalytics GetOrgAnalyticsReq
  | GetOrgMetrics GetOrgMetricsReq

datatype AnalyticsAnswer = A_Analytics Analytics | A_Metrics Metrics

definition answer ::
  "('t \<Rightarrow> 'a) \<Rightarrow> 'w \<times> metric_log \<times> ('e, 't) result exec \<Rightarrow> 'w \<times> metric_log \<times> ('e, 'a) result exec" where
  "answer c run = (case run of (w, log, r) \<Rightarrow> (w, log, exec_map (map_ok c) r))"

fun run_registry :: "'w RegistryPort \<Rightarrow> RegistryCall \<Rightarrow> ('w, RegistryError, RegistryAnswer) port_call" where
  "run_registry p (ResolveSnapshot req) w = answer A_Snapshot (resolve_snapshot p req w)"
| "run_registry p (GetVoiceProfile i) w = answer A_Profile (get_voice_profile p i w)"

fun run_jm :: "'w JourneyManagerPort \<Rightarrow> JmCall \<Rightarrow> ('w, JmError, JmAnswer) port_call" where
  "run_jm p (CreateExecution req) w = answer A_Execution (create_execution p req w)"
| "run_jm p (CancelExecution ref reason) w = answer (\<lambda>_. A_Cancelled) (cancel_execution p ref reason w)"
| "run_jm p (GetExecutionTimeline ref opts) w = answer A_Timeline (get_execution_timeline p ref opts w)"

fun run_vm :: "'w VoiceManagerPort \<Rightarrow> VmCall \<Rightarrow> ('w, VmError, VmAnswer) port_call" where
  "run_vm p (StartVoiceSession req) w = answer A_Session (start_voice_session p req w)"
| "run_vm p (StopVoiceSession ref mode) w = answer (\<lambda>_. A_Done) (stop_voice_session p ref mode w)"
| "run_vm p (IssueTestToken req) w = answer A_Token (issue_test_token p req w)"
| "run_vm p (CreateTelephony req) w = answer A_Telephony (create_telephony p req w)"
| "run_vm p (ListTelephonies req) w = answer A_Telephonies (list_telephonies p req w)"
| "run_vm p (GetTelephony i) w = answer A_Telephony (get_telephony p i w)"
| "run_vm p (UpdateTelephony req) w = answer A_Telephony (update_telephony p req w)"
| "run_vm p (DeleteTelephony i usage) w = answer (\<lambda>_. A_Done) (delete_telephony p i usage w)"

fun run_post_call :: "'w PostCallPort \<Rightarrow> PostCallCall \<Rightarrow> ('w, PostCallError, PostCallAnswer) port_call" where
  "run_post_call p (GetTranscript eng) w = answer A_Transcript (get_transcript p eng w)"
| "run_post_call p (GetSummary eng) w = answer A_Summary (get_summary p eng w)"
| "run_post_call p (GetSentiment eng) w = answer A_Sentiment (get_sentiment p eng w)"
| "run_post_call p (GetOutputExtraction eng) w = answer A_Extraction (get_output_extraction p eng w)"
| "run_post_call p (ListAgentCallLogs req) w = answer A_CallLogs (list_agent_call_logs p req w)"
| "run_post_call p (ListOrgCallLogs req) w = answer A_CallLogs (list_org_call_logs p req w)"

fun run_analytics :: "'w AnalyticsPort \<Rightarrow> AnalyticsCall \<Rightarrow> ('w, AnalyticsError, AnalyticsAnswer) port_call" where
  "run_analytics p (GetAgentAnalytics req) w = answer A_Analytics (get_agent_analytics p req w)"
| "run_analytics p (GetAgentMetrics req) w = answer A_Metrics (get_agent_metrics p req w)"
| "run_analytics p (GetOrgAnalytics req) w = answer A_Analytics (get_org_analytics p req w)"
| "run_analytics p (GetOrgMetrics req) w = answer A_Metrics (get_org_metrics p req w)"

lemma answer_Ret [simp]: "answer c (w, log, Ret r) = (w, log, Ret (map_ok c r))"
  by (simp add: answer_def)

lemma within_policy_map_ok [simp]: "within_policy config E k (map_ok c r) = within_policy config E k r"
  by (cases r) (simp_all add: within_policy_def)

text \<open>What the sending properties of the adapters state of a call: run with a journal it sends
  \<open>request\<close> between once and as often as the policy allows and gives the answer and the world
  of the run without a journal.\<close>

definition sends_only ::
  "'e error_traits \<Rightarrow> RetryConfig \<Rightarrow> 'q \<Rightarrow> ('w \<times> 'q list) \<times> metric_log \<times> ('e, 'a) result exec
     \<Rightarrow> 'w \<times> metric_log \<times> ('e, 'a) result exec \<Rightarrow> bool" where
  "sends_only E config request journal_outcome outcome \<longleftrightarrow>
     (\<exists>w' k log r. journal_outcome = ((w', replicate k request), log, Ret r) \<and>
        outcome = (w', log, Ret r) \<and> within_policy config E k r)"

lemma sends_only_run:
  assumes "backoff_fits config" "0 < max_attempts config"
  shows "sends_only E config (tag r)
     (answer c (with_retry E (journal_env env) config None t m (exchange (record_call tag send) interp r) (w, [])))
     (answer c (with_retry E env config None t m (exchange send interp r) w))"
proof -
  obtain w' k log res where
    "with_retry E (journal_env env) config None t m (exchange (record_call tag send) interp r) (w, []) =
       ((w', [] @ replicate k (tag r)), log, Ret res)"
    "with_retry E env config None t m (exchange send interp r) w = (w', log, Ret res)"
    "within_policy config E k res"
    by (rule journal_run [OF assms])
  then show ?thesis by (auto simp: sends_only_def)
qed

end
