(* ===== verification/Registry_Grpc.thy ===== *)
theory Registry_Grpc
  imports Adapter_Calls
begin

text \<open>
  The Registry adapter over gRPC (\<^verbatim>\<open>engagement-hub-adapters/src/registry_grpc.rs\<close>) and the
  messages of \<^verbatim>\<open>proto/revocall/registry/v1/registry.proto\<close>. The generated client is the
  parameter \<open>RegistryClient\<close>. Unlike the other two gRPC adapters it mints no request id: its
  operations are reads.
\<close>

section \<open>The messages\<close>

record ResolveSnapshotRequest =
  rsq_org_id :: string
  rsq_journey_version :: string

record ResolvedSnapshotProto =
  rsp_snapshot_id :: string
  rsp_journey_version :: string

record ResolveSnapshotResponse =
  rsr_snapshot :: "ResolvedSnapshotProto option"

record GetVoiceProfileRequest =
  vpq_voice_profile_id :: string

record VoiceProfileProto =
  vpp_id :: string
  vpp_name :: string

record GetVoiceProfileResponse =
  vpr_profile :: "VoiceProfileProto option"

record 'w RegistryClient =
  rpc_resolve_snapshot :: "('w, ResolveSnapshotRequest, Status, ResolveSnapshotResponse) call"
  rpc_get_voice_profile :: "('w, GetVoiceProfileRequest, Status, GetVoiceProfileResponse) call"

section \<open>Helpers\<close>

definition registry_map_status :: "codec \<Rightarrow> Status \<Rightarrow> RegistryError" where
  "registry_map_status cd s =
     (case code s of
        NotFound \<Rightarrow> Registry_Permanent (code_debug cd (code s) @ '': '' @ status_message s)
      | InvalidArgument \<Rightarrow> Registry_Permanent (code_debug cd (code s) @ '': '' @ status_message s)
      | FailedPrecondition \<Rightarrow> Registry_Permanent (code_debug cd (code s) @ '': '' @ status_message s)
      | AlreadyExists \<Rightarrow> Registry_Permanent (code_debug cd (code s) @ '': '' @ status_message s)
      | PermissionDenied \<Rightarrow> Registry_Permanent (code_debug cd (code s) @ '': '' @ status_message s)
      | Unauthenticated \<Rightarrow> Registry_Permanent (code_debug cd (code s) @ '': '' @ status_message s)
      | Unimplemented \<Rightarrow> Registry_Permanent (code_debug cd (code s) @ '': '' @ status_message s)
      | OutOfRange \<Rightarrow> Registry_Permanent (code_debug cd (code s) @ '': '' @ status_message s)
      | Cancelled \<Rightarrow> Registry_Permanent (code_debug cd (code s) @ '': '' @ status_message s)
      | Code_Unavailable \<Rightarrow> Registry_Unavailable
      | _ \<Rightarrow> Registry_Transient (code_debug cd (code s) @ '': '' @ status_message s))"

definition snapshot_of_response :: "ResolveSnapshotResponse \<Rightarrow> (RegistryError, ResolvedSnapshot) result" where
  "snapshot_of_response resp =
     and_then (ok_or (Registry_Permanent ''registry: empty snapshot in response'') (rsr_snapshot resp)) (\<lambda>snap.
     Inr \<lparr>snapshot_id = rsp_snapshot_id snap, snap_journey_version = rsp_journey_version snap\<rparr>)"

definition profile_of_response :: "codec \<Rightarrow> GetVoiceProfileResponse \<Rightarrow> (RegistryError, VoiceProfile) result" where
  "profile_of_response cd resp =
     and_then (ok_or (Registry_Permanent ''registry: empty profile in response'') (vpr_profile resp)) (\<lambda>p.
     and_then (map_err (\<lambda>e. Registry_Permanent (''bad uuid: '' @ e))
                (map_ok VoiceProfileId (parse_uuid cd (vpp_id p)))) (\<lambda>uid.
     Inr \<lparr>profile_id = uid, profile_name = vpp_name p\<rparr>))"

section \<open>The operations\<close>

definition rg_resolve_snapshot ::
  "('w, 'z) adapter_env_scheme \<Rightarrow> codec \<Rightarrow> 'w RegistryClient \<Rightarrow> ResolveSnapshotReq
     \<Rightarrow> ('w, RegistryError, ResolvedSnapshot) port_call" where
  "rg_resolve_snapshot env cd client req w =
     with_retry registry_error_traits env REGISTRY_RESOLVE_RETRY None ''registry'' True
       (exchange (rpc_resolve_snapshot client)
          (\<lambda>res. and_then (map_err (registry_map_status cd) res) snapshot_of_response)
          \<lparr>rsq_org_id = rs_org_id req, rsq_journey_version = rs_journey_version req\<rparr>) w"

definition rg_get_voice_profile ::
  "('w, 'z) adapter_env_scheme \<Rightarrow> codec \<Rightarrow> 'w RegistryClient \<Rightarrow> VoiceProfileId
     \<Rightarrow> ('w, RegistryError, VoiceProfile) port_call" where
  "rg_get_voice_profile env cd client i w =
     (let id_str = uuid_to_string cd (voice_profile_id_as_uuid i) in
      with_retry registry_error_traits env DEFAULT_RETRY None ''registry'' True
        (exchange (rpc_get_voice_profile client)
           (\<lambda>res. and_then (map_err (registry_map_status cd) res) (profile_of_response cd))
           \<lparr>vpq_voice_profile_id = id_str\<rparr>) w)"

definition RegistryGrpcAdapter ::
  "('w, 'z) adapter_env_scheme \<Rightarrow> codec \<Rightarrow> 'w RegistryClient \<Rightarrow> 'w RegistryPort" where
  "RegistryGrpcAdapter env cd client =
     \<lparr>resolve_snapshot = rg_resolve_snapshot env cd client,
      get_voice_profile = rg_get_voice_profile env cd client\<rparr>"

section \<open>Specification: the request and the policy of a call\<close>

datatype RegistryRequest = Rq_Resolve ResolveSnapshotRequest | Rq_Profile GetVoiceProfileRequest

fun registry_policy :: "RegistryCall \<Rightarrow> RetryConfig" where
  "registry_policy (ResolveSnapshot req) = REGISTRY_RESOLVE_RETRY"
| "registry_policy (GetVoiceProfile i) = DEFAULT_RETRY"

fun registry_grpc_request :: "(uuid \<Rightarrow> string) \<Rightarrow> RegistryCall \<Rightarrow> RegistryRequest" where
  "registry_grpc_request str (ResolveSnapshot req) =
     Rq_Resolve \<lparr>rsq_org_id = rs_org_id req, rsq_journey_version = rs_journey_version req\<rparr>"
| "registry_grpc_request str (GetVoiceProfile i) =
     Rq_Profile \<lparr>vpq_voice_profile_id = str (voice_profile_id_as_uuid i)\<rparr>"

definition journal_registry :: "'w RegistryClient \<Rightarrow> ('w \<times> RegistryRequest list) RegistryClient" where
  "journal_registry c =
     \<lparr>rpc_resolve_snapshot = record_call Rq_Resolve (rpc_resolve_snapshot c),
      rpc_get_voice_profile = record_call Rq_Profile (rpc_get_voice_profile c)\<rparr>"

lemma registry_map_status_retryable:
  "registry_is_retryable (registry_map_status cd s) \<longleftrightarrow> code s \<notin> set permanent_codes"
  by (cases "code s") (simp_all add: registry_map_status_def permanent_codes_def)


end
