(* ===== verification/Registry_Stub.thy ===== *)
theory Registry_Stub
  imports Port_Types
begin

text \<open>
  The in-memory Registry used by idle-mode deployments
  (\<^verbatim>\<open>engagement-hub-adapters/src/registry_stub.rs\<close>, feature \<^verbatim>\<open>registry-stub\<close>).
  The two \<^verbatim>\<open>HashMap\<close>s are partial functions; collecting an iterator of pairs into one
  inserts them in order, so a later fixture replaces an earlier one with its key. The operations
  touch no world and no metric.
\<close>

record RegistryStubAdapter =
  snapshots :: "string \<rightharpoonup> ResolvedSnapshot"
  profiles :: "string \<rightharpoonup> VoiceProfile"

text \<open>\<^verbatim>\<open>iter.collect::<HashMap<_, _>>()\<close>.\<close>

definition collect_map :: "('k \<times> 'v) list \<Rightarrow> 'k \<rightharpoonup> 'v" where
  "collect_map kvs = fold (\<lambda>(k, v) m. m(k \<mapsto> v)) kvs Map.empty"

definition stub_new :: "(uuid \<Rightarrow> string) \<Rightarrow> ResolvedSnapshot list \<Rightarrow> VoiceProfile list \<Rightarrow> RegistryStubAdapter" where
  "stub_new uuid_to_string snaps profs =
     \<lparr>snapshots = collect_map (map (\<lambda>s. (snap_journey_version s, s)) snaps),
      profiles = collect_map (map (\<lambda>p. (uuid_to_string (voice_profile_id_as_uuid (profile_id p)), p)) profs)\<rparr>"

definition with_default_fixtures :: "(uuid \<Rightarrow> string) \<Rightarrow> RegistryStubAdapter" where
  "with_default_fixtures uuid_to_string =
     stub_new uuid_to_string
       [\<lparr>snapshot_id = ''fixture-snap-v1'', snap_journey_version = ''v1-fixture''\<rparr>] []"

definition stub_resolve_snapshot ::
  "RegistryStubAdapter \<Rightarrow> ResolveSnapshotReq \<Rightarrow> (RegistryError, ResolvedSnapshot) result" where
  "stub_resolve_snapshot stub req =
     ok_or (Registry_Permanent
              (''stub: journey_version '' @ [CHR 39] @ rs_journey_version req @ [CHR 39] @ '' not found in fixtures''))
       (snapshots stub (rs_journey_version req))"

definition stub_get_voice_profile ::
  "(uuid \<Rightarrow> string) \<Rightarrow> RegistryStubAdapter \<Rightarrow> VoiceProfileId \<Rightarrow> (RegistryError, VoiceProfile) result" where
  "stub_get_voice_profile uuid_to_string stub i =
     ok_or (Registry_Permanent
              (''stub: voice_profile_id '' @ [CHR 39] @ voice_profile_id_to_string uuid_to_string i @ [CHR 39]
               @ '' not found in fixtures''))
       (profiles stub (uuid_to_string (voice_profile_id_as_uuid i)))"

definition stub_port :: "(uuid \<Rightarrow> string) \<Rightarrow> RegistryStubAdapter \<Rightarrow> 'w RegistryPort" where
  "stub_port uuid_to_string stub =
     \<lparr>resolve_snapshot = (\<lambda>req w. (w, [], Ret (stub_resolve_snapshot stub req))),
      get_voice_profile = (\<lambda>i w. (w, [], Ret (stub_get_voice_profile uuid_to_string stub i)))\<rparr>"

section \<open>What a lookup finds\<close>

lemma collect_map_append:
  "collect_map (xs @ [(k, v)]) = (collect_map xs)(k \<mapsto> v)"
  by (simp add: collect_map_def)

lemma collect_map_find:
  "collect_map (map (\<lambda>x. (key x, x)) xs) k = find (\<lambda>x. key x = k) (rev xs)"
proof (induction xs rule: rev_induct)
  case Nil
  then show ?case by (simp add: collect_map_def)
next
  case (snoc x xs)
  then show ?case by (auto simp: collect_map_append)
qed

text \<open>The stub answers from its fixtures: the last snapshot listed for the requested journey
  version, whatever the organisation, and the last profile listed for the id; a key with no fixture is a
  permanent error, so a caller never retries it. Printing a UUID must be injective for the second.\<close>

theorem stub_answers_last_fixture:
  assumes "inj uuid_to_string"
  shows "resolve_snapshot (stub_port uuid_to_string (stub_new uuid_to_string snaps profs)) req w =
      (w, [], Ret (case find (\<lambda>s. snap_journey_version s = rs_journey_version req) (rev snaps) of
                     Some s \<Rightarrow> Inr s
                   | None \<Rightarrow> Inl (Registry_Permanent (''stub: journey_version '' @ [CHR 39] @
                        rs_journey_version req @ [CHR 39] @ '' not found in fixtures'')))) \<and>
    get_voice_profile (stub_port uuid_to_string (stub_new uuid_to_string snaps profs)) i w =
      (w, [], Ret (case find (\<lambda>p. profile_id p = i) (rev profs) of
                     Some p \<Rightarrow> Inr p
                   | None \<Rightarrow> Inl (Registry_Permanent (''stub: voice_profile_id '' @ [CHR 39] @
                        uuid_to_string (voice_profile_id_as_uuid i) @ [CHR 39] @ '' not found in fixtures''))))"
proof -
  have eq: "uuid_to_string (voice_profile_id_as_uuid (profile_id p)) =
      uuid_to_string (voice_profile_id_as_uuid i) \<longleftrightarrow> profile_id p = i" for p
    using assms by (cases "profile_id p"; cases i) (auto dest: injD)
  show ?thesis
    by (simp add: stub_port_def stub_resolve_snapshot_def stub_get_voice_profile_def stub_new_def
        voice_profile_id_to_string_def eq
        collect_map_find [of snap_journey_version]
        collect_map_find [of "\<lambda>p. uuid_to_string (voice_profile_id_as_uuid (profile_id p))"]
        split: option.split)
qed

theorem stub_answers_last_fixture_witness:
  "resolve_snapshot (stub_port (\<lambda>u. replicate (unat u) CHR ''1'')
       (with_default_fixtures (\<lambda>u. replicate (unat u) CHR ''1'')))
     \<lparr>rs_org_id = ''o'', rs_journey_version = ''v1-fixture''\<rparr> () =
     ((), [], Ret (Inr \<lparr>snapshot_id = ''fixture-snap-v1'', snap_journey_version = ''v1-fixture''\<rparr>))"
proof -
  have "inj (\<lambda>u :: uuid. replicate (unat u) CHR ''1'')"
    by (rule injI) (metis length_replicate word_unat_eq_iff)
  from stub_answers_last_fixture [OF this,
      of "[\<lparr>snapshot_id = ''fixture-snap-v1'', snap_journey_version = ''v1-fixture''\<rparr>]" "[]"
         "\<lparr>rs_org_id = ''o'', rs_journey_version = ''v1-fixture''\<rparr>" "()"]
  show ?thesis by (simp add: with_default_fixtures_def)
qed

end
