(* ===== verification/Journey_Manager_Grpc.thy ===== *)
theory Journey_Manager_Grpc
  imports Adapter_Calls
begin

text \<open>
  The Journey Manager adapter over gRPC
  (\<^verbatim>\<open>engagement-hub-adapters/src/journey_manager_grpc.rs\<close>) and the messages of
  \<^verbatim>\<open>proto/revocall/journey/v1/journey_manager.proto\<close>. The generated client is the parameter
  \<open>JourneyManagerClient\<close>. The lemmas show what each operation sends and how often, how a
  cancellation behaves under failures, and how answers are read.
\<close>

section \<open>The messages\<close>

record CreateExecutionRequest =
  ceq_request_id :: string
  ceq_journey_version :: string
  ceq_org_id :: string
  ceq_engagement_id :: string

record ExecutionRefProto =
  erp_id :: string

record CreateExecutionResponse =
  execution_ref :: "ExecutionRefProto option"

datatype CancelReasonProto =
    CANCEL_REASON_UNSPECIFIED
  | CANCEL_REASON_COMPENSATE_FAILED_BIND
  | CANCEL_REASON_USER_REQUESTED
  | CANCEL_REASON_ORCHESTRATOR_TIMEOUT
  | CANCEL_REASON_ADMIN_CANCELLED

fun cancel_reason_as_i32 :: "CancelReasonProto \<Rightarrow> i32" where
  "cancel_reason_as_i32 CANCEL_REASON_UNSPECIFIED = 0"
| "cancel_reason_as_i32 CANCEL_REASON_COMPENSATE_FAILED_BIND = 1"
| "cancel_reason_as_i32 CANCEL_REASON_USER_REQUESTED = 2"
| "cancel_reason_as_i32 CANCEL_REASON_ORCHESTRATOR_TIMEOUT = 3"
| "cancel_reason_as_i32 CANCEL_REASON_ADMIN_CANCELLED = 4"

record CancelExecutionRequest =
  cxq_request_id :: string
  cxq_execution_ref :: "ExecutionRefProto option"
  cxq_reason :: i32

record GetExecutionTimelineRequest =
  etq_request_id :: string
  etq_execution_ref :: "ExecutionRefProto option"
  etq_after_sequence :: "u64 option"

record TimelineEventProto =
  tep_sequence :: u64
  tep_kind :: string

record GetExecutionTimelineResponse =
  etr_events :: "TimelineEventProto list"

record 'w JourneyManagerClient =
  rpc_create_execution :: "('w, CreateExecutionRequest, Status, CreateExecutionResponse) call"
  rpc_cancel_execution :: "('w, CancelExecutionRequest, Status, unit) call"
  rpc_get_execution_timeline :: "('w, GetExecutionTimelineRequest, Status, GetExecutionTimelineResponse) call"

section \<open>Helpers\<close>

definition jm_map_status :: "codec \<Rightarrow> Status \<Rightarrow> JmError" where
  "jm_map_status cd s =
     (case code s of
        NotFound \<Rightarrow> Jm_Permanent (code_debug cd (code s) @ '': '' @ status_message s)
      | InvalidArgument \<Rightarrow> Jm_Permanent (code_debug cd (code s) @ '': '' @ status_message s)
      | FailedPrecondition \<Rightarrow> Jm_Permanent (code_debug cd (code s) @ '': '' @ status_message s)
      | AlreadyExists \<Rightarrow> Jm_Permanent (code_debug cd (code s) @ '': '' @ status_message s)
      | PermissionDenied \<Rightarrow> Jm_Permanent (code_debug cd (code s) @ '': '' @ status_message s)
      | Unauthenticated \<Rightarrow> Jm_Permanent (code_debug cd (code s) @ '': '' @ status_message s)
      | Unimplemented \<Rightarrow> Jm_Permanent (code_debug cd (code s) @ '': '' @ status_message s)
      | OutOfRange \<Rightarrow> Jm_Permanent (code_debug cd (code s) @ '': '' @ status_message s)
      | Cancelled \<Rightarrow> Jm_Permanent (code_debug cd (code s) @ '': '' @ status_message s)
      | Code_Unavailable \<Rightarrow> Jm_Unavailable
      | _ \<Rightarrow> Jm_Transient (code_debug cd (code s) @ '': '' @ status_message s))"

fun cancel_reason_to_proto :: "CancelReason \<Rightarrow> CancelReasonProto" where
  "cancel_reason_to_proto CompensateFailedBind = CANCEL_REASON_COMPENSATE_FAILED_BIND"
| "cancel_reason_to_proto UserRequested = CANCEL_REASON_USER_REQUESTED"
| "cancel_reason_to_proto OrchestratorTimeout = CANCEL_REASON_ORCHESTRATOR_TIMEOUT"
| "cancel_reason_to_proto AdminCancelled = CANCEL_REASON_ADMIN_CANCELLED"

definition execution_of_response :: "codec \<Rightarrow> CreateExecutionResponse \<Rightarrow> (JmError, ExecutionRef) result" where
  "execution_of_response cd resp =
     and_then (ok_or (Jm_Permanent ''journey_manager: empty execution_ref'') (execution_ref resp)) (\<lambda>er.
     and_then (map_err (\<lambda>e. Jm_Permanent (''bad execution_ref uuid: '' @ e)) (parse_uuid cd (erp_id er))) (\<lambda>uid.
     Inr \<lparr>execution_id = uid\<rparr>))"

definition timeline_of_response :: "GetExecutionTimelineResponse \<Rightarrow> Timeline" where
  "timeline_of_response resp =
     \<lparr>timeline_events =
        map (\<lambda>e. \<lparr>event_sequence = tep_sequence e, event_kind = tep_kind e\<rparr>) (etr_events resp)\<rparr>"

section \<open>The operations\<close>

definition jmg_create_execution ::
  "('w, 'z) adapter_env_scheme \<Rightarrow> codec \<Rightarrow> 'w JourneyManagerClient \<Rightarrow> CreateExecutionReq
     \<Rightarrow> ('w, JmError, ExecutionRef) port_call" where
  "jmg_create_execution env cd client req w =
     (case env_new_v4 env w of (u, w0) \<Rightarrow>
       let request_id = uuid_to_string cd u in
       with_retry jm_error_traits env WRITE_RETRY None ''journey_manager'' True
         (exchange (rpc_create_execution client)
            (\<lambda>res. and_then (map_err (jm_map_status cd) res) (execution_of_response cd))
            \<lparr>ceq_request_id = request_id,
             ceq_journey_version = ce_journey_version req,
             ceq_org_id = ce_org_id req,
             ceq_engagement_id = engagement_id_to_string (uuid_to_string cd) (ce_engagement_id req)\<rparr>) w0)"

definition jmg_cancel_execution ::
  "('w, 'z) adapter_env_scheme \<Rightarrow> codec \<Rightarrow> 'w JourneyManagerClient \<Rightarrow> ExecutionRef \<Rightarrow> CancelReason
     \<Rightarrow> ('w, JmError, unit) port_call" where
  "jmg_cancel_execution env cd client ref reason w =
     (case env_new_v4 env w of (u, w0) \<Rightarrow>
       let request_id = uuid_to_string cd u;
           ref_id = uuid_to_string cd (execution_id ref);
           reason_proto = cancel_reason_to_proto reason in
       with_retry jm_error_traits env CLEANUP_RETRY None ''journey_manager'' True
         (exchange (rpc_cancel_execution client)
            (\<lambda>res. map_ok (\<lambda>_. ()) (map_err (jm_map_status cd) res))
            \<lparr>cxq_request_id = request_id,
             cxq_execution_ref = Some \<lparr>erp_id = ref_id\<rparr>,
             cxq_reason = cancel_reason_as_i32 reason_proto\<rparr>) w0)"

definition jmg_get_execution_timeline ::
  "('w, 'z) adapter_env_scheme \<Rightarrow> codec \<Rightarrow> 'w JourneyManagerClient \<Rightarrow> ExecutionRef \<Rightarrow> TimelineOpts
     \<Rightarrow> ('w, JmError, Timeline) port_call" where
  "jmg_get_execution_timeline env cd client ref opts w =
     (case env_new_v4 env w of (u, w0) \<Rightarrow>
       let request_id = uuid_to_string cd u;
           ref_id = uuid_to_string cd (execution_id ref);
           after = after_sequence opts in
       with_retry jm_error_traits env DEFAULT_RETRY None ''journey_manager'' True
         (exchange (rpc_get_execution_timeline client)
            (\<lambda>res. map_ok timeline_of_response (map_err (jm_map_status cd) res))
            \<lparr>etq_request_id = request_id,
             etq_execution_ref = Some \<lparr>erp_id = ref_id\<rparr>,
             etq_after_sequence = after\<rparr>) w0)"

definition JourneyManagerGrpcAdapter ::
  "('w, 'z) adapter_env_scheme \<Rightarrow> codec \<Rightarrow> 'w JourneyManagerClient \<Rightarrow> 'w JourneyManagerPort" where
  "JourneyManagerGrpcAdapter env cd client =
     \<lparr>create_execution = jmg_create_execution env cd client,
      cancel_execution = jmg_cancel_execution env cd client,
      get_execution_timeline = jmg_get_execution_timeline env cd client\<rparr>"

section \<open>Specification: the request and the policy of a call\<close>

datatype JmRequest =
    Rq_CreateExecution CreateExecutionRequest
  | Rq_CancelExecution CancelExecutionRequest
  | Rq_Timeline GetExecutionTimelineRequest

fun jm_policy :: "JmCall \<Rightarrow> RetryConfig" where
  "jm_policy (CreateExecution req) = WRITE_RETRY"
| "jm_policy (CancelExecution ref reason) = CLEANUP_RETRY"
| "jm_policy (GetExecutionTimeline ref opts) = DEFAULT_RETRY"

text \<open>The wire number of a reason, counted from one: zero is the unspecified reason.\<close>

fun reason_number :: "CancelReason \<Rightarrow> i32" where
  "reason_number CompensateFailedBind = 1"
| "reason_number UserRequested = 2"
| "reason_number OrchestratorTimeout = 3"
| "reason_number AdminCancelled = 4"

fun jm_grpc_request :: "(uuid \<Rightarrow> string) \<Rightarrow> uuid \<Rightarrow> JmCall \<Rightarrow> JmRequest" where
  "jm_grpc_request str rid (CreateExecution req) =
     Rq_CreateExecution
       \<lparr>ceq_request_id = str rid, ceq_journey_version = ce_journey_version req, ceq_org_id = ce_org_id req,
        ceq_engagement_id = str (engagement_id_as_uuid (ce_engagement_id req))\<rparr>"
| "jm_grpc_request str rid (CancelExecution ref reason) =
     Rq_CancelExecution
       \<lparr>cxq_request_id = str rid, cxq_execution_ref = Some \<lparr>erp_id = str (execution_id ref)\<rparr>,
        cxq_reason = reason_number reason\<rparr>"
| "jm_grpc_request str rid (GetExecutionTimeline ref opts) =
     Rq_Timeline
       \<lparr>etq_request_id = str rid, etq_execution_ref = Some \<lparr>erp_id = str (execution_id ref)\<rparr>,
        etq_after_sequence = after_sequence opts\<rparr>"

definition journal_jm :: "'w JourneyManagerClient \<Rightarrow> ('w \<times> JmRequest list) JourneyManagerClient" where
  "journal_jm c =
     \<lparr>rpc_create_execution = record_call Rq_CreateExecution (rpc_create_execution c),
      rpc_cancel_execution = record_call Rq_CancelExecution (rpc_cancel_execution c),
      rpc_get_execution_timeline = record_call Rq_Timeline (rpc_get_execution_timeline c)\<rparr>"

lemmas jmg_defs =
  jmg_create_execution_def jmg_cancel_execution_def jmg_get_execution_timeline_def

lemma reason_number_proto: "cancel_reason_as_i32 (cancel_reason_to_proto reason) = reason_number reason"
  by (cases reason) simp_all

text \<open>C28. For every operation of the Journey Manager adapter and every server behaviour: the call
  returns, and the requests it sends are one message, with one freshly minted request id on every
  attempt as the service's contract asks, sent at least once and at most as often as the operation's
  policy allows; a retryable error is answered only after that many.\<close>

theorem jm_grpc_sends:
  "sends_only jm_error_traits (jm_policy call)
     (jm_grpc_request (uuid_to_string cd) (fst (env_new_v4 env w)) call)
     (run_jm (JourneyManagerGrpcAdapter (journal_env env) cd (journal_jm client)) call (w, []))
     (run_jm (JourneyManagerGrpcAdapter env cd client) call w)"
  by (cases call)
    (simp_all add: JourneyManagerGrpcAdapter_def jmg_defs journal_jm_def split_beta sends_only_run
      config_backoff_fits engagement_id_to_string_def reason_number_proto)

section \<open>Cancelling an execution\<close>

lemma jm_map_status_retryable:
  "jm_is_retryable (jm_map_status cd s) \<longleftrightarrow> code s \<notin> set permanent_codes"
  by (cases "code s") (simp_all add: jm_map_status_def permanent_codes_def)

text \<open>Cancelling an execution: a server that fails up to four times with a code that is not
  permanent and then acknowledges is acknowledged to the caller; a fifth such failure, or the first
  permanent one, is the error returned. Whatever follows in the server's script is left untouched.\<close>

theorem jmg_cancel_outcomes:
  assumes "\<forall>s \<in> set failures. code s \<notin> set permanent_codes" "length failures < 5"
    and "code bad \<in> set permanent_codes \<or> length failures = 4"
  shows "jmg_cancel_execution (script_env u) cd (client\<lparr>rpc_cancel_execution := script_call\<rparr>) ref reason
      (map (\<lambda>s. Completed (Inl s)) failures @ Completed (Inr ()) # rest) =
      (rest, retry_metrics ''journey_manager'' (length failures), Ret (Inr ())) \<and>
    jmg_cancel_execution (script_env u) cd (client\<lparr>rpc_cancel_execution := script_call\<rparr>) ref reason
      (map (\<lambda>s. Completed (Inl s)) failures @ Completed (Inl bad) # rest) =
      (rest, retry_metrics ''journey_manager'' (length failures), Ret (Inl (jm_map_status cd bad)))"
proof -
  have run: "jmg_cancel_execution (script_env u) cd (client\<lparr>rpc_cancel_execution := script_call\<rparr>) ref reason
      (map (\<lambda>s. Completed (Inl s)) failures @ Completed res # rest) =
      (rest, retry_metrics ''journey_manager'' (length failures), Ret (map_err (jm_map_status cd) res))"
    if "res = Inr () \<or> res = Inl bad" for res
    unfolding jmg_cancel_execution_def
    by (simp, subst with_retry_script [where n = "length failures"])
       (use assms that in \<open>auto simp: config_backoff_fits nth_append jm_map_status_retryable metrics_ops_def\<close>)
  show ?thesis using run [of "Inr ()"] run [of "Inl bad"] by simp
qed

definition script_jm :: "(Status, unit) result attempt list JourneyManagerClient" where
  "script_jm =
     \<lparr>rpc_create_execution = (\<lambda>r w. (w, Completed (Inr \<lparr>execution_ref = None\<rparr>))),
      rpc_cancel_execution = script_call,
      rpc_get_execution_timeline = (\<lambda>r w. (w, Completed (Inr \<lparr>etr_events = []\<rparr>)))\<rparr>"

theorem jmg_cancel_outcomes_witness:
  "jmg_cancel_execution (script_env 1) \<lparr>uuid_to_string = (\<lambda>u. ''u''), parse_uuid = Inl, code_debug = (\<lambda>c. ''c'')\<rparr>
      (script_jm\<lparr>rpc_cancel_execution := script_call\<rparr>) \<lparr>execution_id = 4\<rparr> UserRequested
      [Completed (Inl \<lparr>code = Aborted, status_message = ''busy''\<rparr>), Completed (Inr ()), Completed (Inr ())] =
      ([Completed (Inr ())], [inc_by retries_total [''journey_manager'', ''1''] 1], Ret (Inr ())) \<and>
   jmg_cancel_execution (script_env 1) \<lparr>uuid_to_string = (\<lambda>u. ''u''), parse_uuid = Inl, code_debug = (\<lambda>c. ''c'')\<rparr>
      (script_jm\<lparr>rpc_cancel_execution := script_call\<rparr>) \<lparr>execution_id = 4\<rparr> UserRequested
      [Completed (Inl \<lparr>code = Aborted, status_message = ''busy''\<rparr>),
       Completed (Inl \<lparr>code = NotFound, status_message = ''gone''\<rparr>), Completed (Inr ())] =
      ([Completed (Inr ())], [inc_by retries_total [''journey_manager'', ''1''] 1],
       Ret (Inl (Jm_Permanent ''c: gone'')))"
  using jmg_cancel_outcomes [of "[\<lparr>code = Aborted, status_message = ''busy''\<rparr>]"
      "\<lparr>code = NotFound, status_message = ''gone''\<rparr>" 1
      "\<lparr>uuid_to_string = (\<lambda>u. ''u''), parse_uuid = Inl, code_debug = (\<lambda>c. ''c'')\<rparr>" script_jm
      "\<lparr>execution_id = 4\<rparr>" UserRequested "[Completed (Inr ())]"]
  by (simp add: permanent_codes_def jm_map_status_def retry_metrics_def)

end
