(* ===== verification/Http_Calls.thy ===== *)
theory Http_Calls
  imports Adapter_Calls
begin

text \<open>
  What the three HTTP adapters use of \<^verbatim>\<open>reqwest\<close>: a request is its method, URL, headers,
  query pairs and JSON body; a response has a status and an opaque body that is read as text or
  decoded as JSON. Sending, reading and decoding are parameters, as are the text of a status and the
  percent-encoding of the \<^verbatim>\<open>urlencoding\<close> crate; the status classes are those of
  \<^verbatim>\<open>http::StatusCode\<close>.
\<close>

datatype http_method = GET | POST | PATCH | DELETE

record 'j http_request =
  req_method :: http_method
  req_url :: string
  req_headers :: "(string \<times> string) list"
  req_query :: "(string \<times> string) list"
  req_json :: "'j option"

record 'b http_response =
  resp_status :: nat
  resp_body :: 'b

type_synonym ('w, 'j, 'b) http_client = "('w, 'j http_request, string, 'b http_response) call"

record 'b http_lib = codec +
  status_display :: "nat \<Rightarrow> string"
  urlencode :: "string \<Rightarrow> string"
  body_text :: "'b \<Rightarrow> (string, string) result"

text \<open>The struct every HTTP adapter is: a client and a base URL.\<close>

record ('w, 'j, 'b) http_adapter =
  http_send :: "('w, 'j, 'b) http_client"
  base_url :: string

definition http_adapter_new :: "('w, 'j, 'b) http_client \<Rightarrow> string \<Rightarrow> ('w, 'j, 'b) http_adapter" where
  "http_adapter_new client url = \<lparr>http_send = client, base_url = url\<rparr>"

definition is_success :: "nat \<Rightarrow> bool" where
  "is_success s = (200 \<le> s \<and> s < 300)"

definition is_client_error :: "nat \<Rightarrow> bool" where
  "is_client_error s = (400 \<le> s \<and> s < 500)"

fun unwrap_or_default :: "(string, string) result \<Rightarrow> string" where
  "unwrap_or_default (Inl e) = ''''"
| "unwrap_or_default (Inr t) = t"

text \<open>
  The block each operation runs on the outcome of \<^verbatim>\<open>send().await\<close>: a transport error is
  mapped by \<open>on_transport\<close>, a success response is handed to \<open>on_success\<close>, any other
  response is mapped from its status and its text.
\<close>

definition read_response ::
  "('b, 'z) http_lib_scheme \<Rightarrow> (string \<Rightarrow> 'e) \<Rightarrow> (nat \<Rightarrow> string \<Rightarrow> 'e) \<Rightarrow> ('b \<Rightarrow> ('e, 't) result)
     \<Rightarrow> (string, 'b http_response) result \<Rightarrow> ('e, 't) result" where
  "read_response lib on_transport map_http_status on_success res =
     (case res of
        Inl e \<Rightarrow> Inl (on_transport e)
      | Inr resp \<Rightarrow>
          if is_success (resp_status resp) then on_success (resp_body resp)
          else Inl (map_http_status (resp_status resp)
                      (unwrap_or_default (body_text lib (resp_body resp)))))"

text \<open>\<^verbatim>\<open>if let Some(v) = field { qp.push((key, v)) }\<close>.\<close>

fun push_opt :: "string \<Rightarrow> string option \<Rightarrow> (string \<times> string) list \<Rightarrow> (string \<times> string) list" where
  "push_opt k None qp = qp"
| "push_opt k (Some v) qp = qp @ [(k, v)]"

definition show_u32 :: "u32 \<Rightarrow> string" where
  "show_u32 n = show_nat (unat n)"

definition journal_http :: "('w, 'j, 'b) http_adapter \<Rightarrow> ('w \<times> 'j http_request list, 'j, 'b) http_adapter" where
  "journal_http a = \<lparr>http_send = record_call (\<lambda>r. r) (http_send a), base_url = base_url a\<rparr>"

lemma journal_http_simps [simp]:
  "http_send (journal_http a) = record_call (\<lambda>r. r) (http_send a)"
  "base_url (journal_http a) = base_url a"
  by (simp_all add: journal_http_def)

lemmas sends_only_http = sends_only_run [where tag = "\<lambda>r. r"]

lemma push_opt_append: "push_opt k ov qp = qp @ push_opt k ov []"
  by (cases ov) simp_all

lemma keys_push_opt: "fst ` set (push_opt k ov []) \<subseteq> {k}"
  by (cases ov) simp_all

lemma map_of_push_opt: "map_of (push_opt k ov [] @ qp) k' = (if k' = k \<and> ov \<noteq> None then ov else map_of qp k')"
  by (cases ov) simp_all

lemma client_error_not_success: "is_client_error s \<Longrightarrow> \<not> is_success s"
  by (simp add: is_client_error_def is_success_def)

text \<open>A response that is not a success ends in the mapped error, and a success response in whatever
  the decoder makes of it.\<close>

lemma read_response_simps [simp]:
  "read_response lib tr ms ok (Inl e) = Inl (tr e)"
  "is_success s \<Longrightarrow> read_response lib tr ms ok (Inr \<lparr>resp_status = s, resp_body = b\<rparr>) = ok b"
  "\<not> is_success s \<Longrightarrow> read_response lib tr ms ok (Inr \<lparr>resp_status = s, resp_body = b\<rparr>) =
     Inl (ms s (unwrap_or_default (body_text lib b)))"
  by (simp_all add: read_response_def)

end
