(* ===== verification/Voice_Manager_Grpc.thy ===== *)
theory Voice_Manager_Grpc
  imports Adapter_Calls
begin

text \<open>
  The Voice Manager adapter over gRPC
  (\<^verbatim>\<open>engagement-hub-adapters/src/voice_manager_grpc.rs\<close>) and the messages of
  \<^verbatim>\<open>proto/revocall/voice/v1/voice_manager.proto\<close> it sends and reads.

  The generated client is the parameter \<open>VoiceManagerClient\<close>, one call per RPC of the
  service. The lemmas show which request each operation sends and how often, how each answer is
  read, and which status codes are retried.
\<close>

section \<open>The messages\<close>

record StartVoiceSessionRequest =
  svq_request_id :: string
  svq_engagement_id :: string
  svq_org_id :: string

record VoiceSessionRefProto =
  vsr_id :: string

record StartVoiceSessionResponse =
  session_ref :: "VoiceSessionRefProto option"

datatype StopModeProto = STOP_MODE_UNSPECIFIED | STOP_MODE_ABORT | STOP_MODE_GRACEFUL

fun stop_mode_as_i32 :: "StopModeProto \<Rightarrow> i32" where
  "stop_mode_as_i32 STOP_MODE_UNSPECIFIED = 0"
| "stop_mode_as_i32 STOP_MODE_ABORT = 1"
| "stop_mode_as_i32 STOP_MODE_GRACEFUL = 2"

record StopVoiceSessionRequest =
  stq_request_id :: string
  stq_session_ref :: "VoiceSessionRefProto option"
  stq_mode :: i32

record IssueTestTokenRequest =
  itq_request_id :: string
  itq_org_id :: string

record IssueTestTokenResponse =
  itr_token :: string

record TelephonyProto =
  tp_id :: string
  tp_org_id :: string
  tp_phone_number :: string

record CreateTelephonyRequest =
  ctq_request_id :: string
  ctq_org_id :: string
  ctq_phone_number :: string

record TelephonyResponse =
  tr_telephony :: "TelephonyProto option"

record ListTelephoniesRequest =
  ltq_request_id :: string
  ltq_org_id :: string
  ltq_page_token :: "string option"

record ListTelephoniesResponse =
  telephonies :: "TelephonyProto list"

record GetTelephonyRequest =
  gtq_request_id :: string
  gtq_telephony_id :: string

record UpdateTelephonyRequest =
  utq_request_id :: string
  utq_telephony_id :: string
  utq_phone_number :: string

record DeleteTelephonyRequest =
  dtq_request_id :: string
  dtq_telephony_id :: string
  dtq_usage :: string

text \<open>The client. The responses of create, get and update have the same shape.\<close>

record 'w VoiceManagerClient =
  rpc_start_voice_session :: "('w, StartVoiceSessionRequest, Status, StartVoiceSessionResponse) call"
  rpc_stop_voice_session :: "('w, StopVoiceSessionRequest, Status, unit) call"
  rpc_issue_test_token :: "('w, IssueTestTokenRequest, Status, IssueTestTokenResponse) call"
  rpc_create_telephony :: "('w, CreateTelephonyRequest, Status, TelephonyResponse) call"
  rpc_list_telephonies :: "('w, ListTelephoniesRequest, Status, ListTelephoniesResponse) call"
  rpc_get_telephony :: "('w, GetTelephonyRequest, Status, TelephonyResponse) call"
  rpc_update_telephony :: "('w, UpdateTelephonyRequest, Status, TelephonyResponse) call"
  rpc_delete_telephony :: "('w, DeleteTelephonyRequest, Status, unit) call"

section \<open>Helpers\<close>

definition vm_map_status :: "codec \<Rightarrow> Status \<Rightarrow> VmError" where
  "vm_map_status cd s =
     (case code s of
        NotFound \<Rightarrow> Vm_Permanent (code_debug cd (code s) @ '': '' @ status_message s)
      | InvalidArgument \<Rightarrow> Vm_Permanent (code_debug cd (code s) @ '': '' @ status_message s)
      | FailedPrecondition \<Rightarrow> Vm_Permanent (code_debug cd (code s) @ '': '' @ status_message s)
      | AlreadyExists \<Rightarrow> Vm_Permanent (code_debug cd (code s) @ '': '' @ status_message s)
      | PermissionDenied \<Rightarrow> Vm_Permanent (code_debug cd (code s) @ '': '' @ status_message s)
      | Unauthenticated \<Rightarrow> Vm_Permanent (code_debug cd (code s) @ '': '' @ status_message s)
      | Unimplemented \<Rightarrow> Vm_Permanent (code_debug cd (code s) @ '': '' @ status_message s)
      | OutOfRange \<Rightarrow> Vm_Permanent (code_debug cd (code s) @ '': '' @ status_message s)
      | Cancelled \<Rightarrow> Vm_Permanent (code_debug cd (code s) @ '': '' @ status_message s)
      | Code_Unavailable \<Rightarrow> Vm_Unavailable
      | _ \<Rightarrow> Vm_Transient (code_debug cd (code s) @ '': '' @ status_message s))"

fun stop_mode_to_proto :: "StopMode \<Rightarrow> StopModeProto" where
  "stop_mode_to_proto Abort = STOP_MODE_ABORT"
| "stop_mode_to_proto Graceful = STOP_MODE_GRACEFUL"

definition telephony_from_proto :: "codec \<Rightarrow> TelephonyProto \<Rightarrow> (VmError, Telephony) result" where
  "telephony_from_proto cd t =
     and_then (map_err (\<lambda>e. Vm_Permanent (''bad telephony id: '' @ e))
                (map_ok TelephonyId (parse_uuid cd (tp_id t))))
       (\<lambda>i. Inr \<lparr>telephony_id = i, telephony_org_id = tp_org_id t, phone_number = tp_phone_number t\<rparr>)"

text \<open>\<^verbatim>\<open>response.telephony.ok_or_else(...)?\<close> followed by
  \<^verbatim>\<open>telephony_from_proto\<close>, the closure three operations share.\<close>

definition telephony_of_response :: "codec \<Rightarrow> TelephonyResponse \<Rightarrow> (VmError, Telephony) result" where
  "telephony_of_response cd resp =
     and_then (ok_or (Vm_Permanent ''voice_manager: empty telephony'') (tr_telephony resp))
       (telephony_from_proto cd)"

definition session_of_response :: "codec \<Rightarrow> StartVoiceSessionResponse \<Rightarrow> (VmError, VoiceSessionRef) result" where
  "session_of_response cd resp =
     and_then (ok_or (Vm_Permanent ''voice_manager: empty session_ref'') (session_ref resp)) (\<lambda>sr.
     and_then (map_err (\<lambda>e. Vm_Permanent (''bad session_ref uuid: '' @ e)) (parse_uuid cd (vsr_id sr))) (\<lambda>uid.
     Inr \<lparr>session_id = uid\<rparr>))"

section \<open>The operations\<close>

definition vmg_start_voice_session ::
  "('w, 'z) adapter_env_scheme \<Rightarrow> codec \<Rightarrow> 'w VoiceManagerClient \<Rightarrow> StartVoiceSessionReq
     \<Rightarrow> ('w, VmError, VoiceSessionRef) port_call" where
  "vmg_start_voice_session env cd client req w =
     (case env_new_v4 env w of (u, w0) \<Rightarrow>
       let request_id = uuid_to_string cd u in
       with_retry vm_error_traits env WRITE_RETRY None ''voice_manager'' True
         (exchange (rpc_start_voice_session client)
            (\<lambda>res. and_then (map_err (vm_map_status cd) res) (session_of_response cd))
            \<lparr>svq_request_id = request_id,
             svq_engagement_id = engagement_id_to_string (uuid_to_string cd) (sv_engagement_id req),
             svq_org_id = sv_org_id req\<rparr>) w0)"

definition vmg_stop_voice_session ::
  "('w, 'z) adapter_env_scheme \<Rightarrow> codec \<Rightarrow> 'w VoiceManagerClient \<Rightarrow> VoiceSessionRef \<Rightarrow> StopMode
     \<Rightarrow> ('w, VmError, unit) port_call" where
  "vmg_stop_voice_session env cd client ref mode w =
     (case env_new_v4 env w of (u, w0) \<Rightarrow>
       let request_id = uuid_to_string cd u;
           ref_id = uuid_to_string cd (session_id ref);
           mode_proto = stop_mode_to_proto mode;
           policy = (case mode of Abort \<Rightarrow> CLEANUP_RETRY | Graceful \<Rightarrow> GRACEFUL_STOP_RETRY) in
       with_retry vm_error_traits env policy None ''voice_manager'' True
         (exchange (rpc_stop_voice_session client)
            (\<lambda>res. map_ok (\<lambda>_. ()) (map_err (vm_map_status cd) res))
            \<lparr>stq_request_id = request_id,
             stq_session_ref = Some \<lparr>vsr_id = ref_id\<rparr>,
             stq_mode = stop_mode_as_i32 mode_proto\<rparr>) w0)"

definition vmg_issue_test_token ::
  "('w, 'z) adapter_env_scheme \<Rightarrow> codec \<Rightarrow> 'w VoiceManagerClient \<Rightarrow> IssueTestTokenReq
     \<Rightarrow> ('w, VmError, TestToken) port_call" where
  "vmg_issue_test_token env cd client req w =
     (case env_new_v4 env w of (u, w0) \<Rightarrow>
       let request_id = uuid_to_string cd u in
       with_retry vm_error_traits env DEFAULT_RETRY None ''voice_manager'' True
         (exchange (rpc_issue_test_token client)
            (\<lambda>res. map_ok (\<lambda>resp. \<lparr>token = itr_token resp\<rparr>) (map_err (vm_map_status cd) res))
            \<lparr>itq_request_id = request_id, itq_org_id = it_org_id req\<rparr>) w0)"

definition vmg_create_telephony ::
  "('w, 'z) adapter_env_scheme \<Rightarrow> codec \<Rightarrow> 'w VoiceManagerClient \<Rightarrow> CreateTelephonyReq
     \<Rightarrow> ('w, VmError, Telephony) port_call" where
  "vmg_create_telephony env cd client req w =
     (case env_new_v4 env w of (u, w0) \<Rightarrow>
       let request_id = uuid_to_string cd u in
       with_retry vm_error_traits env WRITE_RETRY None ''voice_manager'' True
         (exchange (rpc_create_telephony client)
            (\<lambda>res. and_then (map_err (vm_map_status cd) res) (telephony_of_response cd))
            \<lparr>ctq_request_id = request_id, ctq_org_id = ct_org_id req,
             ctq_phone_number = ct_phone_number req\<rparr>) w0)"

definition vmg_list_telephonies ::
  "('w, 'z) adapter_env_scheme \<Rightarrow> codec \<Rightarrow> 'w VoiceManagerClient \<Rightarrow> ListTelephoniesReq
     \<Rightarrow> ('w, VmError, Telephony list) port_call" where
  "vmg_list_telephonies env cd client req w =
     (case env_new_v4 env w of (u, w0) \<Rightarrow>
       let request_id = uuid_to_string cd u in
       with_retry vm_error_traits env DEFAULT_RETRY None ''voice_manager'' True
         (exchange (rpc_list_telephonies client)
            (\<lambda>res. and_then (map_err (vm_map_status cd) res)
                    (\<lambda>resp. collect_results (telephony_from_proto cd) (telephonies resp)))
            \<lparr>ltq_request_id = request_id, ltq_org_id = lt_org_id req,
             ltq_page_token = page_token req\<rparr>) w0)"

definition vmg_get_telephony ::
  "('w, 'z) adapter_env_scheme \<Rightarrow> codec \<Rightarrow> 'w VoiceManagerClient \<Rightarrow> TelephonyId
     \<Rightarrow> ('w, VmError, Telephony) port_call" where
  "vmg_get_telephony env cd client i w =
     (case env_new_v4 env w of (u, w0) \<Rightarrow>
       let request_id = uuid_to_string cd u;
           tid = uuid_to_string cd (telephony_id_as_uuid i) in
       with_retry vm_error_traits env DEFAULT_RETRY None ''voice_manager'' True
         (exchange (rpc_get_telephony client)
            (\<lambda>res. and_then (map_err (vm_map_status cd) res) (telephony_of_response cd))
            \<lparr>gtq_request_id = request_id, gtq_telephony_id = tid\<rparr>) w0)"

definition vmg_update_telephony ::
  "('w, 'z) adapter_env_scheme \<Rightarrow> codec \<Rightarrow> 'w VoiceManagerClient \<Rightarrow> UpdateTelephonyReq
     \<Rightarrow> ('w, VmError, Telephony) port_call" where
  "vmg_update_telephony env cd client req w =
     (case env_new_v4 env w of (u, w0) \<Rightarrow>
       let request_id = uuid_to_string cd u;
           tid = uuid_to_string cd (telephony_id_as_uuid (ut_id req)) in
       with_retry vm_error_traits env WRITE_RETRY None ''voice_manager'' True
         (exchange (rpc_update_telephony client)
            (\<lambda>res. and_then (map_err (vm_map_status cd) res) (telephony_of_response cd))
            \<lparr>utq_request_id = request_id, utq_telephony_id = tid,
             utq_phone_number = ut_phone_number req\<rparr>) w0)"

definition vmg_delete_telephony ::
  "('w, 'z) adapter_env_scheme \<Rightarrow> codec \<Rightarrow> 'w VoiceManagerClient \<Rightarrow> TelephonyId \<Rightarrow> string
     \<Rightarrow> ('w, VmError, unit) port_call" where
  "vmg_delete_telephony env cd client i usage w =
     (case env_new_v4 env w of (u, w0) \<Rightarrow>
       let request_id = uuid_to_string cd u;
           tid = uuid_to_string cd (telephony_id_as_uuid i) in
       with_retry vm_error_traits env WRITE_RETRY None ''voice_manager'' True
         (exchange (rpc_delete_telephony client)
            (\<lambda>res. map_ok (\<lambda>_. ()) (map_err (vm_map_status cd) res))
            \<lparr>dtq_request_id = request_id, dtq_telephony_id = tid, dtq_usage = usage\<rparr>) w0)"

text \<open>The adapter as an implementation of the port.\<close>

definition VoiceManagerGrpcAdapter ::
  "('w, 'z) adapter_env_scheme \<Rightarrow> codec \<Rightarrow> 'w VoiceManagerClient \<Rightarrow> 'w VoiceManagerPort" where
  "VoiceManagerGrpcAdapter env cd client =
     \<lparr>start_voice_session = vmg_start_voice_session env cd client,
      stop_voice_session = vmg_stop_voice_session env cd client,
      issue_test_token = vmg_issue_test_token env cd client,
      create_telephony = vmg_create_telephony env cd client,
      list_telephonies = vmg_list_telephonies env cd client,
      get_telephony = vmg_get_telephony env cd client,
      update_telephony = vmg_update_telephony env cd client,
      delete_telephony = vmg_delete_telephony env cd client\<rparr>"

section \<open>Specification: the request and the policy of a call\<close>

datatype VmRequest =
    Rq_Start StartVoiceSessionRequest
  | Rq_Stop StopVoiceSessionRequest
  | Rq_Token IssueTestTokenRequest
  | Rq_Create CreateTelephonyRequest
  | Rq_List ListTelephoniesRequest
  | Rq_Get GetTelephonyRequest
  | Rq_Update UpdateTelephonyRequest
  | Rq_Delete DeleteTelephonyRequest

text \<open>The policy both Voice Manager adapters follow: two attempts for a write, three for a read,
  five for an abort, one for a graceful stop.\<close>

fun vm_policy :: "VmCall \<Rightarrow> RetryConfig" where
  "vm_policy (StartVoiceSession req) = WRITE_RETRY"
| "vm_policy (StopVoiceSession ref Abort) = CLEANUP_RETRY"
| "vm_policy (StopVoiceSession ref Graceful) = GRACEFUL_STOP_RETRY"
| "vm_policy (IssueTestToken req) = DEFAULT_RETRY"
| "vm_policy (CreateTelephony req) = WRITE_RETRY"
| "vm_policy (ListTelephonies req) = DEFAULT_RETRY"
| "vm_policy (GetTelephony i) = DEFAULT_RETRY"
| "vm_policy (UpdateTelephony req) = WRITE_RETRY"
| "vm_policy (DeleteTelephony i usage) = WRITE_RETRY"

fun vm_grpc_request :: "(uuid \<Rightarrow> string) \<Rightarrow> uuid \<Rightarrow> VmCall \<Rightarrow> VmRequest" where
  "vm_grpc_request str rid (StartVoiceSession req) =
     Rq_Start \<lparr>svq_request_id = str rid, svq_engagement_id = str (engagement_id_as_uuid (sv_engagement_id req)),
               svq_org_id = sv_org_id req\<rparr>"
| "vm_grpc_request str rid (StopVoiceSession ref mode) =
     Rq_Stop \<lparr>stq_request_id = str rid, stq_session_ref = Some \<lparr>vsr_id = str (session_id ref)\<rparr>,
              stq_mode = (if mode = Abort then 1 else 2)\<rparr>"
| "vm_grpc_request str rid (IssueTestToken req) =
     Rq_Token \<lparr>itq_request_id = str rid, itq_org_id = it_org_id req\<rparr>"
| "vm_grpc_request str rid (CreateTelephony req) =
     Rq_Create \<lparr>ctq_request_id = str rid, ctq_org_id = ct_org_id req, ctq_phone_number = ct_phone_number req\<rparr>"
| "vm_grpc_request str rid (ListTelephonies req) =
     Rq_List \<lparr>ltq_request_id = str rid, ltq_org_id = lt_org_id req, ltq_page_token = page_token req\<rparr>"
| "vm_grpc_request str rid (GetTelephony i) =
     Rq_Get \<lparr>gtq_request_id = str rid, gtq_telephony_id = str (telephony_id_as_uuid i)\<rparr>"
| "vm_grpc_request str rid (UpdateTelephony req) =
     Rq_Update \<lparr>utq_request_id = str rid, utq_telephony_id = str (telephony_id_as_uuid (ut_id req)),
                utq_phone_number = ut_phone_number req\<rparr>"
| "vm_grpc_request str rid (DeleteTelephony i usage) =
     Rq_Delete \<lparr>dtq_request_id = str rid, dtq_telephony_id = str (telephony_id_as_uuid i), dtq_usage = usage\<rparr>"

definition journal_vm :: "'w VoiceManagerClient \<Rightarrow> ('w \<times> VmRequest list) VoiceManagerClient" where
  "journal_vm c =
     \<lparr>rpc_start_voice_session = record_call Rq_Start (rpc_start_voice_session c),
      rpc_stop_voice_session = record_call Rq_Stop (rpc_stop_voice_session c),
      rpc_issue_test_token = record_call Rq_Token (rpc_issue_test_token c),
      rpc_create_telephony = record_call Rq_Create (rpc_create_telephony c),
      rpc_list_telephonies = record_call Rq_List (rpc_list_telephonies c),
      rpc_get_telephony = record_call Rq_Get (rpc_get_telephony c),
      rpc_update_telephony = record_call Rq_Update (rpc_update_telephony c),
      rpc_delete_telephony = record_call Rq_Delete (rpc_delete_telephony c)\<rparr>"

lemmas vmg_defs =
  vmg_start_voice_session_def vmg_stop_voice_session_def vmg_issue_test_token_def
  vmg_create_telephony_def vmg_list_telephonies_def vmg_get_telephony_def
  vmg_update_telephony_def vmg_delete_telephony_def

lemma vm_policy_fits: "backoff_fits (vm_policy call)" "0 < max_attempts (vm_policy call)"
  by (cases call rule: vm_policy.cases; simp add: config_backoff_fits)+

text \<open>C2. For every operation of the gRPC Voice Manager adapter and every server behaviour: the call
  returns; all the requests it sends are the same message, with the caller's data and one freshly
  minted request id; it sends at least one and at most as many as the policy of the operation allows;
  and it answers with a retryable error only after it has sent that many.\<close>

theorem vm_grpc_sends:
  "sends_only vm_error_traits (vm_policy call)
     (vm_grpc_request (uuid_to_string cd) (fst (env_new_v4 env w)) call)
     (run_vm (VoiceManagerGrpcAdapter (journal_env env) cd (journal_vm client)) call (w, []))
     (run_vm (VoiceManagerGrpcAdapter env cd client) call w)"
proof (cases call)
  case (StopVoiceSession ref mode)
  then show ?thesis
    by (cases mode)
      (simp_all add: VoiceManagerGrpcAdapter_def vmg_defs journal_vm_def split_beta sends_only_run
        config_backoff_fits)
qed (simp_all add: VoiceManagerGrpcAdapter_def vmg_defs journal_vm_def split_beta sends_only_run
    config_backoff_fits engagement_id_to_string_def)

section \<open>How answers are read\<close>

lemma vm_map_status_retryable:
  "vm_is_retryable (vm_map_status cd s) \<longleftrightarrow> code s \<notin> set permanent_codes"
  by (cases "code s") (simp_all add: vm_map_status_def permanent_codes_def)

lemma telephony_from_proto_Inr:
  "telephony_from_proto cd row = Inr t \<longleftrightarrow>
     parse_uuid cd (tp_id row) = Inr (telephony_id_as_uuid (telephony_id t)) \<and>
     telephony_org_id t = tp_org_id row \<and> phone_number t = tp_phone_number row"
  by (cases "parse_uuid cd (tp_id row)"; cases t; cases "telephony_id t")
     (auto simp: telephony_from_proto_def)

lemma telephony_from_proto_final: "telephony_from_proto cd row = Inl e \<Longrightarrow> \<not> vm_is_retryable e"
  by (cases "parse_uuid cd (tp_id row)") (auto simp: telephony_from_proto_def)

lemma session_of_response_Inr:
  "session_of_response cd resp = Inr v \<longleftrightarrow>
     (\<exists>sr. session_ref resp = Some sr \<and> parse_uuid cd (vsr_id sr) = Inr (session_id v))"
proof (cases "session_ref resp")
  case (Some sr)
  then show ?thesis
    by (cases "parse_uuid cd (vsr_id sr)"; cases v) (auto simp: session_of_response_def)
qed (simp add: session_of_response_def)

lemma session_of_response_final:
  "\<not> retryable_result vm_error_traits (session_of_response cd resp)"
proof (cases "session_ref resp")
  case (Some sr)
  then show ?thesis
    by (cases "parse_uuid cd (vsr_id sr)") (auto simp: session_of_response_def)
qed (simp add: session_of_response_def)

text \<open>A success answer to a session start is never retried, well formed or not: the call returns
  the session exactly when the answer holds a reference whose text is a UUID, and a permanent error
  otherwise, after that one request.\<close>

theorem vmg_start_success_answer:
  assumes "env_new_v4 env w = (u, w0)"
    and "rpc_start_voice_session client
           \<lparr>svq_request_id = uuid_to_string cd u,
            svq_engagement_id = uuid_to_string cd (engagement_id_as_uuid (sv_engagement_id req)),
            svq_org_id = sv_org_id req\<rparr> w0 = (w1, Completed (Inr resp))"
  shows "\<exists>r. vmg_start_voice_session env cd client req w = (w1, [], Ret r) \<and>
     (\<forall>v. r = Inr v \<longleftrightarrow> (\<exists>sr. session_ref resp = Some sr \<and> parse_uuid cd (vsr_id sr) = Inr (session_id v))) \<and>
     (\<forall>e. r = Inl e \<longrightarrow> \<not> vm_is_retryable e)"
proof (intro exI conjI)
  show "vmg_start_voice_session env cd client req w = (w1, [], Ret (session_of_response cd resp))"
    using assms exchange_final [of WRITE_RETRY "rpc_start_voice_session client" _ w0 w1 "Inr resp"
        vm_error_traits "\<lambda>res. and_then (map_err (vm_map_status cd) res) (session_of_response cd)" env]
    by (simp add: vmg_start_voice_session_def config_backoff_fits session_of_response_final
        engagement_id_to_string_def)
  show "\<forall>v. session_of_response cd resp = Inr v \<longleftrightarrow>
      (\<exists>sr. session_ref resp = Some sr \<and> parse_uuid cd (vsr_id sr) = Inr (session_id v))"
    by (simp add: session_of_response_Inr)
  show "\<forall>e. session_of_response cd resp = Inl e \<longrightarrow> \<not> vm_is_retryable e"
    using session_of_response_final [of cd resp] by auto
qed

text \<open>A codec in which a UUID is printed in unary, so that it parses back.\<close>

definition unary_codec :: codec where
  "unary_codec =
     \<lparr>uuid_to_string = (\<lambda>u. replicate (unat u) CHR ''1''),
      parse_uuid = (\<lambda>s. if list_all (\<lambda>c. c = CHR ''1'') s then Inr (of_nat (length s)) else Inl ''bad''),
      code_debug = (\<lambda>c. ''code'')\<rparr>"

definition silent_client :: "('s list) \<Rightarrow> 's list VoiceManagerClient" where
  "silent_client z =
     \<lparr>rpc_start_voice_session = (\<lambda>r w. (w, Completed (Inr \<lparr>session_ref = Some \<lparr>vsr_id = ''11''\<rparr>\<rparr>))),
      rpc_stop_voice_session = (\<lambda>r w. (w, Completed (Inr ()))),
      rpc_issue_test_token = (\<lambda>r w. (w, Completed (Inr \<lparr>itr_token = ''t''\<rparr>))),
      rpc_create_telephony = (\<lambda>r w. (w, Completed (Inr \<lparr>tr_telephony = None\<rparr>))),
      rpc_list_telephonies = (\<lambda>r w. (w, Completed (Inr \<lparr>telephonies =
         [\<lparr>tp_id = ''1'', tp_org_id = ''o'', tp_phone_number = ''p''\<rparr>,
          \<lparr>tp_id = ''x'', tp_org_id = ''o'', tp_phone_number = ''q''\<rparr>]\<rparr>))),
      rpc_get_telephony = (\<lambda>r w. (w, Completed (Inr \<lparr>tr_telephony = None\<rparr>))),
      rpc_update_telephony = (\<lambda>r w. (w, Completed (Inr \<lparr>tr_telephony = None\<rparr>))),
      rpc_delete_telephony = (\<lambda>r w. (w, Completed (Inr ())))\<rparr>"

theorem vmg_start_success_answer_witness:
  "\<exists>r. vmg_start_voice_session (script_env 5) unary_codec (silent_client [])
         \<lparr>sv_engagement_id = EngagementId 7, sv_org_id = ''o''\<rparr> ([] :: nat list) = ([], [], Ret r) \<and>
     (\<forall>v. r = Inr v \<longleftrightarrow> (\<exists>sr. session_ref \<lparr>session_ref = Some \<lparr>vsr_id = ''11''\<rparr>\<rparr> = Some sr \<and>
            parse_uuid unary_codec (vsr_id sr) = Inr (session_id v))) \<and>
     (\<forall>e. r = Inl e \<longrightarrow> \<not> vm_is_retryable e)"
  by (rule vmg_start_success_answer [of "script_env 5" "[]" 5 "[]"]) (simp_all add: silent_client_def)

text \<open>A listing is all or nothing: a success answer gives the telephonies exactly when every row's
  id is a UUID, in the rows' order and with their data; one bad row makes the whole call a permanent
  error, and in neither case is another request sent.\<close>

theorem vmg_list_all_or_nothing:
  assumes "env_new_v4 env w = (u, w0)"
    and "rpc_list_telephonies client
           \<lparr>ltq_request_id = uuid_to_string cd u, ltq_org_id = lt_org_id req,
            ltq_page_token = page_token req\<rparr> w0 = (w1, Completed (Inr resp))"
  shows "\<exists>r. vmg_list_telephonies env cd client req w = (w1, [], Ret r) \<and>
     (\<forall>ts. r = Inr ts \<longleftrightarrow>
        list_all2 (\<lambda>row t. parse_uuid cd (tp_id row) = Inr (telephony_id_as_uuid (telephony_id t)) \<and>
            telephony_org_id t = tp_org_id row \<and> phone_number t = tp_phone_number row)
          (telephonies resp) ts) \<and>
     (\<forall>e. r = Inl e \<longrightarrow> \<not> vm_is_retryable e)"
proof (intro exI conjI)
  let ?r = "collect_results (telephony_from_proto cd) (telephonies resp)"
  have final: "\<not> vm_is_retryable e" if "?r = Inl e" for e
    using collect_results_InlD [OF that] telephony_from_proto_final by blast
  then have nr: "\<not> retryable_result vm_error_traits ?r" by (cases ?r) auto
  then show "vmg_list_telephonies env cd client req w = (w1, [], Ret ?r)"
    using assms exchange_final [of DEFAULT_RETRY "rpc_list_telephonies client" _ w0 w1 "Inr resp"
        vm_error_traits "\<lambda>res. and_then (map_err (vm_map_status cd) res)
           (\<lambda>resp. collect_results (telephony_from_proto cd) (telephonies resp))" env]
    by (simp add: vmg_list_telephonies_def config_backoff_fits)
  show "\<forall>ts. ?r = Inr ts \<longleftrightarrow>
        list_all2 (\<lambda>row t. parse_uuid cd (tp_id row) = Inr (telephony_id_as_uuid (telephony_id t)) \<and>
            telephony_org_id t = tp_org_id row \<and> phone_number t = tp_phone_number row)
          (telephonies resp) ts"
    by (simp add: collect_results_Inr_iff telephony_from_proto_Inr)
  show "\<forall>e. ?r = Inl e \<longrightarrow> \<not> vm_is_retryable e" using final by blast
qed

theorem vmg_list_all_or_nothing_witness:
  "\<exists>r. vmg_list_telephonies (script_env 5) unary_codec (silent_client [])
         \<lparr>lt_org_id = ''o'', page_token = None\<rparr> ([] :: nat list) = ([], [], Ret r) \<and>
     (\<forall>ts. r = Inr ts \<longleftrightarrow>
        list_all2 (\<lambda>row t. parse_uuid unary_codec (tp_id row) = Inr (telephony_id_as_uuid (telephony_id t)) \<and>
            telephony_org_id t = tp_org_id row \<and> phone_number t = tp_phone_number row)
          [\<lparr>tp_id = ''1'', tp_org_id = ''o'', tp_phone_number = ''p''\<rparr>,
           \<lparr>tp_id = ''x'', tp_org_id = ''o'', tp_phone_number = ''q''\<rparr>] ts) \<and>
     (\<forall>e. r = Inl e \<longrightarrow> \<not> vm_is_retryable e)"
  using vmg_list_all_or_nothing [of "script_env 5" "[]" 5 "[]" "silent_client []" unary_codec
      "\<lparr>lt_org_id = ''o'', page_token = None\<rparr>" "[]"]
  by (simp add: silent_client_def)

section \<open>Stopping a session\<close>

text \<open>A graceful stop is sent once and only once, whatever the server does; an abort survives up to
  four failures that are not permanent and is then acknowledged, each retry counted under its number.\<close>

theorem vmg_stop_modes:
  assumes "length failures < 5" "\<forall>s \<in> set failures. code s \<notin> set permanent_codes"
  shows "vmg_stop_voice_session (script_env u) cd (client\<lparr>rpc_stop_voice_session := script_call\<rparr>) ref Graceful
       (out # rest) =
     (rest, [], Ret (catch_attempt vm_error_traits
        (map_attempt (\<lambda>res. map_ok (\<lambda>_. ()) (map_err (vm_map_status cd) res)) out))) \<and>
   vmg_stop_voice_session (script_env u) cd (client\<lparr>rpc_stop_voice_session := script_call\<rparr>) ref Abort
       (map (\<lambda>s. Completed (Inl s)) failures @ Completed (Inr ()) # rest) =
     (rest, retry_metrics ''voice_manager'' (length failures), Ret (Inr ()))"
proof (rule conjI)
  show "vmg_stop_voice_session (script_env u) cd (client\<lparr>rpc_stop_voice_session := script_call\<rparr>) ref Graceful
       (out # rest) =
     (rest, [], Ret (catch_attempt vm_error_traits
        (map_attempt (\<lambda>res. map_ok (\<lambda>_. ()) (map_err (vm_map_status cd) res)) out)))"
    by (simp add: vmg_stop_voice_session_def exchange_single config_backoff_fits script_call_def)
  show "vmg_stop_voice_session (script_env u) cd (client\<lparr>rpc_stop_voice_session := script_call\<rparr>) ref Abort
       (map (\<lambda>s. Completed (Inl s)) failures @ Completed (Inr ()) # rest) =
     (rest, retry_metrics ''voice_manager'' (length failures), Ret (Inr ()))"
    unfolding vmg_stop_voice_session_def
    by (simp, subst with_retry_script [where n = "length failures"])
       (use assms in \<open>auto simp: config_backoff_fits nth_append vm_map_status_retryable metrics_ops_def\<close>)
qed

theorem vmg_stop_modes_witness:
  "vmg_stop_voice_session (script_env 1) unary_codec
       ((silent_client [])\<lparr>rpc_stop_voice_session := script_call\<rparr>) \<lparr>session_id = 3\<rparr> Graceful
       [Completed (Inl \<lparr>code = Code_Unavailable, status_message = ''down''\<rparr>), Completed (Inr ())] =
     ([Completed (Inr ())], [], Ret (Inl Vm_Unavailable)) \<and>
   vmg_stop_voice_session (script_env 1) unary_codec
       ((silent_client [])\<lparr>rpc_stop_voice_session := script_call\<rparr>) \<lparr>session_id = 3\<rparr> Abort
       [Completed (Inl \<lparr>code = Code_Unavailable, status_message = ''down''\<rparr>), Completed (Inr ()),
        Completed (Inr ())] =
     ([Completed (Inr ())], [inc_by retries_total [''voice_manager'', ''1''] 1], Ret (Inr ()))"
  using vmg_stop_modes [of "[\<lparr>code = Code_Unavailable, status_message = ''down''\<rparr>]" 1 unary_codec
      "silent_client []" "\<lparr>session_id = 3\<rparr>"
      "Completed (Inl \<lparr>code = Code_Unavailable, status_message = ''down''\<rparr>)" "[Completed (Inr ())]"]
  by (simp add: permanent_codes_def vm_map_status_def retry_metrics_def)

end
