(* ===== verification/Voice_Manager_Http.thy ===== *)
theory Voice_Manager_Http
  imports Http_Calls Voice_Manager_Grpc
begin

text \<open>
  The Voice Manager adapter over HTTP
  (\<^verbatim>\<open>engagement-hub-adapters/src/voice_manager_http.rs\<close>): the second implementation of the
  same port. The JSON shapes are records; \<^verbatim>\<open>serde_json\<close> is the decoders of
  \<open>vm_http_lib\<close>. The lemmas show what is sent and how often (under the same policy as the gRPC
  adapter), how statuses are classified, and that an answer with the same content gives the same
  result through either adapter.
\<close>

section \<open>JSON shapes\<close>

record ErrorInner =
  err_code :: string
  err_message :: string

record ErrorBody =
  err_error :: "ErrorInner option"

record StartVoiceSessionBody =
  svb_engagement_id :: string
  svb_org_id :: string

record VoiceSessionRefDto =
  vsd_id :: string

record StartVoiceSessionResp =
  svr_session_ref :: VoiceSessionRefDto

record IssueTestTokenBody =
  itb_org_id :: string

record IssueTestTokenResp =
  its_token :: string

record TelephonyDto =
  td_id :: string
  td_org_id :: string
  td_phone_number :: string

record TelephonyResp =
  trs_telephony :: TelephonyDto

record ListTelephoniesResp =
  lts_telephonies :: "TelephonyDto list"

record CreateTelephonyBody =
  ctb_org_id :: string
  ctb_phone_number :: string

record UpdateTelephonyBody =
  utb_phone_number :: string

datatype VmBody =
    Json_Start StartVoiceSessionBody
  | Json_Token IssueTestTokenBody
  | Json_Create CreateTelephonyBody
  | Json_Update UpdateTelephonyBody

record 'b vm_http_lib = "'b http_lib" +
  json_error_body :: "string \<Rightarrow> ErrorBody option"
  json_session :: "'b \<Rightarrow> (string, StartVoiceSessionResp) result"
  json_token :: "'b \<Rightarrow> (string, IssueTestTokenResp) result"
  json_telephony :: "'b \<Rightarrow> (string, TelephonyResp) result"
  json_telephonies :: "'b \<Rightarrow> (string, ListTelephoniesResp) result"

section \<open>Helpers\<close>

definition vm_map_http_status :: "'b vm_http_lib \<Rightarrow> nat \<Rightarrow> string \<Rightarrow> VmError" where
  "vm_map_http_status lib status body =
     (let detail = (case Option.bind (json_error_body lib body) err_error of
                      Some e \<Rightarrow> err_code e @ '': '' @ err_message e
                    | None \<Rightarrow> body)
      in if is_client_error status then Vm_Permanent (status_display lib status @ '': '' @ detail)
         else if status = 503 then Vm_Unavailable
         else Vm_Transient (status_display lib status @ '': '' @ detail))"

definition telephony_from_dto :: "('b, 'z) http_lib_scheme \<Rightarrow> TelephonyDto \<Rightarrow> (VmError, Telephony) result" where
  "telephony_from_dto lib t =
     and_then (map_err (\<lambda>e. Vm_Permanent (''bad telephony id: '' @ e))
                (map_ok TelephonyId (parse_uuid lib (td_id t))))
       (\<lambda>i. Inr \<lparr>telephony_id = i, telephony_org_id = td_org_id t, phone_number = td_phone_number t\<rparr>)"

definition vm_read ::
  "'b vm_http_lib \<Rightarrow> ('b \<Rightarrow> (VmError, 't) result) \<Rightarrow> (string, 'b http_response) result \<Rightarrow> (VmError, 't) result" where
  "vm_read lib = read_response lib Vm_Transient (vm_map_http_status lib)"

definition vmh_session :: "'b vm_http_lib \<Rightarrow> 'b \<Rightarrow> (VmError, VoiceSessionRef) result" where
  "vmh_session lib b =
     and_then (map_err Vm_Permanent (json_session lib b)) (\<lambda>parsed.
     and_then (map_err (\<lambda>e. Vm_Permanent (''bad session_ref uuid: '' @ e))
                (parse_uuid lib (vsd_id (svr_session_ref parsed)))) (\<lambda>uid.
     Inr \<lparr>session_id = uid\<rparr>))"

definition vmh_token :: "'b vm_http_lib \<Rightarrow> 'b \<Rightarrow> (VmError, TestToken) result" where
  "vmh_token lib b =
     and_then (map_err Vm_Permanent (json_token lib b)) (\<lambda>parsed. Inr \<lparr>token = its_token parsed\<rparr>)"

definition vmh_telephony :: "'b vm_http_lib \<Rightarrow> 'b \<Rightarrow> (VmError, Telephony) result" where
  "vmh_telephony lib b =
     and_then (map_err Vm_Permanent (json_telephony lib b)) (\<lambda>parsed.
       telephony_from_dto lib (trs_telephony parsed))"

definition vmh_telephonies :: "'b vm_http_lib \<Rightarrow> 'b \<Rightarrow> (VmError, Telephony list) result" where
  "vmh_telephonies lib b =
     and_then (map_err Vm_Permanent (json_telephonies lib b)) (\<lambda>parsed.
       collect_results (telephony_from_dto lib) (lts_telephonies parsed))"

section \<open>The operations\<close>

definition vmh_start_voice_session ::
  "('w, 'z) adapter_env_scheme \<Rightarrow> 'b vm_http_lib \<Rightarrow> ('w, VmBody, 'b) http_adapter \<Rightarrow> StartVoiceSessionReq
     \<Rightarrow> ('w, VmError, VoiceSessionRef) port_call" where
  "vmh_start_voice_session env lib self req w =
     (let url = base_url self @ ''/v1/voice/sessions'';
          body = \<lparr>svb_engagement_id = engagement_id_to_string (uuid_to_string lib) (sv_engagement_id req),
                  svb_org_id = sv_org_id req\<rparr> in
      case env_new_v4 env w of (u, w0) \<Rightarrow>
        let request_id = uuid_to_string lib u in
        with_retry vm_error_traits env WRITE_RETRY None ''voice_manager_http'' True
          (exchange (http_send self) (vm_read lib (vmh_session lib))
             \<lparr>req_method = POST, req_url = url, req_headers = [(''X-Request-Id'', request_id)],
              req_query = [], req_json = Some (Json_Start body)\<rparr>) w0)"

definition vmh_stop_voice_session ::
  "('w, 'z) adapter_env_scheme \<Rightarrow> 'b vm_http_lib \<Rightarrow> ('w, VmBody, 'b) http_adapter \<Rightarrow> VoiceSessionRef \<Rightarrow> StopMode
     \<Rightarrow> ('w, VmError, unit) port_call" where
  "vmh_stop_voice_session env lib self ref mode w =
     (let mode_str = (case mode of Abort \<Rightarrow> ''abort'' | Graceful \<Rightarrow> ''graceful'');
          url = base_url self @ ''/v1/voice/sessions/'' @ uuid_to_string lib (session_id ref) @ ''?mode='' @ mode_str;
          policy = (case mode of Abort \<Rightarrow> CLEANUP_RETRY | Graceful \<Rightarrow> GRACEFUL_STOP_RETRY) in
      case env_new_v4 env w of (u, w0) \<Rightarrow>
        let request_id = uuid_to_string lib u in
        with_retry vm_error_traits env policy None ''voice_manager_http'' True
          (exchange (http_send self) (vm_read lib (\<lambda>_. Inr ()))
             \<lparr>req_method = DELETE, req_url = url, req_headers = [(''X-Request-Id'', request_id)],
              req_query = [], req_json = None\<rparr>) w0)"

definition vmh_issue_test_token ::
  "('w, 'z) adapter_env_scheme \<Rightarrow> 'b vm_http_lib \<Rightarrow> ('w, VmBody, 'b) http_adapter \<Rightarrow> IssueTestTokenReq
     \<Rightarrow> ('w, VmError, TestToken) port_call" where
  "vmh_issue_test_token env lib self req w =
     (let url = base_url self @ ''/v1/voice/test_tokens'';
          body = \<lparr>itb_org_id = it_org_id req\<rparr> in
      case env_new_v4 env w of (u, w0) \<Rightarrow>
        let request_id = uuid_to_string lib u in
        with_retry vm_error_traits env DEFAULT_RETRY None ''voice_manager_http'' True
          (exchange (http_send self) (vm_read lib (vmh_token lib))
             \<lparr>req_method = POST, req_url = url, req_headers = [(''X-Request-Id'', request_id)],
              req_query = [], req_json = Some (Json_Token body)\<rparr>) w0)"

definition vmh_create_telephony ::
  "('w, 'z) adapter_env_scheme \<Rightarrow> 'b vm_http_lib \<Rightarrow> ('w, VmBody, 'b) http_adapter \<Rightarrow> CreateTelephonyReq
     \<Rightarrow> ('w, VmError, Telephony) port_call" where
  "vmh_create_telephony env lib self req w =
     (let url = base_url self @ ''/v1/telephonies'';
          body = \<lparr>ctb_org_id = ct_org_id req, ctb_phone_number = ct_phone_number req\<rparr> in
      case env_new_v4 env w of (u, w0) \<Rightarrow>
        let request_id = uuid_to_string lib u in
        with_retry vm_error_traits env WRITE_RETRY None ''voice_manager_http'' True
          (exchange (http_send self) (vm_read lib (vmh_telephony lib))
             \<lparr>req_method = POST, req_url = url, req_headers = [(''X-Request-Id'', request_id)],
              req_query = [], req_json = Some (Json_Create body)\<rparr>) w0)"

definition vmh_list_telephonies ::
  "('w, 'z) adapter_env_scheme \<Rightarrow> 'b vm_http_lib \<Rightarrow> ('w, VmBody, 'b) http_adapter \<Rightarrow> ListTelephoniesReq
     \<Rightarrow> ('w, VmError, Telephony list) port_call" where
  "vmh_list_telephonies env lib self req w =
     (let url0 = base_url self @ ''/v1/telephonies?org_id='' @ urlencode lib (lt_org_id req);
          url = (case page_token req of None \<Rightarrow> url0 | Some pt \<Rightarrow> url0 @ ''&page='' @ urlencode lib pt) in
      case env_new_v4 env w of (u, w0) \<Rightarrow>
        let request_id = uuid_to_string lib u in
        with_retry vm_error_traits env DEFAULT_RETRY None ''voice_manager_http'' True
          (exchange (http_send self) (vm_read lib (vmh_telephonies lib))
             \<lparr>req_method = GET, req_url = url, req_headers = [(''X-Request-Id'', request_id)],
              req_query = [], req_json = None\<rparr>) w0)"

definition vmh_get_telephony ::
  "('w, 'z) adapter_env_scheme \<Rightarrow> 'b vm_http_lib \<Rightarrow> ('w, VmBody, 'b) http_adapter \<Rightarrow> TelephonyId
     \<Rightarrow> ('w, VmError, Telephony) port_call" where
  "vmh_get_telephony env lib self i w =
     (let url = base_url self @ ''/v1/telephonies/'' @ uuid_to_string lib (telephony_id_as_uuid i) in
      case env_new_v4 env w of (u, w0) \<Rightarrow>
        let request_id = uuid_to_string lib u in
        with_retry vm_error_traits env DEFAULT_RETRY None ''voice_manager_http'' True
          (exchange (http_send self) (vm_read lib (vmh_telephony lib))
             \<lparr>req_method = GET, req_url = url, req_headers = [(''X-Request-Id'', request_id)],
              req_query = [], req_json = None\<rparr>) w0)"

definition vmh_update_telephony ::
  "('w, 'z) adapter_env_scheme \<Rightarrow> 'b vm_http_lib \<Rightarrow> ('w, VmBody, 'b) http_adapter \<Rightarrow> UpdateTelephonyReq
     \<Rightarrow> ('w, VmError, Telephony) port_call" where
  "vmh_update_telephony env lib self req w =
     (let url = base_url self @ ''/v1/telephonies/'' @ uuid_to_string lib (telephony_id_as_uuid (ut_id req));
          body = \<lparr>utb_phone_number = ut_phone_number req\<rparr> in
      case env_new_v4 env w of (u, w0) \<Rightarrow>
        let request_id = uuid_to_string lib u in
        with_retry vm_error_traits env WRITE_RETRY None ''voice_manager_http'' True
          (exchange (http_send self) (vm_read lib (vmh_telephony lib))
             \<lparr>req_method = PATCH, req_url = url, req_headers = [(''X-Request-Id'', request_id)],
              req_query = [], req_json = Some (Json_Update body)\<rparr>) w0)"

definition vmh_delete_telephony ::
  "('w, 'z) adapter_env_scheme \<Rightarrow> 'b vm_http_lib \<Rightarrow> ('w, VmBody, 'b) http_adapter \<Rightarrow> TelephonyId \<Rightarrow> string
     \<Rightarrow> ('w, VmError, unit) port_call" where
  "vmh_delete_telephony env lib self i usage w =
     (let url = base_url self @ ''/v1/telephonies/'' @ uuid_to_string lib (telephony_id_as_uuid i) @ ''?usage='' @ urlencode lib usage in
      case env_new_v4 env w of (u, w0) \<Rightarrow>
        let request_id = uuid_to_string lib u in
        with_retry vm_error_traits env WRITE_RETRY None ''voice_manager_http'' True
          (exchange (http_send self) (vm_read lib (\<lambda>_. Inr ()))
             \<lparr>req_method = DELETE, req_url = url, req_headers = [(''X-Request-Id'', request_id)],
              req_query = [], req_json = None\<rparr>) w0)"

definition VoiceManagerHttpAdapter ::
  "('w, 'z) adapter_env_scheme \<Rightarrow> 'b vm_http_lib \<Rightarrow> ('w, VmBody, 'b) http_adapter \<Rightarrow> 'w VoiceManagerPort" where
  "VoiceManagerHttpAdapter env lib self =
     \<lparr>start_voice_session = vmh_start_voice_session env lib self,
      stop_voice_session = vmh_stop_voice_session env lib self,
      issue_test_token = vmh_issue_test_token env lib self,
      create_telephony = vmh_create_telephony env lib self,
      list_telephonies = vmh_list_telephonies env lib self,
      get_telephony = vmh_get_telephony env lib self,
      update_telephony = vmh_update_telephony env lib self,
      delete_telephony = vmh_delete_telephony env lib self\<rparr>"

section \<open>Specification: the request of a call\<close>

fun vm_http_url :: "string \<Rightarrow> (uuid \<Rightarrow> string) \<Rightarrow> (string \<Rightarrow> string) \<Rightarrow> VmCall \<Rightarrow> string" where
  "vm_http_url base str enc (StartVoiceSession req) = base @ ''/v1/voice/sessions''"
| "vm_http_url base str enc (StopVoiceSession ref mode) =
     base @ ''/v1/voice/sessions/'' @ str (session_id ref) @ ''?mode='' @
       (if mode = Abort then ''abort'' else ''graceful'')"
| "vm_http_url base str enc (IssueTestToken req) = base @ ''/v1/voice/test_tokens''"
| "vm_http_url base str enc (CreateTelephony req) = base @ ''/v1/telephonies''"
| "vm_http_url base str enc (ListTelephonies req) =
     base @ ''/v1/telephonies?org_id='' @ enc (lt_org_id req) @
       (case page_token req of None \<Rightarrow> [] | Some pt \<Rightarrow> ''&page='' @ enc pt)"
| "vm_http_url base str enc (GetTelephony i) = base @ ''/v1/telephonies/'' @ str (telephony_id_as_uuid i)"
| "vm_http_url base str enc (UpdateTelephony req) =
     base @ ''/v1/telephonies/'' @ str (telephony_id_as_uuid (ut_id req))"
| "vm_http_url base str enc (DeleteTelephony i usage) =
     base @ ''/v1/telephonies/'' @ str (telephony_id_as_uuid i) @ ''?usage='' @ enc usage"

fun vm_http_method :: "VmCall \<Rightarrow> http_method" where
  "vm_http_method (StartVoiceSession req) = POST"
| "vm_http_method (StopVoiceSession ref mode) = DELETE"
| "vm_http_method (IssueTestToken req) = POST"
| "vm_http_method (CreateTelephony req) = POST"
| "vm_http_method (ListTelephonies req) = GET"
| "vm_http_method (GetTelephony i) = GET"
| "vm_http_method (UpdateTelephony req) = PATCH"
| "vm_http_method (DeleteTelephony i usage) = DELETE"

fun vm_http_body :: "(uuid \<Rightarrow> string) \<Rightarrow> VmCall \<Rightarrow> VmBody option" where
  "vm_http_body str (StartVoiceSession req) =
     Some (Json_Start \<lparr>svb_engagement_id = str (engagement_id_as_uuid (sv_engagement_id req)),
                       svb_org_id = sv_org_id req\<rparr>)"
| "vm_http_body str (IssueTestToken req) = Some (Json_Token \<lparr>itb_org_id = it_org_id req\<rparr>)"
| "vm_http_body str (CreateTelephony req) =
     Some (Json_Create \<lparr>ctb_org_id = ct_org_id req, ctb_phone_number = ct_phone_number req\<rparr>)"
| "vm_http_body str (UpdateTelephony req) = Some (Json_Update \<lparr>utb_phone_number = ut_phone_number req\<rparr>)"
| "vm_http_body str call = None"

definition vm_http_request ::
  "string \<Rightarrow> (uuid \<Rightarrow> string) \<Rightarrow> (string \<Rightarrow> string) \<Rightarrow> uuid \<Rightarrow> VmCall \<Rightarrow> VmBody http_request" where
  "vm_http_request base str enc rid call =
     \<lparr>req_method = vm_http_method call, req_url = vm_http_url base str enc call,
      req_headers = [(''X-Request-Id'', str rid)], req_query = [], req_json = vm_http_body str call\<rparr>"

lemmas vmh_defs =
  vmh_start_voice_session_def vmh_stop_voice_session_def vmh_issue_test_token_def vmh_create_telephony_def
  vmh_list_telephonies_def vmh_get_telephony_def vmh_update_telephony_def vmh_delete_telephony_def

text \<open>C27. For every operation of the HTTP Voice Manager adapter and every server behaviour: the call
  returns; all its requests are one request, whose id header was minted once; their number is at least
  one and at most what the same policy as the gRPC adapter's allows (one for a graceful stop); and a
  retryable error is answered only after that many.\<close>

theorem vm_http_sends:
  "sends_only vm_error_traits (vm_policy call)
     (vm_http_request (base_url self) (uuid_to_string lib) (urlencode lib) (fst (env_new_v4 env w)) call)
     (run_vm (VoiceManagerHttpAdapter (journal_env env) lib (journal_http self)) call (w, []))
     (run_vm (VoiceManagerHttpAdapter env lib self) call w)"
proof (cases call)
  case (StopVoiceSession ref mode)
  then show ?thesis
    by (cases mode)
      (simp_all add: VoiceManagerHttpAdapter_def vmh_defs split_beta sends_only_http
        config_backoff_fits vm_http_request_def)
next
  case (ListTelephonies req)
  then show ?thesis
    by (cases "page_token req")
      (simp_all add: VoiceManagerHttpAdapter_def vmh_defs split_beta sends_only_http
        config_backoff_fits vm_http_request_def)
qed (simp_all add: VoiceManagerHttpAdapter_def vmh_defs split_beta sends_only_http
    config_backoff_fits engagement_id_to_string_def vm_http_request_def)

end
