(* ===== verification/Voice_Manager_Match.thy ===== *)
theory Voice_Manager_Match
  imports Voice_Manager_Http
begin

text \<open>
  The two Voice Manager adapters implement one port. This theory states when a gRPC server and an HTTP
  server answer alike and shows that behind such servers the adapters are interchangeable: every
  operation gives the same answer, or an error of the same kind, after the same number of retries.
\<close>

section \<open>Servers that answer alike\<close>

text \<open>A gRPC status and an HTTP outcome of the same class; a transport failure is a transient status. The
  classes are those of the two adapters, so statuses that correspond but that the adapters class differently
  (429 is permanent and \<^verbatim>\<open>ResourceExhausted\<close> is not, 501 is transient and \<^verbatim>\<open>Unimplemented\<close> is
  not) are not alike.\<close>

fun status_match :: "Status \<Rightarrow> (string, 'b http_response) result \<Rightarrow> bool" where
  "status_match s (Inl e) = (code s \<notin> set permanent_codes \<and> code s \<noteq> Code_Unavailable)"
| "status_match s (Inr resp) =
     (\<not> is_success (resp_status resp) \<and>
      (is_client_error (resp_status resp) \<longleftrightarrow> code s \<in> set permanent_codes) \<and>
      (resp_status resp = 503 \<longleftrightarrow> code s = Code_Unavailable))"

text \<open>Outcomes of one request, given when a message and a body have the same content.\<close>

fun outcome_match ::
  "('r \<Rightarrow> 'b \<Rightarrow> bool) \<Rightarrow> (Status, 'r) result attempt \<Rightarrow> (string, 'b http_response) result attempt \<Rightarrow> bool" where
  "outcome_match ok (Completed (Inl s)) (Completed h) = status_match s h"
| "outcome_match ok (Completed (Inr r)) (Completed (Inr resp)) =
     (is_success (resp_status resp) \<and> ok r (resp_body resp))"
| "outcome_match ok Sync_Panic Sync_Panic = True"
| "outcome_match ok Poll_Panic Poll_Panic = True"
| "outcome_match ok g h = False"

definition same_telephony :: "TelephonyProto \<Rightarrow> TelephonyDto \<Rightarrow> bool" where
  "same_telephony p d = (tp_id p = td_id d \<and> tp_org_id p = td_org_id d \<and> tp_phone_number p = td_phone_number d)"

definition is_err :: "('e, 'a) result \<Rightarrow> bool" where
  "is_err r = (case r of Inl e \<Rightarrow> True | Inr a \<Rightarrow> False)"

text \<open>A message without its required part corresponds to a body that does not decode.\<close>

definition same_session :: "'b vm_http_lib \<Rightarrow> StartVoiceSessionResponse \<Rightarrow> 'b \<Rightarrow> bool" where
  "same_session lib r b =
     (case session_ref r of
        None \<Rightarrow> is_err (json_session lib b)
      | Some sr \<Rightarrow> json_session lib b = Inr \<lparr>svr_session_ref = \<lparr>vsd_id = vsr_id sr\<rparr>\<rparr>)"

definition same_token :: "'b vm_http_lib \<Rightarrow> IssueTestTokenResponse \<Rightarrow> 'b \<Rightarrow> bool" where
  "same_token lib r b = (json_token lib b = Inr \<lparr>its_token = itr_token r\<rparr>)"

definition same_telephony_answer :: "'b vm_http_lib \<Rightarrow> TelephonyResponse \<Rightarrow> 'b \<Rightarrow> bool" where
  "same_telephony_answer lib r b =
     (case tr_telephony r of
        None \<Rightarrow> is_err (json_telephony lib b)
      | Some p \<Rightarrow> (\<exists>d. json_telephony lib b = Inr \<lparr>trs_telephony = d\<rparr> \<and> same_telephony p d))"

definition same_listing :: "'b vm_http_lib \<Rightarrow> ListTelephoniesResponse \<Rightarrow> 'b \<Rightarrow> bool" where
  "same_listing lib r b =
     (\<exists>ds. json_telephonies lib b = Inr \<lparr>lts_telephonies = ds\<rparr> \<and> list_all2 same_telephony (telephonies r) ds)"

text \<open>The exchange of one call on both sides keeps the worlds related and matches the outcomes.\<close>

definition step_match ::
  "('w \<Rightarrow> 'v \<Rightarrow> bool) \<Rightarrow> ('r \<Rightarrow> 'b \<Rightarrow> bool) \<Rightarrow> 'w \<times> (Status, 'r) result attempt
     \<Rightarrow> 'v \<times> (string, 'b http_response) result attempt \<Rightarrow> bool" where
  "step_match R ok g h = (R (fst g) (fst h) \<and> outcome_match ok (snd g) (snd h))"

fun call_match ::
  "('w \<Rightarrow> 'v \<Rightarrow> bool) \<Rightarrow> 'b vm_http_lib \<Rightarrow> 'w VoiceManagerClient \<Rightarrow> VmRequest
     \<Rightarrow> ('v, VmBody, 'b) http_client \<Rightarrow> VmBody http_request \<Rightarrow> 'w \<Rightarrow> 'v \<Rightarrow> bool" where
  "call_match R lib c (Rq_Start r) h q w v = step_match R (same_session lib) (rpc_start_voice_session c r w) (h q v)"
| "call_match R lib c (Rq_Stop r) h q w v = step_match R (\<lambda>_ _. True) (rpc_stop_voice_session c r w) (h q v)"
| "call_match R lib c (Rq_Token r) h q w v = step_match R (same_token lib) (rpc_issue_test_token c r w) (h q v)"
| "call_match R lib c (Rq_Create r) h q w v =
     step_match R (same_telephony_answer lib) (rpc_create_telephony c r w) (h q v)"
| "call_match R lib c (Rq_List r) h q w v = step_match R (same_listing lib) (rpc_list_telephonies c r w) (h q v)"
| "call_match R lib c (Rq_Get r) h q w v =
     step_match R (same_telephony_answer lib) (rpc_get_telephony c r w) (h q v)"
| "call_match R lib c (Rq_Update r) h q w v =
     step_match R (same_telephony_answer lib) (rpc_update_telephony c r w) (h q v)"
| "call_match R lib c (Rq_Delete r) h q w v = step_match R (\<lambda>_ _. True) (rpc_delete_telephony c r w) (h q v)"

text \<open>The environments mint the same ids and pause in step.\<close>

definition envs_match ::
  "('w \<Rightarrow> 'v \<Rightarrow> bool) \<Rightarrow> ('w, 'z) adapter_env_scheme \<Rightarrow> ('v, 'y) adapter_env_scheme \<Rightarrow> bool" where
  "envs_match R env env' \<longleftrightarrow>
     (\<forall>w v. R w v \<longrightarrow>
        fst (env_new_v4 env w) = fst (env_new_v4 env' v) \<and>
        R (snd (env_new_v4 env w)) (snd (env_new_v4 env' v)) \<and>
        (\<forall>b. R (pause env b w) (pause env' b v)))"

definition servers_match ::
  "('w \<Rightarrow> 'v \<Rightarrow> bool) \<Rightarrow> 'b vm_http_lib \<Rightarrow> 'w VoiceManagerClient \<Rightarrow> ('v, VmBody, 'b) http_adapter \<Rightarrow> bool" where
  "servers_match R lib client self \<longleftrightarrow>
     (\<forall>call rid w v. R w v \<longrightarrow>
        call_match R lib client (vm_grpc_request (uuid_to_string lib) rid call)
          (http_send self) (vm_http_request (base_url self) (uuid_to_string lib) (urlencode lib) rid call) w v)"

section \<open>Results of the same kind\<close>

fun vm_kind :: "VmError \<Rightarrow> VmError" where
  "vm_kind (Vm_Transient m) = Vm_Transient []"
| "vm_kind (Vm_Permanent m) = Vm_Permanent []"
| "vm_kind e = e"

definition same_result :: "(VmError, 'a) result \<Rightarrow> (VmError, 'a) result \<Rightarrow> bool" where
  "same_result r s = (map_err vm_kind r = map_err vm_kind s)"

lemma vm_kind_retryable: "vm_is_retryable (vm_kind e) = vm_is_retryable e"
  by (cases e) simp_all

lemma same_result_simps [simp]:
  "same_result (Inr a) (Inr b) = (a = b)" "same_result (Inl d) (Inl e) = (vm_kind d = vm_kind e)"
  "\<not> same_result (Inl d) (Inr b)" "\<not> same_result (Inr a) (Inl e)"
  by (simp_all add: same_result_def)

lemma same_result_refl [simp]: "same_result r r"
  by (simp add: same_result_def)

lemma same_result_retryable:
  "same_result r s \<Longrightarrow> retryable_result vm_error_traits r = retryable_result vm_error_traits s"
  by (cases r; cases s) (auto, (metis vm_kind_retryable)+)

lemma same_result_map_ok: "same_result r s \<Longrightarrow> same_result (map_ok c r) (map_ok c s)"
  by (cases r; cases s) auto

lemma status_match_kind:
  "status_match s h \<Longrightarrow> \<exists>e. vm_read lib ok h = Inl e \<and> vm_kind e = vm_kind (vm_map_status cd s)"
proof (cases h)
  case (Inl e)
  assume "status_match s h"
  then show ?thesis
    by (cases "code s") (simp_all add: Inl vm_read_def vm_map_status_def permanent_codes_def)
next
  case (Inr resp)
  assume m: "status_match s h"
  then have "vm_kind (vm_map_http_status lib (resp_status resp) b) = vm_kind (vm_map_status cd s)" for b
    by (cases "code s") (simp_all add: Inr vm_map_http_status_def vm_map_status_def permanent_codes_def Let_def
        is_client_error_def)
  then show ?thesis using m by (simp add: Inr vm_read_def read_response_def)
qed

text \<open>Matching outcomes are read alike when matching contents are.\<close>

lemma outcome_match_read:
  assumes "outcome_match ok g h"
    and "\<And>r b. ok r b \<Longrightarrow> same_result (G r) (H b)"
  shows "same_result
     (catch_attempt vm_error_traits (map_attempt (\<lambda>res. and_then (map_err (vm_map_status cd) res) G) g))
     (catch_attempt vm_error_traits (map_attempt (vm_read lib H) h))"
  using assms
proof (induction ok g h rule: outcome_match.induct)
  case (1 ok s h)
  then show ?case using status_match_kind [of s h lib H cd] by auto
next
  case (2 ok r resp)
  then show ?case by (simp add: vm_read_def read_response_def)
qed simp_all

section \<open>Contents that are read alike\<close>

lemma is_err_cases: "is_err r \<Longrightarrow> \<exists>e. r = Inl e"
  by (cases r) (simp_all add: is_err_def)

lemma same_telephony_read:
  assumes "parse_uuid cd = parse_uuid lib" "same_telephony p d"
  shows "telephony_from_proto cd p = telephony_from_dto lib d"
  using assms by (simp add: telephony_from_proto_def telephony_from_dto_def same_telephony_def)

lemma same_session_read:
  assumes "parse_uuid cd = parse_uuid lib" "same_session lib r b"
  shows "same_result (session_of_response cd r) (vmh_session lib b)"
  using assms
  by (cases "session_ref r")
     (auto simp: same_session_def session_of_response_def vmh_session_def dest!: is_err_cases)

lemma same_token_read:
  "same_token lib r b \<Longrightarrow> same_result (Inr \<lparr>token = itr_token r\<rparr>) (vmh_token lib b)"
  by (simp add: same_token_def vmh_token_def)

lemma same_telephony_answer_read:
  assumes "parse_uuid cd = parse_uuid lib" "same_telephony_answer lib r b"
  shows "same_result (telephony_of_response cd r) (vmh_telephony lib b)"
  using assms
  by (cases "tr_telephony r")
     (auto simp: same_telephony_answer_def telephony_of_response_def vmh_telephony_def
       same_telephony_read [of cd lib] dest!: is_err_cases)

lemma same_listing_read:
  assumes "parse_uuid cd = parse_uuid lib" "same_listing lib r b"
  shows "same_result (collect_results (telephony_from_proto cd) (telephonies r)) (vmh_telephonies lib b)"
proof -
  have "list_all2 same_telephony ps ds \<Longrightarrow>
      collect_results (telephony_from_proto cd) ps = collect_results (telephony_from_dto lib) ds" for ps ds
  proof (induction rule: list_all2_induct)
    case (Cons p ps d ds)
    then show ?case by (simp only: collect_results.simps same_telephony_read [OF assms(1)])
  qed simp
  then show ?thesis using assms(2) by (auto simp: same_listing_def vmh_telephonies_def)
qed

section \<open>Interchangeable adapters\<close>

lemma map_ok_and_then: "map_ok f r = and_then r (\<lambda>a. Inr (f a))"
  by (cases r) simp_all

text \<open>The exchanges of one call, retried on both sides.\<close>

definition runs_alike ::
  "('w \<Rightarrow> 'v \<Rightarrow> bool) \<Rightarrow> 'w \<times> metric_log \<times> (VmError, 'a) result exec
     \<Rightarrow> 'v \<times> metric_log \<times> (VmError, 'a) result exec \<Rightarrow> bool" where
  "runs_alike R x y \<longleftrightarrow>
     (\<exists>w' v' k r s. x = (w', retry_metrics ''voice_manager'' k, Ret r) \<and>
        y = (v', retry_metrics ''voice_manager_http'' k, Ret s) \<and> R w' v' \<and> same_result r s)"

lemma runs_alike_answer: "runs_alike R x y \<Longrightarrow> runs_alike R (answer c x) (answer c y)"
  unfolding runs_alike_def by (auto intro!: same_result_map_ok)

lemma exchange_alike:
  assumes env: "envs_match R env env'" and rel: "R w v"
    and pol: "backoff_fits config" "0 < max_attempts config"
    and step: "\<And>w v. R w v \<Longrightarrow> step_match R ok (send q w) (h q' v)"
    and read: "\<And>r b. ok r b \<Longrightarrow> same_result (G r) (H b)"
    and interp: "\<And>res. interp res = and_then (map_err (vm_map_status cd) res) G"
  shows "runs_alike R
     (with_retry vm_error_traits env config None ''voice_manager'' True (exchange send interp q) w)
     (with_retry vm_error_traits env' config None ''voice_manager_http'' True (exchange h (vm_read lib H) q') v)"
proof -
  have eq: "interp = (\<lambda>res. and_then (map_err (vm_map_status cd) res) G)" using interp by blast
  have "\<exists>w' v' k r s.
      with_retry vm_error_traits env config None ''voice_manager'' True (exchange send interp q) w =
        (w', metrics_ops True (retry_metrics ''voice_manager'' k), Ret r) \<and>
      with_retry vm_error_traits env' config None ''voice_manager_http'' True (exchange h (vm_read lib H) q') v =
        (v', metrics_ops True (retry_metrics ''voice_manager_http'' k), Ret s) \<and> R w' v' \<and> same_result r s"
  proof (rule with_retry_bisim [OF pol, where R = R and Q = same_result])
    show "R w v" by (rule rel)
  next
    fix w v assume "R w v"
    then have st: "step_match R ok (send q w) (h q' v)" by (rule step)
    then show "R (fst (exchange send interp q w)) (fst (exchange h (vm_read lib H) q' v)) \<and>
        same_result (catch_attempt vm_error_traits (snd (exchange send interp q w)))
          (catch_attempt vm_error_traits (snd (exchange h (vm_read lib H) q' v)))"
      using outcome_match_read [where ok = ok and g = "snd (send q w)" and h = "snd (h q' v)" and G = G and H = H
          and cd = cd and lib = lib] read
      by (simp add: exchange_def split_beta step_match_def eq)
  next
    fix b w v assume "R w v"
    then show "R (pause env b w) (pause env' b v)" using env by (simp add: envs_match_def)
  qed (rule same_result_retryable)
  then show ?thesis by (simp add: runs_alike_def metrics_ops_def)
qed

lemma truncate_simps [simp]:
  "uuid_to_string (codec.truncate c) = uuid_to_string c" "parse_uuid (codec.truncate c) = parse_uuid c"
  by (simp_all add: codec.truncate_def)

lemma envs_match_new:
  assumes "envs_match R env env'" "R w v"
  shows "\<exists>u w0 v0. env_new_v4 env w = (u, w0) \<and> env_new_v4 env' v = (u, v0) \<and> R w0 v0"
  using assms by (cases "env_new_v4 env w"; cases "env_new_v4 env' v") (force simp: envs_match_def)

text \<open>The five kinds of answers the operations read.\<close>

lemma alike_session:
  assumes "envs_match R env env'" "R w v" "backoff_fits config" "0 < max_attempts config"
    and "\<And>w v. R w v \<Longrightarrow> step_match R (same_session lib) (send q w) (h q' v)"
  shows "runs_alike R
     (answer c (with_retry vm_error_traits env config None ''voice_manager'' True
        (exchange send (\<lambda>res. and_then (map_err (vm_map_status (codec.truncate lib)) res) (session_of_response (codec.truncate lib))) q) w))
     (answer c (with_retry vm_error_traits env' config None ''voice_manager_http'' True
        (exchange h (vm_read lib (vmh_session lib)) q') v))"
  by (rule runs_alike_answer,
      rule exchange_alike [where R = R and ok = "(same_session lib)" and G = "(session_of_response (codec.truncate lib))" and cd = "codec.truncate lib"])
     (use assms in \<open>simp_all add: same_session_read\<close>)

lemma alike_telephony:
  assumes "envs_match R env env'" "R w v" "backoff_fits config" "0 < max_attempts config"
    and "\<And>w v. R w v \<Longrightarrow> step_match R (same_telephony_answer lib) (send q w) (h q' v)"
  shows "runs_alike R
     (answer c (with_retry vm_error_traits env config None ''voice_manager'' True
        (exchange send (\<lambda>res. and_then (map_err (vm_map_status (codec.truncate lib)) res) (telephony_of_response (codec.truncate lib))) q) w))
     (answer c (with_retry vm_error_traits env' config None ''voice_manager_http'' True
        (exchange h (vm_read lib (vmh_telephony lib)) q') v))"
  by (rule runs_alike_answer,
      rule exchange_alike [where R = R and ok = "(same_telephony_answer lib)" and G = "(telephony_of_response (codec.truncate lib))" and cd = "codec.truncate lib"])
     (use assms in \<open>simp_all add: same_telephony_answer_read\<close>)

lemma alike_listing:
  assumes "envs_match R env env'" "R w v" "backoff_fits config" "0 < max_attempts config"
    and "\<And>w v. R w v \<Longrightarrow> step_match R (same_listing lib) (send q w) (h q' v)"
  shows "runs_alike R
     (answer c (with_retry vm_error_traits env config None ''voice_manager'' True
        (exchange send (\<lambda>res. and_then (map_err (vm_map_status (codec.truncate lib)) res) (\<lambda>r. collect_results (telephony_from_proto (codec.truncate lib)) (telephonies r))) q) w))
     (answer c (with_retry vm_error_traits env' config None ''voice_manager_http'' True
        (exchange h (vm_read lib (vmh_telephonies lib)) q') v))"
  by (rule runs_alike_answer,
      rule exchange_alike [where R = R and ok = "(same_listing lib)" and G = "(\<lambda>r. collect_results (telephony_from_proto (codec.truncate lib)) (telephonies r))" and cd = "codec.truncate lib"])
     (use assms in \<open>simp_all add: same_listing_read\<close>)

lemma alike_token:
  assumes "envs_match R env env'" "R w v" "backoff_fits config" "0 < max_attempts config"
    and "\<And>w v. R w v \<Longrightarrow> step_match R (same_token lib) (send q w) (h q' v)"
  shows "runs_alike R
     (answer c (with_retry vm_error_traits env config None ''voice_manager'' True
        (exchange send (\<lambda>res. map_ok (\<lambda>resp. \<lparr>token = itr_token resp\<rparr>) (map_err (vm_map_status (codec.truncate lib)) res)) q) w))
     (answer c (with_retry vm_error_traits env' config None ''voice_manager_http'' True
        (exchange h (vm_read lib (vmh_token lib)) q') v))"
  by (rule runs_alike_answer,
      rule exchange_alike [where R = R and ok = "(same_token lib)" and G = "(\<lambda>r. Inr \<lparr>token = itr_token r\<rparr>)" and cd = "codec.truncate lib"])
     (use assms in \<open>simp_all add: same_token_read map_ok_and_then\<close>)

lemma alike_done:
  assumes "envs_match R env env'" "R w v" "backoff_fits config" "0 < max_attempts config"
    and "\<And>w v. R w v \<Longrightarrow> step_match R (\<lambda>_ _. True) (send q w) (h q' v)"
  shows "runs_alike R
     (answer c (with_retry vm_error_traits env config None ''voice_manager'' True
        (exchange send (\<lambda>res. map_ok (\<lambda>_. ()) (map_err (vm_map_status (codec.truncate lib)) res)) q) w))
     (answer c (with_retry vm_error_traits env' config None ''voice_manager_http'' True
        (exchange h (vm_read lib (\<lambda>_. Inr ())) q') v))"
  by (rule runs_alike_answer,
      rule exchange_alike [where R = R and ok = "(\<lambda>_ _. True)" and G = "(\<lambda>_. Inr ())" and cd = "codec.truncate lib"])
     (use assms in \<open>simp_all add: map_ok_and_then\<close>)

lemmas vm_match_defs = VoiceManagerGrpcAdapter_def VoiceManagerHttpAdapter_def vmg_defs vmh_defs
  vm_http_request_def engagement_id_to_string_def

text \<open>C3. Behind servers that answer alike, the gRPC and the HTTP Voice Manager adapter are
  interchangeable: for every operation of the port they give the same answer or an error of the same
  kind, record the same number of retries, and leave the servers in corresponding states.\<close>

theorem vm_adapters_interchangeable:
  assumes "envs_match R env env'" "servers_match R lib client self" "R w v"
  shows "runs_alike R (run_vm (VoiceManagerGrpcAdapter env (codec.truncate lib) client) call w)
     (run_vm (VoiceManagerHttpAdapter env' lib self) call v)"
proof -
  obtain u w0 v0 where new: "env_new_v4 env w = (u, w0)" "env_new_v4 env' v = (u, v0)" "R w0 v0"
    using envs_match_new [OF assms(1,3)] by blast
  note alike = alike_session alike_telephony alike_listing alike_token alike_done
  note alike = alike [OF assms(1) new(3)]
  have step: "call_match R lib client (vm_grpc_request (uuid_to_string lib) u call) (http_send self)
      (vm_http_request (base_url self) (uuid_to_string lib) (urlencode lib) u call) w v" if "R w v" for w v
    using assms(2) that by (simp add: servers_match_def)
  show ?thesis
  proof (cases call)
    case (StopVoiceSession ref mode)
    then show ?thesis
      using step by (cases mode) (simp_all add: vm_match_defs new alike config_backoff_fits)
  next
    case (ListTelephonies req)
    then show ?thesis
      using step by (cases "page_token req") (simp_all add: vm_match_defs new alike config_backoff_fits)
  qed (use step in \<open>simp_all add: vm_match_defs new alike config_backoff_fits\<close>)
qed

text \<open>Two servers that are down for a given number of requests and then acknowledge every stop.\<close>

definition down_status :: Status where
  "down_status = \<lparr>code = Code_Unavailable, status_message = ''down''\<rparr>"

definition outage_client :: "nat VoiceManagerClient" where
  "outage_client =
     \<lparr>rpc_start_voice_session = (\<lambda>r n. (n - 1, Completed (Inl down_status))),
      rpc_stop_voice_session = (\<lambda>r n. (n - 1, Completed (if n = 0 then Inr () else Inl down_status))),
      rpc_issue_test_token = (\<lambda>r n. (n - 1, Completed (Inl down_status))),
      rpc_create_telephony = (\<lambda>r n. (n - 1, Completed (Inl down_status))),
      rpc_list_telephonies = (\<lambda>r n. (n - 1, Completed (Inl down_status))),
      rpc_get_telephony = (\<lambda>r n. (n - 1, Completed (Inl down_status))),
      rpc_update_telephony = (\<lambda>r n. (n - 1, Completed (Inl down_status))),
      rpc_delete_telephony = (\<lambda>r n. (n - 1, Completed (Inl down_status)))\<rparr>"

definition is_stop :: "VmBody http_request \<Rightarrow> bool" where
  "is_stop q = (take 18 (req_url q) = ''/v1/voice/sessions'' \<and> req_method q = DELETE)"

definition outage_server :: "(nat, VmBody, unit) http_adapter" where
  "outage_server =
     \<lparr>http_send = (\<lambda>q n. (n - 1, Completed (Inr
        \<lparr>resp_status = (if n = 0 \<and> is_stop q then 204 else 503), resp_body = ()\<rparr>))), base_url = []\<rparr>"

definition plain_lib :: "unit vm_http_lib" where
  "plain_lib =
     \<lparr>uuid_to_string = (\<lambda>u. ''u''), parse_uuid = Inl, code_debug = (\<lambda>c. ''c''), status_display = show_nat,
      urlencode = (\<lambda>s. s), body_text = (\<lambda>b. Inr []), json_error_body = (\<lambda>s. None),
      json_session = (\<lambda>b. Inl ''j''), json_token = (\<lambda>b. Inl ''j''), json_telephony = (\<lambda>b. Inl ''j''),
      json_telephonies = (\<lambda>b. Inl ''j'')\<rparr>"

lemma outage_servers_match: "servers_match (=) plain_lib outage_client outage_server"
  unfolding servers_match_def
proof (intro allI impI)
  fix call rid w and v :: nat
  assume "w = v"
  then show "call_match (=) plain_lib outage_client (vm_grpc_request (uuid_to_string plain_lib) rid call)
      (http_send outage_server)
      (vm_http_request (base_url outage_server) (uuid_to_string plain_lib) (urlencode plain_lib) rid call) w v"
    by (cases call)
       (simp_all add: outage_client_def outage_server_def step_match_def vm_http_request_def is_stop_def
         down_status_def permanent_codes_def is_success_def is_client_error_def)
qed

theorem vm_adapters_interchangeable_witness:
  "runs_alike (=)
     (run_vm (VoiceManagerGrpcAdapter (script_env 3) (codec.truncate plain_lib) outage_client)
        (StopVoiceSession \<lparr>session_id = 1\<rparr> Abort) (2 :: nat))
     (run_vm (VoiceManagerHttpAdapter (script_env 3) plain_lib outage_server)
        (StopVoiceSession \<lparr>session_id = 1\<rparr> Abort) 2)"
  by (rule vm_adapters_interchangeable [OF _ outage_servers_match]) (simp_all add: envs_match_def)

end
