(* ===== verification/Post_Call_Http.thy ===== *)
theory Post_Call_Http
  imports Http_Calls
begin

text \<open>
  The post-call adapter over HTTP (\<^verbatim>\<open>engagement-hub-adapters/src/post_call_http.rs\<close>): four
  per-engagement reads through \<^verbatim>\<open>get_json\<close> and two call-log listings with optional filters.
  The JSON decoders of \<^verbatim>\<open>serde\<close> are the fields of \<open>pc_http_lib\<close>. The lemmas show
  what is sent and how often, that a listing's query carries exactly the filters of the request, how
  absent data is read, and which statuses are retried.
\<close>

section \<open>JSON shapes\<close>

record TranscriptionItem =
  ti_message :: string
  ti_role :: string
  ti_audio_url :: "string option"
  ti_emotion :: "string option"

record TranscriptionsResp =
  tsr_data :: "TranscriptionItem list"
  tsr_total_size :: "i32 option"

record SummaryData =
  sud_summary :: string
  sud_resolution :: "string option"
  sud_resolution_explanation :: "string option"

record SummaryResp =
  sur_data :: "SummaryData option"

record SentimentData =
  sed_sentiment :: string
  sed_justification :: string

record SentimentResp =
  ser_data :: "SentimentData option"

record OutputExtractionItem =
  oei_key :: string
  oei_value :: string

record OutputExtractionResp =
  oer_data :: "OutputExtractionItem list"

record CallLogItem =
  cli_id :: string
  cli_room_name :: "string option"
  cli_batch_id :: "string option"
  cli_duration :: "i32 option"
  cli_identity :: "string option"
  cli_created_at :: string

record CallLogListResp =
  clr_data :: "CallLogItem list option"
  clr_total_size :: "u32 option"

record 'b pc_http_lib = "'b http_lib" +
  json_transcriptions :: "'b \<Rightarrow> (string, TranscriptionsResp) result"
  json_summary :: "'b \<Rightarrow> (string, SummaryResp) result"
  json_sentiment :: "'b \<Rightarrow> (string, SentimentResp) result"
  json_extraction :: "'b \<Rightarrow> (string, OutputExtractionResp) result"
  json_call_logs :: "'b \<Rightarrow> (string, CallLogListResp) result"

section \<open>Helpers\<close>

definition pc_map_http_status :: "('b, 'z) http_lib_scheme \<Rightarrow> nat \<Rightarrow> string \<Rightarrow> PostCallError" where
  "pc_map_http_status lib status body =
     (if status = 404 \<or> status = 400 \<or> status = 422
      then PostCall_Permanent (status_display lib status @ '': '' @ body)
      else if status = 503 then PostCall_Unavailable
      else PostCall_Transient (status_display lib status @ '': '' @ body))"

text \<open>\<open>get_json\<close> with the decoder of its type parameter: the request it sends and the reading
  of the outcome.\<close>

definition get_request :: "string \<Rightarrow> unit http_request" where
  "get_request url = \<lparr>req_method = GET, req_url = url, req_headers = [], req_query = [], req_json = None\<rparr>"

definition get_json ::
  "('b, 'z) http_lib_scheme \<Rightarrow> ('b \<Rightarrow> (string, 'd) result) \<Rightarrow> (string, 'b http_response) result
     \<Rightarrow> (PostCallError, 'd) result" where
  "get_json lib decode =
     read_response lib PostCall_Transient (pc_map_http_status lib) (\<lambda>b. map_err PostCall_Permanent (decode b))"

definition transcript_of :: "TranscriptionsResp \<Rightarrow> Transcript" where
  "transcript_of r =
     \<lparr>messages = map (\<lambda>i. \<lparr>tm_message = ti_message i, tm_role = ti_role i, audio_url = ti_audio_url i,
                          emotion = ti_emotion i\<rparr>) (tsr_data r),
      transcript_total_size = unwrap_or 0 (tsr_total_size r)\<rparr>"

definition summary_of :: "SummaryResp \<Rightarrow> (PostCallError, Summary) result" where
  "summary_of r =
     and_then (ok_or (PostCall_Permanent ''empty summary data'') (sur_data r)) (\<lambda>d.
       Inr \<lparr>summary = sud_summary d, resolution = sud_resolution d,
            resolution_explanation = sud_resolution_explanation d\<rparr>)"

definition sentiment_of :: "SentimentResp \<Rightarrow> (PostCallError, Sentiment) result" where
  "sentiment_of r =
     and_then (ok_or (PostCall_Permanent ''empty sentiment data'') (ser_data r)) (\<lambda>d.
       Inr \<lparr>label = sed_sentiment d, justification = sed_justification d\<rparr>)"

definition extraction_of :: "OutputExtractionResp \<Rightarrow> OutputExtraction" where
  "extraction_of r =
     \<lparr>output_fields = map (\<lambda>f. \<lparr>field_key = oei_key f, field_value = oei_value f\<rparr>) (oer_data r)\<rparr>"

definition call_log_of :: "CallLogItem \<Rightarrow> CallLog" where
  "call_log_of l =
     \<lparr>log_id = cli_id l, room_name = cli_room_name l, log_batch_id = cli_batch_id l,
      log_duration = cli_duration l, log_identity = cli_identity l, created_at = cli_created_at l\<rparr>"

definition page_of :: "CallLogListResp \<Rightarrow> CallLog Page" where
  "page_of r =
     \<lparr>items = map call_log_of (unwrap_or [] (clr_data r)), page_total_size = clr_total_size r,
      next_page_token = None\<rparr>"

section \<open>The operations\<close>

definition pch_get_transcript ::
  "('w, 'z) adapter_env_scheme \<Rightarrow> 'b pc_http_lib \<Rightarrow> ('w, unit, 'b) http_adapter \<Rightarrow> EngagementId
     \<Rightarrow> ('w, PostCallError, Transcript) port_call" where
  "pch_get_transcript env lib self eng w =
     (let url = base_url self @ ''/calls/'' @ engagement_id_to_string (uuid_to_string lib) eng @ ''/transcription'' in
      with_retry post_call_error_traits env DEFAULT_RETRY None ''post_call'' True
        (exchange (http_send self) (\<lambda>res. map_ok transcript_of (get_json lib (json_transcriptions lib) res)) (get_request url)) w)"

definition pch_get_summary ::
  "('w, 'z) adapter_env_scheme \<Rightarrow> 'b pc_http_lib \<Rightarrow> ('w, unit, 'b) http_adapter \<Rightarrow> EngagementId
     \<Rightarrow> ('w, PostCallError, Summary) port_call" where
  "pch_get_summary env lib self eng w =
     (let url = base_url self @ ''/calls/'' @ engagement_id_to_string (uuid_to_string lib) eng @ ''/summary'' in
      with_retry post_call_error_traits env DEFAULT_RETRY None ''post_call'' True
        (exchange (http_send self) (\<lambda>res. and_then (get_json lib (json_summary lib) res) summary_of) (get_request url)) w)"

definition pch_get_sentiment ::
  "('w, 'z) adapter_env_scheme \<Rightarrow> 'b pc_http_lib \<Rightarrow> ('w, unit, 'b) http_adapter \<Rightarrow> EngagementId
     \<Rightarrow> ('w, PostCallError, Sentiment) port_call" where
  "pch_get_sentiment env lib self eng w =
     (let url = base_url self @ ''/calls/'' @ engagement_id_to_string (uuid_to_string lib) eng @ ''/sentiment'' in
      with_retry post_call_error_traits env DEFAULT_RETRY None ''post_call'' True
        (exchange (http_send self) (\<lambda>res. and_then (get_json lib (json_sentiment lib) res) sentiment_of) (get_request url)) w)"

definition pch_get_output_extraction ::
  "('w, 'z) adapter_env_scheme \<Rightarrow> 'b pc_http_lib \<Rightarrow> ('w, unit, 'b) http_adapter \<Rightarrow> EngagementId
     \<Rightarrow> ('w, PostCallError, OutputExtraction) port_call" where
  "pch_get_output_extraction env lib self eng w =
     (let url = base_url self @ ''/calls/'' @ engagement_id_to_string (uuid_to_string lib) eng @ ''/state'' in
      with_retry post_call_error_traits env DEFAULT_RETRY None ''post_call'' True
        (exchange (http_send self) (\<lambda>res. map_ok extraction_of (get_json lib (json_extraction lib) res)) (get_request url)) w)"

definition list_agent_call_logs_query :: "ListAgentCallLogsReq \<Rightarrow> (string \<times> string) list" where
  "list_agent_call_logs_query req =
     (let qp1 = push_opt ''skip'' (map_option show_u32 (la_skip req)) [];
          qp2 = push_opt ''limit'' (map_option show_u32 (la_limit req)) qp1;
          qp3 = push_opt ''start_date'' (la_start_date req) qp2;
          qp4 = push_opt ''end_date'' (la_end_date req) qp3;
          qp5 = push_opt ''identity'' (la_identity req) qp4;
          qp6 = push_opt ''id'' (la_id req) qp5;
          qp7 = push_opt ''batch_id'' (la_batch_id req) qp6
      in qp7)"

definition pch_list_agent_call_logs ::
  "('w, 'z) adapter_env_scheme \<Rightarrow> 'b pc_http_lib \<Rightarrow> ('w, unit, 'b) http_adapter \<Rightarrow> ListAgentCallLogsReq
     \<Rightarrow> ('w, PostCallError, CallLog Page) port_call" where
  "pch_list_agent_call_logs env lib self req w =
     (let url = base_url self @ ''/calls/'' @ la_agent_id req @ ''/history-call'';
          qp = list_agent_call_logs_query req in
      with_retry post_call_error_traits env DEFAULT_RETRY None ''post_call'' True
        (exchange (http_send self)
           (read_response lib PostCall_Transient (pc_map_http_status lib)
              (\<lambda>b. map_ok page_of (map_err PostCall_Permanent (json_call_logs lib b))))
           \<lparr>req_method = GET, req_url = url, req_headers = [], req_query = qp, req_json = None\<rparr>) w)"

definition list_org_call_logs_query :: "ListOrgCallLogsReq \<Rightarrow> (string \<times> string) list" where
  "list_org_call_logs_query req =
     (let qp1 = push_opt ''skip'' (map_option show_u32 (lo_skip req)) [];
          qp2 = push_opt ''limit'' (map_option show_u32 (lo_limit req)) qp1;
          qp3 = push_opt ''start_date'' (lo_start_date req) qp2;
          qp4 = push_opt ''end_date'' (lo_end_date req) qp3;
          qp5 = push_opt ''contact_number'' (lo_contact_number req) qp4;
          qp6 = push_opt ''call_id'' (lo_call_id req) qp5
      in qp6)"

definition pch_list_org_call_logs ::
  "('w, 'z) adapter_env_scheme \<Rightarrow> 'b pc_http_lib \<Rightarrow> ('w, unit, 'b) http_adapter \<Rightarrow> ListOrgCallLogsReq
     \<Rightarrow> ('w, PostCallError, CallLog Page) port_call" where
  "pch_list_org_call_logs env lib self req w =
     (let url = base_url self @ ''/calls/organizations/'' @ lo_org_id req;
          qp = list_org_call_logs_query req in
      with_retry post_call_error_traits env DEFAULT_RETRY None ''post_call'' True
        (exchange (http_send self)
           (read_response lib PostCall_Transient (pc_map_http_status lib)
              (\<lambda>b. map_ok page_of (map_err PostCall_Permanent (json_call_logs lib b))))
           \<lparr>req_method = GET, req_url = url, req_headers = [], req_query = qp, req_json = None\<rparr>) w)"

definition PostCallHttpAdapter ::
  "('w, 'z) adapter_env_scheme \<Rightarrow> 'b pc_http_lib \<Rightarrow> ('w, unit, 'b) http_adapter \<Rightarrow> 'w PostCallPort" where
  "PostCallHttpAdapter env lib self =
     \<lparr>get_transcript = pch_get_transcript env lib self,
      get_summary = pch_get_summary env lib self,
      get_sentiment = pch_get_sentiment env lib self,
      get_output_extraction = pch_get_output_extraction env lib self,
      list_agent_call_logs = pch_list_agent_call_logs env lib self,
      list_org_call_logs = pch_list_org_call_logs env lib self\<rparr>"

section \<open>Specification: the request of a call\<close>

definition opt_pair :: "string \<Rightarrow> string option \<Rightarrow> (string \<times> string) list" where
  "opt_pair k ov = (case ov of None \<Rightarrow> [] | Some v \<Rightarrow> [(k, v)])"

fun pc_request :: "string \<Rightarrow> (uuid \<Rightarrow> string) \<Rightarrow> PostCallCall \<Rightarrow> unit http_request" where
  "pc_request base str (GetTranscript eng) =
     get_request (base @ ''/calls/'' @ str (engagement_id_as_uuid eng) @ ''/transcription'')"
| "pc_request base str (GetSummary eng) =
     get_request (base @ ''/calls/'' @ str (engagement_id_as_uuid eng) @ ''/summary'')"
| "pc_request base str (GetSentiment eng) =
     get_request (base @ ''/calls/'' @ str (engagement_id_as_uuid eng) @ ''/sentiment'')"
| "pc_request base str (GetOutputExtraction eng) =
     get_request (base @ ''/calls/'' @ str (engagement_id_as_uuid eng) @ ''/state'')"
| "pc_request base str (ListAgentCallLogs req) =
     (get_request (base @ ''/calls/'' @ la_agent_id req @ ''/history-call''))
       \<lparr>req_query := opt_pair ''skip'' (map_option show_u32 (la_skip req)) @
          opt_pair ''limit'' (map_option show_u32 (la_limit req)) @
          opt_pair ''start_date'' (la_start_date req) @ opt_pair ''end_date'' (la_end_date req) @
          opt_pair ''identity'' (la_identity req) @ opt_pair ''id'' (la_id req) @
          opt_pair ''batch_id'' (la_batch_id req)\<rparr>"
| "pc_request base str (ListOrgCallLogs req) =
     (get_request (base @ ''/calls/organizations/'' @ lo_org_id req))
       \<lparr>req_query := opt_pair ''skip'' (map_option show_u32 (lo_skip req)) @
          opt_pair ''limit'' (map_option show_u32 (lo_limit req)) @
          opt_pair ''start_date'' (lo_start_date req) @ opt_pair ''end_date'' (lo_end_date req) @
          opt_pair ''contact_number'' (lo_contact_number req) @ opt_pair ''call_id'' (lo_call_id req)\<rparr>"

lemma push_opt_pair: "push_opt k ov qp = qp @ opt_pair k ov"
  by (cases ov) (simp_all add: opt_pair_def)

lemmas pch_defs =
  pch_get_transcript_def pch_get_summary_def pch_get_sentiment_def pch_get_output_extraction_def
  pch_list_agent_call_logs_def pch_list_org_call_logs_def

text \<open>C32. For every read of the post-call adapter and every server behaviour: the call returns; all its
  requests are the same GET on the path of the operation, with one query pair per filter the caller set
  and none for the others; there are between one and three of them, and three if a retryable error is
  the answer.\<close>

theorem pc_http_sends:
  "sends_only post_call_error_traits DEFAULT_RETRY
     (pc_request (base_url self) (uuid_to_string lib) call)
     (run_post_call (PostCallHttpAdapter (journal_env env) lib (journal_http self)) call (w, []))
     (run_post_call (PostCallHttpAdapter env lib self) call w)"
  by (cases call)
    (simp_all add: PostCallHttpAdapter_def pch_defs sends_only_http config_backoff_fits
      engagement_id_to_string_def list_agent_call_logs_query_def list_org_call_logs_query_def
      push_opt_pair get_request_def)

section \<open>How answers are read\<close>

lemma pc_map_http_status_retryable:
  "post_call_is_retryable (pc_map_http_status lib s b) \<longleftrightarrow> s \<notin> {400, 404, 422}"
  by (auto simp: pc_map_http_status_def)

text \<open>Absent data in a success answer: a summary or a sentiment without data is a permanent error
  after one request, while a listing without data is the empty page; a listing never has a next-page
  token, and a transcript without a total says zero.\<close>

theorem pc_absent_data:
  assumes "\<forall>r. http_send self r w = (w1, Completed (Inr \<lparr>resp_status = 200, resp_body = b\<rparr>))"
    and "json_summary lib b = Inr \<lparr>sur_data = None\<rparr>"
    and "json_sentiment lib b = Inr \<lparr>ser_data = None\<rparr>"
    and "json_call_logs lib b = Inr \<lparr>clr_data = None, clr_total_size = n\<rparr>"
    and "json_transcriptions lib b = Inr \<lparr>tsr_data = [], tsr_total_size = None\<rparr>"
  shows "pch_get_summary env lib self eng w = (w1, [], Ret (Inl (PostCall_Permanent ''empty summary data''))) \<and>
    pch_get_sentiment env lib self eng w = (w1, [], Ret (Inl (PostCall_Permanent ''empty sentiment data''))) \<and>
    pch_list_org_call_logs env lib self req w =
      (w1, [], Ret (Inr \<lparr>items = [], page_total_size = n, next_page_token = None\<rparr>)) \<and>
    pch_get_transcript env lib self eng w =
      (w1, [], Ret (Inr \<lparr>messages = [], transcript_total_size = 0\<rparr>))"
proof -
  have ok: "is_success 200" by (simp add: is_success_def)
  note final = exchange_final [of DEFAULT_RETRY "http_send self" _ w w1
      "Inr \<lparr>resp_status = 200, resp_body = b\<rparr>" post_call_error_traits _ env]
  show ?thesis
    using assms ok
    by (simp add: pch_defs final config_backoff_fits get_json_def summary_of_def sentiment_of_def
        transcript_of_def page_of_def)
qed

definition empty_lib :: "unit pc_http_lib" where
  "empty_lib =
     \<lparr>uuid_to_string = (\<lambda>u. ''u''), parse_uuid = Inl, code_debug = (\<lambda>c. ''c''), status_display = show_nat,
      urlencode = (\<lambda>s. s), body_text = (\<lambda>b. Inr []),
      json_transcriptions = (\<lambda>b. Inr \<lparr>tsr_data = [], tsr_total_size = None\<rparr>),
      json_summary = (\<lambda>b. Inr \<lparr>sur_data = None\<rparr>), json_sentiment = (\<lambda>b. Inr \<lparr>ser_data = None\<rparr>),
      json_extraction = (\<lambda>b. Inr \<lparr>oer_data = []\<rparr>),
      json_call_logs = (\<lambda>b. Inr \<lparr>clr_data = None, clr_total_size = Some 3\<rparr>)\<rparr>"

definition ok_server :: "(nat, unit, unit) http_adapter" where
  "ok_server = \<lparr>http_send = (\<lambda>r n. (n + 1, Completed (Inr \<lparr>resp_status = 200, resp_body = ()\<rparr>))), base_url = ''b''\<rparr>"

theorem pc_absent_data_witness:
  "pch_get_summary (script_env 0) empty_lib ok_server (EngagementId 1) 0 =
      (1, [], Ret (Inl (PostCall_Permanent ''empty summary data''))) \<and>
    pch_get_sentiment (script_env 0) empty_lib ok_server (EngagementId 1) 0 =
      (1, [], Ret (Inl (PostCall_Permanent ''empty sentiment data''))) \<and>
    pch_list_org_call_logs (script_env 0) empty_lib ok_server
      \<lparr>lo_org_id = ''o'', lo_skip = None, lo_limit = Some 5, lo_start_date = None, lo_end_date = None,
       lo_contact_number = None, lo_call_id = None\<rparr> 0 =
      (1, [], Ret (Inr \<lparr>items = [], page_total_size = Some 3, next_page_token = None\<rparr>)) \<and>
    pch_get_transcript (script_env 0) empty_lib ok_server (EngagementId 1) 0 =
      (1, [], Ret (Inr \<lparr>messages = [], transcript_total_size = 0\<rparr>))"
  by (rule pc_absent_data [where b = "()"]) (simp_all add: ok_server_def empty_lib_def)

section \<open>Paths\<close>

text \<open>Path segments are interpolated without encoding: listing the logs of the agent named
  \<open>organizations\<close> and listing those of the organisation named \<open>history-call\<close> without
  filters send the very same requests, and so give the same outcome.\<close>

theorem pc_paths_collide:
  "pch_list_agent_call_logs env lib self
     \<lparr>la_agent_id = ''organizations'', la_skip = None, la_limit = None, la_start_date = None,
      la_end_date = None, la_identity = None, la_id = None, la_batch_id = None\<rparr> w =
   pch_list_org_call_logs env lib self
     \<lparr>lo_org_id = ''history-call'', lo_skip = None, lo_limit = None, lo_start_date = None,
      lo_end_date = None, lo_contact_number = None, lo_call_id = None\<rparr> w"
  by (simp add: pch_list_agent_call_logs_def pch_list_org_call_logs_def list_agent_call_logs_query_def
      list_org_call_logs_query_def)

end
