(* ===== verification/Analytics_Http.thy ===== *)
theory Analytics_Http
  imports Http_Calls
begin

text \<open>
  The analytics adapter over HTTP (\<^verbatim>\<open>engagement-hub-adapters/src/analytics_http.rs\<close>): four
  reads with the same four optional filters. The JSON decoders of \<^verbatim>\<open>serde\<close> (with the
  default of \<^verbatim>\<open>category_counts\<close>) are the fields of \<open>an_http_lib\<close>.
\<close>

section \<open>JSON shapes\<close>

record AnalyticsResp =
  ar_average_conversation_duration :: f64
  ar_containment_rate :: f64
  ar_customer_satisfaction_rate :: f64
  ar_dropoff_rate :: f64
  ar_escalation_rate :: f64
  ar_total_inquiries :: u32
  ar_category_counts :: "string \<rightharpoonup> u32"

record MetricData =
  md_categories :: "string list"
  md_series :: "f64 list"

record MetricsResp =
  mr_data :: MetricData

record 'b an_http_lib = "'b http_lib" +
  json_analytics :: "'b \<Rightarrow> (string, AnalyticsResp) result"
  json_metrics :: "'b \<Rightarrow> (string, MetricsResp) result"

section \<open>Helpers\<close>

definition an_map_http_status :: "('b, 'z) http_lib_scheme \<Rightarrow> nat \<Rightarrow> string \<Rightarrow> AnalyticsError" where
  "an_map_http_status lib status body =
     (if status = 404 \<or> status = 400 \<or> status = 422
      then Analytics_Permanent (status_display lib status @ '': '' @ body)
      else if status = 503 then Analytics_Unavailable
      else Analytics_Transient (status_display lib status @ '': '' @ body))"

definition analytics_of :: "AnalyticsResp \<Rightarrow> Analytics" where
  "analytics_of r =
     \<lparr>average_conversation_duration = ar_average_conversation_duration r,
      containment_rate = ar_containment_rate r,
      customer_satisfaction_rate = ar_customer_satisfaction_rate r,
      dropoff_rate = ar_dropoff_rate r,
      escalation_rate = ar_escalation_rate r,
      total_inquiries = ar_total_inquiries r,
      category_counts = ar_category_counts r\<rparr>"

definition metrics_of :: "MetricsResp \<Rightarrow> Metrics" where
  "metrics_of r = \<lparr>categories = md_categories (mr_data r), series = md_series (mr_data r)\<rparr>"

text \<open>The query the four operations build, from their four optional filters.\<close>

definition analytics_query ::
  "string option \<Rightarrow> string option \<Rightarrow> string option \<Rightarrow> string option \<Rightarrow> (string \<times> string) list" where
  "analytics_query metric granularity start_date end_date =
     (let qp1 = push_opt ''metric'' metric [];
          qp2 = push_opt ''granularity'' granularity qp1;
          qp3 = push_opt ''startDate'' start_date qp2;
          qp4 = push_opt ''endDate'' end_date qp3
      in qp4)"

section \<open>The operations\<close>

definition anh_get_agent_analytics ::
  "('w, 'z) adapter_env_scheme \<Rightarrow> 'b an_http_lib \<Rightarrow> ('w, unit, 'b) http_adapter \<Rightarrow> GetAgentAnalyticsReq
     \<Rightarrow> ('w, AnalyticsError, Analytics) port_call" where
  "anh_get_agent_analytics env lib self req w =
     (let url = base_url self @ ''/calls/agents/'' @ gaa_agent_id req @ ''/analytics'';
          qp = analytics_query (gaa_metric req) (gaa_granularity req) (gaa_start_date req) (gaa_end_date req) in
      with_retry analytics_error_traits env DEFAULT_RETRY None ''analytics'' True
        (exchange (http_send self)
           (read_response lib Analytics_Transient (an_map_http_status lib)
              (\<lambda>b. map_ok analytics_of (map_err Analytics_Permanent (json_analytics lib b))))
           \<lparr>req_method = GET, req_url = url, req_headers = [], req_query = qp, req_json = None\<rparr>) w)"

definition anh_get_agent_metrics ::
  "('w, 'z) adapter_env_scheme \<Rightarrow> 'b an_http_lib \<Rightarrow> ('w, unit, 'b) http_adapter \<Rightarrow> GetAgentMetricsReq
     \<Rightarrow> ('w, AnalyticsError, Metrics) port_call" where
  "anh_get_agent_metrics env lib self req w =
     (let url = base_url self @ ''/calls/agents/'' @ gam_agent_id req @ ''/metrics'';
          qp = analytics_query (gam_metric req) (gam_granularity req) (gam_start_date req) (gam_end_date req) in
      with_retry analytics_error_traits env DEFAULT_RETRY None ''analytics'' True
        (exchange (http_send self)
           (read_response lib Analytics_Transient (an_map_http_status lib)
              (\<lambda>b. map_ok metrics_of (map_err Analytics_Permanent (json_metrics lib b))))
           \<lparr>req_method = GET, req_url = url, req_headers = [], req_query = qp, req_json = None\<rparr>) w)"

definition anh_get_org_analytics ::
  "('w, 'z) adapter_env_scheme \<Rightarrow> 'b an_http_lib \<Rightarrow> ('w, unit, 'b) http_adapter \<Rightarrow> GetOrgAnalyticsReq
     \<Rightarrow> ('w, AnalyticsError, Analytics) port_call" where
  "anh_get_org_analytics env lib self req w =
     (let url = base_url self @ ''/calls/organizations/'' @ goa_org_id req @ ''/analytics'';
          qp = analytics_query (goa_metric req) (goa_granularity req) (goa_start_date req) (goa_end_date req) in
      with_retry analytics_error_traits env DEFAULT_RETRY None ''analytics'' True
        (exchange (http_send self)
           (read_response lib Analytics_Transient (an_map_http_status lib)
              (\<lambda>b. map_ok analytics_of (map_err Analytics_Permanent (json_analytics lib b))))
           \<lparr>req_method = GET, req_url = url, req_headers = [], req_query = qp, req_json = None\<rparr>) w)"

definition anh_get_org_metrics ::
  "('w, 'z) adapter_env_scheme \<Rightarrow> 'b an_http_lib \<Rightarrow> ('w, unit, 'b) http_adapter \<Rightarrow> GetOrgMetricsReq
     \<Rightarrow> ('w, AnalyticsError, Metrics) port_call" where
  "anh_get_org_metrics env lib self req w =
     (let url = base_url self @ ''/calls/organizations/'' @ gom_org_id req @ ''/metrics'';
          qp = analytics_query (gom_metric req) (gom_granularity req) (gom_start_date req) (gom_end_date req) in
      with_retry analytics_error_traits env DEFAULT_RETRY None ''analytics'' True
        (exchange (http_send self)
           (read_response lib Analytics_Transient (an_map_http_status lib)
              (\<lambda>b. map_ok metrics_of (map_err Analytics_Permanent (json_metrics lib b))))
           \<lparr>req_method = GET, req_url = url, req_headers = [], req_query = qp, req_json = None\<rparr>) w)"

definition AnalyticsHttpAdapter ::
  "('w, 'z) adapter_env_scheme \<Rightarrow> 'b an_http_lib \<Rightarrow> ('w, unit, 'b) http_adapter \<Rightarrow> 'w AnalyticsPort" where
  "AnalyticsHttpAdapter env lib self =
     \<lparr>get_agent_analytics = anh_get_agent_analytics env lib self,
      get_agent_metrics = anh_get_agent_metrics env lib self,
      get_org_analytics = anh_get_org_analytics env lib self,
      get_org_metrics = anh_get_org_metrics env lib self\<rparr>"

section \<open>Specification: the request of a call\<close>

fun an_path :: "AnalyticsCall \<Rightarrow> string" where
  "an_path (GetAgentAnalytics req) = ''/calls/agents/'' @ gaa_agent_id req @ ''/analytics''"
| "an_path (GetAgentMetrics req) = ''/calls/agents/'' @ gam_agent_id req @ ''/metrics''"
| "an_path (GetOrgAnalytics req) = ''/calls/organizations/'' @ goa_org_id req @ ''/analytics''"
| "an_path (GetOrgMetrics req) = ''/calls/organizations/'' @ gom_org_id req @ ''/metrics''"

fun an_query :: "AnalyticsCall \<Rightarrow> (string \<times> string) list" where
  "an_query (GetAgentAnalytics req) =
     analytics_query (gaa_metric req) (gaa_granularity req) (gaa_start_date req) (gaa_end_date req)"
| "an_query (GetAgentMetrics req) =
     analytics_query (gam_metric req) (gam_granularity req) (gam_start_date req) (gam_end_date req)"
| "an_query (GetOrgAnalytics req) =
     analytics_query (goa_metric req) (goa_granularity req) (goa_start_date req) (goa_end_date req)"
| "an_query (GetOrgMetrics req) =
     analytics_query (gom_metric req) (gom_granularity req) (gom_start_date req) (gom_end_date req)"

definition an_request :: "string \<Rightarrow> AnalyticsCall \<Rightarrow> unit http_request" where
  "an_request base call =
     \<lparr>req_method = GET, req_url = base @ an_path call, req_headers = [], req_query = an_query call,
      req_json = None\<rparr>"

text \<open>The filter a caller set under a query key.\<close>

fun an_filter :: "AnalyticsCall \<Rightarrow> string \<rightharpoonup> string" where
  "an_filter (GetAgentAnalytics req) k =
     (if k = ''metric'' then gaa_metric req else if k = ''granularity'' then gaa_granularity req
      else if k = ''startDate'' then gaa_start_date req else if k = ''endDate'' then gaa_end_date req else None)"
| "an_filter (GetAgentMetrics req) k =
     (if k = ''metric'' then gam_metric req else if k = ''granularity'' then gam_granularity req
      else if k = ''startDate'' then gam_start_date req else if k = ''endDate'' then gam_end_date req else None)"
| "an_filter (GetOrgAnalytics req) k =
     (if k = ''metric'' then goa_metric req else if k = ''granularity'' then goa_granularity req
      else if k = ''startDate'' then goa_start_date req else if k = ''endDate'' then goa_end_date req else None)"
| "an_filter (GetOrgMetrics req) k =
     (if k = ''metric'' then gom_metric req else if k = ''granularity'' then gom_granularity req
      else if k = ''startDate'' then gom_start_date req else if k = ''endDate'' then gom_end_date req else None)"

lemmas anh_defs =
  anh_get_agent_analytics_def anh_get_agent_metrics_def anh_get_org_analytics_def anh_get_org_metrics_def

lemma analytics_query_lookup:
  "map_of (analytics_query a b c d) k =
     (if k = ''metric'' then a else if k = ''granularity'' then b
      else if k = ''startDate'' then c else if k = ''endDate'' then d else None)"
  by (cases a; cases b; cases c; cases d) (simp_all add: analytics_query_def)

lemma analytics_query_distinct: "distinct (map fst (analytics_query a b c d))"
  by (cases a; cases b; cases c; cases d) (simp_all add: analytics_query_def)

lemma an_map_http_status_retryable:
  "analytics_is_retryable (an_map_http_status lib s b) \<longleftrightarrow> s \<notin> {400, 404, 422}"
  by (auto simp: an_map_http_status_def)

text \<open>C34. For every read of the analytics adapter and every server behaviour: the call returns; all its
  requests are one GET on the path of the operation, whose query has no key twice and holds under each
  key exactly the filter the caller set; there are between one and three of them, and three if a
  retryable error is the answer.\<close>

theorem an_http_sends:
  "sends_only analytics_error_traits DEFAULT_RETRY (an_request (base_url self) call)
     (run_analytics (AnalyticsHttpAdapter (journal_env env) lib (journal_http self)) call (w, []))
     (run_analytics (AnalyticsHttpAdapter env lib self) call w) \<and>
   distinct (map fst (req_query (an_request (base_url self) call))) \<and>
   map_of (req_query (an_request (base_url self) call)) = an_filter call"
  by (cases call)
    (simp_all add: AnalyticsHttpAdapter_def anh_defs sends_only_http config_backoff_fits an_request_def
      analytics_query_distinct analytics_query_lookup fun_eq_iff)

end
