(* ===== verification/Fakes.thy ===== *)
theory Fakes
  imports Adapter_Calls
begin

text \<open>
  The fake ports of \<^verbatim>\<open>engagement-hub-ports/src/fake\<close>: one queue of injected outcomes per
  method behind one mutex per fake. A call pops the front outcome of its queue while the guard is held,
  so an injected panic, or a call on an empty queue, poisons the mutex and every later use of the fake
  panics as well.

  Each fake is the record of its queues, a constructor, one push and one call per method, and the port
  made of the calls. The contract of a method is the locale \<open>fake_method\<close>; a queue that is a
  field of the inner record (\<open>queue_field\<close>) gives it, and is interpreted on all 23 methods.
\<close>

section \<open>Injected outcomes\<close>

datatype 't Outcome =
    Success 't
  | Outcome_Transient string
  | Outcome_Permanent string
  | Outcome_Unavailable
  | Outcome_Panic

fun outcome_result ::
  "(string \<Rightarrow> 'e) \<Rightarrow> (string \<Rightarrow> 'e) \<Rightarrow> 'e \<Rightarrow> 't Outcome \<Rightarrow> ('e, 't) result exec" where
  "outcome_result transient permanent unavailable (Success v) = Ret (Inr v)"
| "outcome_result transient permanent unavailable (Outcome_Transient msg) = Ret (Inl (transient msg))"
| "outcome_result transient permanent unavailable (Outcome_Permanent msg) = Ret (Inl (permanent msg))"
| "outcome_result transient permanent unavailable Outcome_Unavailable = Ret (Inl unavailable)"
| "outcome_result transient permanent unavailable Outcome_Panic = Unwind"

text \<open>The body of a method under the guard: \<^verbatim>\<open>pop_front().expect(...)\<close> and the match, for
  the queue read by \<open>get\<close> and changed by \<open>upd\<close>.\<close>

definition pop_respond ::
  "('i \<Rightarrow> 't Outcome list) \<Rightarrow> (('t Outcome list \<Rightarrow> 't Outcome list) \<Rightarrow> 'i \<Rightarrow> 'i)
     \<Rightarrow> (string \<Rightarrow> 'e) \<Rightarrow> (string \<Rightarrow> 'e) \<Rightarrow> 'e \<Rightarrow> 'i \<Rightarrow> 'i \<times> ('e, 't) result exec" where
  "pop_respond get upd transient permanent unavailable i =
     (case get i of
        [] \<Rightarrow> (i, Unwind)
      | out # outs \<Rightarrow> (upd (\<lambda>_. outs) i, outcome_result transient permanent unavailable out))"

definition push_back ::
  "(('t Outcome list \<Rightarrow> 't Outcome list) \<Rightarrow> 'i \<Rightarrow> 'i) \<Rightarrow> 't Outcome \<Rightarrow> 'i \<Rightarrow> 'i \<times> unit exec" where
  "push_back upd out i = (upd (\<lambda>q. q @ [out]) i, Ret ())"

text \<open>A method call through the port: it issues no metric operation.\<close>

definition fake_call ::
  "('i \<Rightarrow> 'i \<times> ('e, 't) result exec) \<Rightarrow> ('i mutex, 'e, 't) port_call" where
  "fake_call body m = (case with_lock body m of (m', r) \<Rightarrow> (m', [], r))"

section \<open>The fake of the registry port\<close>

record FakeRegistryInner =
  frg_resolve_snapshot :: "ResolvedSnapshot Outcome list"
  frg_get_voice_profile :: "VoiceProfile Outcome list"

definition FakeRegistryPort_new :: "FakeRegistryInner mutex" where
  "FakeRegistryPort_new =
     new_mutex \<lparr>frg_resolve_snapshot = [], frg_get_voice_profile = []\<rparr>"

definition push_resolve_snapshot :: "ResolvedSnapshot Outcome \<Rightarrow> FakeRegistryInner mutex \<Rightarrow> FakeRegistryInner mutex \<times> unit exec" where
  "push_resolve_snapshot out = with_lock (push_back frg_resolve_snapshot_update out)"

definition push_get_voice_profile :: "VoiceProfile Outcome \<Rightarrow> FakeRegistryInner mutex \<Rightarrow> FakeRegistryInner mutex \<times> unit exec" where
  "push_get_voice_profile out = with_lock (push_back frg_get_voice_profile_update out)"

definition fake_resolve_snapshot :: "ResolveSnapshotReq \<Rightarrow> (FakeRegistryInner mutex, RegistryError, ResolvedSnapshot) port_call" where
  "fake_resolve_snapshot req =
     fake_call (pop_respond frg_resolve_snapshot frg_resolve_snapshot_update Registry_Transient Registry_Permanent Registry_Unavailable)"

definition fake_get_voice_profile :: "VoiceProfileId \<Rightarrow> (FakeRegistryInner mutex, RegistryError, VoiceProfile) port_call" where
  "fake_get_voice_profile i =
     fake_call (pop_respond frg_get_voice_profile frg_get_voice_profile_update Registry_Transient Registry_Permanent Registry_Unavailable)"

definition FakeRegistryPort :: "FakeRegistryInner mutex RegistryPort" where
  "FakeRegistryPort =
     \<lparr>resolve_snapshot = fake_resolve_snapshot,
      get_voice_profile = fake_get_voice_profile\<rparr>"

section \<open>The fake of the journey manager port\<close>

record FakeJourneyManagerInner =
  fjm_create_execution :: "ExecutionRef Outcome list"
  fjm_cancel_execution :: "unit Outcome list"
  fjm_get_execution_timeline :: "Timeline Outcome list"

definition FakeJourneyManagerPort_new :: "FakeJourneyManagerInner mutex" where
  "FakeJourneyManagerPort_new =
     new_mutex \<lparr>fjm_create_execution = [], fjm_cancel_execution = [], fjm_get_execution_timeline = []\<rparr>"

definition push_create_execution :: "ExecutionRef Outcome \<Rightarrow> FakeJourneyManagerInner mutex \<Rightarrow> FakeJourneyManagerInner mutex \<times> unit exec" where
  "push_create_execution out = with_lock (push_back fjm_create_execution_update out)"

definition push_cancel_execution :: "unit Outcome \<Rightarrow> FakeJourneyManagerInner mutex \<Rightarrow> FakeJourneyManagerInner mutex \<times> unit exec" where
  "push_cancel_execution out = with_lock (push_back fjm_cancel_execution_update out)"

definition push_get_execution_timeline :: "Timeline Outcome \<Rightarrow> FakeJourneyManagerInner mutex \<Rightarrow> FakeJourneyManagerInner mutex \<times> unit exec" where
  "push_get_execution_timeline out = with_lock (push_back fjm_get_execution_timeline_update out)"

definition fake_create_execution :: "CreateExecutionReq \<Rightarrow> (FakeJourneyManagerInner mutex, JmError, ExecutionRef) port_call" where
  "fake_create_execution req =
     fake_call (pop_respond fjm_create_execution fjm_create_execution_update Jm_Transient Jm_Permanent Jm_Unavailable)"

definition fake_cancel_execution :: "ExecutionRef \<Rightarrow> CancelReason \<Rightarrow> (FakeJourneyManagerInner mutex, JmError, unit) port_call" where
  "fake_cancel_execution ref reason =
     fake_call (pop_respond fjm_cancel_execution fjm_cancel_execution_update Jm_Transient Jm_Permanent Jm_Unavailable)"

definition fake_get_execution_timeline :: "ExecutionRef \<Rightarrow> TimelineOpts \<Rightarrow> (FakeJourneyManagerInner mutex, JmError, Timeline) port_call" where
  "fake_get_execution_timeline ref opts =
     fake_call (pop_respond fjm_get_execution_timeline fjm_get_execution_timeline_update Jm_Transient Jm_Permanent Jm_Unavailable)"

definition FakeJourneyManagerPort :: "FakeJourneyManagerInner mutex JourneyManagerPort" where
  "FakeJourneyManagerPort =
     \<lparr>create_execution = fake_create_execution,
      cancel_execution = fake_cancel_execution,
      get_execution_timeline = fake_get_execution_timeline\<rparr>"

section \<open>The fake of the voice manager port\<close>

record FakeVoiceManagerInner =
  fvm_start_voice_session :: "VoiceSessionRef Outcome list"
  fvm_stop_voice_session :: "unit Outcome list"
  fvm_issue_test_token :: "TestToken Outcome list"
  fvm_create_telephony :: "Telephony Outcome list"
  fvm_list_telephonies :: "(Telephony list) Outcome list"
  fvm_get_telephony :: "Telephony Outcome list"
  fvm_update_telephony :: "Telephony Outcome list"
  fvm_delete_telephony :: "unit Outcome list"

definition FakeVoiceManagerPort_new :: "FakeVoiceManagerInner mutex" where
  "FakeVoiceManagerPort_new =
     new_mutex \<lparr>fvm_start_voice_session = [], fvm_stop_voice_session = [], fvm_issue_test_token = [], fvm_create_telephony = [], fvm_list_telephonies = [], fvm_get_telephony = [], fvm_update_telephony = [], fvm_delete_telephony = []\<rparr>"

definition push_start_voice_session :: "VoiceSessionRef Outcome \<Rightarrow> FakeVoiceManagerInner mutex \<Rightarrow> FakeVoiceManagerInner mutex \<times> unit exec" where
  "push_start_voice_session out = with_lock (push_back fvm_start_voice_session_update out)"

definition push_stop_voice_session :: "unit Outcome \<Rightarrow> FakeVoiceManagerInner mutex \<Rightarrow> FakeVoiceManagerInner mutex \<times> unit exec" where
  "push_stop_voice_session out = with_lock (push_back fvm_stop_voice_session_update out)"

definition push_issue_test_token :: "TestToken Outcome \<Rightarrow> FakeVoiceManagerInner mutex \<Rightarrow> FakeVoiceManagerInner mutex \<times> unit exec" where
  "push_issue_test_token out = with_lock (push_back fvm_issue_test_token_update out)"

definition push_create_telephony :: "Telephony Outcome \<Rightarrow> FakeVoiceManagerInner mutex \<Rightarrow> FakeVoiceManagerInner mutex \<times> unit exec" where
  "push_create_telephony out = with_lock (push_back fvm_create_telephony_update out)"

definition push_list_telephonies :: "(Telephony list) Outcome \<Rightarrow> FakeVoiceManagerInner mutex \<Rightarrow> FakeVoiceManagerInner mutex \<times> unit exec" where
  "push_list_telephonies out = with_lock (push_back fvm_list_telephonies_update out)"

definition push_get_telephony :: "Telephony Outcome \<Rightarrow> FakeVoiceManagerInner mutex \<Rightarrow> FakeVoiceManagerInner mutex \<times> unit exec" where
  "push_get_telephony out = with_lock (push_back fvm_get_telephony_update out)"

definition push_update_telephony :: "Telephony Outcome \<Rightarrow> FakeVoiceManagerInner mutex \<Rightarrow> FakeVoiceManagerInner mutex \<times> unit exec" where
  "push_update_telephony out = with_lock (push_back fvm_update_telephony_update out)"

definition push_delete_telephony :: "unit Outcome \<Rightarrow> FakeVoiceManagerInner mutex \<Rightarrow> FakeVoiceManagerInner mutex \<times> unit exec" where
  "push_delete_telephony out = with_lock (push_back fvm_delete_telephony_update out)"

definition fake_start_voice_session :: "StartVoiceSessionReq \<Rightarrow> (FakeVoiceManagerInner mutex, VmError, VoiceSessionRef) port_call" where
  "fake_start_voice_session req =
     fake_call (pop_respond fvm_start_voice_session fvm_start_voice_session_update Vm_Transient Vm_Permanent Vm_Unavailable)"

definition fake_stop_voice_session :: "VoiceSessionRef \<Rightarrow> StopMode \<Rightarrow> (FakeVoiceManagerInner mutex, VmError, unit) port_call" where
  "fake_stop_voice_session ref mode =
     fake_call (pop_respond fvm_stop_voice_session fvm_stop_voice_session_update Vm_Transient Vm_Permanent Vm_Unavailable)"

definition fake_issue_test_token :: "IssueTestTokenReq \<Rightarrow> (FakeVoiceManagerInner mutex, VmError, TestToken) port_call" where
  "fake_issue_test_token req =
     fake_call (pop_respond fvm_issue_test_token fvm_issue_test_token_update Vm_Transient Vm_Permanent Vm_Unavailable)"

definition fake_create_telephony :: "CreateTelephonyReq \<Rightarrow> (FakeVoiceManagerInner mutex, VmError, Telephony) port_call" where
  "fake_create_telephony req =
     fake_call (pop_respond fvm_create_telephony fvm_create_telephony_update Vm_Transient Vm_Permanent Vm_Unavailable)"

definition fake_list_telephonies :: "ListTelephoniesReq \<Rightarrow> (FakeVoiceManagerInner mutex, VmError, Telephony list) port_call" where
  "fake_list_telephonies req =
     fake_call (pop_respond fvm_list_telephonies fvm_list_telephonies_update Vm_Transient Vm_Permanent Vm_Unavailable)"

definition fake_get_telephony :: "TelephonyId \<Rightarrow> (FakeVoiceManagerInner mutex, VmError, Telephony) port_call" where
  "fake_get_telephony i =
     fake_call (pop_respond fvm_get_telephony fvm_get_telephony_update Vm_Transient Vm_Permanent Vm_Unavailable)"

definition fake_update_telephony :: "UpdateTelephonyReq \<Rightarrow> (FakeVoiceManagerInner mutex, VmError, Telephony) port_call" where
  "fake_update_telephony req =
     fake_call (pop_respond fvm_update_telephony fvm_update_telephony_update Vm_Transient Vm_Permanent Vm_Unavailable)"

definition fake_delete_telephony :: "TelephonyId \<Rightarrow> string \<Rightarrow> (FakeVoiceManagerInner mutex, VmError, unit) port_call" where
  "fake_delete_telephony i usage =
     fake_call (pop_respond fvm_delete_telephony fvm_delete_telephony_update Vm_Transient Vm_Permanent Vm_Unavailable)"

definition FakeVoiceManagerPort :: "FakeVoiceManagerInner mutex VoiceManagerPort" where
  "FakeVoiceManagerPort =
     \<lparr>start_voice_session = fake_start_voice_session,
      stop_voice_session = fake_stop_voice_session,
      issue_test_token = fake_issue_test_token,
      create_telephony = fake_create_telephony,
      list_telephonies = fake_list_telephonies,
      get_telephony = fake_get_telephony,
      update_telephony = fake_update_telephony,
      delete_telephony = fake_delete_telephony\<rparr>"

section \<open>The fake of the post call port\<close>

record FakePostCallInner =
  fpc_get_transcript :: "Transcript Outcome list"
  fpc_get_summary :: "Summary Outcome list"
  fpc_get_sentiment :: "Sentiment Outcome list"
  fpc_get_output_extraction :: "OutputExtraction Outcome list"
  fpc_list_agent_call_logs :: "(CallLog Page) Outcome list"
  fpc_list_org_call_logs :: "(CallLog Page) Outcome list"

definition FakePostCallPort_new :: "FakePostCallInner mutex" where
  "FakePostCallPort_new =
     new_mutex \<lparr>fpc_get_transcript = [], fpc_get_summary = [], fpc_get_sentiment = [], fpc_get_output_extraction = [], fpc_list_agent_call_logs = [], fpc_list_org_call_logs = []\<rparr>"

definition push_get_transcript :: "Transcript Outcome \<Rightarrow> FakePostCallInner mutex \<Rightarrow> FakePostCallInner mutex \<times> unit exec" where
  "push_get_transcript out = with_lock (push_back fpc_get_transcript_update out)"

definition push_get_summary :: "Summary Outcome \<Rightarrow> FakePostCallInner mutex \<Rightarrow> FakePostCallInner mutex \<times> unit exec" where
  "push_get_summary out = with_lock (push_back fpc_get_summary_update out)"

definition push_get_sentiment :: "Sentiment Outcome \<Rightarrow> FakePostCallInner mutex \<Rightarrow> FakePostCallInner mutex \<times> unit exec" where
  "push_get_sentiment out = with_lock (push_back fpc_get_sentiment_update out)"

definition push_get_output_extraction :: "OutputExtraction Outcome \<Rightarrow> FakePostCallInner mutex \<Rightarrow> FakePostCallInner mutex \<times> unit exec" where
  "push_get_output_extraction out = with_lock (push_back fpc_get_output_extraction_update out)"

definition push_list_agent_call_logs :: "(CallLog Page) Outcome \<Rightarrow> FakePostCallInner mutex \<Rightarrow> FakePostCallInner mutex \<times> unit exec" where
  "push_list_agent_call_logs out = with_lock (push_back fpc_list_agent_call_logs_update out)"

definition push_list_org_call_logs :: "(CallLog Page) Outcome \<Rightarrow> FakePostCallInner mutex \<Rightarrow> FakePostCallInner mutex \<times> unit exec" where
  "push_list_org_call_logs out = with_lock (push_back fpc_list_org_call_logs_update out)"

definition fake_get_transcript :: "EngagementId \<Rightarrow> (FakePostCallInner mutex, PostCallError, Transcript) port_call" where
  "fake_get_transcript eng =
     fake_call (pop_respond fpc_get_transcript fpc_get_transcript_update PostCall_Transient PostCall_Permanent PostCall_Unavailable)"

definition fake_get_summary :: "EngagementId \<Rightarrow> (FakePostCallInner mutex, PostCallError, Summary) port_call" where
  "fake_get_summary eng =
     fake_call (pop_respond fpc_get_summary fpc_get_summary_update PostCall_Transient PostCall_Permanent PostCall_Unavailable)"

definition fake_get_sentiment :: "EngagementId \<Rightarrow> (FakePostCallInner mutex, PostCallError, Sentiment) port_call" where
  "fake_get_sentiment eng =
     fake_call (pop_respond fpc_get_sentiment fpc_get_sentiment_update PostCall_Transient PostCall_Permanent PostCall_Unavailable)"

definition fake_get_output_extraction :: "EngagementId \<Rightarrow> (FakePostCallInner mutex, PostCallError, OutputExtraction) port_call" where
  "fake_get_output_extraction eng =
     fake_call (pop_respond fpc_get_output_extraction fpc_get_output_extraction_update PostCall_Transient PostCall_Permanent PostCall_Unavailable)"

definition fake_list_agent_call_logs :: "ListAgentCallLogsReq \<Rightarrow> (FakePostCallInner mutex, PostCallError, CallLog Page) port_call" where
  "fake_list_agent_call_logs req =
     fake_call (pop_respond fpc_list_agent_call_logs fpc_list_agent_call_logs_update PostCall_Transient PostCall_Permanent PostCall_Unavailable)"

definition fake_list_org_call_logs :: "ListOrgCallLogsReq \<Rightarrow> (FakePostCallInner mutex, PostCallError, CallLog Page) port_call" where
  "fake_list_org_call_logs req =
     fake_call (pop_respond fpc_list_org_call_logs fpc_list_org_call_logs_update PostCall_Transient PostCall_Permanent PostCall_Unavailable)"

definition FakePostCallPort :: "FakePostCallInner mutex PostCallPort" where
  "FakePostCallPort =
     \<lparr>get_transcript = fake_get_transcript,
      get_summary = fake_get_summary,
      get_sentiment = fake_get_sentiment,
      get_output_extraction = fake_get_output_extraction,
      list_agent_call_logs = fake_list_agent_call_logs,
      list_org_call_logs = fake_list_org_call_logs\<rparr>"

section \<open>The fake of the analytics port\<close>

record FakeAnalyticsInner =
  fan_get_agent_analytics :: "Analytics Outcome list"
  fan_get_agent_metrics :: "Metrics Outcome list"
  fan_get_org_analytics :: "Analytics Outcome list"
  fan_get_org_metrics :: "Metrics Outcome list"

definition FakeAnalyticsPort_new :: "FakeAnalyticsInner mutex" where
  "FakeAnalyticsPort_new =
     new_mutex \<lparr>fan_get_agent_analytics = [], fan_get_agent_metrics = [], fan_get_org_analytics = [], fan_get_org_metrics = []\<rparr>"

definition push_get_agent_analytics :: "Analytics Outcome \<Rightarrow> FakeAnalyticsInner mutex \<Rightarrow> FakeAnalyticsInner mutex \<times> unit exec" where
  "push_get_agent_analytics out = with_lock (push_back fan_get_agent_analytics_update out)"

definition push_get_agent_metrics :: "Metrics Outcome \<Rightarrow> FakeAnalyticsInner mutex \<Rightarrow> FakeAnalyticsInner mutex \<times> unit exec" where
  "push_get_agent_metrics out = with_lock (push_back fan_get_agent_metrics_update out)"

definition push_get_org_analytics :: "Analytics Outcome \<Rightarrow> FakeAnalyticsInner mutex \<Rightarrow> FakeAnalyticsInner mutex \<times> unit exec" where
  "push_get_org_analytics out = with_lock (push_back fan_get_org_analytics_update out)"

definition push_get_org_metrics :: "Metrics Outcome \<Rightarrow> FakeAnalyticsInner mutex \<Rightarrow> FakeAnalyticsInner mutex \<times> unit exec" where
  "push_get_org_metrics out = with_lock (push_back fan_get_org_metrics_update out)"

definition fake_get_agent_analytics :: "GetAgentAnalyticsReq \<Rightarrow> (FakeAnalyticsInner mutex, AnalyticsError, Analytics) port_call" where
  "fake_get_agent_analytics req =
     fake_call (pop_respond fan_get_agent_analytics fan_get_agent_analytics_update Analytics_Transient Analytics_Permanent Analytics_Unavailable)"

definition fake_get_agent_metrics :: "GetAgentMetricsReq \<Rightarrow> (FakeAnalyticsInner mutex, AnalyticsError, Metrics) port_call" where
  "fake_get_agent_metrics req =
     fake_call (pop_respond fan_get_agent_metrics fan_get_agent_metrics_update Analytics_Transient Analytics_Permanent Analytics_Unavailable)"

definition fake_get_org_analytics :: "GetOrgAnalyticsReq \<Rightarrow> (FakeAnalyticsInner mutex, AnalyticsError, Analytics) port_call" where
  "fake_get_org_analytics req =
     fake_call (pop_respond fan_get_org_analytics fan_get_org_analytics_update Analytics_Transient Analytics_Permanent Analytics_Unavailable)"

definition fake_get_org_metrics :: "GetOrgMetricsReq \<Rightarrow> (FakeAnalyticsInner mutex, AnalyticsError, Metrics) port_call" where
  "fake_get_org_metrics req =
     fake_call (pop_respond fan_get_org_metrics fan_get_org_metrics_update Analytics_Transient Analytics_Permanent Analytics_Unavailable)"

definition FakeAnalyticsPort :: "FakeAnalyticsInner mutex AnalyticsPort" where
  "FakeAnalyticsPort =
     \<lparr>get_agent_analytics = fake_get_agent_analytics,
      get_agent_metrics = fake_get_agent_metrics,
      get_org_analytics = fake_get_org_analytics,
      get_org_metrics = fake_get_org_metrics\<rparr>"

section \<open>The contract of a method\<close>

text \<open>\<open>run_calls n\<close> makes \<open>n\<close> calls in a row; \<open>until_unwind\<close> is a list
  of outcomes in which everything after the first panic is a panic.\<close>

primrec run_calls :: "('m \<Rightarrow> 'm \<times> metric_log \<times> 'r exec) \<Rightarrow> nat \<Rightarrow> 'm \<Rightarrow> 'r exec list" where
  "run_calls call 0 m = []"
| "run_calls call (Suc n) m = (case call m of (m', log, r) \<Rightarrow> r # run_calls call n m')"

fun until_unwind :: "'r exec list \<Rightarrow> 'r exec list" where
  "until_unwind [] = []"
| "until_unwind (Ret a # rs) = Ret a # until_unwind rs"
| "until_unwind (Unwind # rs) = Unwind # map (\<lambda>_. Unwind) rs"

definition push_all :: "('o \<Rightarrow> 'm \<Rightarrow> 'm \<times> unit exec) \<Rightarrow> 'o list \<Rightarrow> 'm \<Rightarrow> 'm" where
  "push_all push outs m = fold (\<lambda>out m. fst (push out m)) outs m"

locale fake_method =
  fixes push :: "'o \<Rightarrow> 'm \<Rightarrow> 'm \<times> unit exec"
    and call :: "'m \<Rightarrow> 'm \<times> metric_log \<times> 'r exec"
    and queue :: "'m \<Rightarrow> 'o list"
    and broken :: "'m \<Rightarrow> bool"
    and respond :: "'o \<Rightarrow> 'r exec"
  assumes push_clean: "\<not> broken m \<Longrightarrow>
        snd (push out m) = Ret () \<and> \<not> broken (fst (push out m)) \<and> queue (fst (push out m)) = queue m @ [out]"
    and call_Cons: "\<not> broken m \<Longrightarrow> queue m = out # outs \<Longrightarrow>
        snd (call m) = ([], respond out) \<and> queue (fst (call m)) = outs \<and>
        (broken (fst (call m)) \<longleftrightarrow> respond out = Unwind)"
    and call_empty: "\<not> broken m \<Longrightarrow> queue m = [] \<Longrightarrow> snd (call m) = ([], Unwind) \<and> broken (fst (call m))"
    and call_broken: "broken m \<Longrightarrow> call m = (m, [], Unwind)"
    and push_broken: "broken m \<Longrightarrow> push out m = (m, Unwind)"
begin

lemma run_calls_broken: "broken m \<Longrightarrow> run_calls call n m = replicate n Unwind"
  by (induction n) (simp_all add: call_broken)

lemma push_all_clean:
  "\<not> broken m \<Longrightarrow> \<not> broken (push_all push outs m) \<and> queue (push_all push outs m) = queue m @ outs"
proof (induction outs arbitrary: m)
  case (Cons out outs)
  then show ?case using push_clean [of m out] by (simp add: push_all_def)
qed (simp add: push_all_def)

lemma run_calls_queue:
  "\<not> broken m \<Longrightarrow>
     run_calls call n m = until_unwind (take n (map respond (queue m)) @ replicate (n - length (queue m)) Unwind)"
proof (induction n arbitrary: m)
  case (Suc n)
  show ?case
  proof (cases "queue m")
    case Nil
    then show ?thesis
      using call_empty [OF Suc.prems] run_calls_broken [of "fst (call m)" n]
      by (auto simp: split_beta map_replicate_const)
  next
    case (Cons out outs)
    note c = call_Cons [OF Suc.prems Cons]
    show ?thesis
    proof (cases "respond out")
      case (Ret a)
      then show ?thesis
        using c Cons Ret Suc.IH [of "fst (call m)"] by (simp add: split_beta)
    next
      case Unwind
      then show ?thesis
        using c Cons run_calls_broken [of "fst (call m)" n]
        by (auto simp: split_beta map_replicate_const min_def)
    qed
  qed
qed simp

text \<open>Outcomes come back in the order they were pushed, until one panics.\<close>

lemma fifo:
  assumes "\<not> broken m" "queue m = []"
  shows "run_calls call n (push_all push outs m) =
     until_unwind (take n (map respond outs) @ replicate (n - length outs) Unwind)"
  using run_calls_queue [of "push_all push outs m" n] push_all_clean [OF assms(1)] assms(2) by simp

end

text \<open>A queue that is a field of the guarded record.\<close>

locale queue_field =
  fixes get :: "'i \<Rightarrow> 't Outcome list"
    and upd :: "('t Outcome list \<Rightarrow> 't Outcome list) \<Rightarrow> 'i \<Rightarrow> 'i"
    and transient :: "string \<Rightarrow> 'e" and permanent :: "string \<Rightarrow> 'e" and unavailable :: 'e
  assumes get_upd: "get (upd f i) = f (get i)"

sublocale queue_field \<subseteq> fake_method "\<lambda>out. with_lock (push_back upd out)"
  "fake_call (pop_respond get upd transient permanent unavailable)" "\<lambda>m. get (guarded m)" poisoned
  "outcome_result transient permanent unavailable"
  by unfold_locales
     (auto simp: with_lock_def push_back_def pop_respond_def fake_call_def get_upd is_unwind_iff)

interpretation q_resolve_snapshot: queue_field frg_resolve_snapshot frg_resolve_snapshot_update Registry_Transient Registry_Permanent Registry_Unavailable
  by unfold_locales simp

interpretation q_get_voice_profile: queue_field frg_get_voice_profile frg_get_voice_profile_update Registry_Transient Registry_Permanent Registry_Unavailable
  by unfold_locales simp

interpretation q_create_execution: queue_field fjm_create_execution fjm_create_execution_update Jm_Transient Jm_Permanent Jm_Unavailable
  by unfold_locales simp

interpretation q_cancel_execution: queue_field fjm_cancel_execution fjm_cancel_execution_update Jm_Transient Jm_Permanent Jm_Unavailable
  by unfold_locales simp

interpretation q_get_execution_timeline: queue_field fjm_get_execution_timeline fjm_get_execution_timeline_update Jm_Transient Jm_Permanent Jm_Unavailable
  by unfold_locales simp

interpretation q_start_voice_session: queue_field fvm_start_voice_session fvm_start_voice_session_update Vm_Transient Vm_Permanent Vm_Unavailable
  by unfold_locales simp

interpretation q_stop_voice_session: queue_field fvm_stop_voice_session fvm_stop_voice_session_update Vm_Transient Vm_Permanent Vm_Unavailable
  by unfold_locales simp

interpretation q_issue_test_token: queue_field fvm_issue_test_token fvm_issue_test_token_update Vm_Transient Vm_Permanent Vm_Unavailable
  by unfold_locales simp

interpretation q_create_telephony: queue_field fvm_create_telephony fvm_create_telephony_update Vm_Transient Vm_Permanent Vm_Unavailable
  by unfold_locales simp

interpretation q_list_telephonies: queue_field fvm_list_telephonies fvm_list_telephonies_update Vm_Transient Vm_Permanent Vm_Unavailable
  by unfold_locales simp

interpretation q_get_telephony: queue_field fvm_get_telephony fvm_get_telephony_update Vm_Transient Vm_Permanent Vm_Unavailable
  by unfold_locales simp

interpretation q_update_telephony: queue_field fvm_update_telephony fvm_update_telephony_update Vm_Transient Vm_Permanent Vm_Unavailable
  by unfold_locales simp

interpretation q_delete_telephony: queue_field fvm_delete_telephony fvm_delete_telephony_update Vm_Transient Vm_Permanent Vm_Unavailable
  by unfold_locales simp

interpretation q_get_transcript: queue_field fpc_get_transcript fpc_get_transcript_update PostCall_Transient PostCall_Permanent PostCall_Unavailable
  by unfold_locales simp

interpretation q_get_summary: queue_field fpc_get_summary fpc_get_summary_update PostCall_Transient PostCall_Permanent PostCall_Unavailable
  by unfold_locales simp

interpretation q_get_sentiment: queue_field fpc_get_sentiment fpc_get_sentiment_update PostCall_Transient PostCall_Permanent PostCall_Unavailable
  by unfold_locales simp

interpretation q_get_output_extraction: queue_field fpc_get_output_extraction fpc_get_output_extraction_update PostCall_Transient PostCall_Permanent PostCall_Unavailable
  by unfold_locales simp

interpretation q_list_agent_call_logs: queue_field fpc_list_agent_call_logs fpc_list_agent_call_logs_update PostCall_Transient PostCall_Permanent PostCall_Unavailable
  by unfold_locales simp

interpretation q_list_org_call_logs: queue_field fpc_list_org_call_logs fpc_list_org_call_logs_update PostCall_Transient PostCall_Permanent PostCall_Unavailable
  by unfold_locales simp

interpretation q_get_agent_analytics: queue_field fan_get_agent_analytics fan_get_agent_analytics_update Analytics_Transient Analytics_Permanent Analytics_Unavailable
  by unfold_locales simp

interpretation q_get_agent_metrics: queue_field fan_get_agent_metrics fan_get_agent_metrics_update Analytics_Transient Analytics_Permanent Analytics_Unavailable
  by unfold_locales simp

interpretation q_get_org_analytics: queue_field fan_get_org_analytics fan_get_org_analytics_update Analytics_Transient Analytics_Permanent Analytics_Unavailable
  by unfold_locales simp

interpretation q_get_org_metrics: queue_field fan_get_org_metrics fan_get_org_metrics_update Analytics_Transient Analytics_Permanent Analytics_Unavailable
  by unfold_locales simp

lemmas fake_vm_defs = FakeVoiceManagerPort_def
  fake_start_voice_session_def fake_stop_voice_session_def fake_issue_test_token_def fake_create_telephony_def
  fake_list_telephonies_def fake_get_telephony_def fake_update_telephony_def fake_delete_telephony_def

text \<open>A fresh Voice Manager fake answers \<open>start_voice_session\<close> with the pushed outcomes in
  the order they were pushed, each mapped to its result, up to the first injected panic; that call and
  all later ones panic, and so does every call beyond the pushed outcomes.\<close>

theorem fake_vm_start_fifo:
  "run_calls (start_voice_session FakeVoiceManagerPort req) n
     (push_all push_start_voice_session outs FakeVoiceManagerPort_new) =
   until_unwind (take n (map (outcome_result Vm_Transient Vm_Permanent Vm_Unavailable) outs) @
     replicate (n - length outs) Unwind)"
proof -
  have "\<not> poisoned FakeVoiceManagerPort_new" "fvm_start_voice_session (guarded FakeVoiceManagerPort_new) = []"
    by (simp_all add: FakeVoiceManagerPort_new_def new_mutex_def)
  from q_start_voice_session.fifo [OF this, of n outs] show ?thesis
    by (simp add: fake_vm_defs push_start_voice_session_def [abs_def])
qed

lemma with_lock_unwind: "with_lock body m = (m', Unwind) \<Longrightarrow> poisoned m'"
  using with_lock_poison_iff [of body m m' Unwind] by simp

lemma fake_call_unwind: "fake_call body m = (m', log, Unwind) \<Longrightarrow> poisoned m'"
  by (auto simp: fake_call_def with_lock_unwind split: prod.splits)

lemma fake_call_poisoned: "poisoned m \<Longrightarrow> fake_call body m = (m, [], Unwind)"
  by (simp add: fake_call_def with_lock_poisoned)

lemma answer_unwind: "answer c run = (m', log, Unwind) \<Longrightarrow> \<exists>r. run = (m', log, r) \<and> r = Unwind"
  by (cases run; cases "snd (snd run)") (auto simp: answer_def)

lemma answer_Unwind [simp]: "answer c (m, log, Unwind) = (m, log, Unwind)"
  by (simp add: answer_def)

lemma fake_vm_poisons:
  "run_vm FakeVoiceManagerPort c1 m = (m', log, Unwind) \<Longrightarrow> poisoned m'"
  by (cases c1) (auto simp: fake_vm_defs dest!: answer_unwind fake_call_unwind)

lemma fake_vm_poisoned_call: "poisoned m \<Longrightarrow> run_vm FakeVoiceManagerPort c2 m = (m, [], Unwind)"
  by (cases c2) (simp_all add: fake_vm_defs fake_call_poisoned)

text \<open>The methods of a fake share one mutex: once any call on the Voice Manager fake has panicked,
  every later call of every method panics and leaves the fake as it is, whatever was queued for it, and
  so does every later push.\<close>

theorem fake_vm_panic_poisons_all:
  assumes "run_vm FakeVoiceManagerPort first m = (m', log, Unwind)"
  shows "run_vm FakeVoiceManagerPort later m' = (m', [], Unwind) \<and>
    push_stop_voice_session out m' = (m', Unwind)"
  using fake_vm_poisons [OF assms] fake_vm_poisoned_call with_lock_poisoned
  by (auto simp: push_stop_voice_session_def)

theorem fake_vm_panic_poisons_all_witness:
  "run_vm FakeVoiceManagerPort (GetTelephony (TelephonyId 2))
     (\<lparr>poisoned = True, guarded = guarded FakeVoiceManagerPort_new\<rparr>) =
     (\<lparr>poisoned = True, guarded = guarded FakeVoiceManagerPort_new\<rparr>, [], Unwind) \<and>
   push_stop_voice_session (Success ()) (\<lparr>poisoned = True, guarded = guarded FakeVoiceManagerPort_new\<rparr>) =
     (\<lparr>poisoned = True, guarded = guarded FakeVoiceManagerPort_new\<rparr>, Unwind)"
proof (rule fake_vm_panic_poisons_all)
  show "run_vm FakeVoiceManagerPort (GetTelephony (TelephonyId 1)) FakeVoiceManagerPort_new =
      (\<lparr>poisoned = True, guarded = guarded FakeVoiceManagerPort_new\<rparr>, [], Unwind)"
    by (simp add: fake_vm_defs FakeVoiceManagerPort_new_def fake_call_def pop_respond_def)
       (simp add: new_mutex_def)
qed

end
