(* ===== verification/Config.thy ===== *)
theory Config
  imports Prelude
begin

text \<open>
  Configuration and start-up (\<^verbatim>\<open>engagement-hub/src/config.rs\<close> and the first half of
  \<^verbatim>\<open>engagement-hub/src/main.rs\<close>). The command-line and environment parser (\<^verbatim>\<open>clap\<close>)
  is not modelled: a \<open>Config\<close> is its result. Socket addresses are only moved and are kept as
  text. What start-up calls outside the configuration (the metrics registry, the pool, the migrations,
  the listeners) enters as the results of those calls.
\<close>

section \<open>The configuration\<close>

datatype LogFormat = Json | Pretty

datatype Env = Dev | Staging | Production

fun env_as_metric_label :: "Env \<Rightarrow> string" where
  "env_as_metric_label Dev = ''dev''"
| "env_as_metric_label Staging = ''staging''"
| "env_as_metric_label Production = ''production''"

datatype RegistryAdapter = Stub | Grpc

fun adapter_as_metric_label :: "RegistryAdapter \<Rightarrow> string" where
  "adapter_as_metric_label Stub = ''stub''"
| "adapter_as_metric_label Grpc = ''grpc''"

type_synonym SocketAddr = string

record Config =
  env :: Env
  registry_adapter :: RegistryAdapter
  track_0_idle_mode :: bool
  database_url :: string
  external_grpc_addr :: SocketAddr
  internal_grpc_addr :: SocketAddr
  http_addr :: SocketAddr
  db_pool_min :: "32 word"
  db_pool_max :: "32 word"
  db_idle_timeout_secs :: "64 word"
  db_statement_timeout_ms :: "64 word"
  db_slow_query_ms :: "64 word"
  db_acquire_timeout_secs :: "64 word"
  db_max_lifetime_secs :: "64 word"
  log_format :: LogFormat
  otel_export_grafana :: bool
  otel_export_langfuse :: bool
  otel_export_local :: bool
  otel_grafana_endpoint :: string
  otel_langfuse_endpoint :: string
  langfuse_public_key :: "string option"
  langfuse_secret_key :: "string option"

datatype ConfigError = ProdStubWithoutIdle | StatementTimeoutDisabled | LangfuseKeysMissing

definition validate :: "Config \<Rightarrow> (ConfigError, unit) result" where
  "validate cfg =
     (if env cfg = Production \<and> registry_adapter cfg = Stub \<and> \<not> track_0_idle_mode cfg
      then Inl ProdStubWithoutIdle
      else if db_statement_timeout_ms cfg = 0 then Inl StatementTimeoutDisabled
      else if otel_export_langfuse cfg then
        (case (langfuse_public_key cfg, langfuse_secret_key cfg) of
           (Some pk, Some sk) \<Rightarrow> if pk \<noteq> [] \<and> sk \<noteq> [] then Inr () else Inl LangfuseKeysMissing
         | _ \<Rightarrow> Inl LangfuseKeysMissing)
      else Inr ())"

definition bind_external_port :: "Config \<Rightarrow> bool" where
  "bind_external_port cfg = (\<not> track_0_idle_mode cfg)"

definition apply_otel_local_default :: "Config \<Rightarrow> bool \<Rightarrow> Config" where
  "apply_otel_local_default cfg var_set =
     (if \<not> var_set \<and> env cfg = Dev then cfg\<lparr>otel_export_local := True\<rparr> else cfg)"

text \<open>An unknown value only prints a warning.\<close>

definition apply_otel_type_legacy :: "Config \<Rightarrow> string option \<Rightarrow> Config" where
  "apply_otel_type_legacy cfg otel_type =
     (case otel_type of
        None \<Rightarrow> cfg
      | Some t \<Rightarrow>
          if t = ''collector'' then cfg\<lparr>otel_export_grafana := True\<rparr>
          else if t = ''langfuse'' then cfg\<lparr>otel_export_langfuse := True\<rparr>
          else if t = ''both'' then cfg\<lparr>otel_export_grafana := True, otel_export_langfuse := True\<rparr>
          else cfg)"

section \<open>Start-up\<close>

text \<open>\<open>Exit n\<close>: the process ends with code \<open>n\<close> (an error returned from
  \<^verbatim>\<open>main\<close> is code 1, a panic of it code 101); \<open>Started cfg external\<close>: the servers run with the effective
  configuration, the external listener bound or not.\<close>

datatype startup = Exit nat | Started Config bool

definition effective_config :: "Config \<Rightarrow> bool \<Rightarrow> string option \<Rightarrow> Config option" where
  "effective_config cfg local_var_set otel_type =
     (case validate cfg of
        Inl e \<Rightarrow> None
      | Inr _ \<Rightarrow>
          (let cfg1 = apply_otel_local_default cfg local_var_set in
           case otel_type of
             None \<Rightarrow> Some cfg1
           | Some t \<Rightarrow>
               (let cfg2 = apply_otel_type_legacy cfg1 (Some t) in
                case validate cfg2 of Inl e \<Rightarrow> None | Inr _ \<Rightarrow> Some cfg2)))"

definition main_startup ::
  "Config \<Rightarrow> bool \<Rightarrow> string option \<Rightarrow> (Config \<Rightarrow> bool) \<Rightarrow> (Config \<Rightarrow> bool) \<Rightarrow> (Config \<Rightarrow> bool) \<Rightarrow> bool \<Rightarrow>
     (bool \<Rightarrow> bool) \<Rightarrow> startup" where
  "main_startup cfg local_var_set otel_type metrics_ok telemetry_ok pool_ok migrations_ok spawn_ok =
     (case effective_config cfg local_var_set otel_type of
        None \<Rightarrow> Exit 78
      | Some cfg' \<Rightarrow>
          if \<not> metrics_ok cfg' then Exit 1
          else if \<not> telemetry_ok cfg' then Exit 101
          else if \<not> pool_ok cfg' then Exit 1
          else if \<not> migrations_ok then Exit 70
          else if \<not> spawn_ok (bind_external_port cfg') then Exit 1
          else Started cfg' (bind_external_port cfg'))"

section \<open>What validation accepts\<close>

definition langfuse_ready :: "Config \<Rightarrow> bool" where
  "langfuse_ready cfg =
     (case (langfuse_public_key cfg, langfuse_secret_key cfg) of
        (Some pk, Some sk) \<Rightarrow> pk \<noteq> [] \<and> sk \<noteq> []
      | _ \<Rightarrow> False)"

lemma validate_cases:
  "validate cfg =
     (if env cfg = Production \<and> registry_adapter cfg = Stub \<and> \<not> track_0_idle_mode cfg
      then Inl ProdStubWithoutIdle
      else if db_statement_timeout_ms cfg = 0 then Inl StatementTimeoutDisabled
      else if otel_export_langfuse cfg \<and> \<not> langfuse_ready cfg then Inl LangfuseKeysMissing
      else Inr ())"
  by (auto simp: validate_def langfuse_ready_def split: option.splits)

text \<open>With a statement timeout and no Langfuse export, exactly one of the twelve combinations of
  environment, registry adapter and idle mode is rejected: the stub in production without idle mode. All
  the others are accepted, whatever the rest of the configuration says.\<close>

theorem prod_idle_guard_exact:
  assumes "db_statement_timeout_ms cfg \<noteq> 0" "\<not> otel_export_langfuse cfg"
  shows "(validate cfg = Inl ProdStubWithoutIdle \<longleftrightarrow>
       (env cfg, registry_adapter cfg, track_0_idle_mode cfg) = (Production, Stub, False)) \<and>
    (validate cfg = Inr () \<longleftrightarrow>
       (env cfg, registry_adapter cfg, track_0_idle_mode cfg) \<noteq> (Production, Stub, False))"
  using assms by (auto simp: validate_cases)

definition sample_config :: Config where
  "sample_config =
     \<lparr>env = Dev, registry_adapter = Grpc, track_0_idle_mode = False, database_url = ''postgres://h/db'',
      external_grpc_addr = ''0.0.0.0:8443'', internal_grpc_addr = ''0.0.0.0:8444'',
      http_addr = ''0.0.0.0:9090'', db_pool_min = 10, db_pool_max = 25, db_idle_timeout_secs = 300,
      db_statement_timeout_ms = 5000, db_slow_query_ms = 500, db_acquire_timeout_secs = 3,
      db_max_lifetime_secs = 1800, log_format = Json, otel_export_grafana = True,
      otel_export_langfuse = False, otel_export_local = False,
      otel_grafana_endpoint = ''http://localhost:4317'',
      otel_langfuse_endpoint = ''https://cloud.langfuse.com/api/public/otel'',
      langfuse_public_key = None, langfuse_secret_key = None\<rparr>"

theorem prod_idle_guard_exact_witness:
  "(validate sample_config = Inl ProdStubWithoutIdle \<longleftrightarrow>
       (env sample_config, registry_adapter sample_config, track_0_idle_mode sample_config) =
         (Production, Stub, False)) \<and>
    (validate sample_config = Inr () \<longleftrightarrow>
       (env sample_config, registry_adapter sample_config, track_0_idle_mode sample_config) \<noteq>
         (Production, Stub, False))"
  by (rule prod_idle_guard_exact) (simp_all add: sample_config_def)

section \<open>What start-up guarantees\<close>

lemma apply_otel_local_default_keeps [simp]:
  "validate (apply_otel_local_default cfg b) = validate cfg"
  by (simp add: apply_otel_local_default_def validate_def)

lemma legacy_keeps:
  "env (apply_otel_type_legacy cfg t) = env cfg"
  "registry_adapter (apply_otel_type_legacy cfg t) = registry_adapter cfg"
  "track_0_idle_mode (apply_otel_type_legacy cfg t) = track_0_idle_mode cfg"
  by (auto simp: apply_otel_type_legacy_def split: option.splits)

lemma local_default_keeps:
  "env (apply_otel_local_default cfg b) = env cfg"
  "registry_adapter (apply_otel_local_default cfg b) = registry_adapter cfg"
  "track_0_idle_mode (apply_otel_local_default cfg b) = track_0_idle_mode cfg"
  by (simp_all add: apply_otel_local_default_def)

lemma effective_config_valid:
  "effective_config cfg b t = Some cfg' \<Longrightarrow>
     validate cfg' = Inr () \<and> env cfg' = env cfg \<and> registry_adapter cfg' = registry_adapter cfg \<and>
     track_0_idle_mode cfg' = track_0_idle_mode cfg"
  by (auto simp: effective_config_def Let_def legacy_keeps local_default_keeps
      split: sum.splits option.splits)

lemma main_startup_Started:
  "main_startup cfg b t m te p mi s = Started cfg' ext \<Longrightarrow>
     effective_config cfg b t = Some cfg' \<and> ext = bind_external_port cfg'"
  by (auto simp: main_startup_def split: option.splits if_splits)

text \<open>C12. The servers only start under a configuration that passes validation after the telemetry
  defaults and the legacy switch have been applied to it; environment, adapter and idle mode are the
  operator's; the external listener is bound exactly outside idle mode; and a production process that
  serves from the stub registry never has it bound.\<close>

theorem startup_guards:
  assumes "main_startup cfg local_var_set otel_type metrics_ok telemetry_ok pool_ok migrations_ok spawn_ok =
      Started cfg' external"
  shows "validate cfg' = Inr () \<and> env cfg' = env cfg \<and> registry_adapter cfg' = registry_adapter cfg \<and>
    (external \<longleftrightarrow> \<not> track_0_idle_mode cfg) \<and>
    \<not> (env cfg = Production \<and> registry_adapter cfg = Stub \<and> external)"
proof -
  have e: "effective_config cfg local_var_set otel_type = Some cfg'" "external = bind_external_port cfg'"
    using main_startup_Started [OF assms] by simp_all
  then show ?thesis
    using effective_config_valid [OF e(1)] by (auto simp: bind_external_port_def validate_cases split: if_splits)
qed

theorem startup_guards_witness:
  "validate (sample_config\<lparr>otel_export_local := True\<rparr>) = Inr () \<and>
    env (sample_config\<lparr>otel_export_local := True\<rparr>) = env sample_config \<and>
    registry_adapter (sample_config\<lparr>otel_export_local := True\<rparr>) = registry_adapter sample_config \<and>
    (True \<longleftrightarrow> \<not> track_0_idle_mode sample_config) \<and>
    \<not> (env sample_config = Production \<and> registry_adapter sample_config = Stub \<and> True)"
  by (rule startup_guards [of sample_config False None "\<lambda>_. True" "\<lambda>_. True" "\<lambda>_. True" True "\<lambda>_. True"])
     (simp add: main_startup_def effective_config_def apply_otel_local_default_def bind_external_port_def
        validate_def sample_config_def)

lemma local_default_langfuse [simp]:
  "langfuse_ready (apply_otel_local_default cfg b) = langfuse_ready cfg"
  by (simp add: apply_otel_local_default_def langfuse_ready_def cong: option.case_cong)

lemma validate_langfuse_on:
  assumes "validate cfg = Inr ()"
  shows "validate (cfg\<lparr>otel_export_langfuse := True\<rparr>) =
     (if langfuse_ready cfg then Inr () else Inl LangfuseKeysMissing)"
  using assms by (simp add: validate_cases langfuse_ready_def cong: option.case_cong split: if_splits)

lemma validate_grafana [simp]: "validate (cfg\<lparr>otel_export_grafana := b\<rparr>) = validate cfg"
  by (simp add: validate_def cong: option.case_cong)

lemma legacy_langfuse_validate:
  assumes "t \<in> {''langfuse'', ''both''}" "validate cfg = Inr ()"
  shows "validate (apply_otel_type_legacy cfg (Some t)) =
       (if langfuse_ready cfg then Inr () else Inl LangfuseKeysMissing) \<and>
     otel_export_langfuse (apply_otel_type_legacy cfg (Some t))"
proof -
  have "langfuse_ready (cfg\<lparr>otel_export_grafana := True\<rparr>) = langfuse_ready cfg"
    by (simp add: langfuse_ready_def cong: option.case_cong)
  then show ?thesis
    using assms validate_langfuse_on [of cfg] validate_langfuse_on [of "cfg\<lparr>otel_export_grafana := True\<rparr>"]
    by (auto simp: apply_otel_type_legacy_def)
qed

text \<open>The legacy switch is checked: whatever was validated before, a value that turns the Langfuse
  export on ends the process with code 78 unless both keys are set and non-empty, and otherwise the
  export is on in the configuration that runs.\<close>

theorem legacy_langfuse_needs_keys:
  assumes "t \<in> {''langfuse'', ''both''}" "validate cfg = Inr ()"
  shows "main_startup cfg local_var_set (Some t) (\<lambda>_. True) (\<lambda>_. True) (\<lambda>_. True) True (\<lambda>_. True) =
     (if langfuse_ready cfg
      then Started (apply_otel_type_legacy (apply_otel_local_default cfg local_var_set) (Some t))
             (bind_external_port cfg)
      else Exit 78) \<and>
    otel_export_langfuse (apply_otel_type_legacy (apply_otel_local_default cfg local_var_set) (Some t))"
proof -
  let ?cfg1 = "apply_otel_local_default cfg local_var_set"
  let ?cfg2 = "apply_otel_type_legacy ?cfg1 (Some t)"
  have v: "validate ?cfg2 = (if langfuse_ready cfg then Inr () else Inl LangfuseKeysMissing)"
    and on: "otel_export_langfuse ?cfg2"
    using legacy_langfuse_validate [OF assms(1), of ?cfg1] assms(2) by simp_all
  have "bind_external_port ?cfg2 = bind_external_port cfg"
    by (simp add: bind_external_port_def legacy_keeps local_default_keeps)
  then show ?thesis
    using assms(2) v on by (simp add: main_startup_def effective_config_def Let_def)
qed

theorem legacy_langfuse_needs_keys_witness:
  "main_startup sample_config True (Some ''both'') (\<lambda>_. True) (\<lambda>_. True) (\<lambda>_. True) True (\<lambda>_. True) =
     (if langfuse_ready sample_config
      then Started (apply_otel_type_legacy (apply_otel_local_default sample_config True) (Some ''both''))
             (bind_external_port sample_config)
      else Exit 78) \<and>
    otel_export_langfuse (apply_otel_type_legacy (apply_otel_local_default sample_config True) (Some ''both''))"
  by (rule legacy_langfuse_needs_keys) (simp_all add: validate_def sample_config_def)

end
