(* ===== verification/Schema.thy ===== *)
theory Schema
  imports Prelude
begin

text \<open>
  The database the hub runs on, as its migration creates it
  (\<^verbatim>\<open>migrations/20260515000000_initial_schema.up.sql\<close>): five tables with the types, defaults and
  constraints of their columns, the trigger that stamps \<^verbatim>\<open>updated_at\<close> and the trigger that notifies
  of a new event.

  The tables are data (\<open>schema\<close>); the statements on them are run by a small engine with the
  documented behaviour of PostgreSQL: a statement that binds a value its column cannot hold or violates a \<^verbatim>\<open>NOT NULL\<close>, a
  \<^verbatim>\<open>CHECK\<close>, a key or a reference is refused, deletion cascades, a failed statement undoes its
  transaction, notifications leave with the commit, and a number drawn from a sequence stays drawn.
  Transactions are applied in the order of their commits, each at one time \<open>now\<close>; the text
  of a JSON value is kept as it is.

  The lemmas show that every database reachable by any transactions satisfies all constraints of the schema.
\<close>

section \<open>Values and columns\<close>

datatype sql_type = UUID | BYTEA | SMALLINT | BIGINT | TEXT | JSONB | TIMESTAMPTZ

datatype sql_value =
    Null
  | V_Uuid uuid
  | V_Bytes "8 word list"
  | V_Int int
  | V_Text string
  | V_Json string
  | V_Time nat

text \<open>What PostgreSQL stores: no text with a NUL byte, and no JSON with a NUL in one of its strings (where
  JSON writes it as an escape). The text of a \<open>V_Json\<close> is that of a JSON value, which is all the program
  can bind (\<^verbatim>\<open>serde_json::Value\<close>); limits on sizes are not modelled.\<close>

definition text_ok :: "string \<Rightarrow> bool" where
  "text_ok s \<longleftrightarrow> CHR 0x00 \<notin> set s"

fun nul_escape :: "string \<Rightarrow> bool" where
  "nul_escape [] = False"
| "nul_escape [c] = False"
| "nul_escape (c # d # cs) =
     (if c = CHR 0x5C then d = CHR ''u'' \<and> take 4 cs = ''0000'' \<or> nul_escape cs else nul_escape (d # cs))"

definition json_ok :: "string \<Rightarrow> bool" where
  "json_ok j \<longleftrightarrow> text_ok j \<and> \<not> nul_escape j"

fun typed :: "sql_type \<Rightarrow> sql_value \<Rightarrow> bool" where
  "typed t Null = True"
| "typed UUID (V_Uuid u) = True"
| "typed BYTEA (V_Bytes b) = True"
| "typed SMALLINT (V_Int i) = (- (2 ^ 15) \<le> i \<and> i < 2 ^ 15)"
| "typed BIGINT (V_Int i) = (- (2 ^ 63) \<le> i \<and> i < 2 ^ 63)"
| "typed TEXT (V_Text s) = text_ok s"
| "typed JSONB (V_Json j) = json_ok j"
| "typed TIMESTAMPTZ (V_Time t) = True"
| "typed t v = False"

datatype col_default = No_Default | Default_Now | Default_Value sql_value | Default_Serial

record column =
  col_name :: string
  col_type :: sql_type
  not_null :: bool
  col_default :: col_default

type_synonym row = "string \<Rightarrow> sql_value"

record foreign_key =
  fk_column :: string
  fk_table :: string
  fk_target :: string

record table_def =
  columns :: "column list"
  keys :: "string list list"
  foreign_keys :: "foreign_key list"
  row_check :: "row \<Rightarrow> bool"

text \<open>The three ways the migration declares a column; a primary key is also \<^verbatim>\<open>NOT NULL\<close>.\<close>

definition nullable :: "string \<Rightarrow> sql_type \<Rightarrow> column" where
  "nullable n t = \<lparr>col_name = n, col_type = t, not_null = False, col_default = No_Default\<rparr>"

definition required :: "string \<Rightarrow> sql_type \<Rightarrow> column" where
  "required n t = \<lparr>col_name = n, col_type = t, not_null = True, col_default = No_Default\<rparr>"

definition defaulted :: "string \<Rightarrow> sql_type \<Rightarrow> col_default \<Rightarrow> column" where
  "defaulted n t d = \<lparr>col_name = n, col_type = t, not_null = True, col_default = d\<rparr>"

section \<open>The tables\<close>

definition contact_check :: "row \<Rightarrow> bool" where
  "contact_check r =
     (r ''contact_kind'' \<in> {V_Int 1, V_Int 2} \<and>
       ((r ''contact_kind'' = V_Int 1 \<and> r ''contact_id'' \<noteq> Null) \<or>
        (r ''contact_kind'' = V_Int 2 \<and> r ''contact_phone_e164'' \<noteq> Null)))"

definition engagements :: table_def where
  "engagements =
     \<lparr>columns =
        [required ''engagement_id'' UUID,
         required ''organization_id'' UUID,
         required ''request_id'' UUID,
         required ''payload_hash'' BYTEA,
         required ''channel'' SMALLINT,
         required ''mode'' SMALLINT,
         required ''journey_id'' TEXT,
         required ''journey_version'' TEXT,
         nullable ''snapshot_id'' UUID,
         required ''contact_kind'' SMALLINT,
         nullable ''contact_id'' UUID,
         nullable ''contact_phone_e164'' TEXT,
         nullable ''contact_display_name'' TEXT,
         nullable ''batch_id'' UUID,
         required ''created_by_kind'' SMALLINT,
         required ''created_by_id'' TEXT,
         required ''status'' SMALLINT,
         nullable ''status_reason'' TEXT,
         nullable ''error_code'' SMALLINT,
         nullable ''error_message'' TEXT,
         nullable ''error_downstream'' TEXT,
         nullable ''error_details_json'' JSONB,
         defaulted ''metadata'' JSONB (Default_Value (V_Json ''{}'')),
         nullable ''trace_context'' JSONB,
         nullable ''voice_session_ref'' TEXT,
         nullable ''voice_session_unbound_at'' TIMESTAMPTZ,
         nullable ''journey_execution_ref'' TEXT,
         nullable ''journey_cleanup_done_at'' TIMESTAMPTZ,
         defaulted ''created_at'' TIMESTAMPTZ Default_Now,
         defaulted ''updated_at'' TIMESTAMPTZ Default_Now,
         nullable ''started_at'' TIMESTAMPTZ,
         nullable ''ended_at'' TIMESTAMPTZ],
      keys = [[''engagement_id''], [''organization_id'', ''request_id'']],
      foreign_keys = [],
      row_check = contact_check\<rparr>"

text \<open>\<^verbatim>\<open>engagement_id UUID NOT NULL REFERENCES engagements(engagement_id) ON DELETE CASCADE\<close>.\<close>

definition engagement_ref :: foreign_key where
  "engagement_ref = \<lparr>fk_column = ''engagement_id'', fk_table = ''engagements'', fk_target = ''engagement_id''\<rparr>"

definition engagement_invocations :: table_def where
  "engagement_invocations =
     \<lparr>columns =
        [required ''invocation_id'' UUID,
         required ''engagement_id'' UUID,
         required ''channel'' SMALLINT,
         required ''channel_session_ref'' TEXT,
         defaulted ''bound_at'' TIMESTAMPTZ Default_Now,
         nullable ''unbound_at'' TIMESTAMPTZ,
         nullable ''unbound_reason'' TEXT],
      keys = [[''invocation_id''], [''channel'', ''channel_session_ref'']],
      foreign_keys = [engagement_ref],
      row_check = (\<lambda>r. True)\<rparr>"

definition route_resolutions :: table_def where
  "route_resolutions =
     \<lparr>columns =
        [required ''resolution_id'' UUID,
         required ''engagement_id'' UUID,
         required ''input_journey_id'' TEXT,
         required ''input_journey_version'' TEXT,
         required ''input_channel'' SMALLINT,
         required ''input_contact_kind'' SMALLINT,
         required ''input_contact_value'' TEXT,
         required ''resolved_snapshot_id'' UUID,
         required ''resolved_journey_version'' TEXT,
         nullable ''resolved_telephony_id'' UUID,
         nullable ''resolved_voice_profile_id'' UUID,
         nullable ''resolver_inputs'' JSONB,
         defaulted ''resolved_at'' TIMESTAMPTZ Default_Now],
      keys = [[''resolution_id''], [''engagement_id'']],
      foreign_keys = [engagement_ref],
      row_check = (\<lambda>r. True)\<rparr>"

definition engagement_events :: table_def where
  "engagement_events =
     \<lparr>columns =
        [required ''event_id'' UUID,
         required ''engagement_id'' UUID,
         required ''organization_id'' UUID,
         required ''sequence'' BIGINT,
         required ''event_type'' SMALLINT,
         defaulted ''occurred_at'' TIMESTAMPTZ Default_Now,
         required ''status_after'' SMALLINT,
         defaulted ''payload'' JSONB (Default_Value (V_Json ''{}'')),
         nullable ''error_code'' SMALLINT,
         nullable ''error_message'' TEXT,
         required ''source'' SMALLINT,
         nullable ''trace_context'' JSONB,
         defaulted ''event_pk'' BIGINT Default_Serial],
      keys = [[''event_id''], [''event_pk''], [''engagement_id'', ''sequence'']],
      foreign_keys = [engagement_ref],
      row_check = (\<lambda>r. True)\<rparr>"

definition engagement_audit :: table_def where
  "engagement_audit =
     \<lparr>columns =
        [required ''audit_id'' UUID,
         defaulted ''occurred_at'' TIMESTAMPTZ Default_Now,
         nullable ''finalized_at'' TIMESTAMPTZ,
         nullable ''organization_id'' UUID,
         required ''acting_principal_kind'' SMALLINT,
         required ''acting_principal_id'' TEXT,
         nullable ''acting_user_id'' UUID,
         required ''acting_via'' TEXT,
         required ''rpc_name'' TEXT,
         nullable ''engagement_id'' UUID,
         nullable ''request_id'' UUID,
         required ''outcome'' SMALLINT,
         nullable ''error_code'' TEXT,
         nullable ''request_summary'' JSONB,
         nullable ''trace_id'' TEXT,
         nullable ''archived_at'' TIMESTAMPTZ],
      keys = [[''audit_id'']],
      foreign_keys = [],
      row_check = (\<lambda>r. True)\<rparr>"

definition schema :: "(string \<times> table_def) list" where
  "schema =
     [(''engagements'', engagements),
      (''engagement_invocations'', engagement_invocations),
      (''route_resolutions'', route_resolutions),
      (''engagement_events'', engagement_events),
      (''engagement_audit'', engagement_audit)]"

section \<open>The engine\<close>

datatype sql_error =
    Undefined_Table
  | Undefined_Column
  | Type_Mismatch
  | Not_Null_Violation
  | Check_Violation
  | Unique_Violation
  | Foreign_Key_Violation

record db =
  rows :: "string \<Rightarrow> row list"
  event_pk_seq :: int

text \<open>The database after the migration.\<close>

definition migrated :: db where
  "migrated = \<lparr>rows = (\<lambda>t. []), event_pk_seq = 1\<rparr>"

text \<open>The object a notification carries, as the keys and values given to
  \<^verbatim>\<open>json_build_object\<close>.\<close>

type_synonym json_object = "(string \<times> sql_value) list"

datatype stmt =
    Insert string "(string \<times> sql_value) list"
  | Update string "(string \<times> sql_value) list" "row \<Rightarrow> bool"
  | Delete string "row \<Rightarrow> bool"

definition column_names :: "table_def \<Rightarrow> string list" where
  "column_names t = map col_name (columns t)"

fun default_value :: "nat \<Rightarrow> int \<Rightarrow> col_default \<Rightarrow> sql_value" where
  "default_value now n No_Default = Null"
| "default_value now n Default_Now = V_Time now"
| "default_value now n (Default_Value v) = v"
| "default_value now n Default_Serial = V_Int n"

definition new_row :: "nat \<Rightarrow> int \<Rightarrow> table_def \<Rightarrow> (string \<times> sql_value) list \<Rightarrow> row" where
  "new_row now n t vals c =
     (case map_of vals c of
        Some v \<Rightarrow> v
      | None \<Rightarrow>
          (case map_of (map (\<lambda>cl. (col_name cl, col_default cl)) (columns t)) c of
             None \<Rightarrow> Null
           | Some d \<Rightarrow> default_value now n d))"

text \<open>Whether an insert draws from the sequence: it has a serial column and gives no value for it.\<close>

definition draws_serial :: "table_def \<Rightarrow> (string \<times> sql_value) list \<Rightarrow> bool" where
  "draws_serial t vals =
     list_ex (\<lambda>cl. col_default cl = Default_Serial \<and> col_name cl \<notin> set (map fst vals)) (columns t)"

definition row_error :: "table_def \<Rightarrow> row \<Rightarrow> sql_error option" where
  "row_error t r =
     (if \<not> list_all (\<lambda>cl. typed (col_type cl) (r (col_name cl))) (columns t) then Some Type_Mismatch
      else if list_ex (\<lambda>cl. not_null cl \<and> r (col_name cl) = Null) (columns t) then Some Not_Null_Violation
      else if \<not> row_check t r then Some Check_Violation
      else None)"

text \<open>Two rows collide on a key when it is the same and has no null in it.\<close>

definition collide :: "string list \<Rightarrow> row \<Rightarrow> row \<Rightarrow> bool" where
  "collide ks r r' = (map r ks = map r' ks \<and> Null \<notin> set (map r ks))"

definition clashes :: "table_def \<Rightarrow> row \<Rightarrow> row list \<Rightarrow> bool" where
  "clashes t r rs = list_ex (\<lambda>ks. list_ex (collide ks r) rs) (keys t)"

fun unique_rows :: "table_def \<Rightarrow> row list \<Rightarrow> bool" where
  "unique_rows t [] = True"
| "unique_rows t (r # rs) = (\<not> clashes t r rs \<and> unique_rows t rs)"

definition refers :: "(string \<Rightarrow> row list) \<Rightarrow> row \<Rightarrow> foreign_key \<Rightarrow> bool" where
  "refers rws r fk =
     (r (fk_column fk) = Null \<or> list_ex (\<lambda>r'. r' (fk_target fk) = r (fk_column fk)) (rws (fk_table fk)))"

definition refs_ok :: "(string \<Rightarrow> row list) \<Rightarrow> table_def \<Rightarrow> row \<Rightarrow> bool" where
  "refs_ok rws t r = list_all (refers rws r) (foreign_keys t)"

text \<open>\<^verbatim>\<open>BEFORE UPDATE ON engagements\<close>: \<^verbatim>\<open>trg_set_updated_at\<close>.\<close>

definition before_update :: "nat \<Rightarrow> string \<Rightarrow> row \<Rightarrow> row" where
  "before_update now tn r = (if tn = ''engagements'' then r(''updated_at'' := V_Time now) else r)"

text \<open>\<^verbatim>\<open>AFTER INSERT ON engagement_events\<close>: \<^verbatim>\<open>trg_notify_engagement_event\<close>. The operator
  \<^verbatim>\<open>->>\<close> on a JSON value is the parameter \<open>field\<close>.\<close>

fun json_text_field :: "(string \<Rightarrow> string \<Rightarrow> string option) \<Rightarrow> sql_value \<Rightarrow> string \<Rightarrow> sql_value" where
  "json_text_field field (V_Json j) k = (case field j k of None \<Rightarrow> Null | Some s \<Rightarrow> V_Text s)"
| "json_text_field field v k = Null"

definition batch_of :: "(string \<Rightarrow> row list) \<Rightarrow> sql_value \<Rightarrow> sql_value" where
  "batch_of rws e =
     (case filter (\<lambda>r. r ''engagement_id'' = e) (rws ''engagements'') of
        [] \<Rightarrow> Null
      | r # _ \<Rightarrow> r ''batch_id'')"

definition event_object ::
  "(string \<Rightarrow> string \<Rightarrow> string option) \<Rightarrow> (string \<Rightarrow> row list) \<Rightarrow> row \<Rightarrow> json_object" where
  "event_object field rws new =
     [(''engagement_id'', new ''engagement_id''),
      (''organization_id'', new ''organization_id''),
      (''batch_id'', batch_of rws (new ''engagement_id'')),
      (''sequence'', new ''sequence''),
      (''event_pk'', new ''event_pk''),
      (''event_type'', new ''event_type''),
      (''traceparent'', json_text_field field (new ''trace_context'') ''traceparent'')]"

definition after_insert ::
  "(string \<Rightarrow> string \<Rightarrow> string option) \<Rightarrow> string \<Rightarrow> (string \<Rightarrow> row list) \<Rightarrow> row \<Rightarrow> json_object list" where
  "after_insert field tn rws new = (if tn = ''engagement_events'' then [event_object field rws new] else [])"

definition apply_sets :: "(string \<times> sql_value) list \<Rightarrow> row \<Rightarrow> row" where
  "apply_sets sets r c = (case map_of sets c of Some v \<Rightarrow> v | None \<Rightarrow> r c)"

text \<open>The removed rows' values of a referenced column, and whether a row refers to one of them.\<close>

definition orphaned :: "string \<Rightarrow> row list \<Rightarrow> table_def \<Rightarrow> row \<Rightarrow> bool" where
  "orphaned tn removed t r =
     list_ex (\<lambda>fk. fk_table fk = tn \<and> r (fk_column fk) \<noteq> Null \<and>
       list_ex (\<lambda>r'. r' (fk_target fk) = r (fk_column fk)) removed) (foreign_keys t)"

fun execute_stmt ::
  "(string \<Rightarrow> string \<Rightarrow> string option) \<Rightarrow> nat \<Rightarrow> stmt \<Rightarrow> db \<Rightarrow> db \<times> (sql_error, json_object list) result" where
  "execute_stmt field now (Insert tn vals) d =
     (case map_of schema tn of
        None \<Rightarrow> (d, Inl Undefined_Table)
      | Some t \<Rightarrow>
          if \<not> list_all (\<lambda>c. c \<in> set (column_names t)) (map fst vals) then (d, Inl Undefined_Column)
          else
            let r = new_row now (event_pk_seq d) t vals;
                d1 = (if draws_serial t vals then d\<lparr>event_pk_seq := event_pk_seq d + 1\<rparr> else d)
            in case row_error t r of
                 Some e \<Rightarrow> (d1, Inl e)
               | None \<Rightarrow>
                   if clashes t r (rows d tn) then (d1, Inl Unique_Violation)
                   else if \<not> refs_ok (rows d) t r then (d1, Inl Foreign_Key_Violation)
                   else
                     let rws = (rows d)(tn := rows d tn @ [r])
                     in (d1\<lparr>rows := rws\<rparr>, Inr (after_insert field tn rws r)))"
| "execute_stmt field now (Update tn sets p) d =
     (case map_of schema tn of
        None \<Rightarrow> (d, Inl Undefined_Table)
      | Some t \<Rightarrow>
          if \<not> list_all (\<lambda>c. c \<in> set (column_names t)) (map fst sets) then (d, Inl Undefined_Column)
          else if \<not> list_all (\<lambda>cl. typed (col_type cl) (apply_sets sets (\<lambda>_. Null) (col_name cl))) (columns t)
          then (d, Inl Type_Mismatch)
          else
            let upd = (\<lambda>r. before_update now tn (apply_sets sets r));
                rws = (rows d)(tn := map (\<lambda>r. if p r then upd r else r) (rows d tn))
            in case List.map_filter (\<lambda>r. row_error t (upd r)) (filter p (rows d tn)) of
                 e # _ \<Rightarrow> (d, Inl e)
               | [] \<Rightarrow>
                   if \<not> unique_rows t (rws tn) then (d, Inl Unique_Violation)
                   else if \<not> list_all (\<lambda>(tn', t'). list_all (refs_ok rws t') (rws tn')) schema
                   then (d, Inl Foreign_Key_Violation)
                   else (d\<lparr>rows := rws\<rparr>, Inr []))"
| "execute_stmt field now (Delete tn p) d =
     (case map_of schema tn of
        None \<Rightarrow> (d, Inl Undefined_Table)
      | Some t \<Rightarrow>
          let removed = filter p (rows d tn)
          in (d\<lparr>rows := (\<lambda>tn'. if tn' = tn then filter (\<lambda>r. \<not> p r) (rows d tn)
                else case map_of schema tn' of
                       None \<Rightarrow> rows d tn'
                     | Some t' \<Rightarrow> filter (\<lambda>r. \<not> orphaned tn removed t' r) (rows d tn'))\<rparr>, Inr []))"

text \<open>A transaction: the statements in order up to the first that fails. A failure undoes the tables and
  the notifications, not the numbers drawn.\<close>

fun run_stmts ::
  "(string \<Rightarrow> string \<Rightarrow> string option) \<Rightarrow> nat \<Rightarrow> stmt list \<Rightarrow> db \<Rightarrow> db \<times> (sql_error, json_object list) result" where
  "run_stmts field now [] d = (d, Inr [])"
| "run_stmts field now (s # ss) d =
     (case execute_stmt field now s d of
        (d1, Inl e) \<Rightarrow> (d1, Inl e)
      | (d1, Inr ns) \<Rightarrow> (case run_stmts field now ss d1 of (d2, res) \<Rightarrow> (d2, map_ok ((@) ns) res)))"

definition transaction ::
  "(string \<Rightarrow> string \<Rightarrow> string option) \<Rightarrow> nat \<Rightarrow> stmt list \<Rightarrow> db \<Rightarrow> db \<times> (sql_error, json_object list) result" where
  "transaction field now ss d =
     (case run_stmts field now ss d of
        (d', Inl e) \<Rightarrow> (d'\<lparr>rows := rows d\<rparr>, Inl e)
      | (d', Inr ns) \<Rightarrow> (d', Inr ns))"

text \<open>The databases any sequence of transactions leads to.\<close>

inductive reachable_db :: "(string \<Rightarrow> string \<Rightarrow> string option) \<Rightarrow> db \<Rightarrow> bool" for field where
  migrated: "reachable_db field migrated"
| step: "reachable_db field d \<Longrightarrow> reachable_db field (fst (transaction field now ss d))"

section \<open>The constraints as an invariant\<close>

definition table_ok :: "(string \<Rightarrow> row list) \<Rightarrow> string \<Rightarrow> table_def \<Rightarrow> bool" where
  "table_ok rws tn t =
     (list_all (\<lambda>r. row_error t r = None) (rws tn) \<and> unique_rows t (rws tn) \<and>
      list_all (refs_ok rws t) (rws tn))"

definition db_wf :: "db \<Rightarrow> bool" where
  "db_wf d = list_all (\<lambda>(tn, t). table_ok (rows d) tn t) schema"

lemma collide_sym: "collide ks r r' \<longleftrightarrow> collide ks r' r"
  by (auto simp: collide_def)

lemma clashes_iff: "clashes t r rs \<longleftrightarrow> (\<exists>ks \<in> set (keys t). \<exists>r' \<in> set rs. collide ks r r')"
  by (simp add: clashes_def list_ex_iff)

lemma unique_rows_snoc: "unique_rows t (rs @ [r]) \<longleftrightarrow> unique_rows t rs \<and> \<not> clashes t r rs"
  by (induction rs) (auto simp: clashes_iff collide_sym)

lemma unique_rows_filter: "unique_rows t rs \<Longrightarrow> unique_rows t (filter p rs)"
  by (induction rs) (auto simp: clashes_iff)

text \<open>Two rows of a table with the same key are the same occurrence.\<close>

lemma unique_rows_nth:
  "unique_rows t rs \<Longrightarrow> ks \<in> set (keys t) \<Longrightarrow> i < length rs \<Longrightarrow> j < length rs \<Longrightarrow>
     collide ks (rs ! i) (rs ! j) \<Longrightarrow> i = j"
proof (induction rs arbitrary: i j)
  case (Cons r rs)
  have no: "\<not> collide ks r x" "\<not> collide ks x r" if "x \<in> set rs" for x
    using Cons.prems(1,2) that collide_sym [of ks x r] by (auto simp: clashes_iff)
  show ?case
    using Cons no by (cases i; cases j) simp_all
qed simp

lemma map_of_schema: "map_of schema tn = Some t \<longleftrightarrow> (tn, t) \<in> set schema"
proof (rule map_of_eq_Some_iff)
  show "distinct (map fst schema)" by (simp add: schema_def)
qed

lemma schema_distinct: "(tn, t) \<in> set schema \<Longrightarrow> (tn, t') \<in> set schema \<Longrightarrow> t = t'"
  using map_of_schema [of tn t] map_of_schema [of tn t'] by simp

text \<open>All references go to the key of \<^verbatim>\<open>engagements\<close>, which refers to nothing.\<close>

lemma schema_refs:
  "(tn, t) \<in> set schema \<Longrightarrow> fk \<in> set (foreign_keys t) \<Longrightarrow>
     tn \<noteq> ''engagements'' \<and> fk_table fk = ''engagements''"
  by (auto simp: schema_def engagements_def engagement_invocations_def route_resolutions_def
      engagement_events_def engagement_audit_def engagement_ref_def)

lemma db_wf_iff: "db_wf d \<longleftrightarrow> (\<forall>tn t. (tn, t) \<in> set schema \<longrightarrow> table_ok (rows d) tn t)"
  by (auto simp: db_wf_def list_all_iff)

lemma db_wfI [intro]: "(\<And>tn t. (tn, t) \<in> set schema \<Longrightarrow> table_ok (rows d) tn t) \<Longrightarrow> db_wf d"
  by (simp add: db_wf_iff)

lemma db_wf_table: "db_wf d \<Longrightarrow> (tn, t) \<in> set schema \<Longrightarrow> table_ok (rows d) tn t"
  by (simp add: db_wf_iff)

lemma db_wf_cong: "rows d = rows d' \<Longrightarrow> db_wf d = db_wf d'"
  by (simp add: db_wf_def)

lemma refs_ok_grow:
  assumes "refs_ok rws t r" "\<And>tn. set (rws tn) \<subseteq> set (rws' tn)"
  shows "refs_ok rws' t r"
  using assms by (fastforce simp: refs_ok_def refers_def list_all_iff list_ex_iff)

lemma refs_ok_cong:
  assumes "(tn, t) \<in> set schema" "rws ''engagements'' = rws' ''engagements''"
  shows "refs_ok rws t r = refs_ok rws' t r"
  using schema_refs [OF assms(1)] assms(2) by (auto simp: refs_ok_def refers_def list_all_iff)

section \<open>Every statement keeps the constraints\<close>

lemma insert_wf:
  assumes "db_wf d" "(tn, t) \<in> set schema" "row_error t r = None" "\<not> clashes t r (rows d tn)" "refs_ok (rows d) t r"
  shows "db_wf (d\<lparr>rows := (rows d)(tn := rows d tn @ [r])\<rparr>)"
proof
  fix tn' t' assume mem: "(tn', t') \<in> set schema"
  let ?rws = "(rows d)(tn := rows d tn @ [r])"
  have grow: "refs_ok (rows d) u x \<Longrightarrow> refs_ok ?rws u x" for u x
    by (erule refs_ok_grow) auto
  have "table_ok ?rws tn' t'"
  proof (cases "tn' = tn")
    case True
    then have "t' = t" using mem assms(2) schema_distinct by blast
    then show ?thesis
      using db_wf_table [OF assms(1,2)] assms(3-5) True grow
      by (auto simp: table_ok_def unique_rows_snoc list_all_iff)
  next
    case False
    then show ?thesis
      using db_wf_table [OF assms(1) mem] grow by (auto simp: table_ok_def list_all_iff)
  qed
  then show "table_ok (rows (d\<lparr>rows := ?rws\<rparr>)) tn' t'" by simp
qed

lemma map_filter_Nil: "List.map_filter f xs = [] \<longleftrightarrow> (\<forall>x \<in> set xs. f x = None)"
  by (induction xs) (auto simp: List.map_filter_def)

lemma update_wf:
  assumes "db_wf d" "(tn, t) \<in> set schema"
    and "List.map_filter (\<lambda>r. row_error t (upd r)) (filter p (rows d tn)) = []"
    and "unique_rows t (map (\<lambda>r. if p r then upd r else r) (rows d tn))"
    and refs: "list_all (\<lambda>(tn', t'). list_all (refs_ok ((rows d)(tn := map (\<lambda>r. if p r then upd r else r) (rows d tn))) t')
           (((rows d)(tn := map (\<lambda>r. if p r then upd r else r) (rows d tn))) tn')) schema"
  shows "db_wf (d\<lparr>rows := (rows d)(tn := map (\<lambda>r. if p r then upd r else r) (rows d tn))\<rparr>)"
    (is "db_wf (d\<lparr>rows := ?rws\<rparr>)")
proof
  fix tn' t' assume mem: "(tn', t') \<in> set schema"
  have r: "list_all (refs_ok ?rws t') (?rws tn')" using refs mem by (auto simp: list_all_iff)
  have "list_all (\<lambda>r. row_error t' r = None) (?rws tn') \<and> unique_rows t' (?rws tn')"
  proof (cases "tn' = tn")
    case True
    then have "t' = t" using mem assms(2) schema_distinct by blast
    moreover have "\<forall>x \<in> set (filter p (rows d tn)). row_error t (upd x) = None"
      using assms(3) by (simp only: map_filter_Nil)
    ultimately show ?thesis
      using db_wf_table [OF assms(1,2)] assms(4) True by (auto simp: table_ok_def list_all_iff)
  next
    case False
    then show ?thesis using db_wf_table [OF assms(1) mem] by (simp add: table_ok_def)
  qed
  then show "table_ok (rows (d\<lparr>rows := ?rws\<rparr>)) tn' t'" using r by (simp add: table_ok_def)
qed

text \<open>What a deletion leaves of each table, and that no reference is left dangling.\<close>

lemma delete_wf:
  assumes "db_wf d" "(tn, t) \<in> set schema"
    and "\<And>tn' t'. (tn', t') \<in> set schema \<Longrightarrow> rws tn' =
      (if tn' = tn then filter (\<lambda>r. \<not> p r) (rows d tn)
       else filter (\<lambda>r. \<not> orphaned tn (filter p (rows d tn)) t' r) (rows d tn'))"
  shows "db_wf (d\<lparr>rows := rws\<rparr>)"
proof
  fix tn' t' assume mem: "(tn', t') \<in> set schema"
  have ok: "table_ok (rows d) tn' t'" by (rule db_wf_table [OF assms(1) mem])
  have sub: "set (rws tn') \<subseteq> set (rows d tn')" using assms(3) [OF mem] by auto
  have "unique_rows t' (rws tn')"
    using ok assms(3) [OF mem] by (auto simp: table_ok_def intro: unique_rows_filter)
  moreover have "refers rws r fk"
    if r: "r \<in> set (rws tn')" and fk: "fk \<in> set (foreign_keys t')" for r fk
  proof (cases "r (fk_column fk) = Null")
    case nn: False
    have tgt: "tn' \<noteq> ''engagements''" "fk_table fk = ''engagements''" using schema_refs [OF mem fk] by auto
    have e: "(''engagements'', engagements) \<in> set schema" by (simp add: schema_def)
    obtain r' where r': "r' \<in> set (rows d ''engagements'')" "r' (fk_target fk) = r (fk_column fk)"
      using ok r sub fk nn tgt
      by (fastforce simp: table_ok_def refs_ok_def refers_def list_all_iff list_ex_iff)
    have "r' \<in> set (rws ''engagements'')"
    proof (cases "tn = ''engagements''")
      case True
      then have "\<not> orphaned tn (filter p (rows d tn)) t' r" using r assms(3) [OF mem] tgt by auto
      then show ?thesis
        using True r' fk nn tgt assms(3) [OF e] by (auto simp: orphaned_def list_ex_iff)
    next
      case False
      have "\<not> orphaned tn (filter p (rows d tn)) engagements r'" by (simp add: orphaned_def engagements_def)
      then show ?thesis using False r' assms(3) [OF e] by auto
    qed
    then show ?thesis using r' tgt by (auto simp: refers_def list_ex_iff)
  qed (simp add: refers_def)
  ultimately show "table_ok (rows (d\<lparr>rows := rws\<rparr>)) tn' t'"
    using ok sub by (auto simp: table_ok_def refs_ok_def list_all_iff)
qed

lemma execute_stmt_wf: "db_wf d \<Longrightarrow> db_wf (fst (execute_stmt field now s d))"
proof (induction field now s d rule: execute_stmt.induct)
  case (1 field now tn vals d)
  have seq: "db_wf (d\<lparr>event_pk_seq := n\<rparr>)" "db_wf (d\<lparr>event_pk_seq := n, rows := rws\<rparr>) = db_wf (d\<lparr>rows := rws\<rparr>)"
    "db_wf (d\<lparr>rows := rws, event_pk_seq := n\<rparr>) = db_wf (d\<lparr>rows := rws\<rparr>)"
    for n rws using "1.prems" by (auto simp: db_wf_def)
  show ?case
  proof (cases "map_of schema tn")
    case (Some t)
    then have "(tn, t) \<in> set schema" by (simp add: map_of_schema)
    from insert_wf [OF "1.prems" this] show ?thesis
      using Some "1.prems" by (simp add: Let_def seq split: option.split)
  qed (simp add: "1.prems")
next
  case (2 field now tn sets p d)
  show ?case
  proof (cases "map_of schema tn")
    case (Some t)
    then have "(tn, t) \<in> set schema" by (simp add: map_of_schema)
    from update_wf [OF "2.prems" this] show ?thesis
      using Some "2.prems" by (simp add: Let_def split: list.split)
  qed (simp add: "2.prems")
next
  case (3 field now tn p d)
  show ?case
  proof (cases "map_of schema tn")
    case (Some t)
    then have mem: "(tn, t) \<in> set schema" by (simp add: map_of_schema)
    show ?thesis
      using Some by (simp add: Let_def) (rule delete_wf [OF "3.prems" mem, of _ p], simp flip: map_of_schema)
  qed (simp add: "3.prems")
qed

lemma run_stmts_wf: "db_wf d \<Longrightarrow> db_wf (fst (run_stmts field now ss d))"
proof (induction ss arbitrary: d)
  case (Cons s ss)
  then show ?case
    using execute_stmt_wf [OF Cons.prems, of field now s]
    by (auto split: prod.split sum.split) (metis fst_conv)
qed simp

lemma transaction_wf: "db_wf d \<Longrightarrow> db_wf (fst (transaction field now ss d))"
  using run_stmts_wf [of d field now ss]
  by (auto simp: transaction_def db_wf_def split: prod.split sum.split)

lemma reachable_wf: "reachable_db field d \<Longrightarrow> db_wf d"
proof (induction rule: reachable_db.induct)
  case migrated
  then show ?case by (auto simp: migrated_def table_ok_def)
next
  case (step d now ss)
  then show ?case by (intro transaction_wf)
qed

text \<open>A transaction is all or nothing.\<close>

lemma transaction_Inl: "transaction field now ss d = (d', Inl e) \<Longrightarrow> rows d' = rows d"
  by (auto simp: transaction_def split: prod.splits sum.splits)

text \<open>What the constraints give for a value of a row.\<close>

lemma wf_column:
  assumes "db_wf d" "(tn, t) \<in> set schema" "r \<in> set (rows d tn)" "cl \<in> set (columns t)"
  shows "typed (col_type cl) (r (col_name cl)) \<and> (not_null cl \<longrightarrow> r (col_name cl) \<noteq> Null)"
proof -
  have "row_error t r = None"
    using db_wf_table [OF assms(1,2)] assms(3) by (simp add: table_ok_def list_all_iff)
  then show ?thesis using assms(4) by (auto simp: row_error_def list_all_iff list_ex_iff split: if_splits)
qed

lemma typed_nonnull:
  "typed UUID v \<Longrightarrow> v \<noteq> Null \<Longrightarrow> \<exists>u. v = V_Uuid u"
  "typed BYTEA v \<Longrightarrow> v \<noteq> Null \<Longrightarrow> \<exists>b. v = V_Bytes b"
  "typed SMALLINT v \<Longrightarrow> v \<noteq> Null \<Longrightarrow> \<exists>i. v = V_Int i \<and> - (2 ^ 15) \<le> i \<and> i < 2 ^ 15"
  "typed BIGINT v \<Longrightarrow> v \<noteq> Null \<Longrightarrow> \<exists>i. v = V_Int i \<and> - (2 ^ 63) \<le> i \<and> i < 2 ^ 63"
  by (cases v; simp)+

text \<open>Rewriting rows without touching a key keeps the keys apart.\<close>

lemma unique_rows_map:
  assumes "\<And>r ks. r \<in> set rs \<Longrightarrow> ks \<in> set (keys t) \<Longrightarrow> map (f r) ks = map r ks"
  shows "unique_rows t (map f rs) = unique_rows t rs"
  using assms
proof (induction rs)
  case (Cons r rs)
  have "collide ks (f r) (f x) = collide ks r x" if "x \<in> set rs" "ks \<in> set (keys t)" for x ks
    using Cons.prems [of r ks] Cons.prems [of x ks] that by (simp add: collide_def)
  then have "clashes t (f r) (map f rs) = clashes t r rs" by (auto simp: clashes_iff)
  then show ?case using Cons by simp
qed simp

end
