(* ===== verification/Idempotency.thy ===== *)
theory Idempotency
  imports Prelude
begin

text \<open>
  Idempotency of mutating calls (\<^verbatim>\<open>engagement-hub/src/idempotency.rs\<close>): the canonical form
  of the fields that identify a StartEngagement request, its hash, and the check of a request id against
  the stored engagement.

  The \<^verbatim>\<open>BTreeMap\<close> the code fills is modelled entry by entry. Its serialisation by
  \<^verbatim>\<open>serde_json\<close> and the SHA-256 digest are parameters; what a property needs of them is that
  the two inputs at hand are not confused (\<open>inj_on\<close> a two-element set), which is all that can
  be asked of a digest. The SELECT of the check is the parameter \<open>fetch\<close>, and
  \<open>select_engagement\<close> is that query on a table given as the list of its rows.
\<close>

section \<open>Hashes\<close>

type_synonym u8 = "8 word"
type_synonym i16 = int

datatype PayloadHash = PayloadHash "u8 list"

primrec as_bytes :: "PayloadHash \<Rightarrow> u8 list" where
  "as_bytes (PayloadHash b) = b"

definition from_bytes :: "u8 list \<Rightarrow> PayloadHash" where
  "from_bytes b = PayloadHash b"

definition from_vec :: "u8 list \<Rightarrow> PayloadHash option" where
  "from_vec v = (if length v = 32 then Some (PayloadHash v) else None)"

definition to_hex :: "PayloadHash \<Rightarrow> string" where
  "to_hex h = concat (map (\<lambda>b. hex02 (unat b)) (as_bytes h))"

text \<open>The type \<^verbatim>\<open>[u8; 32]\<close> of the source as a predicate.\<close>

definition hash_wf :: "PayloadHash \<Rightarrow> bool" where
  "hash_wf h = (length (as_bytes h) = 32)"

datatype IdempotencyResult =
    New
  | Replay (replay_engagement_id: uuid) (replay_is_terminal: bool)
  | Conflict

section \<open>The canonical form of a request\<close>

record StartEngagementFields =
  f_org_id :: string
  f_channel :: string
  f_mode :: string
  f_journey_version :: string
  f_contact_kind :: string
  f_contact_id :: "string option"
  f_contact_phone :: "string option"
  f_batch_id :: "string option"
  f_voice_profile_id :: "string option"
  f_test_mode :: bool
  f_language :: "string option"

datatype Value = String string | Bool bool

definition canonical_map :: "StartEngagementFields \<Rightarrow> (string \<times> Value) list" where
  "canonical_map fs =
     (let map1 = btree_insert ''channel'' (String (f_channel fs)) [];
          map2 = btree_insert ''contact_kind'' (String (f_contact_kind fs)) map1;
          map3 = btree_insert_opt ''contact_id'' (map_option String (f_contact_id fs)) map2;
          map4 = btree_insert_opt ''contact_phone'' (map_option String (f_contact_phone fs)) map3;
          map5 = btree_insert_opt ''batch_id'' (map_option String (f_batch_id fs)) map4;
          map6 = btree_insert_opt ''language'' (map_option String (f_language fs)) map5;
          map7 = btree_insert ''journey_version'' (String (f_journey_version fs)) map6;
          map8 = btree_insert ''mode'' (String (f_mode fs)) map7;
          map9 = btree_insert ''org_id'' (String (f_org_id fs)) map8;
          map10 = btree_insert ''test_mode'' (Bool (f_test_mode fs)) map9;
          map11 = btree_insert_opt ''voice_profile_id'' (map_option String (f_voice_profile_id fs)) map10
      in map11)"

definition canonical_json_start_engagement ::
  "((string \<times> Value) list \<Rightarrow> string) \<Rightarrow> StartEngagementFields \<Rightarrow> string" where
  "canonical_json_start_engagement to_string fs = to_string (canonical_map fs)"

definition canonical_hash_start_engagement ::
  "(string \<Rightarrow> u8 list) \<Rightarrow> ((string \<times> Value) list \<Rightarrow> string) \<Rightarrow> StartEngagementFields \<Rightarrow> PayloadHash" where
  "canonical_hash_start_engagement sha256 to_string fs =
     (let json = canonical_json_start_engagement to_string fs;
          digest = sha256 json
      in PayloadHash digest)"

section \<open>The check\<close>

definition TERMINAL_STATUSES :: "i16 list" where
  "TERMINAL_STATUSES = [4, 5, 6]"

definition check ::
  "(uuid \<Rightarrow> uuid \<Rightarrow> ('e, (u8 list \<times> i16 \<times> uuid) option) result) \<Rightarrow> uuid \<Rightarrow> uuid \<Rightarrow> PayloadHash
     \<Rightarrow> ('e, IdempotencyResult) result" where
  "check fetch org_id request_id computed_hash =
     and_then (fetch org_id request_id) (\<lambda>row.
       case row of
         None \<Rightarrow> Inr New
       | Some (stored_hash_bytes, status, engagement_id) \<Rightarrow>
           if stored_hash_bytes = as_bytes computed_hash
           then Inr (Replay engagement_id (status \<in> set TERMINAL_STATUSES))
           else Inr Conflict)"

text \<open>The columns of \<^verbatim>\<open>engagements\<close> the query reads, and the query.\<close>

record engagement_row =
  row_engagement_id :: uuid
  row_organization_id :: uuid
  row_request_id :: uuid
  row_payload_hash :: "u8 list"
  row_status :: i16

definition select_engagement ::
  "engagement_row list \<Rightarrow> uuid \<Rightarrow> uuid \<Rightarrow> ('e, (u8 list \<times> i16 \<times> uuid) option) result" where
  "select_engagement rows org_id request_id =
     Inr (map_option (\<lambda>r. (row_payload_hash r, row_status r, row_engagement_id r))
       (find (\<lambda>r. row_organization_id r = org_id \<and> row_request_id r = request_id) rows))"

section \<open>The canonical map\<close>

text \<open>What the map holds, key by key.\<close>

fun field_value_at :: "StartEngagementFields \<Rightarrow> string \<Rightarrow> Value option" where
  "field_value_at fs k =
     (if k = ''channel'' then Some (String (f_channel fs))
      else if k = ''contact_kind'' then Some (String (f_contact_kind fs))
      else if k = ''contact_id'' then map_option String (f_contact_id fs)
      else if k = ''contact_phone'' then map_option String (f_contact_phone fs)
      else if k = ''batch_id'' then map_option String (f_batch_id fs)
      else if k = ''language'' then map_option String (f_language fs)
      else if k = ''journey_version'' then Some (String (f_journey_version fs))
      else if k = ''mode'' then Some (String (f_mode fs))
      else if k = ''org_id'' then Some (String (f_org_id fs))
      else if k = ''test_mode'' then Some (Bool (f_test_mode fs))
      else if k = ''voice_profile_id'' then map_option String (f_voice_profile_id fs)
      else None)"

declare field_value_at.simps [simp del]

lemma canonical_map_wf: "btree_wf (canonical_map fs)"
  unfolding canonical_map_def Let_def
  by (intro btree_wf_insert_opt btree_wf_insert btree_wf_Nil)

lemma canonical_map_lookup: "map_of (canonical_map fs) k = field_value_at fs k"
  unfolding canonical_map_def Let_def field_value_at.simps
  by (simp add: map_of_btree_insert map_of_btree_insert_opt split: option.split)

lemma field_value_at_eqD:
  assumes "\<And>k. field_value_at fs k = field_value_at gs k"
  shows "fs = gs"
proof -
  have "f_channel fs = f_channel gs" using assms [of "''channel''"]
    by (simp add: field_value_at.simps)
  moreover have "f_contact_kind fs = f_contact_kind gs" using assms [of "''contact_kind''"]
    by (simp add: field_value_at.simps)
  moreover have "map_option String (f_contact_id fs) = map_option String (f_contact_id gs)" using assms [of "''contact_id''"]
    by (simp add: field_value_at.simps)
  moreover have "map_option String (f_contact_phone fs) = map_option String (f_contact_phone gs)" using assms [of "''contact_phone''"]
    by (simp add: field_value_at.simps)
  moreover have "map_option String (f_batch_id fs) = map_option String (f_batch_id gs)" using assms [of "''batch_id''"]
    by (simp add: field_value_at.simps)
  moreover have "map_option String (f_language fs) = map_option String (f_language gs)" using assms [of "''language''"]
    by (simp add: field_value_at.simps)
  moreover have "f_journey_version fs = f_journey_version gs" using assms [of "''journey_version''"]
    by (simp add: field_value_at.simps)
  moreover have "f_mode fs = f_mode gs" using assms [of "''mode''"]
    by (simp add: field_value_at.simps)
  moreover have "f_org_id fs = f_org_id gs" using assms [of "''org_id''"]
    by (simp add: field_value_at.simps)
  moreover have "f_test_mode fs = f_test_mode gs" using assms [of "''test_mode''"]
    by (simp add: field_value_at.simps)
  moreover have "map_option String (f_voice_profile_id fs) = map_option String (f_voice_profile_id gs)" using assms [of "''voice_profile_id''"]
    by (simp add: field_value_at.simps)
  moreover have "inj (map_option String)" by (intro option.inj_map injI) simp
  ultimately show ?thesis
    by (intro StartEngagementFields.equality) (auto dest: injD)
qed

lemma canonical_map_eq_iff: "canonical_map fs = canonical_map gs \<longleftrightarrow> fs = gs"
proof
  assume "canonical_map fs = canonical_map gs"
  then have "field_value_at fs k = field_value_at gs k" for k
    using canonical_map_lookup [of fs k] canonical_map_lookup [of gs k] by simp
  then show "fs = gs" by (rule field_value_at_eqD)
qed simp

text \<open>C26. The canonical form: the object handed to the serialiser has its keys in strictly ascending
  order, holds under each key exactly the field of that name, with absent fields left out, and
  determines the request: two requests with the same object agree in all eleven fields.\<close>

theorem canonical_map_canonical:
  "sorted_wrt (<) (map fst (canonical_map fs)) \<and>
   map_of (canonical_map fs) = field_value_at fs \<and>
   (canonical_map fs = canonical_map gs \<longleftrightarrow> fs = gs)"
  using canonical_map_wf [of fs]
  by (auto simp: btree_wf_def canonical_map_lookup canonical_map_eq_iff)

section \<open>Replay and conflict\<close>

lemma canonical_hash_eq_iff:
  assumes "inj_on to_string {canonical_map fs, canonical_map gs}"
    and "inj_on sha256 {canonical_json_start_engagement to_string fs, canonical_json_start_engagement to_string gs}"
  shows "canonical_hash_start_engagement sha256 to_string fs = canonical_hash_start_engagement sha256 to_string gs
     \<longleftrightarrow> fs = gs"
  using assms
  by (auto simp: canonical_hash_start_engagement_def canonical_json_start_engagement_def Let_def
      inj_on_def canonical_map_eq_iff)

text \<open>A row found under the key is the only one: the table's unique constraint.\<close>

lemma find_unique:
  assumes "distinct (map key rows)" "r \<in> set rows"
  shows "find (\<lambda>x. key x = key r) rows = Some r"
  using assms
proof (induction rows)
  case (Cons x rows)
  then show ?case by (cases "key x = key r") (auto simp: image_iff)
qed simp

lemma select_engagement_row:
  assumes "distinct (map (\<lambda>r. (row_organization_id r, row_request_id r)) rows)" "r \<in> set rows"
  shows "select_engagement rows (row_organization_id r) (row_request_id r) =
     Inr (Some (row_payload_hash r, row_status r, row_engagement_id r))"
proof -
  have "find (\<lambda>x. row_organization_id x = row_organization_id r \<and> row_request_id x = row_request_id r) rows = Some r"
    using find_unique [OF assms] by simp
  then show ?thesis by (simp add: select_engagement_def)
qed

text \<open>With the table's unique constraint on organisation and request id: checking a request
  whose row was stored for the fields \<open>fs\<close> replays the stored engagement, flagged terminal
  exactly for the statuses 4 to 6, if the new request has the same fields, and is a conflict if it
  differs in any; an unseen request id is new. The digest and the serialiser must not confuse the two
  requests.\<close>

theorem check_replay_iff_same_fields:
  assumes "distinct (map (\<lambda>r. (row_organization_id r, row_request_id r)) rows)" "r \<in> set rows"
    and "row_payload_hash r = as_bytes (canonical_hash_start_engagement sha256 to_string fs)"
    and "inj_on to_string {canonical_map fs, canonical_map gs}"
    and "inj_on sha256 {canonical_json_start_engagement to_string fs, canonical_json_start_engagement to_string gs}"
    and "(org, rid) \<notin> (\<lambda>r. (row_organization_id r, row_request_id r)) ` set rows"
  shows "check (select_engagement rows) (row_organization_id r) (row_request_id r)
        (canonical_hash_start_engagement sha256 to_string gs) =
      (if fs = gs then Inr (Replay (row_engagement_id r) (4 \<le> row_status r \<and> row_status r \<le> 6))
       else Inr Conflict) \<and>
    check (select_engagement rows) org rid (canonical_hash_start_engagement sha256 to_string gs) = Inr New"
proof (rule conjI)
  have "as_bytes (canonical_hash_start_engagement sha256 to_string fs) =
      as_bytes (canonical_hash_start_engagement sha256 to_string gs) \<longleftrightarrow> fs = gs"
    using canonical_hash_eq_iff [OF assms(4,5)]
    by (cases "canonical_hash_start_engagement sha256 to_string fs";
        cases "canonical_hash_start_engagement sha256 to_string gs") simp
  moreover have "row_status r \<in> set TERMINAL_STATUSES \<longleftrightarrow> 4 \<le> row_status r \<and> row_status r \<le> 6"
    by (auto simp: TERMINAL_STATUSES_def)
  ultimately show "check (select_engagement rows) (row_organization_id r) (row_request_id r)
        (canonical_hash_start_engagement sha256 to_string gs) =
      (if fs = gs then Inr (Replay (row_engagement_id r) (4 \<le> row_status r \<and> row_status r \<le> 6))
       else Inr Conflict)"
    by (simp add: check_def select_engagement_row [OF assms(1,2)] assms(3))
  have "find (\<lambda>r. row_organization_id r = org \<and> row_request_id r = rid) rows = None"
    using assms(6) by (auto simp: find_None_iff image_iff)
  then show "check (select_engagement rows) org rid (canonical_hash_start_engagement sha256 to_string gs) = Inr New"
    by (simp add: check_def select_engagement_def)
qed

definition sample_fields :: StartEngagementFields where
  "sample_fields =
     \<lparr>f_org_id = ''o1'', f_channel = ''1'', f_mode = ''1'', f_journey_version = ''v1.0.0'', f_contact_kind = ''2'',
      f_contact_id = None, f_contact_phone = Some ''+60126013446'', f_batch_id = None, f_voice_profile_id = None,
      f_test_mode = False, f_language = Some ''en-MY''\<rparr>"

text \<open>A serialiser and a digest that tell two channels apart.\<close>

definition channel_text :: "(string \<times> Value) list \<Rightarrow> string" where
  "channel_text m = (case map_of m ''channel'' of Some (String s) \<Rightarrow> s | _ \<Rightarrow> [])"

definition length_digest :: "string \<Rightarrow> u8 list" where
  "length_digest s = replicate 32 (of_nat (length s))"

lemma channel_text_canonical: "channel_text (canonical_map fs) = f_channel fs"
  by (simp add: channel_text_def canonical_map_lookup field_value_at.simps)

theorem check_replay_iff_same_fields_witness:
  "check (select_engagement [\<lparr>row_engagement_id = 9, row_organization_id = 1, row_request_id = 2,
         row_payload_hash = replicate 32 1, row_status = 5\<rparr>]) 1 2
       (canonical_hash_start_engagement length_digest channel_text (sample_fields\<lparr>f_channel := ''12''\<rparr>)) =
     (Inr Conflict :: (unit, IdempotencyResult) result) \<and>
   check (select_engagement [\<lparr>row_engagement_id = 9, row_organization_id = 1, row_request_id = 2,
         row_payload_hash = replicate 32 1, row_status = 5\<rparr>]) 1 3
       (canonical_hash_start_engagement length_digest channel_text (sample_fields\<lparr>f_channel := ''12''\<rparr>)) =
     (Inr New :: (unit, IdempotencyResult) result)"
proof -
  let ?r = "\<lparr>row_engagement_id = 9, row_organization_id = 1, row_request_id = 2,
         row_payload_hash = replicate 32 1, row_status = 5\<rparr>"
  let ?g = "sample_fields\<lparr>f_channel := ''12''\<rparr>"
  have ne: "sample_fields \<noteq> ?g" by (simp add: sample_fields_def)
  have "check (select_engagement [?r]) (row_organization_id ?r) (row_request_id ?r)
        (canonical_hash_start_engagement length_digest channel_text ?g) =
      (if sample_fields = ?g then Inr (Replay (row_engagement_id ?r) (4 \<le> row_status ?r \<and> row_status ?r \<le> 6))
       else (Inr Conflict :: (unit, IdempotencyResult) result)) \<and>
    check (select_engagement [?r]) 1 3 (canonical_hash_start_engagement length_digest channel_text ?g) =
      (Inr New :: (unit, IdempotencyResult) result)"
    by (rule check_replay_iff_same_fields)
       (auto simp: canonical_hash_start_engagement_def canonical_json_start_engagement_def inj_on_def
          channel_text_canonical canonical_map_eq_iff length_digest_def sample_fields_def)
  then show ?thesis using ne by simp
qed

section \<open>Bytes and hex\<close>

lemma digit_char_eq: "a < 16 \<Longrightarrow> b < 16 \<Longrightarrow> digit_char a = digit_char b \<Longrightarrow> a = b"
  by (auto simp: digit_char_def dest!: arg_cong [of "char_of _" _ "of_char :: char \<Rightarrow> nat"] split: if_splits)

lemma hex02_inj: "a < 256 \<Longrightarrow> b < 256 \<Longrightarrow> hex02 a = hex02 b \<Longrightarrow> a = b"
proof -
  assume ab: "a < 256" "b < 256" and h: "hex02 a = hex02 b"
  have "a div 16 = b div 16"
    using h ab by (intro digit_char_eq) (auto simp: hex02_def)
  moreover have "a mod 16 = b mod 16"
    using h ab by (intro digit_char_eq) (auto simp: hex02_def)
  ultimately show "a = b" by (metis div_mult_mod_eq)
qed

lemma concat_hex_inj:
  "concat (map (\<lambda>b :: u8. hex02 (unat b)) xs) = concat (map (\<lambda>b. hex02 (unat b)) ys) \<Longrightarrow> xs = ys"
proof (induction xs arbitrary: ys)
  case Nil
  then show ?case by (cases ys) (auto simp: hex02_def)
next
  case (Cons x xs)
  then obtain y ys' where ys: "ys = y # ys'" by (cases ys) (auto simp: hex02_def)
  have "hex02 (unat x) = hex02 (unat y)" "concat (map (\<lambda>b :: u8. hex02 (unat b)) xs) = concat (map (\<lambda>b. hex02 (unat b)) ys')"
    using Cons.prems ys by (auto simp: hex02_def)
  moreover have "unat x < 256" "unat y < 256" using unsigned_less [of x] unsigned_less [of y] by simp_all
  ultimately show ?case using Cons.IH ys hex02_inj by (auto simp: word_unat_eq_iff)
qed

text \<open>Stored hashes: reading a column back gives the hash exactly when it has 32 bytes, and the
  bytes of a hash always read back; the hex form of a hash has 64 characters and tells hashes apart.\<close>

theorem payload_hash_round_trip:
  assumes "hash_wf h" "hash_wf h'"
  shows "from_vec (as_bytes h) = Some h \<and> (\<forall>v. from_vec v = None \<longleftrightarrow> length v \<noteq> 32) \<and>
    length (to_hex h) = 64 \<and> (to_hex h = to_hex h' \<longleftrightarrow> h = h')"
proof (intro conjI)
  show "from_vec (as_bytes h) = Some h" using assms(1) by (cases h) (simp add: from_vec_def hash_wf_def)
  show "\<forall>v. from_vec v = None \<longleftrightarrow> length v \<noteq> 32" by (simp add: from_vec_def)
  have "sum_list (map (length \<circ> (\<lambda>b. hex02 (unat b))) bs) = 2 * length bs" for bs :: "u8 list"
    by (induction bs) simp_all
  then show "length (to_hex h) = 64"
    using assms(1) by (simp add: to_hex_def length_concat hash_wf_def)
  show "to_hex h = to_hex h' \<longleftrightarrow> h = h'"
    by (cases h; cases h') (auto simp: to_hex_def dest: concat_hex_inj)
qed

theorem payload_hash_round_trip_witness:
  "from_vec (as_bytes (PayloadHash (replicate 32 1))) = Some (PayloadHash (replicate 32 1)) \<and>
    (\<forall>v. from_vec v = None \<longleftrightarrow> length v \<noteq> 32) \<and>
    length (to_hex (PayloadHash (replicate 32 1))) = 64 \<and>
    (to_hex (PayloadHash (replicate 32 1)) = to_hex (PayloadHash (replicate 32 171)) \<longleftrightarrow>
      PayloadHash (replicate 32 1) = PayloadHash (replicate 32 171))"
  by (rule payload_hash_round_trip) (simp_all add: hash_wf_def)

end
