(* ===== verification/Audit_Writer.thy ===== *)
theory Audit_Writer
  imports Adapter_Metrics
begin

text \<open>
  The two-phase audit writer (\<^verbatim>\<open>engagement-hub/src/audit.rs\<close>).

  The database is outside the repository: executing a statement, the clock and the timer are the fields
  of \<open>audit_ops\<close>. A statement is its SQL command with the values bound to it, and
  \<open>apply_stmt\<close> is what the two commands of the source do to the table. \<open>model_ops\<close>
  is an instance of the parameters: a table behind a connection that fails when its script says so.
\<close>

section \<open>Types\<close>

type_synonym timestamp = nat
type_synonym i16 = int

datatype AuditId = AuditId uuid

primrec audit_id_as_uuid :: "AuditId \<Rightarrow> uuid" where
  "audit_id_as_uuid (AuditId u) = u"

definition audit_id_new :: "('w \<Rightarrow> uuid \<times> 'w) \<Rightarrow> 'w \<Rightarrow> AuditId \<times> 'w" where
  "audit_id_new new_v4 w = (case new_v4 w of (u, w') \<Rightarrow> (AuditId u, w'))"

datatype AuditOutcome = Audit_Pending | Audit_Success | ClientError | ServerError

fun outcome_as_i16 :: "AuditOutcome \<Rightarrow> i16" where
  "outcome_as_i16 Audit_Pending = 0"
| "outcome_as_i16 Audit_Success = 1"
| "outcome_as_i16 ClientError = 2"
| "outcome_as_i16 ServerError = 3"

datatype PrincipalKind = Principal_Unknown | User | ServiceAccount | System

fun principal_as_i16 :: "PrincipalKind \<Rightarrow> i16" where
  "principal_as_i16 Principal_Unknown = 0"
| "principal_as_i16 User = 1"
| "principal_as_i16 ServiceAccount = 2"
| "principal_as_i16 System = 3"

text \<open>The JSON summary is only moved; it is kept as its text.\<close>

record AuditRow =
  ar_audit_id :: AuditId
  ar_organization_id :: "uuid option"
  ar_acting_principal_kind :: PrincipalKind
  ar_acting_principal_id :: string
  ar_acting_user_id :: "uuid option"
  ar_acting_via :: string
  ar_rpc_name :: string
  ar_engagement_id :: "uuid option"
  ar_request_id :: "uuid option"
  ar_request_summary :: "string option"
  ar_trace_id :: "string option"

section \<open>Statements\<close>

datatype audit_stmt =
    Insert_Audit (ins_audit_id: uuid) (ins_organization_id: "uuid option") (ins_principal_kind: i16)
      (ins_principal_id: string) (ins_user_id: "uuid option") (ins_via: string) (ins_rpc_name: string)
      (ins_engagement_id: "uuid option") (ins_request_id: "uuid option")
      (ins_request_summary: "string option") (ins_trace_id: "string option")
  | Update_Audit (upd_outcome: i16) (upd_finalized_at: timestamp) (upd_error_code: "string option")
      (upd_audit_id: uuid)

record ('w, 'e) audit_ops =
  execute :: "audit_stmt \<Rightarrow> 'w \<Rightarrow> 'w \<times> ('e, unit) result"
  utc_now :: "'w \<Rightarrow> timestamp"
  audit_sleep :: "duration \<Rightarrow> 'w \<Rightarrow> 'w"

definition audit_insert_duration_seconds :: metric_op where
  "audit_insert_duration_seconds = HistogramObserve ''engagementhub_audit_insert_duration_seconds'' []"

definition audit_insert_failures_total :: metric_op where
  "audit_insert_failures_total = CounterAdd ''engagementhub_audit_insert_failures_total'' [] 1"

section \<open>The writer\<close>

definition phase1_insert ::
  "('w, 'e) audit_ops \<Rightarrow> AuditRow \<Rightarrow> 'w \<Rightarrow> 'w \<times> metric_log \<times> ('e, AuditId) result" where
  "phase1_insert ops row w =
     (case execute ops
        (Insert_Audit (audit_id_as_uuid (ar_audit_id row)) (ar_organization_id row)
           (principal_as_i16 (ar_acting_principal_kind row)) (ar_acting_principal_id row)
           (ar_acting_user_id row) (ar_acting_via row) (ar_rpc_name row) (ar_engagement_id row)
           (ar_request_id row) (ar_request_summary row) (ar_trace_id row)) w of
        (w', result) \<Rightarrow>
          (case result of
             Inr _ \<Rightarrow> (w', [audit_insert_duration_seconds], Inr (ar_audit_id row))
           | Inl e \<Rightarrow> (w', [audit_insert_duration_seconds, audit_insert_failures_total], Inl e)))"

definition phase2_attempt ::
  "('w, 'e) audit_ops \<Rightarrow> AuditId \<Rightarrow> AuditOutcome \<Rightarrow> string option \<Rightarrow> 'w \<Rightarrow> 'w \<times> ('e, unit) result" where
  "phase2_attempt ops i outcome error_code w =
     execute ops (Update_Audit (outcome_as_i16 outcome) (utc_now ops w) error_code (audit_id_as_uuid i)) w"

definition MAX_ATTEMPTS :: nat where
  "MAX_ATTEMPTS = 5"

text \<open>The loop \<^verbatim>\<open>for attempt in 1..=MAX_ATTEMPTS\<close>; doubling the delay panics on overflow.\<close>

function phase2_loop ::
  "('w, 'e) audit_ops \<Rightarrow> AuditId \<Rightarrow> AuditOutcome \<Rightarrow> string option \<Rightarrow> nat \<Rightarrow> duration \<Rightarrow> 'w
     \<Rightarrow> 'w \<times> metric_log \<times> unit exec" where
  "phase2_loop ops i outcome error_code attempt delay w =
     (if attempt \<le> MAX_ATTEMPTS then
        (case phase2_attempt ops i outcome error_code w of
           (w1, Inr _) \<Rightarrow> (w1, [], Ret ())
         | (w1, Inl e) \<Rightarrow>
             if attempt < MAX_ATTEMPTS then
               (let w2 = audit_sleep ops delay w1 in
                case dur_mul delay 2 of
                  Unwind \<Rightarrow> (w2, [], Unwind)
                | Ret delay' \<Rightarrow> phase2_loop ops i outcome error_code (attempt + 1) delay' w2)
             else
               (case phase2_loop ops i outcome error_code (attempt + 1) delay w1 of
                  (w2, log, r) \<Rightarrow> (w2, audit_insert_failures_total # log, r)))
      else (w, [], Ret ()))"
  by pat_completeness auto
termination
  by (relation "measure (\<lambda>(ops, i, outcome, error_code, attempt, delay, w). Suc MAX_ATTEMPTS - attempt)") auto

declare phase2_loop.simps [simp del]

definition phase2_finalize ::
  "('w, 'e) audit_ops \<Rightarrow> AuditId \<Rightarrow> AuditOutcome \<Rightarrow> string option \<Rightarrow> 'w \<Rightarrow> 'w \<times> metric_log \<times> unit exec" where
  "phase2_finalize ops i outcome error_code w =
     phase2_loop ops i outcome error_code 1 (from_millis 50) w"

section \<open>The table\<close>

record audit_db_row =
  db_audit_id :: uuid
  db_occurred_at :: timestamp
  db_finalized_at :: "timestamp option"
  db_organization_id :: "uuid option"
  db_principal_kind :: i16
  db_principal_id :: string
  db_user_id :: "uuid option"
  db_via :: string
  db_rpc_name :: string
  db_engagement_id :: "uuid option"
  db_request_id :: "uuid option"
  db_outcome :: i16
  db_error_code :: "string option"
  db_request_summary :: "string option"
  db_trace_id :: "string option"
  db_archived_at :: "timestamp option"

text \<open>The effect of a statement that succeeds: the insert adds a row with outcome zero, the update
  changes every row with the id and is satisfied when there is none.\<close>

fun apply_stmt :: "timestamp \<Rightarrow> audit_stmt \<Rightarrow> audit_db_row list \<Rightarrow> audit_db_row list" where
  "apply_stmt t (Insert_Audit a org kind pid usr via rpc eng req summ trace) rows =
     rows @ [\<lparr>db_audit_id = a, db_occurred_at = t, db_finalized_at = None, db_organization_id = org,
              db_principal_kind = kind, db_principal_id = pid, db_user_id = usr, db_via = via,
              db_rpc_name = rpc, db_engagement_id = eng, db_request_id = req, db_outcome = 0,
              db_error_code = None, db_request_summary = summ, db_trace_id = trace,
              db_archived_at = None\<rparr>]"
| "apply_stmt t (Update_Audit out fin err a) rows =
     map (\<lambda>r. if db_audit_id r = a
              then r\<lparr>db_outcome := out, db_finalized_at := Some fin, db_error_code := err\<rparr> else r) rows"

text \<open>A database whose connection fails as scripted, a clock and the pauses taken. A connection can be lost
  before the statement took effect or after it, when only the answer is lost; the caller sees the same error.
  The insert also fails on a duplicate key.\<close>

datatype fault = Works | Lost_Before | Lost_After

record audit_world =
  tbl :: "audit_db_row list"
  clock :: timestamp
  faults :: "fault list"
  pauses :: "duration list"

fun key_free :: "audit_stmt \<Rightarrow> audit_db_row list \<Rightarrow> bool" where
  "key_free (Insert_Audit a org kind pid usr via rpc eng req summ trace) rows =
     (a \<notin> set (map db_audit_id rows))"
| "key_free (Update_Audit out fin err a) rows = True"

definition answer :: "fault list \<Rightarrow> (string, 'a) result \<Rightarrow> (string, 'a) result" where
  "answer fs res = (case fs of Lost_After # _ \<Rightarrow> Inl ''connection lost'' | _ \<Rightarrow> res)"

definition model_ops :: "(audit_world, string) audit_ops" where
  "model_ops =
     \<lparr>execute = (\<lambda>s w.
        case faults w of
          Lost_Before # fs \<Rightarrow> (w\<lparr>faults := fs\<rparr>, Inl ''connection lost'')
        | fs \<Rightarrow> if key_free s (tbl w)
                then (w\<lparr>faults := tl fs, tbl := apply_stmt (clock w) s (tbl w)\<rparr>, answer fs (Inr ()))
                else (w\<lparr>faults := tl fs\<rparr>, answer fs (Inl ''duplicate key''))),
      utc_now = clock,
      audit_sleep = (\<lambda>d w. w\<lparr>pauses := pauses w @ [d], clock := clock w + d\<rparr>)\<rparr>"

section \<open>Phase two as a retry loop\<close>

text \<open>The world before attempt \<open>Suc n\<close> when the \<open>n\<close> attempts before it failed.\<close>

primrec audit_world_at ::
  "('w, 'e) audit_ops \<Rightarrow> AuditId \<Rightarrow> AuditOutcome \<Rightarrow> string option \<Rightarrow> 'w \<Rightarrow> nat \<Rightarrow> 'w" where
  "audit_world_at ops i outcome ec w 0 = w"
| "audit_world_at ops i outcome ec w (Suc n) =
     audit_sleep ops (from_millis (50 * 2 ^ n))
       (fst (phase2_attempt ops i outcome ec (audit_world_at ops i outcome ec w n)))"

definition attempt_ok ::
  "('w, 'e) audit_ops \<Rightarrow> AuditId \<Rightarrow> AuditOutcome \<Rightarrow> string option \<Rightarrow> 'w \<Rightarrow> nat \<Rightarrow> bool" where
  "attempt_ok ops i outcome ec w n =
     (case snd (phase2_attempt ops i outcome ec (audit_world_at ops i outcome ec w n)) of
        Inr _ \<Rightarrow> True | Inl _ \<Rightarrow> False)"

lemma delay_fits: "n < 4 \<Longrightarrow> dur_mul (from_millis (50 * 2 ^ n)) 2 = Ret (from_millis (50 * 2 ^ Suc n))"
proof -
  assume "n < 4"
  then have "(2::nat) ^ n \<le> 2 ^ 4" by (intro power_increasing) auto
  then have "from_millis (50 * 2 ^ n) * 2 \<le> DURATION_MAX"
    by (simp add: from_millis_def DURATION_MAX_def)
  then show ?thesis by (simp add: dur_ret) (simp add: from_millis_def)
qed

lemma phase2_loop_ok:
  assumes "n < 5" "attempt_ok ops i out ec w n"
  shows "phase2_loop ops i out ec (Suc n) d (audit_world_at ops i out ec w n) =
     (fst (phase2_attempt ops i out ec (audit_world_at ops i out ec w n)), [], Ret ())"
  using assms
  by (subst phase2_loop.simps) (auto simp: MAX_ATTEMPTS_def attempt_ok_def split: prod.splits sum.splits)

lemma phase2_loop_retry:
  assumes "n < 4" "\<not> attempt_ok ops i out ec w n"
  shows "phase2_loop ops i out ec (Suc n) (from_millis (50 * 2 ^ n)) (audit_world_at ops i out ec w n) =
     phase2_loop ops i out ec (Suc (Suc n)) (from_millis (50 * 2 ^ Suc n)) (audit_world_at ops i out ec w (Suc n))"
  using assms
  by (subst phase2_loop.simps)
     (auto simp: MAX_ATTEMPTS_def attempt_ok_def delay_fits Let_def split: prod.splits sum.splits)

lemma phase2_loop_give_up:
  assumes "\<not> attempt_ok ops i out ec w 4"
  shows "phase2_loop ops i out ec 5 d (audit_world_at ops i out ec w 4) =
     (fst (phase2_attempt ops i out ec (audit_world_at ops i out ec w 4)), [audit_insert_failures_total], Ret ())"
proof -
  have ended: "phase2_loop ops i out ec 6 d v = (v, [], Ret ())" for v
    by (subst phase2_loop.simps) (simp add: MAX_ATTEMPTS_def)
  show ?thesis
    using assms
    by (subst phase2_loop.simps)
       (auto simp: MAX_ATTEMPTS_def attempt_ok_def ended split: prod.splits sum.splits)
qed

lemma phase2_after_failures:
  "n \<le> 4 \<Longrightarrow> (\<And>j. j < n \<Longrightarrow> \<not> attempt_ok ops i out ec w j) \<Longrightarrow>
     phase2_finalize ops i out ec w =
       phase2_loop ops i out ec (Suc n) (from_millis (50 * 2 ^ n)) (audit_world_at ops i out ec w n)"
proof (induction n)
  case 0
  then show ?case by (simp add: phase2_finalize_def)
next
  case (Suc n)
  then show ?case using phase2_loop_retry [of n ops i out ec w] by simp
qed

lemma phase2_first_ok:
  assumes "n < 5" "\<And>j. j < n \<Longrightarrow> \<not> attempt_ok ops i out ec w j" "attempt_ok ops i out ec w n"
  shows "phase2_finalize ops i out ec w =
     (fst (phase2_attempt ops i out ec (audit_world_at ops i out ec w n)), [], Ret ())"
  using assms phase2_after_failures [of n ops i out ec w] phase2_loop_ok [of n ops i out ec w] by simp

lemma phase2_all_fail:
  assumes "\<And>j. j < 5 \<Longrightarrow> \<not> attempt_ok ops i out ec w j"
  shows "phase2_finalize ops i out ec w =
     (fst (phase2_attempt ops i out ec (audit_world_at ops i out ec w 4)), [audit_insert_failures_total], Ret ())"
  using assms phase2_after_failures [of 4 ops i out ec w] phase2_loop_give_up [of ops i out ec w] by simp

text \<open>Finalising an audit row never panics. It ends after the first attempt that succeeds, without
  counting a failure, if one of the first five does, having paused 50, 100, 200 and 400 ms at most
  before it; if all five fail it stops there and counts exactly one failure.\<close>

theorem phase2_outcome:
  "phase2_finalize ops i outcome error_code w =
     (case find (attempt_ok ops i outcome error_code w) [0..<5] of
        Some n \<Rightarrow>
          (fst (phase2_attempt ops i outcome error_code (audit_world_at ops i outcome error_code w n)), [], Ret ())
      | None \<Rightarrow>
          (fst (phase2_attempt ops i outcome error_code (audit_world_at ops i outcome error_code w 4)),
           [audit_insert_failures_total], Ret ()))"
proof (cases "find (attempt_ok ops i outcome error_code w) [0..<5]")
  case None
  then show ?thesis
    by (simp only: option.case, intro phase2_all_fail) (auto simp: find_None_iff)
next
  case (Some n)
  then obtain k where "k < 5" "n = k" "attempt_ok ops i outcome error_code w n"
    "\<And>j. j < k \<Longrightarrow> \<not> attempt_ok ops i outcome error_code w j"
    by (auto simp: find_Some_iff)
  then show ?thesis unfolding Some option.case by (intro phase2_first_ok) auto
qed

section \<open>What the phases do to the table\<close>

definition pending_row :: "timestamp \<Rightarrow> AuditRow \<Rightarrow> audit_db_row" where
  "pending_row t row =
     \<lparr>db_audit_id = audit_id_as_uuid (ar_audit_id row), db_occurred_at = t, db_finalized_at = None,
      db_organization_id = ar_organization_id row,
      db_principal_kind = principal_as_i16 (ar_acting_principal_kind row),
      db_principal_id = ar_acting_principal_id row, db_user_id = ar_acting_user_id row,
      db_via = ar_acting_via row, db_rpc_name = ar_rpc_name row, db_engagement_id = ar_engagement_id row,
      db_request_id = ar_request_id row, db_outcome = 0, db_error_code = None,
      db_request_summary = ar_request_summary row, db_trace_id = ar_trace_id row, db_archived_at = None\<rparr>"

definition finalized :: "uuid \<Rightarrow> AuditOutcome \<Rightarrow> string option \<Rightarrow> timestamp \<Rightarrow> audit_db_row list \<Rightarrow> audit_db_row list" where
  "finalized a outcome ec t rows =
     map (\<lambda>r. if db_audit_id r = a
              then r\<lparr>db_outcome := outcome_as_i16 outcome, db_finalized_at := Some t, db_error_code := ec\<rparr>
              else r) rows"

text \<open>Phase one on the table: it adds exactly one pending row with the caller's data and returns its id,
  or (connection lost before, key taken) leaves the table as it was, returns the error and counts one failure;
  when only the answer is lost it has done its work and still reports an error. The duration is observed
  either way.\<close>

theorem phase1_effect:
  "phase1_insert model_ops row w =
     (let w' = w\<lparr>faults := tl (faults w)\<rparr>;
          failed = [audit_insert_duration_seconds, audit_insert_failures_total];
          taken = (audit_id_as_uuid (ar_audit_id row) \<in> db_audit_id ` set (tbl w));
          stored = w'\<lparr>tbl := tbl w @ [pending_row (clock w) row]\<rparr>
      in case take 1 (faults w) of
           [Lost_Before] \<Rightarrow> (w', failed, Inl ''connection lost'')
         | [Lost_After] \<Rightarrow> (if taken then w' else stored, failed, Inl ''connection lost'')
         | _ \<Rightarrow> if taken then (w', failed, Inl ''duplicate key'')
                else (stored, [audit_insert_duration_seconds], Inr (ar_audit_id row)))"
  by (cases "faults w" rule: list.exhaust; cases "hd (faults w)")
     (auto simp: phase1_insert_def model_ops_def pending_row_def answer_def Let_def)

text \<open>One attempt of phase two: whether it takes effect and whether it is seen to.\<close>

lemma finalized_twice: "finalized a o' ec' t' (finalized a o'' ec t rows) = finalized a o' ec' t' rows"
  by (simp add: finalized_def)

lemma attempt_model_lost:
  assumes "faults w = l # fs" "l \<noteq> Works"
  shows "phase2_attempt model_ops i out ec w =
     (w\<lparr>faults := fs, tbl := (if l = Lost_After then finalized (audit_id_as_uuid i) out ec (clock w) (tbl w) else tbl w)\<rparr>,
      Inl ''connection lost'')"
  using assms by (cases l) (simp_all add: phase2_attempt_def model_ops_def answer_def finalized_def)

lemma attempt_model_ok:
  "list_all (\<lambda>f. f = Works) (take 1 (faults w)) \<Longrightarrow> phase2_attempt model_ops i out ec w =
     (w\<lparr>faults := tl (faults w), tbl := finalized (audit_id_as_uuid i) out ec (clock w) (tbl w)\<rparr>, Inr ())"
  by (cases "faults w") (auto simp: phase2_attempt_def model_ops_def finalized_def answer_def)

text \<open>The world after \<open>n\<close> failed attempts and the pauses after them, the table aside; and the table
  after attempts \<open>ls\<close>: what the last one wrote that took effect.\<close>

definition after_faults :: "nat \<Rightarrow> fault list \<Rightarrow> audit_world \<Rightarrow> audit_world" where
  "after_faults n fs w =
     w\<lparr>faults := fs, clock := clock w + from_millis (50 * (2 ^ n - 1)),
       pauses := pauses w @ map (\<lambda>k. from_millis (50 * 2 ^ k)) [0..<n]\<rparr>"

definition settled ::
  "uuid \<Rightarrow> AuditOutcome \<Rightarrow> string option \<Rightarrow> timestamp \<Rightarrow> fault list \<Rightarrow> audit_db_row list \<Rightarrow> audit_db_row list" where
  "settled a outcome ec t ls rows =
     (let effective = filter (\<lambda>k. ls ! k = Lost_After) [0..<length ls]
      in if effective = [] then rows
         else finalized a outcome ec (t + from_millis (50 * (2 ^ last effective - 1))) rows)"

lemma settled_snoc:
  "settled a out ec t (ls @ [l]) rows =
     (if l = Lost_After then finalized a out ec (t + from_millis (50 * (2 ^ length ls - 1))) rows
      else settled a out ec t ls rows)"
proof -
  have "filter (\<lambda>k. (ls @ [l]) ! k = Lost_After) [0..<length ls] = filter (\<lambda>k. ls ! k = Lost_After) [0..<length ls]"
    by (intro filter_cong) (simp_all add: nth_append)
  then show ?thesis by (simp add: settled_def Let_def)
qed

lemma finalized_settled: "finalized a out ec t' (settled a out ec t ls rows) = finalized a out ec t' rows"
  by (simp add: settled_def Let_def finalized_twice)

lemma audit_world_at_model:
  "faults w = ls @ fs \<Longrightarrow> list_all (\<lambda>l. l \<noteq> Works) ls \<Longrightarrow> audit_world_at model_ops i out ec w (length ls) =
     (after_faults (length ls) fs w)\<lparr>tbl := settled (audit_id_as_uuid i) out ec (clock w) ls (tbl w)\<rparr>"
proof (induction ls arbitrary: fs rule: rev_induct)
  case Nil
  then show ?case by (cases w) (simp add: after_faults_def from_millis_def settled_def)
next
  case (snoc l ls)
  let ?n = "length ls"
  let ?v = "(after_faults ?n (l # fs) w)\<lparr>tbl := settled (audit_id_as_uuid i) out ec (clock w) ls (tbl w)\<rparr>"
  have "audit_world_at model_ops i out ec w ?n = ?v" using snoc by simp
  moreover have "phase2_attempt model_ops i out ec ?v =
      (?v\<lparr>faults := fs, tbl := settled (audit_id_as_uuid i) out ec (clock w) (ls @ [l]) (tbl w)\<rparr>, Inl ''connection lost'')"
    using snoc.prems(2) attempt_model_lost [of ?v l fs i out ec]
    by (cases "l = Lost_After") (simp_all add: after_faults_def settled_snoc finalized_settled)
  moreover have "clock w + from_millis (50 * (2 ^ ?n - 1)) + from_millis (50 * 2 ^ ?n) =
      clock w + from_millis (50 * (2 ^ Suc ?n - 1))"
    by (cases "2 ^ ?n :: nat") (simp_all add: from_millis_def)
  ultimately show ?case by (simp add: after_faults_def) (simp add: model_ops_def)
qed

lemma attempt_ok_model:
  assumes "faults w = ls @ fs" "list_all (\<lambda>l. l \<noteq> Works) ls" "list_all (\<lambda>f. f = Works) (take 1 fs)" "j \<le> length ls"
  shows "attempt_ok model_ops i out ec w j \<longleftrightarrow> j = length ls"
proof (cases "j = length ls")
  case True
  then show ?thesis
    using audit_world_at_model [OF assms(1,2)] assms(3)
    by (simp add: attempt_ok_def attempt_model_ok after_faults_def)
next
  case False
  then have j: "j < length ls" using assms(4) by simp
  have "list_all (\<lambda>l. l \<noteq> Works) (take j ls)" "ls ! j \<noteq> Works"
    using assms(2) j by (auto simp: list_all_iff dest: in_set_takeD)
  moreover have "faults w = take j ls @ ls ! j # (drop (Suc j) ls @ fs)"
    using assms(1) id_take_nth_drop [OF j] by (metis append.assoc append_Cons)
  ultimately show ?thesis
    using audit_world_at_model [of w "take j ls" "ls ! j # (drop (Suc j) ls @ fs)" i out ec] j False
    by (simp add: attempt_ok_def attempt_model_lost after_faults_def)
qed

lemma phase2_model:
  assumes "faults w = ls @ fs" "list_all (\<lambda>l. l \<noteq> Works) ls" "list_all (\<lambda>f. f = Works) (take 1 fs)"
  shows "phase2_finalize model_ops i outcome ec w =
     (if length ls < 5 then
        ((after_faults (length ls) (tl fs) w)
           \<lparr>tbl := finalized (audit_id_as_uuid i) outcome ec (clock w + from_millis (50 * (2 ^ length ls - 1))) (tbl w)\<rparr>,
         [], Ret ())
      else
        ((after_faults 4 (drop 5 ls @ fs) w)
           \<lparr>tbl := settled (audit_id_as_uuid i) outcome ec (clock w) (take 5 ls) (tbl w)\<rparr>,
         [audit_insert_failures_total], Ret ()))"
proof (cases "length ls < 5")
  case True
  have "phase2_finalize model_ops i outcome ec w =
      (fst (phase2_attempt model_ops i outcome ec (audit_world_at model_ops i outcome ec w (length ls))), [], Ret ())"
    using True attempt_ok_model [OF assms] by (intro phase2_first_ok) auto
  then show ?thesis
    using True assms(3)
    by (simp add: audit_world_at_model [OF assms(1,2)] attempt_model_ok after_faults_def finalized_settled)
next
  case False
  have "take 5 ls = take 4 ls @ [ls ! 4]" using False take_Suc_conv_app_nth [of 4 ls] by simp
  moreover have "ls = take 4 ls @ ls ! 4 # drop 5 ls" using False id_take_nth_drop [of 4 ls] by simp
  then have "faults w = take 4 ls @ ls ! 4 # (drop 5 ls @ fs)" using assms(1) by (metis append.assoc append_Cons)
  moreover have "list_all (\<lambda>l. l \<noteq> Works) (take 4 ls)" "ls ! 4 \<noteq> Works"
    using assms(2) False by (auto simp: list_all_iff dest: in_set_takeD)
  moreover have "phase2_finalize model_ops i outcome ec w =
      (fst (phase2_attempt model_ops i outcome ec (audit_world_at model_ops i outcome ec w 4)),
       [audit_insert_failures_total], Ret ())"
    using False attempt_ok_model [OF assms] by (intro phase2_all_fail) auto
  ultimately show ?thesis
    using False audit_world_at_model [of w "take 4 ls" "ls ! 4 # (drop 5 ls @ fs)" i outcome ec]
    by (simp add: attempt_model_lost after_faults_def settled_snoc finalized_settled)
qed

text \<open>C10. Phase two on the table, with connections that are lost before the statement took effect or after
  it: after up to four lost connections the row with the id holds the outcome, the error code and the time of
  the attempt that was answered, all other rows are as they were, and no failure is counted; after five it
  gives up and counts one failure, and the row is as the last of the five that took effect wrote it, still
  pending for the reconciler if none did.\<close>

theorem phase2_effect:
  assumes "faults w = ls @ fs" "list_all (\<lambda>l. l \<noteq> Works) ls" "list_all (\<lambda>f. f = Works) (take 1 fs)"
  shows "phase2_finalize model_ops i outcome ec w =
     (if length ls < 5 then
        ((after_faults (length ls) (tl fs) w)
           \<lparr>tbl := finalized (audit_id_as_uuid i) outcome ec (clock w + from_millis (50 * (2 ^ length ls - 1))) (tbl w)\<rparr>,
         [], Ret ())
      else
        ((after_faults 4 (drop 5 ls @ fs) w)
           \<lparr>tbl := settled (audit_id_as_uuid i) outcome ec (clock w) (take 5 ls) (tbl w)\<rparr>,
         [audit_insert_failures_total], Ret ()))"
  using assms by (rule phase2_model)

definition pending_sample :: audit_db_row where
  "pending_sample = pending_row 3
     \<lparr>ar_audit_id = AuditId 7, ar_organization_id = Some 1, ar_acting_principal_kind = ServiceAccount,
      ar_acting_principal_id = ''svc'', ar_acting_user_id = None, ar_acting_via = ''grpc/StartEngagement'',
      ar_rpc_name = ''StartEngagement'', ar_engagement_id = Some 9, ar_request_id = Some 2,
      ar_request_summary = None, ar_trace_id = None\<rparr>"

text \<open>The answer of the first attempt is lost, then the connection, and the third attempt is answered.\<close>

theorem phase2_effect_witness:
  "phase2_finalize model_ops (AuditId 7) ServerError (Some ''E1'')
     \<lparr>tbl = [pending_sample], clock = 10, faults = [Lost_After, Lost_Before], pauses = []\<rparr> =
   (\<lparr>tbl = [pending_sample\<lparr>db_outcome := 3, db_finalized_at := Some (10 + from_millis 150), db_error_code := Some ''E1''\<rparr>],
     clock = 10 + from_millis 150, faults = [], pauses = [from_millis 50, from_millis 100]\<rparr>, [], Ret ())"
  using phase2_effect [of "\<lparr>tbl = [pending_sample], clock = 10, faults = [Lost_After, Lost_Before], pauses = []\<rparr>"
      "[Lost_After, Lost_Before]" "[]" "AuditId 7" ServerError "Some ''E1''"]
  by (simp add: after_faults_def finalized_def pending_sample_def pending_row_def numeral_2_eq_2)

text \<open>C35. Finalising is not restricted to pending rows: a second finalisation overwrites the outcome, the
  time and the error code of the first, and finalising an id with no row changes nothing and counts no
  failure.\<close>

theorem phase2_overwrites:
  assumes "faults w = []"
  shows "tbl (fst (phase2_finalize model_ops i second ec2 (fst (phase2_finalize model_ops i first ec1 w)))) =
      finalized (audit_id_as_uuid i) second ec2 (clock w) (tbl w) \<and>
    phase2_finalize model_ops (AuditId absent) first ec1 (w\<lparr>tbl := filter (\<lambda>r. db_audit_id r \<noteq> absent) (tbl w)\<rparr>) =
      (w\<lparr>tbl := filter (\<lambda>r. db_audit_id r \<noteq> absent) (tbl w)\<rparr>, [], Ret ())"
proof -
  have run: "phase2_finalize model_ops i out ec v =
      (v\<lparr>tbl := finalized (audit_id_as_uuid i) out ec (clock v) (tbl v)\<rparr>, [], Ret ())"
    if "faults v = []" for v i out ec
    using phase2_model [of v "[]" "[]" i out ec] that by (simp add: after_faults_def from_millis_def)
  have "finalized absent first ec1 t (filter (\<lambda>r. db_audit_id r \<noteq> absent) rows) =
      filter (\<lambda>r. db_audit_id r \<noteq> absent) rows" for t rows
    by (auto simp: finalized_def intro!: map_idI)
  then show ?thesis
    using assms by (simp add: run) (simp add: finalized_def)
qed

theorem phase2_overwrites_witness:
  "tbl (fst (phase2_finalize model_ops (AuditId 7) ServerError None
       (fst (phase2_finalize model_ops (AuditId 7) Audit_Success None
         \<lparr>tbl = [pending_sample], clock = 3, faults = [], pauses = []\<rparr>)))) =
      [pending_sample\<lparr>db_outcome := 3, db_finalized_at := Some 3, db_error_code := None\<rparr>] \<and>
    phase2_finalize model_ops (AuditId 2) Audit_Success None
       (\<lparr>tbl = [pending_sample], clock = 3, faults = [], pauses = []\<rparr>\<lparr>tbl := filter (\<lambda>r. db_audit_id r \<noteq> 2) [pending_sample]\<rparr>) =
      (\<lparr>tbl = [pending_sample], clock = 3, faults = [], pauses = []\<rparr>\<lparr>tbl := filter (\<lambda>r. db_audit_id r \<noteq> 2) [pending_sample]\<rparr>,
       [], Ret ())"
  using phase2_overwrites [of "\<lparr>tbl = [pending_sample], clock = 3, faults = [], pauses = []\<rparr>" "AuditId 7" ServerError None
      Audit_Success None 2] by (simp add: finalized_def pending_sample_def pending_row_def)

end
