(* ===== verification/Notify.thy ===== *)
theory Notify
  imports Adapter_Metrics "HOL-Library.AList"
begin

text \<open>
  The LISTEN/NOTIFY fan-out (\<^verbatim>\<open>engagement-hub/src/notify.rs\<close>): the subscriber registry, the
  gap fill and the manager loop.

  The two \<^verbatim>\<open>HashMap\<close>s of the registry are association lists with distinct keys. The broadcast
  channels of \<^verbatim>\<open>tokio\<close>, the gap-fill query and the JSON parser are parameters;
  \<open>broadcast_laws\<close> states what the documentation of the channel promises, in terms of the
  messages a channel has accepted (\<open>sent\<close>) and whether a receiver is left (\<open>live\<close>).
  The loop of the manager is a step relation whose events are what its \<^verbatim>\<open>select!\<close>s wait for.
\<close>

section \<open>Types\<close>

type_synonym i64 = int
type_synonym i16 = int

record NotifyPayload =
  np_engagement_id :: uuid
  np_organization_id :: uuid
  np_batch_id :: "uuid option"
  np_sequence :: i64
  np_event_pk :: i64
  np_event_type :: i16
  np_traceparent :: "string option"

definition CHANNEL_CAP :: nat where
  "CHANNEL_CAP = 256"

definition HEALTH_INTERVAL :: duration where
  "HEALTH_INTERVAL = from_secs 10"

definition RECONNECT_DELAY :: duration where
  "RECONNECT_DELAY = from_millis 100"

record ('w, 'tx, 'rx) broadcast_ops =
  channel :: "nat \<Rightarrow> 'w \<Rightarrow> ('tx \<times> 'rx) \<times> 'w"
  send :: "'tx \<Rightarrow> NotifyPayload \<Rightarrow> 'w \<Rightarrow> 'w \<times> bool"
  queued :: "'tx \<Rightarrow> 'w \<Rightarrow> nat"

record 'tx RegistryInner =
  by_engagement :: "(uuid \<times> 'tx list) list"
  by_batch :: "(uuid \<times> 'tx list) list"

definition registry_default :: "'tx RegistryInner" where
  "registry_default = \<lparr>by_engagement = [], by_batch = []\<rparr>"

section \<open>The registry\<close>

text \<open>\<^verbatim>\<open>entry(k).or_default().push(tx)\<close>.\<close>

definition entry_push :: "uuid \<Rightarrow> 'tx \<Rightarrow> (uuid \<times> 'tx list) list \<Rightarrow> (uuid \<times> 'tx list) list" where
  "entry_push k tx m = AList.update k (unwrap_or [] (map_of m k) @ [tx]) m"

definition subscribe_engagement ::
  "('w, 'tx, 'rx) broadcast_ops \<Rightarrow> uuid \<Rightarrow> 'tx RegistryInner \<Rightarrow> 'w \<Rightarrow> 'rx \<times> 'tx RegistryInner \<times> 'w" where
  "subscribe_engagement ops engagement_id reg w =
     (case channel ops CHANNEL_CAP w of ((tx, rx), w') \<Rightarrow>
        (rx, reg\<lparr>by_engagement := entry_push engagement_id tx (by_engagement reg)\<rparr>, w'))"

definition subscribe_batch ::
  "('w, 'tx, 'rx) broadcast_ops \<Rightarrow> uuid \<Rightarrow> 'tx RegistryInner \<Rightarrow> 'w \<Rightarrow> 'rx \<times> 'tx RegistryInner \<times> 'w" where
  "subscribe_batch ops batch_id reg w =
     (case channel ops CHANNEL_CAP w of ((tx, rx), w') \<Rightarrow>
        (rx, reg\<lparr>by_batch := entry_push batch_id tx (by_batch reg)\<rparr>, w'))"

text \<open>\<^verbatim>\<open>senders.retain(|tx| tx.send(payload.clone()).is_ok())\<close>.\<close>

fun retain_send ::
  "('w, 'tx, 'rx) broadcast_ops \<Rightarrow> NotifyPayload \<Rightarrow> 'tx list \<Rightarrow> 'w \<Rightarrow> 'tx list \<times> 'w" where
  "retain_send ops p [] w = ([], w)"
| "retain_send ops p (tx # txs) w =
     (case send ops tx p w of (w1, is_ok) \<Rightarrow>
       (case retain_send ops p txs w1 of (kept, w2) \<Rightarrow> (if is_ok then tx # kept else kept, w2)))"

text \<open>One half of \<open>fanout\<close>: the senders under a key, with the entry removed when none is left.\<close>

definition fanout_entry ::
  "('w, 'tx, 'rx) broadcast_ops \<Rightarrow> NotifyPayload \<Rightarrow> uuid \<Rightarrow> (uuid \<times> 'tx list) list \<Rightarrow> 'w
     \<Rightarrow> (uuid \<times> 'tx list) list \<times> 'w" where
  "fanout_entry ops p k m w =
     (case map_of m k of
        None \<Rightarrow> (m, w)
      | Some senders \<Rightarrow>
          (case retain_send ops p senders w of (kept, w') \<Rightarrow>
             (if kept = [] then AList.delete k m else AList.update k kept m, w')))"

definition fanout ::
  "('w, 'tx, 'rx) broadcast_ops \<Rightarrow> NotifyPayload \<Rightarrow> 'tx RegistryInner \<Rightarrow> 'w \<Rightarrow> 'tx RegistryInner \<times> 'w" where
  "fanout ops payload reg w =
     (case fanout_entry ops payload (np_engagement_id payload) (by_engagement reg) w of (m1, w1) \<Rightarrow>
        (case np_batch_id payload of
           None \<Rightarrow> (reg\<lparr>by_engagement := m1\<rparr>, w1)
         | Some batch_id \<Rightarrow>
             (case fanout_entry ops payload batch_id (by_batch reg) w1 of (m2, w2) \<Rightarrow>
                (reg\<lparr>by_engagement := m1, by_batch := m2\<rparr>, w2))))"

definition queued_event_count :: "('w, 'tx, 'rx) broadcast_ops \<Rightarrow> 'tx RegistryInner \<Rightarrow> 'w \<Rightarrow> nat" where
  "queued_event_count ops reg w =
     sum_list (map (\<lambda>tx. queued ops tx w) (concat (map snd (by_engagement reg)))) +
     sum_list (map (\<lambda>tx. queued ops tx w) (concat (map snd (by_batch reg))))"

section \<open>Gap fill\<close>

record GapRow =
  gr_engagement_id :: uuid
  gr_organization_id :: uuid
  gr_batch_id :: "uuid option"
  gr_sequence :: i64
  gr_event_pk :: i64
  gr_event_type :: i16
  gr_traceparent :: "string option"

definition gap_payload :: "GapRow \<Rightarrow> NotifyPayload" where
  "gap_payload row =
     \<lparr>np_engagement_id = gr_engagement_id row, np_organization_id = gr_organization_id row,
      np_batch_id = gr_batch_id row, np_sequence = gr_sequence row, np_event_pk = gr_event_pk row,
      np_event_type = gr_event_type row, np_traceparent = gr_traceparent row\<rparr>"

fun fanout_rows ::
  "('w, 'tx, 'rx) broadcast_ops \<Rightarrow> GapRow list \<Rightarrow> 'tx RegistryInner \<Rightarrow> 'w \<Rightarrow> 'tx RegistryInner \<times> 'w" where
  "fanout_rows ops [] reg w = (reg, w)"
| "fanout_rows ops (row # rows) reg w =
     (case fanout ops (gap_payload row) reg w of (reg', w') \<Rightarrow> fanout_rows ops rows reg' w')"

definition gap_fill_engagement ::
  "('w, 'tx, 'rx) broadcast_ops \<Rightarrow> (uuid \<Rightarrow> i64 \<Rightarrow> ('e, GapRow list) result) \<Rightarrow> uuid \<Rightarrow> i64
     \<Rightarrow> 'tx RegistryInner \<Rightarrow> 'w \<Rightarrow> 'tx RegistryInner \<times> 'w \<times> ('e, unit) result" where
  "gap_fill_engagement ops fetch_all engagement_id last_seen reg w =
     (case fetch_all engagement_id last_seen of
        Inl e \<Rightarrow> (reg, w, Inl e)
      | Inr rows \<Rightarrow> (case fanout_rows ops rows reg w of (reg', w') \<Rightarrow> (reg', w', Inr ())))"

text \<open>The query on the joined tables given as a list of rows.\<close>

definition gap_select :: "GapRow list \<Rightarrow> uuid \<Rightarrow> i64 \<Rightarrow> ('e, GapRow list) result" where
  "gap_select table engagement_id last_seen =
     Inr (sort_key gr_sequence
       (filter (\<lambda>r. gr_engagement_id r = engagement_id \<and> gr_sequence r > last_seen) table))"

section \<open>Notifications\<close>

definition consumer_lag_events :: "nat \<Rightarrow> metric_op" where
  "consumer_lag_events n = GaugeSet ''engagementhub_consumer_lag_events'' [] (int n)"

definition listen_notify_reconnects_total :: metric_op where
  "listen_notify_reconnects_total = CounterAdd ''engagementhub_listen_notify_reconnects_total'' [] 1"

definition handle_notification ::
  "('w, 'tx, 'rx) broadcast_ops \<Rightarrow> (string \<Rightarrow> NotifyPayload option) \<Rightarrow> string
     \<Rightarrow> 'tx RegistryInner \<Rightarrow> 'w \<Rightarrow> 'tx RegistryInner \<times> 'w \<times> metric_log" where
  "handle_notification ops parse payload_str reg w =
     (if payload_str = [] then (reg, w, [])
      else case parse payload_str of
             Some payload \<Rightarrow>
               (case fanout ops payload reg w of (reg', w') \<Rightarrow>
                  (reg', w', [consumer_lag_events (queued_event_count ops reg' w')]))
           | None \<Rightarrow> (reg, w, []))"

section \<open>The manager loop\<close>

text \<open>Where the loop is: about to check for shutdown and connect; pausing after a failed connect or a
  lost connection; in the inner loop; returned.\<close>

datatype run_phase = Top | Pausing | Listening | Stopped

text \<open>What it can observe: the shutdown flag already set at the top of the loop, the result of a
  connect, the end of a pause, a change of the shutdown flag, the result of \<^verbatim>\<open>try_recv\<close> on a
  health tick and the result of \<^verbatim>\<open>recv\<close>.\<close>

datatype run_event =
    Shutdown_Set
  | Connect_Ok
  | Connect_Err
  | Pause_Over
  | Shutdown_Changed
  | Tick_Notif string
  | Tick_None
  | Tick_Err
  | Recv_Notif string
  | Recv_Err

record ('w, 'tx) manager =
  run_phase :: run_phase
  registry :: "'tx RegistryInner"
  channels :: 'w
  connected_tx :: bool
  signals :: nat
  run_log :: metric_log

definition manager_new :: "'w \<Rightarrow> ('w, 'tx) manager" where
  "manager_new w =
     \<lparr>run_phase = Top, registry = registry_default, channels = w, connected_tx = False, signals = 0,
      run_log = []\<rparr>"

definition with_connected_signal :: "('w, 'tx) manager \<Rightarrow> ('w, 'tx) manager" where
  "with_connected_signal m = m\<lparr>connected_tx := True\<rparr>"

text \<open>What a subscriber calls on the manager: each passes to the registry it holds.\<close>

definition manager_subscribe_engagement ::
  "('w, 'tx, 'rx) broadcast_ops \<Rightarrow> uuid \<Rightarrow> ('w, 'tx) manager \<Rightarrow> 'rx \<times> ('w, 'tx) manager" where
  "manager_subscribe_engagement ops engagement_id m =
     (case subscribe_engagement ops engagement_id (registry m) (channels m) of (rx, reg, w) \<Rightarrow>
        (rx, m\<lparr>registry := reg, channels := w\<rparr>))"

definition manager_subscribe_batch ::
  "('w, 'tx, 'rx) broadcast_ops \<Rightarrow> uuid \<Rightarrow> ('w, 'tx) manager \<Rightarrow> 'rx \<times> ('w, 'tx) manager" where
  "manager_subscribe_batch ops batch_id m =
     (case subscribe_batch ops batch_id (registry m) (channels m) of (rx, reg, w) \<Rightarrow>
        (rx, m\<lparr>registry := reg, channels := w\<rparr>))"

definition manager_gap_fill ::
  "('w, 'tx, 'rx) broadcast_ops \<Rightarrow> (uuid \<Rightarrow> i64 \<Rightarrow> ('e, GapRow list) result) \<Rightarrow> uuid \<Rightarrow> i64
     \<Rightarrow> ('w, 'tx) manager \<Rightarrow> ('w, 'tx) manager \<times> ('e, unit) result" where
  "manager_gap_fill ops fetch_all engagement_id last_seen m =
     (case gap_fill_engagement ops fetch_all engagement_id last_seen (registry m) (channels m) of (reg, w, res) \<Rightarrow>
        (m\<lparr>registry := reg, channels := w\<rparr>, res))"

text \<open>Entering the inner loop takes the oneshot sender, if it is still there, and fires it.\<close>

definition enter_listening :: "('w, 'tx) manager \<Rightarrow> ('w, 'tx) manager" where
  "enter_listening m =
     (if connected_tx m then m\<lparr>run_phase := Listening, connected_tx := False, signals := signals m + 1\<rparr>
      else m\<lparr>run_phase := Listening\<rparr>)"

definition reconnect :: "('w, 'tx) manager \<Rightarrow> ('w, 'tx) manager" where
  "reconnect m = m\<lparr>run_phase := Pausing, run_log := run_log m @ [listen_notify_reconnects_total]\<rparr>"

definition deliver ::
  "('w, 'tx, 'rx) broadcast_ops \<Rightarrow> (string \<Rightarrow> NotifyPayload option) \<Rightarrow> string \<Rightarrow> ('w, 'tx) manager \<Rightarrow> ('w, 'tx) manager" where
  "deliver ops parse s m =
     (case handle_notification ops parse s (registry m) (channels m) of (reg, w, log) \<Rightarrow>
        m\<lparr>registry := reg, channels := w, run_log := run_log m @ log\<rparr>)"

inductive run_step ::
  "('w, 'tx, 'rx) broadcast_ops \<Rightarrow> (string \<Rightarrow> NotifyPayload option) \<Rightarrow> ('w, 'tx) manager \<Rightarrow> run_event
     \<Rightarrow> ('w, 'tx) manager \<Rightarrow> bool"
  for ops parse where
  top_shutdown: "run_phase m = Top \<Longrightarrow> run_step ops parse m Shutdown_Set (m\<lparr>run_phase := Stopped\<rparr>)"
| top_connected: "run_phase m = Top \<Longrightarrow> run_step ops parse m Connect_Ok (enter_listening m)"
| top_failed: "run_phase m = Top \<Longrightarrow> run_step ops parse m Connect_Err (reconnect m)"
| pause_over: "run_phase m = Pausing \<Longrightarrow> run_step ops parse m Pause_Over (m\<lparr>run_phase := Top\<rparr>)"
| pause_shutdown: "run_phase m = Pausing \<Longrightarrow> run_step ops parse m Shutdown_Changed (m\<lparr>run_phase := Stopped\<rparr>)"
| listen_shutdown: "run_phase m = Listening \<Longrightarrow> run_step ops parse m Shutdown_Changed (m\<lparr>run_phase := Stopped\<rparr>)"
| tick_notif: "run_phase m = Listening \<Longrightarrow> run_step ops parse m (Tick_Notif s) (deliver ops parse s m)"
| tick_none: "run_phase m = Listening \<Longrightarrow> run_step ops parse m Tick_None m"
| tick_err: "run_phase m = Listening \<Longrightarrow> run_step ops parse m Tick_Err (reconnect m)"
| recv_notif: "run_phase m = Listening \<Longrightarrow> run_step ops parse m (Recv_Notif s) (deliver ops parse s m)"
| recv_err: "run_phase m = Listening \<Longrightarrow> run_step ops parse m Recv_Err (reconnect m)"

inductive_cases run_stepE: "run_step ops parse m e m'"

text \<open>A run: the events in the order they were observed.\<close>

inductive run ::
  "('w, 'tx, 'rx) broadcast_ops \<Rightarrow> (string \<Rightarrow> NotifyPayload option) \<Rightarrow> ('w, 'tx) manager \<Rightarrow> run_event list
     \<Rightarrow> ('w, 'tx) manager \<Rightarrow> bool"
  for ops parse m0 where
  run_Nil: "run ops parse m0 [] m0"
| run_snoc: "run ops parse m0 es m \<Longrightarrow> run_step ops parse m e m' \<Longrightarrow> run ops parse m0 (es @ [e]) m'"

section \<open>What the channels promise\<close>

text \<open>
  \<open>sent tx w\<close> are the messages channel \<open>tx\<close> has accepted, \<open>live tx w\<close> whether
  it still has a receiver, \<open>known w\<close> the channels made so far. A new channel is fresh, live and
  empty; a send succeeds exactly on a live channel (also on a full one, where the oldest message is
  overwritten), and then the channel has accepted the message; nothing else changes.
\<close>

definition broadcast_laws ::
  "('w, 'tx, 'rx) broadcast_ops \<Rightarrow> ('tx \<Rightarrow> 'w \<Rightarrow> NotifyPayload list) \<Rightarrow> ('tx \<Rightarrow> 'w \<Rightarrow> bool) \<Rightarrow> ('w \<Rightarrow> 'tx set) \<Rightarrow> bool" where
  "broadcast_laws ops sent live known \<longleftrightarrow>
     (\<forall>cap w tx rx w'. channel ops cap w = ((tx, rx), w') \<longrightarrow>
        tx \<notin> known w \<and> known w' = insert tx (known w) \<and>
        (\<forall>t. live t w' = (t = tx \<or> live t w)) \<and> (\<forall>t. sent t w' = (if t = tx then [] else sent t w))) \<and>
     (\<forall>tx p w w' is_ok. send ops tx p w = (w', is_ok) \<longrightarrow>
        is_ok = live tx w \<and> known w' = known w \<and> (\<forall>t. live t w' = live t w) \<and>
        (\<forall>t. sent t w' = sent t w @ (if t = tx \<and> live tx w then [p] else [])))"

lemma channel_law:
  "broadcast_laws ops sent live known \<Longrightarrow> channel ops cap w = ((tx, rx), w') \<Longrightarrow>
     tx \<notin> known w \<and> known w' = insert tx (known w) \<and>
     (\<forall>t. live t w' = (t = tx \<or> live t w)) \<and> (\<forall>t. sent t w' = (if t = tx then [] else sent t w))"
  unfolding broadcast_laws_def
  by (drule conjunct1, drule spec [of _ cap], drule spec [of _ w], drule spec [of _ tx],
      drule spec [of _ rx], drule spec [of _ w'], drule (1) mp)

lemma send_law:
  "broadcast_laws ops sent live known \<Longrightarrow> send ops tx p w = (w', is_ok) \<Longrightarrow>
     is_ok = live tx w \<and> known w' = known w \<and> (\<forall>t. live t w' = live t w) \<and>
     (\<forall>t. sent t w' = sent t w @ (if t = tx \<and> live tx w then [p] else []))"
  unfolding broadcast_laws_def
  by (drule conjunct2, drule spec [of _ tx], drule spec [of _ p], drule spec [of _ w],
      drule spec [of _ w'], drule spec [of _ is_ok], drule (1) mp)

text \<open>What a stretch of sends does to the channels, for a set of addressed channels.\<close>

definition delivered ::
  "('tx \<Rightarrow> 'w \<Rightarrow> NotifyPayload list) \<Rightarrow> ('tx \<Rightarrow> 'w \<Rightarrow> bool) \<Rightarrow> ('w \<Rightarrow> 'tx set) \<Rightarrow> NotifyPayload \<Rightarrow> 'tx set \<Rightarrow> 'w \<Rightarrow> 'w \<Rightarrow> bool" where
  "delivered sent live known p S w w' \<longleftrightarrow>
     known w' = known w \<and> (\<forall>t. live t w' = live t w) \<and>
     (\<forall>t. sent t w' = sent t w @ (if t \<in> S \<and> live t w then [p] else []))"

lemma delivered_empty [simp]: "delivered sent live known p {} w w"
  by (simp add: delivered_def)

lemma delivered_trans:
  "delivered sent live known p A w w1 \<Longrightarrow> delivered sent live known p B w1 w2 \<Longrightarrow> A \<inter> B = {} \<Longrightarrow>
     delivered sent live known p (A \<union> B) w w2"
  by (auto simp: delivered_def)

lemma retain_send_delivers:
  assumes laws: "broadcast_laws ops sent live known"
  shows "distinct txs \<Longrightarrow> retain_send ops p txs w = (kept, w') \<Longrightarrow>
     kept = filter (\<lambda>t. live t w) txs \<and> delivered sent live known p (set txs) w w'"
proof (induction txs arbitrary: w kept w')
  case (Cons tx txs)
  obtain w1 ok where s: "send ops tx p w = (w1, ok)" by fastforce
  obtain k1 w2 where r: "retain_send ops p txs w1 = (k1, w2)" by fastforce
  note IH = Cons.IH [OF _ r]
  have d1: "delivered sent live known p {tx} w w1"
    using send_law [OF laws s] by (auto simp: delivered_def)
  have "delivered sent live known p ({tx} \<union> set txs) w w2"
    using d1 IH Cons.prems(1) by (intro delivered_trans) auto
  then show ?case
    using Cons.prems s r IH send_law [OF laws s] by auto
qed simp

section \<open>The registry invariant\<close>

definition lookup :: "(uuid \<times> 'tx list) list \<Rightarrow> uuid \<Rightarrow> 'tx list" where
  "lookup m k = unwrap_or [] (map_of m k)"

definition members :: "(uuid \<times> 'tx list) list \<Rightarrow> 'tx set" where
  "members m = (\<Union>k. set (lookup m k))"

text \<open>Keys are distinct, no entry is empty, and every sender stands in one place only.\<close>

definition entries_wf :: "(uuid \<times> 'tx list) list \<Rightarrow> bool" where
  "entries_wf m \<longleftrightarrow>
     distinct (map fst m) \<and> (\<forall>k. map_of m k \<noteq> Some []) \<and> (\<forall>k. distinct (lookup m k)) \<and>
     (\<forall>k k'. k \<noteq> k' \<longrightarrow> set (lookup m k) \<inter> set (lookup m k') = {})"

definition registry_wf :: "'tx RegistryInner \<Rightarrow> bool" where
  "registry_wf reg \<longleftrightarrow>
     entries_wf (by_engagement reg) \<and> entries_wf (by_batch reg) \<and>
     members (by_engagement reg) \<inter> members (by_batch reg) = {}"

definition subscribers :: "'tx RegistryInner \<Rightarrow> NotifyPayload \<Rightarrow> 'tx set" where
  "subscribers reg p =
     set (lookup (by_engagement reg) (np_engagement_id p)) \<union>
     (case np_batch_id p of None \<Rightarrow> {} | Some b \<Rightarrow> set (lookup (by_batch reg) b))"

lemma members_iff: "tx \<in> members m \<longleftrightarrow> (\<exists>k. tx \<in> set (lookup m k))"
  by (simp add: members_def)

lemma lookup_update: "lookup (AList.update k v m) k' = (if k' = k then v else lookup m k')"
  by (simp add: lookup_def update_conv')

lemma lookup_delete: "lookup (AList.delete k m) k' = (if k' = k then [] else lookup m k')"
  by (simp add: lookup_def delete_conv')

lemma distinct_alist: "distinct (map fst m) \<Longrightarrow> distinct (map fst (AList.update k v m))"
  "distinct (map fst m) \<Longrightarrow> distinct (map fst (AList.delete k m))"
  by (simp_all add: distinct_update distinct_delete)

text \<open>An entry replaced by a sublist, or removed when nothing is left of it, keeps the invariant.\<close>

lemma entries_wf_shrink:
  assumes "entries_wf m" "set l \<subseteq> set (lookup m k)" "distinct l"
  shows "entries_wf (if l = [] then AList.delete k m else AList.update k l m)"
proof -
  let ?m = "if l = [] then AList.delete k m else AList.update k l m"
  have look: "lookup ?m k' = (if k' = k then l else lookup m k')" for k'
    by (simp add: lookup_update lookup_delete)
  have "distinct (map fst ?m)" using assms(1) by (simp add: entries_wf_def distinct_alist)
  moreover have "\<forall>k'. map_of ?m k' \<noteq> Some []"
    using assms(1) by (simp add: entries_wf_def update_conv' delete_conv' del: map_of_eq_Some_iff)
  moreover have "\<forall>k'. distinct (lookup ?m k')"
    using assms(1,3) by (simp add: look entries_wf_def)
  moreover have "\<forall>k1 k2. k1 \<noteq> k2 \<longrightarrow> set (lookup ?m k1) \<inter> set (lookup ?m k2) = {}"
    using assms(1,2) unfolding look entries_wf_def by (simp add: disjoint_iff) blast
  ultimately show ?thesis unfolding entries_wf_def by blast
qed

lemma fanout_entry_delivers:
  assumes laws: "broadcast_laws ops sent live known" and wf: "entries_wf m"
    and run: "fanout_entry ops p k m w = (m', w')"
  shows "entries_wf m' \<and> delivered sent live known p (set (lookup m k)) w w' \<and>
     (\<forall>k'. lookup m' k' = (if k' = k then filter (\<lambda>t. live t w) (lookup m k) else lookup m k'))"
proof (cases "map_of m k")
  case None
  then show ?thesis using run wf by (auto simp: fanout_entry_def lookup_def)
next
  case (Some txs)
  obtain kept w1 where r: "retain_send ops p txs w = (kept, w1)" by fastforce
  have txs: "lookup m k = txs" "distinct txs"
    using Some wf by (auto simp: lookup_def entries_wf_def dest!: spec [of _ k])
  note d = retain_send_delivers [OF laws txs(2) r]
  have m': "m' = (if kept = [] then AList.delete k m else AList.update k kept m)" "w' = w1"
    using run Some r by (auto simp: fanout_entry_def)
  have "entries_wf m'"
    unfolding m' using d txs by (intro entries_wf_shrink wf) auto
  then show ?thesis
    using d txs by (auto simp: m' lookup_update lookup_delete)
qed

lemma members_shrink:
  "(\<And>k. set (lookup m' k) \<subseteq> set (lookup m k)) \<Longrightarrow> members m' \<subseteq> members m"
  by (auto simp: members_def)

lemma fanout_delivers:
  assumes laws: "broadcast_laws ops sent live known" and wf: "registry_wf reg"
    and run: "fanout ops p reg w = (reg', w')"
  shows "registry_wf reg' \<and> delivered sent live known p (subscribers reg p) w w' \<and>
     (\<forall>k. lookup (by_engagement reg') k =
        (if k = np_engagement_id p then filter (\<lambda>t. live t w) (lookup (by_engagement reg) k)
         else lookup (by_engagement reg) k)) \<and>
     (\<forall>k. lookup (by_batch reg') k =
        (if np_batch_id p = Some k then filter (\<lambda>t. live t w) (lookup (by_batch reg) k)
         else lookup (by_batch reg) k))"
proof -
  have wfs: "entries_wf (by_engagement reg)" "entries_wf (by_batch reg)"
    "members (by_engagement reg) \<inter> members (by_batch reg) = {}"
    using wf by (simp_all add: registry_wf_def)
  obtain m1 w1 where e: "fanout_entry ops p (np_engagement_id p) (by_engagement reg) w = (m1, w1)"
    by fastforce
  note d1 = fanout_entry_delivers [OF laws wfs(1) e]
  then have sub1: "members m1 \<subseteq> members (by_engagement reg)" by (intro members_shrink) auto
  then have disj1: "members m1 \<inter> members (by_batch reg) = {}" using wfs(3) by blast
  show ?thesis
  proof (cases "np_batch_id p")
    case None
    then show ?thesis
      using run e d1 wfs disj1 by (auto simp: fanout_def registry_wf_def subscribers_def)
  next
    case (Some b)
    obtain m2 w2 where f: "fanout_entry ops p b (by_batch reg) w1 = (m2, w2)" by fastforce
    note d2 = fanout_entry_delivers [OF laws wfs(2) f]
    have live1: "live t w1 = live t w" for t using d1 by (simp add: delivered_def)
    have sub2: "members m2 \<subseteq> members (by_batch reg)" using d2 by (intro members_shrink) auto
    have "set (lookup (by_engagement reg) (np_engagement_id p)) \<inter> set (lookup (by_batch reg) b) = {}"
      using wfs(3) unfolding members_def by blast
    then have "delivered sent live known p (subscribers reg p) w w2"
      using d1 d2 delivered_trans [of sent live known p _ w w1 _ w2] Some by (auto simp: subscribers_def)
    moreover have "members m1 \<inter> members m2 = {}" using disj1 sub2 by blast
    ultimately show ?thesis
      using run e f Some d1 d2 wfs live1 by (auto simp: fanout_def registry_wf_def)
  qed
qed

text \<open>C14. Fan-out, for any channels that keep their promises: every live subscriber of the payload's
  engagement and of its batch accepts the payload exactly once, no other channel accepts anything, the
  subscribers without a receiver are dropped from the entries concerned, the live ones stay in their order
  (a slow one too), all other entries are as they were, and the registry's invariant is kept.\<close>

theorem fanout_exact:
  assumes "broadcast_laws ops sent live known" "registry_wf reg" "fanout ops p reg w = (reg', w')"
  shows "sent t w' = sent t w @ (if t \<in> subscribers reg p \<and> live t w then [p] else []) \<and>
    lookup (by_engagement reg') k =
      (if k = np_engagement_id p then filter (\<lambda>t. live t w) (lookup (by_engagement reg) k)
       else lookup (by_engagement reg) k) \<and>
    lookup (by_batch reg') k =
      (if np_batch_id p = Some k then filter (\<lambda>t. live t w) (lookup (by_batch reg) k)
       else lookup (by_batch reg) k) \<and>
    registry_wf reg'"
  using fanout_delivers [OF assms] by (simp add: delivered_def)

section \<open>Streams\<close>

fun fanout_list ::
  "('w, 'tx, 'rx) broadcast_ops \<Rightarrow> NotifyPayload list \<Rightarrow> 'tx RegistryInner \<Rightarrow> 'w \<Rightarrow> 'tx RegistryInner \<times> 'w" where
  "fanout_list ops [] reg w = (reg, w)"
| "fanout_list ops (p # ps) reg w =
     (case fanout ops p reg w of (reg', w') \<Rightarrow> fanout_list ops ps reg' w')"

lemma fanout_rows_list: "fanout_rows ops rows reg w = fanout_list ops (map gap_payload rows) reg w"
  by (induction rows arbitrary: reg w) (simp_all split: prod.splits)

text \<open>A sender registered for an engagement is addressed by that engagement's payloads only.\<close>

lemma subscriber_iff:
  assumes "registry_wf reg" "tx \<in> set (lookup (by_engagement reg) e)"
  shows "tx \<in> subscribers reg p \<longleftrightarrow> np_engagement_id p = e"
proof -
  have "tx \<notin> set (lookup (by_batch reg) b)" for b
    using assms by (auto simp: registry_wf_def members_def disjoint_iff)
  moreover have "tx \<in> set (lookup (by_engagement reg) k) \<longleftrightarrow> k = e" for k
    using assms unfolding registry_wf_def entries_wf_def by blast
  ultimately show ?thesis by (auto simp: subscribers_def split: option.splits)
qed

lemma stream_to_subscriber:
  assumes laws: "broadcast_laws ops sent live known"
  shows "registry_wf reg \<Longrightarrow> tx \<in> set (lookup (by_engagement reg) e) \<Longrightarrow> live tx w \<Longrightarrow>
     fanout_list ops ps reg w = (reg', w') \<Longrightarrow>
     sent tx w' = sent tx w @ filter (\<lambda>p. np_engagement_id p = e) ps \<and>
     tx \<in> set (lookup (by_engagement reg') e) \<and> live tx w' \<and> registry_wf reg'"
proof (induction ps arbitrary: reg w)
  case (Cons p ps)
  obtain reg1 w1 where f: "fanout ops p reg w = (reg1, w1)" by fastforce
  note d = fanout_delivers [OF laws Cons.prems(1) f]
  have reg1: "registry_wf reg1" "tx \<in> set (lookup (by_engagement reg1) e)" "live tx w1"
    using d Cons.prems(2,3) by (auto simp: delivered_def)
  have "sent tx w1 = sent tx w @ (if np_engagement_id p = e then [p] else [])"
    using d Cons.prems(3) subscriber_iff [OF Cons.prems(1,2)] by (simp add: delivered_def)
  then show ?case
    using Cons.IH [OF reg1] Cons.prems(4) f by auto
qed simp

lemma lookup_entry_push: "lookup (entry_push k tx m) k' = (if k' = k then lookup m k @ [tx] else lookup m k')"
  by (simp add: entry_push_def lookup_update) (simp add: lookup_def)

lemma members_entry_push: "members (entry_push k tx m) = insert tx (members m)"
  by (auto simp: members_def lookup_entry_push split: if_splits)

lemma entries_wf_push:
  assumes "entries_wf m" "tx \<notin> members m"
  shows "entries_wf (entry_push k tx m)"
proof -
  have "distinct (map fst (entry_push k tx m))"
    using assms(1) by (simp add: entries_wf_def entry_push_def distinct_alist)
  moreover have "\<forall>k'. map_of (entry_push k tx m) k' \<noteq> Some []"
    using assms(1) by (simp add: entries_wf_def entry_push_def update_conv' del: map_of_eq_Some_iff)
  moreover have "\<forall>k'. distinct (lookup (entry_push k tx m) k')"
    using assms by (auto simp: lookup_entry_push entries_wf_def members_def)
  moreover have "\<forall>k1 k2. k1 \<noteq> k2 \<longrightarrow> set (lookup (entry_push k tx m) k1) \<inter> set (lookup (entry_push k tx m) k2) = {}"
    using assms unfolding lookup_entry_push entries_wf_def members_def by (simp add: disjoint_iff) blast
  ultimately show ?thesis unfolding entries_wf_def by blast
qed

lemma subscribe_engagement_wf:
  assumes laws: "broadcast_laws ops sent live known" and wf: "registry_wf reg"
    and known: "members (by_engagement reg) \<union> members (by_batch reg) \<subseteq> known w"
    and run: "subscribe_engagement ops e reg w = (rx, reg1, w1)"
  obtains tx where "tx \<notin> known w" "tx \<in> set (lookup (by_engagement reg1) e)" "live tx w1" "sent tx w1 = []"
    "registry_wf reg1" "members (by_engagement reg1) \<union> members (by_batch reg1) \<subseteq> known w1"
proof -
  obtain tx where c: "channel ops CHANNEL_CAP w = ((tx, rx), w1)"
    and reg1: "reg1 = reg\<lparr>by_engagement := entry_push e tx (by_engagement reg)\<rparr>"
    using run by (auto simp: subscribe_engagement_def split: prod.splits)
  note l = channel_law [OF laws c]
  then have fresh: "tx \<notin> members (by_engagement reg)" "tx \<notin> members (by_batch reg)" using known by auto
  show thesis
  proof (rule that)
    show "registry_wf reg1"
      using wf fresh by (auto simp: registry_wf_def reg1 entries_wf_push members_entry_push)
    show "members (by_engagement reg1) \<union> members (by_batch reg1) \<subseteq> known w1"
      using known l by (auto simp: reg1 members_entry_push)
  qed (use l in \<open>auto simp: reg1 lookup_entry_push\<close>)
qed

text \<open>C4. From subscription on, a subscriber to an engagement loses nothing: its channel, made fresh for
  it, accepts exactly the payloads of that engagement among all those fanned out afterwards, in their
  order, each once, for as long as its receiver exists, and it stays registered.\<close>

theorem subscription_stream:
  assumes "broadcast_laws ops sent live known" "registry_wf reg"
    and "members (by_engagement reg) \<union> members (by_batch reg) \<subseteq> known w"
    and "subscribe_engagement ops e reg w = (rx, reg1, w1)"
    and "fanout_list ops ps reg1 w1 = (reg2, w2)"
  shows "\<exists>tx. tx \<notin> known w \<and> sent tx w2 = filter (\<lambda>p. np_engagement_id p = e) ps \<and>
     tx \<in> set (lookup (by_engagement reg2) e) \<and> registry_wf reg2"
proof -
  obtain tx where tx: "tx \<notin> known w" "tx \<in> set (lookup (by_engagement reg1) e)" "live tx w1" "sent tx w1 = []"
    "registry_wf reg1"
    by (rule subscribe_engagement_wf [OF assms(1-4)])
  from stream_to_subscriber [OF assms(1) tx(5,2,3) assms(5)] tx show ?thesis by auto
qed

lemma gap_fill_stream:
  assumes "broadcast_laws ops sent live known" "registry_wf reg"
    and "tx \<in> set (lookup (by_engagement reg) e)" "live tx w"
    and "gap_fill_engagement ops (gap_select table) e last_seen reg w = (reg', w', res)"
  obtains rows where "sent tx w' = sent tx w @ map gap_payload rows" "sorted (map gr_sequence rows)"
    "set rows = {r \<in> set table. gr_engagement_id r = e \<and> last_seen < gr_sequence r}"
    "(res :: ('e, unit) result) = Inr ()" "registry_wf reg'" "tx \<in> set (lookup (by_engagement reg') e)" "live tx w'"
proof -
  let ?rows = "sort_key gr_sequence (filter (\<lambda>r. gr_engagement_id r = e \<and> gr_sequence r > last_seen) table)"
  have run: "fanout_list ops (map gap_payload ?rows) reg w = (reg', w')" "res = Inr ()"
    using assms(5) by (auto simp: gap_fill_engagement_def gap_select_def fanout_rows_list split: prod.splits)
  have "filter (\<lambda>p. np_engagement_id p = e) (map gap_payload ?rows) = map gap_payload ?rows"
    by (auto simp: filter_map comp_def gap_payload_def)
  then have "sent tx w' = sent tx w @ map gap_payload ?rows" "registry_wf reg'"
    "tx \<in> set (lookup (by_engagement reg') e)" "live tx w'"
    using stream_to_subscriber [OF assms(1-4) run(1)] by simp_all
  then show thesis using run(2) by (intro that [of ?rows]) auto
qed

text \<open>Gap fill on the event table: every live subscriber of the engagement (not only the one that
  asked) accepts all its events with a sequence above the cursor and no others, in ascending sequence
  order, and the call succeeds.\<close>

theorem gap_fill_replays:
  assumes "broadcast_laws ops sent live known" "registry_wf reg"
    and "tx \<in> set (lookup (by_engagement reg) e)" "live tx w"
    and "gap_fill_engagement ops (gap_select table) e last_seen reg w = (reg', w', res)"
  shows "\<exists>rows. sent tx w' = sent tx w @ map gap_payload rows \<and> sorted (map gr_sequence rows) \<and>
     set rows = {r \<in> set table. gr_engagement_id r = e \<and> last_seen < gr_sequence r} \<and>
     (res :: ('e, unit) result) = Inr ()"
  by (rule gap_fill_stream [OF assms]) blast

section \<open>Channels that keep the promises\<close>

record chan_world =
  next_id :: nat
  alive :: "nat \<Rightarrow> bool"
  accepted :: "nat \<Rightarrow> NotifyPayload list"

definition log_channels :: "(chan_world, nat, nat) broadcast_ops" where
  "log_channels =
     \<lparr>channel = (\<lambda>cap w. ((next_id w, next_id w),
        w\<lparr>next_id := next_id w + 1, alive := (alive w)(next_id w := True),
          accepted := (accepted w)(next_id w := [])\<rparr>)),
      send = (\<lambda>tx p w. if alive w tx
        then (w\<lparr>accepted := (accepted w)(tx := accepted w tx @ [p])\<rparr>, True) else (w, False)),
      queued = (\<lambda>tx w. min 256 (length (accepted w tx)))\<rparr>"

lemma log_channels_laws:
  "broadcast_laws log_channels (\<lambda>t w. accepted w t) (\<lambda>t w. alive w t) (\<lambda>w. {..<next_id w})"
  by (auto simp: broadcast_laws_def log_channels_def lessThan_Suc split: if_splits)

definition no_channels :: chan_world where
  "no_channels = \<lparr>next_id = 0, alive = (\<lambda>_. False), accepted = (\<lambda>_. [])\<rparr>"

definition sample_payload :: "uuid \<Rightarrow> i64 \<Rightarrow> NotifyPayload" where
  "sample_payload e n =
     \<lparr>np_engagement_id = e, np_organization_id = 1, np_batch_id = Some 8, np_sequence = n, np_event_pk = n,
      np_event_type = 8, np_traceparent = None\<rparr>"

definition one_subscriber :: "nat RegistryInner" where
  "one_subscriber = \<lparr>by_engagement = [(5, [0])], by_batch = []\<rparr>"

definition one_channel :: chan_world where
  "one_channel = no_channels\<lparr>next_id := 1, alive := (\<lambda>t. t = 0)\<rparr>"

lemma one_subscriber_wf: "registry_wf one_subscriber" "registry_wf registry_default"
  by (simp_all add: registry_wf_def entries_wf_def one_subscriber_def lookup_def members_def
      registry_default_def)

theorem fanout_exact_witness:
  "accepted (one_channel\<lparr>accepted := (accepted one_channel)(0 := [sample_payload 5 1])\<rparr>) 0 =
     accepted one_channel 0 @
       (if 0 \<in> subscribers one_subscriber (sample_payload 5 1) \<and> alive one_channel 0 then [sample_payload 5 1] else []) \<and>
   lookup (by_engagement one_subscriber) 5 =
     (if 5 = np_engagement_id (sample_payload 5 1)
      then filter (\<lambda>t. alive one_channel t) (lookup (by_engagement one_subscriber) 5)
      else lookup (by_engagement one_subscriber) 5) \<and>
   lookup (by_batch one_subscriber) 5 =
     (if np_batch_id (sample_payload 5 1) = Some 5
      then filter (\<lambda>t. alive one_channel t) (lookup (by_batch one_subscriber) 5)
      else lookup (by_batch one_subscriber) 5) \<and>
   registry_wf one_subscriber"
  by (rule fanout_exact [OF log_channels_laws one_subscriber_wf(1)])
     (simp add: fanout_def fanout_entry_def one_subscriber_def sample_payload_def log_channels_def
       one_channel_def no_channels_def)

theorem subscription_stream_witness:
  "\<exists>tx. tx \<notin> {..<next_id no_channels} \<and>
     accepted (snd (fanout_list log_channels [sample_payload 5 1, sample_payload 6 2]
         (fst (snd (subscribe_engagement log_channels 5 registry_default no_channels)))
         (snd (snd (subscribe_engagement log_channels 5 registry_default no_channels))))) tx =
       filter (\<lambda>p. np_engagement_id p = 5) [sample_payload 5 1, sample_payload 6 2] \<and>
     tx \<in> set (lookup (by_engagement (fst (fanout_list log_channels [sample_payload 5 1, sample_payload 6 2]
         (fst (snd (subscribe_engagement log_channels 5 registry_default no_channels)))
         (snd (snd (subscribe_engagement log_channels 5 registry_default no_channels)))))) 5) \<and>
     registry_wf (fst (fanout_list log_channels [sample_payload 5 1, sample_payload 6 2]
         (fst (snd (subscribe_engagement log_channels 5 registry_default no_channels)))
         (snd (snd (subscribe_engagement log_channels 5 registry_default no_channels)))))"
  by (rule subscription_stream [OF log_channels_laws one_subscriber_wf(2),
        where rx = "fst (subscribe_engagement log_channels 5 registry_default no_channels)"])
     (simp_all add: members_def lookup_def registry_default_def)

definition sample_row :: "uuid \<Rightarrow> i64 \<Rightarrow> GapRow" where
  "sample_row e n =
     \<lparr>gr_engagement_id = e, gr_organization_id = 1, gr_batch_id = None, gr_sequence = n, gr_event_pk = n,
      gr_event_type = 8, gr_traceparent = None\<rparr>"

definition sample_gap_fill :: "nat RegistryInner \<times> chan_world \<times> (unit, unit) result" where
  "sample_gap_fill =
     gap_fill_engagement log_channels (gap_select [sample_row 5 2, sample_row 5 1]) 5 0 one_subscriber one_channel"

theorem gap_fill_replays_witness:
  "\<exists>rows. accepted (fst (snd sample_gap_fill)) 0 = accepted one_channel 0 @ map gap_payload rows \<and>
     sorted (map gr_sequence rows) \<and>
     set rows = {r \<in> set [sample_row 5 2, sample_row 5 1]. gr_engagement_id r = 5 \<and> 0 < gr_sequence r} \<and>
     snd (snd sample_gap_fill) = Inr ()"
  by (rule gap_fill_replays [OF log_channels_laws one_subscriber_wf(1), where reg' = "fst sample_gap_fill"])
     (simp_all add: one_subscriber_def lookup_def one_channel_def sample_gap_fill_def)

section \<open>Runs of the manager\<close>

fun notif_of :: "run_event \<Rightarrow> string option" where
  "notif_of (Tick_Notif s) = Some s"
| "notif_of (Recv_Notif s) = Some s"
| "notif_of e = None"

definition notifs :: "run_event list \<Rightarrow> string list" where
  "notifs es = List.map_filter notif_of es"

fun is_failure :: "run_event \<Rightarrow> bool" where
  "is_failure Connect_Err = True"
| "is_failure Tick_Err = True"
| "is_failure Recv_Err = True"
| "is_failure e = False"

text \<open>The registry and the channels after a list of notifications.\<close>

fun deliver_all ::
  "('w, 'tx, 'rx) broadcast_ops \<Rightarrow> (string \<Rightarrow> NotifyPayload option) \<Rightarrow> string list
     \<Rightarrow> 'tx RegistryInner \<times> 'w \<Rightarrow> 'tx RegistryInner \<times> 'w" where
  "deliver_all ops parse [] rw = rw"
| "deliver_all ops parse (s # ss) rw =
     deliver_all ops parse ss
       (case handle_notification ops parse s (fst rw) (snd rw) of (reg, w, log) \<Rightarrow> (reg, w))"

lemma deliver_all_append: "deliver_all ops parse (xs @ ys) rw = deliver_all ops parse ys (deliver_all ops parse xs rw)"
  by (induction xs arbitrary: rw) simp_all

lemma notifs_snoc [simp]: "notifs (es @ [e]) = notifs es @ (case notif_of e of None \<Rightarrow> [] | Some s \<Rightarrow> [s])"
  by (induction es) (auto simp: notifs_def List.map_filter_def split: option.splits)

lemma handle_notification_log:
  "handle_notification ops parse s reg w = (reg', w', log) \<Longrightarrow>
     counter_total ''engagementhub_listen_notify_reconnects_total'' [] log = 0"
  by (auto simp: handle_notification_def consumer_lag_events_def split: if_splits option.splits prod.splits)

lemma deliver_fields:
  "run_phase (deliver ops parse s m) = run_phase m" "signals (deliver ops parse s m) = signals m"
  "connected_tx (deliver ops parse s m) = connected_tx m"
  "counter_total ''engagementhub_listen_notify_reconnects_total'' [] (run_log (deliver ops parse s m)) =
     counter_total ''engagementhub_listen_notify_reconnects_total'' [] (run_log m)"
  "(registry (deliver ops parse s m), channels (deliver ops parse s m)) =
     deliver_all ops parse [s] (registry m, channels m)"
  by (auto simp: deliver_def dest: handle_notification_log split: prod.splits)

text \<open>What one step does, by the kind of its event.\<close>

lemma run_step_effect:
  assumes "run_step ops parse m e m'"
  shows "(registry m', channels m') =
      deliver_all ops parse (case notif_of e of None \<Rightarrow> [] | Some s \<Rightarrow> [s]) (registry m, channels m) \<and>
    counter_total ''engagementhub_listen_notify_reconnects_total'' [] (run_log m') =
      counter_total ''engagementhub_listen_notify_reconnects_total'' [] (run_log m) + (if is_failure e then 1 else 0) \<and>
    (signals m', connected_tx m') =
      (if e = Connect_Ok \<and> connected_tx m then (signals m + 1, False) else (signals m, connected_tx m)) \<and>
    run_phase m \<noteq> Stopped"
  using assms
  by (elim run_stepE)
     (simp_all add: deliver_fields enter_listening_def reconnect_def listen_notify_reconnects_total_def
       del: deliver_all.simps(2))

lemma run_effect:
  "run ops parse m0 es m \<Longrightarrow>
     (registry m, channels m) = deliver_all ops parse (notifs es) (registry m0, channels m0) \<and>
     counter_total ''engagementhub_listen_notify_reconnects_total'' [] (run_log m) =
       counter_total ''engagementhub_listen_notify_reconnects_total'' [] (run_log m0) + length (filter is_failure es) \<and>
     (signals m, connected_tx m) =
       (if Connect_Ok \<in> set es \<and> connected_tx m0 then (signals m0 + 1, False) else (signals m0, connected_tx m0))"
proof (induction rule: run.induct)
  case run_Nil
  then show ?case by (simp add: notifs_def List.map_filter_def)
next
  case (run_snoc es m e m')
  from run_step_effect [OF run_snoc.hyps(2)] run_snoc.IH show ?case
    by (auto simp: deliver_all_append split: if_splits)
qed

text \<open>The payloads a list of notifications stands for: empty ones and ones that do not parse are skipped.\<close>

definition payloads :: "(string \<Rightarrow> NotifyPayload option) \<Rightarrow> string list \<Rightarrow> NotifyPayload list" where
  "payloads parse ss = List.map_filter (\<lambda>s. if s = [] then None else parse s) ss"

lemma deliver_all_fanout: "deliver_all ops parse ss (reg, w) = fanout_list ops (payloads parse ss) reg w"
proof (induction ss arbitrary: reg w)
  case (Cons s ss)
  then show ?case
    by (cases "s = []"; cases "parse s")
       (auto simp: payloads_def List.map_filter_def handle_notification_def split: prod.splits)
qed (simp add: payloads_def List.map_filter_def)

text \<open>A subscriber of engagement \<open>e\<close> on channel \<open>tx\<close>.\<close>

definition attached ::
  "('tx \<Rightarrow> 'w \<Rightarrow> bool) \<Rightarrow> uuid \<Rightarrow> 'tx \<Rightarrow> ('w, 'tx) manager \<Rightarrow> bool" where
  "attached live e tx m =
     (registry_wf (registry m) \<and> tx \<in> set (lookup (by_engagement (registry m)) e) \<and> live tx (channels m))"

text \<open>C13. Whatever the manager's connections do, and from whatever state a subscriber finds it in: along a
  run a subscriber of an engagement is sent, after what it had, the payloads of that engagement among the
  notifications received, in the order received, each once, and nothing else (empty and unreadable ones are
  skipped, reconnecting replays nothing by itself), and it stays registered and live; the reconnect counter
  goes up by the number of failed connects, failed health checks and failed receives; the connected signal,
  if there is one to fire, is fired by the first successful connect and never again.\<close>

theorem run_handles_notifications:
  assumes "broadcast_laws ops sent live known" "attached live e tx m0" "run ops parse m0 es m"
  shows "attached live e tx m \<and>
    sent tx (channels m) = sent tx (channels m0) @
      filter (\<lambda>p. np_engagement_id p = e) (payloads parse (notifs es)) \<and>
    counter_total ''engagementhub_listen_notify_reconnects_total'' [] (run_log m) =
      counter_total ''engagementhub_listen_notify_reconnects_total'' [] (run_log m0) + length (filter is_failure es) \<and>
    signals m = signals m0 + (if Connect_Ok \<in> set es \<and> connected_tx m0 then 1 else 0)"
proof -
  note eff = run_effect [OF assms(3)]
  then have "fanout_list ops (payloads parse (notifs es)) (registry m0) (channels m0) = (registry m, channels m)"
    by (simp add: deliver_all_fanout)
  from stream_to_subscriber [OF assms(1) _ _ _ this, of tx e] assms(2) eff show ?thesis
    by (auto simp: attached_def split: if_splits)
qed

text \<open>A manager after a subscription and its gap fill.\<close>

lemma resumed_subscriber:
  assumes "broadcast_laws ops sent live known"
    and "manager_subscribe_engagement ops e (manager_new w0) = (rx, m1)"
    and "manager_gap_fill ops (gap_select table) e cursor m1 = (m2, res)"
  obtains tx rs where "tx \<notin> known w0" "(res :: ('e, unit) result) = Inr ()" "sorted (map gr_sequence rs)"
    "set rs = {r \<in> set table. gr_engagement_id r = e \<and> cursor < gr_sequence r}"
    "sent tx (channels m2) = map gap_payload rs" "attached live e tx m2"
proof -
  obtain reg1 w1 where s: "subscribe_engagement ops e registry_default w0 = (rx, reg1, w1)"
    and m1: "registry m1 = reg1" "channels m1 = w1"
    using assms(2) by (auto simp: manager_subscribe_engagement_def manager_new_def split: prod.splits)
  obtain reg2 w2 where g: "gap_fill_engagement ops (gap_select table) e cursor reg1 w1 = (reg2, w2, res)"
    and m2: "registry m2 = reg2" "channels m2 = w2"
    using assms(3) m1 by (auto simp: manager_gap_fill_def split: prod.splits)
  have "registry_wf registry_default" "members (by_engagement registry_default) \<union> members (by_batch registry_default) \<subseteq> known w0"
    by (simp_all add: registry_wf_def entries_wf_def lookup_def members_def registry_default_def)
  from subscribe_engagement_wf [OF assms(1) this s] obtain tx where tx: "tx \<notin> known w0"
    "tx \<in> set (lookup (by_engagement reg1) e)" "live tx w1" "sent tx w1 = []" "registry_wf reg1" by blast
  obtain rows where "sent tx w2 = sent tx w1 @ map gap_payload rows" "sorted (map gr_sequence rows)"
    "set rows = {r \<in> set table. gr_engagement_id r = e \<and> cursor < gr_sequence r}" "res = Inr ()"
    "registry_wf reg2" "tx \<in> set (lookup (by_engagement reg2) e)" "live tx w2"
    by (rule gap_fill_stream [OF assms(1) tx(5,2,3) g])
  with tx(1,4) m2 show thesis by (intro that [of tx rows]) (simp_all add: attached_def)
qed

text \<open>Resuming a watch loses nothing: a subscriber that subscribes to an engagement, fills the gap from
  its cursor and then lets the manager run gets, on the channel made for it, first every stored event of the
  engagement above the cursor in ascending sequence order, then every notified event of the engagement in
  the order received, each once, whatever the connections do meanwhile; and nothing of other
  engagements.\<close>

theorem watch_resume:
  assumes "broadcast_laws ops sent live known"
    and "manager_subscribe_engagement ops e (manager_new w0) = (rx, m1)"
    and "manager_gap_fill ops (gap_select table) e cursor m1 = (m2, res)"
    and "run ops parse m2 es m"
  shows "\<exists>tx rows. tx \<notin> known w0 \<and> (res :: ('e, unit) result) = Inr () \<and> sorted (map gr_sequence rows) \<and>
     set rows = {r \<in> set table. gr_engagement_id r = e \<and> cursor < gr_sequence r} \<and>
     sent tx (channels m) =
       map gap_payload rows @ filter (\<lambda>p. np_engagement_id p = e) (payloads parse (notifs es))"
proof -
  obtain tx rows where tx: "tx \<notin> known w0" "res = Inr ()" "sorted (map gr_sequence rows)"
    "set rows = {r \<in> set table. gr_engagement_id r = e \<and> cursor < gr_sequence r}"
    "sent tx (channels m2) = map gap_payload rows" "attached live e tx m2"
    by (rule resumed_subscriber [OF assms(1-3)])
  have "fanout_list ops (payloads parse (notifs es)) (registry m2) (channels m2) = (registry m, channels m)"
    using run_effect [OF assms(4)] by (simp add: deliver_all_fanout)
  from stream_to_subscriber [OF assms(1) _ _ _ this, where tx = tx and e = e] tx show ?thesis
    by (auto simp: attached_def)
qed

text \<open>A manager with a subscriber that connects, receives a notification and loses its connection.\<close>

definition fresh_manager :: "(chan_world, nat) manager" where
  "fresh_manager = (with_connected_signal (manager_new one_channel))\<lparr>registry := one_subscriber\<rparr>"

definition five_parse :: "string \<Rightarrow> NotifyPayload option" where
  "five_parse s = Some (sample_payload 5 1)"

definition lost_manager :: "(chan_world, nat) manager" where
  "lost_manager = reconnect (deliver log_channels five_parse ''event'' (enter_listening fresh_manager))"

lemma lost_manager_run:
  "run log_channels five_parse fresh_manager [Connect_Ok, Recv_Notif ''event'', Recv_Err] lost_manager"
proof -
  have "run log_channels five_parse fresh_manager ([] @ [Connect_Ok]) (enter_listening fresh_manager)"
    by (rule run_snoc [OF run_Nil top_connected]) (simp add: fresh_manager_def with_connected_signal_def manager_new_def)
  then have "run log_channels five_parse fresh_manager (([] @ [Connect_Ok]) @ [Recv_Notif ''event''])
      (deliver log_channels five_parse ''event'' (enter_listening fresh_manager))"
    by (rule run_snoc) (rule recv_notif, simp add: enter_listening_def)
  then have "run log_channels five_parse fresh_manager ((([] @ [Connect_Ok]) @ [Recv_Notif ''event'']) @ [Recv_Err]) lost_manager"
    unfolding lost_manager_def by (rule run_snoc) (rule recv_err, simp add: deliver_fields enter_listening_def)
  then show ?thesis by simp
qed

theorem run_handles_notifications_witness:
  "accepted (channels lost_manager) 0 = [sample_payload 5 1] \<and>
    counter_total ''engagementhub_listen_notify_reconnects_total'' [] (run_log lost_manager) = 1 \<and>
    signals lost_manager = 1"
proof -
  have "attached (\<lambda>t w. alive w t) 5 0 fresh_manager"
    using one_subscriber_wf(1)
    by (simp add: attached_def fresh_manager_def with_connected_signal_def manager_new_def one_subscriber_def one_channel_def
        lookup_def)
  from run_handles_notifications [OF log_channels_laws this lost_manager_run] show ?thesis
    by (simp add: fresh_manager_def with_connected_signal_def manager_new_def one_channel_def no_channels_def
        five_parse_def notifs_def payloads_def List.map_filter_def) (simp add: sample_payload_def)
qed

definition sample_subscribed :: "nat \<times> (chan_world, nat) manager" where
  "sample_subscribed = manager_subscribe_engagement log_channels 5 (manager_new no_channels)"

definition sample_filled :: "(chan_world, nat) manager \<times> (unit, unit) result" where
  "sample_filled = manager_gap_fill log_channels (gap_select [sample_row 5 2, sample_row 5 1]) 5 1 (snd sample_subscribed)"

theorem watch_resume_witness:
  "\<exists>tx rows. tx \<notin> {..<next_id no_channels} \<and> snd sample_filled = Inr () \<and> sorted (map gr_sequence rows) \<and>
     set rows = {r \<in> set [sample_row 5 2, sample_row 5 1]. gr_engagement_id r = 5 \<and> 1 < gr_sequence r} \<and>
     accepted (channels (fst sample_filled)) tx =
       map gap_payload rows @ filter (\<lambda>p. np_engagement_id p = 5) (payloads (\<lambda>s. None) (notifs []))"
proof -
  have "manager_subscribe_engagement log_channels 5 (manager_new no_channels) = (fst sample_subscribed, snd sample_subscribed)"
    "manager_gap_fill log_channels (gap_select [sample_row 5 2, sample_row 5 1]) 5 1 (snd sample_subscribed) =
       (fst sample_filled, snd sample_filled)"
    by (simp_all add: sample_subscribed_def sample_filled_def)
  then show ?thesis by (rule watch_resume [OF log_channels_laws _ _ run_Nil])
qed

text \<open>Shutdown: outside a connect in progress the loop can always be stopped by a change of the
  shutdown flag, at the top of the loop by the flag being set; stopping changes nothing else, and a
  stopped manager takes no further step.\<close>

lemma run_can_stop:
  "(if run_phase m = Stopped then \<forall>e m'. \<not> run_step ops parse m e m'
    else run_step ops parse m (if run_phase m = Top then Shutdown_Set else Shutdown_Changed)
           (m\<lparr>run_phase := Stopped\<rparr>))"
proof (cases "run_phase m")
  case Stopped
  then show ?thesis using run_step_effect by fastforce
qed (auto intro: run_step.intros)

end
