(* ===== verification/Hub_Db.thy ===== *)
theory Hub_Db
  imports Schema Idempotency Audit_Writer Notify
begin

text \<open>
  The hub's statements on the schema of its migration: the two statements of the audit writer, the query of
  the idempotency check, the gap-fill query and the payload of the notification trigger, each as a statement
  or a query on \<open>db\<close>, and the records of the component theories as what is read back from a row.

  The locale \<open>audit_refinement\<close> is the contract between two databases behind the audit writer;
  it is interpreted on the schema (\<open>sql_ops\<close>) and the table of \<open>Audit_Writer\<close>, once
  with a table that refuses the texts PostgreSQL refuses (\<open>checked_ops\<close>) and once, for texts it stores, with
  \<open>model_ops\<close>, so what is shown of the writer on the table holds on the schema.
\<close>

section \<open>Values\<close>

fun opt_value :: "('a \<Rightarrow> sql_value) \<Rightarrow> 'a option \<Rightarrow> sql_value" where
  "opt_value f None = Null"
| "opt_value f (Some a) = f a"

fun uuid_opt :: "sql_value \<Rightarrow> uuid option" where
  "uuid_opt (V_Uuid u) = Some u"
| "uuid_opt v = None"

fun int_opt :: "sql_value \<Rightarrow> int option" where
  "int_opt (V_Int i) = Some i"
| "int_opt v = None"

fun text_opt :: "sql_value \<Rightarrow> string option" where
  "text_opt (V_Text s) = Some s"
| "text_opt v = None"

fun json_opt :: "sql_value \<Rightarrow> string option" where
  "json_opt (V_Json s) = Some s"
| "json_opt v = None"

fun time_opt :: "sql_value \<Rightarrow> nat option" where
  "time_opt (V_Time t) = Some t"
| "time_opt v = None"

fun bytes_opt :: "sql_value \<Rightarrow> 8 word list option" where
  "bytes_opt (V_Bytes b) = Some b"
| "bytes_opt v = None"

lemma opt_value_uuid [simp]: "uuid_opt (opt_value V_Uuid x) = x" "typed UUID (opt_value V_Uuid x)"
  by (cases x; simp)+

lemma opt_value_text [simp]: "text_opt (opt_value V_Text x) = x" "typed TEXT (opt_value V_Text x) \<longleftrightarrow> pred_option text_ok x"
  by (cases x; simp)+

lemma opt_value_json [simp]: "json_opt (opt_value V_Json x) = x" "typed JSONB (opt_value V_Json x) \<longleftrightarrow> pred_option json_ok x"
  by (cases x; simp)+

section \<open>The audit writer's statements\<close>

text \<open>The columns each command names, with the values bound to them; \<open>t\<close> is \<^verbatim>\<open>now()\<close>.\<close>

fun audit_insert_sql ::
  "timestamp \<Rightarrow> uuid \<Rightarrow> uuid option \<Rightarrow> Audit_Writer.i16 \<Rightarrow> string \<Rightarrow> uuid option \<Rightarrow> string \<Rightarrow> string
     \<Rightarrow> uuid option \<Rightarrow> uuid option \<Rightarrow> string option \<Rightarrow> string option \<Rightarrow> stmt" where
  "audit_insert_sql t a org kind pid usr via rpc eng req summ trace =
     Insert ''engagement_audit''
       [(''audit_id'', V_Uuid a),
        (''occurred_at'', V_Time t),
        (''finalized_at'', Null),
        (''organization_id'', opt_value V_Uuid org),
        (''acting_principal_kind'', V_Int kind),
        (''acting_principal_id'', V_Text pid),
        (''acting_user_id'', opt_value V_Uuid usr),
        (''acting_via'', V_Text via),
        (''rpc_name'', V_Text rpc),
        (''engagement_id'', opt_value V_Uuid eng),
        (''request_id'', opt_value V_Uuid req),
        (''outcome'', V_Int 0),
        (''error_code'', Null),
        (''request_summary'', opt_value V_Json summ),
        (''trace_id'', opt_value V_Text trace),
        (''archived_at'', Null)]"

fun audit_update_sql :: "Audit_Writer.i16 \<Rightarrow> timestamp \<Rightarrow> string option \<Rightarrow> uuid \<Rightarrow> stmt" where
  "audit_update_sql out fin err a =
     Update ''engagement_audit''
       [(''outcome'', V_Int out),
        (''finalized_at'', V_Time fin),
        (''error_code'', opt_value V_Text err)]
       (\<lambda>r. r ''audit_id'' = V_Uuid a)"

text \<open>A statement of the writer as the command it issues.\<close>

fun audit_sql :: "timestamp \<Rightarrow> audit_stmt \<Rightarrow> stmt" where
  "audit_sql t (Insert_Audit a org kind pid usr via rpc eng req summ trace) =
     audit_insert_sql t a org kind pid usr via rpc eng req summ trace"
| "audit_sql t (Update_Audit out fin err a) = audit_update_sql out fin err a"

text \<open>A row of \<^verbatim>\<open>engagement_audit\<close> read back.\<close>

definition audit_of :: "row \<Rightarrow> audit_db_row" where
  "audit_of r =
     \<lparr>db_audit_id = the (uuid_opt (r ''audit_id'')),
      db_occurred_at = the (time_opt (r ''occurred_at'')),
      db_finalized_at = time_opt (r ''finalized_at''),
      db_organization_id = uuid_opt (r ''organization_id''),
      db_principal_kind = the (int_opt (r ''acting_principal_kind'')),
      db_principal_id = the (text_opt (r ''acting_principal_id'')),
      db_user_id = uuid_opt (r ''acting_user_id''),
      db_via = the (text_opt (r ''acting_via'')),
      db_rpc_name = the (text_opt (r ''rpc_name'')),
      db_engagement_id = uuid_opt (r ''engagement_id''),
      db_request_id = uuid_opt (r ''request_id''),
      db_outcome = the (int_opt (r ''outcome'')),
      db_error_code = text_opt (r ''error_code''),
      db_request_summary = json_opt (r ''request_summary''),
      db_trace_id = text_opt (r ''trace_id''),
      db_archived_at = time_opt (r ''archived_at'')\<rparr>"

definition audit_rows :: "db \<Rightarrow> audit_db_row list" where
  "audit_rows d = map audit_of (rows d ''engagement_audit'')"

text \<open>The values a statement binds to \<^verbatim>\<open>SMALLINT\<close> columns.\<close>

fun fits_i16 :: "audit_stmt \<Rightarrow> bool" where
  "fits_i16 (Insert_Audit a org kind pid usr via rpc eng req summ trace) = (- (2 ^ 15) \<le> kind \<and> kind < 2 ^ 15)"
| "fits_i16 (Update_Audit out fin err a) = (- (2 ^ 15) \<le> out \<and> out < 2 ^ 15)"

text \<open>Whether PostgreSQL can store the texts a statement binds.\<close>

fun storable :: "audit_stmt \<Rightarrow> bool" where
  "storable (Insert_Audit a org kind pid usr via rpc eng req summ trace) =
     (text_ok pid \<and> text_ok via \<and> text_ok rpc \<and> pred_option json_ok summ \<and> pred_option text_ok trace)"
| "storable (Update_Audit out fin err a) = pred_option text_ok err"

lemma audit_in_schema [simp]: "map_of schema ''engagement_audit'' = Some engagement_audit"
  by (simp add: schema_def)

lemma audit_constraints [simp]:
  "keys engagement_audit = [[''audit_id'']]" "foreign_keys engagement_audit = []"
  by (simp_all add: engagement_audit_def)

lemma audit_mem [simp]: "(''engagement_audit'', engagement_audit) \<in> set schema"
  by (simp add: schema_def)

lemma audit_id_value:
  assumes "db_wf d" "r \<in> set (rows d ''engagement_audit'')"
  shows "r ''audit_id'' = V_Uuid (db_audit_id (audit_of r))"
proof -
  have "required ''audit_id'' UUID \<in> set (columns engagement_audit)" by (simp add: engagement_audit_def)
  from wf_column [OF assms(1) audit_mem assms(2) this] show ?thesis
    by (auto simp: required_def audit_of_def dest: typed_nonnull)
qed

lemma audit_id_free:
  assumes "db_wf d"
  shows "(\<exists>r \<in> set (rows d ''engagement_audit''). r ''audit_id'' = V_Uuid a) \<longleftrightarrow> a \<in> set (map db_audit_id (audit_rows d))"
  using audit_id_value [OF assms] by (force simp: audit_rows_def)

text \<open>The insert: it names existing columns, has their types, leaves no required column null, and is
  refused exactly when a text cannot be stored or the id is taken; else the table has the new row at its end.\<close>

lemma audit_insert_on_schema:
  assumes "db_wf d" "fits_i16 s" "s = Insert_Audit a org kind pid usr via rpc eng req summ trace"
  shows "execute_stmt field now (audit_sql now s) d =
      (if \<not> storable s then (d, Inl Type_Mismatch)
       else if key_free s (audit_rows d)
       then (d\<lparr>rows := (rows d)(''engagement_audit'' := rows d ''engagement_audit'' @
              [new_row now (event_pk_seq d) engagement_audit (case audit_sql now s of Insert _ vals \<Rightarrow> vals)])\<rparr>, Inr [])
       else (d, Inl Unique_Violation)) \<and>
    audit_of (new_row now (event_pk_seq d) engagement_audit (case audit_sql now s of Insert _ vals \<Rightarrow> vals)) =
      last (apply_stmt now s [])"
proof -
  let ?r = "new_row now (event_pk_seq d) engagement_audit (case audit_sql now s of Insert _ vals \<Rightarrow> vals)"
  have err: "row_error engagement_audit ?r = (if storable s then None else Some Type_Mismatch)"
    using assms(2) unfolding assms(3)
    by (simp add: row_error_def engagement_audit_def nullable_def required_def defaulted_def new_row_def)
  have id: "?r ''audit_id'' = V_Uuid a" by (simp add: assms(3) new_row_def)
  have "clashes engagement_audit ?r (rows d ''engagement_audit'') \<longleftrightarrow>
      (\<exists>r \<in> set (rows d ''engagement_audit''). r ''audit_id'' = V_Uuid a)"
    by (simp add: clashes_iff collide_def id eq_commute [of "V_Uuid a"])
  then have clash: "clashes engagement_audit ?r (rows d ''engagement_audit'') \<longleftrightarrow> \<not> key_free s (audit_rows d)"
    using audit_id_free [OF assms(1), of a] assms(3) by simp
  have "refs_ok (rows d) engagement_audit ?r" by (simp add: refs_ok_def)
  moreover have "\<not> draws_serial engagement_audit vals" for vals
    by (simp add: draws_serial_def engagement_audit_def nullable_def required_def defaulted_def)
  moreover have "list_all (\<lambda>c. c \<in> set (column_names engagement_audit)) (map fst (case audit_sql now s of Insert _ vals \<Rightarrow> vals))"
    by (simp add: assms(3) column_names_def engagement_audit_def nullable_def required_def defaulted_def)
  ultimately show ?thesis
    using err clash assms(3)
    by (simp add: Let_def after_insert_def) (simp add: audit_of_def new_row_def)
qed

text \<open>The update: refused exactly for an error code that cannot be stored; else the rows with the id change as in \<open>apply_stmt\<close>.\<close>

lemma audit_update_on_schema:
  assumes "db_wf d" "fits_i16 s" "s = Update_Audit out fin err a"
  shows "\<exists>d'. execute_stmt field now (audit_sql now s) d = (d', if storable s then Inr [] else Inl Type_Mismatch) \<and>
     audit_rows d' = (if storable s then apply_stmt now s (audit_rows d) else audit_rows d) \<and>
     event_pk_seq d' = event_pk_seq d \<and> (\<forall>tn. tn \<noteq> ''engagement_audit'' \<longrightarrow> rows d' tn = rows d tn)"
proof (cases "storable s")
  case st: True
  let ?tn = "''engagement_audit''"
  let ?sets = "[(''outcome'', V_Int out), (''finalized_at'', V_Time fin), (''error_code'', opt_value V_Text err)]"
  let ?p = "\<lambda>r. r ''audit_id'' = V_Uuid a"
  let ?f = "\<lambda>r. if ?p r then apply_sets ?sets r else r"
  let ?rws = "(rows d)(?tn := map ?f (rows d ?tn))"
  have tbl: "table_ok (rows d) ?tn engagement_audit" by (rule db_wf_table [OF assms(1) audit_mem])
  have "row_error engagement_audit r = None \<Longrightarrow> row_error engagement_audit (apply_sets ?sets r) = None" for r
    using assms(2,3) st
    by (simp add: row_error_def engagement_audit_def nullable_def required_def defaulted_def apply_sets_def
        split: if_splits)
  then have "List.map_filter (\<lambda>r. row_error engagement_audit (apply_sets ?sets r)) (filter ?p (rows d ?tn)) = []"
    using tbl by (simp add: map_filter_Nil table_ok_def list_all_iff)
  moreover have "unique_rows engagement_audit (map ?f (rows d ?tn))"
    using tbl by (subst unique_rows_map) (simp_all add: table_ok_def apply_sets_def)
  moreover have "list_all (\<lambda>(tn', t'). list_all (refs_ok ?rws t') (?rws tn')) schema"
  proof -
    have "refs_ok ?rws t' r" if "(tn', t') \<in> set schema" "r \<in> set (?rws tn')" for tn' t' r
    proof (cases "tn' = ?tn")
      case True
      then have "t' = engagement_audit" using that(1) audit_mem schema_distinct by blast
      then show ?thesis by (simp add: refs_ok_def)
    next
      case False
      then have "refs_ok (rows d) t' r"
        using that db_wf_table [OF assms(1) that(1)] by (simp add: table_ok_def list_all_iff)
      then show ?thesis using refs_ok_cong [OF that(1), of ?rws "rows d" r] by simp
    qed
    then show ?thesis by (auto simp: list_all_iff)
  qed
  moreover have "list_all (\<lambda>c. c \<in> set (column_names engagement_audit)) (map fst ?sets)"
    by (simp add: column_names_def engagement_audit_def nullable_def required_def defaulted_def)
  moreover have "list_all (\<lambda>cl. typed (col_type cl) (apply_sets ?sets (\<lambda>_. Null) (col_name cl))) (columns engagement_audit)"
    using assms(2,3) st by (simp add: engagement_audit_def nullable_def required_def defaulted_def apply_sets_def)
  ultimately have run: "execute_stmt field now (audit_sql now s) d = (d\<lparr>rows := ?rws\<rparr>, Inr [])"
    by (simp add: assms(3) Let_def before_update_def)
  have "audit_of (apply_sets ?sets r) = (audit_of r)\<lparr>db_outcome := out, db_finalized_at := Some fin, db_error_code := err\<rparr>" for r
    by (simp add: audit_of_def apply_sets_def)
  then have "audit_rows (d\<lparr>rows := ?rws\<rparr>) = apply_stmt now s (audit_rows d)"
    using audit_id_value [OF assms(1)] by (fastforce simp: audit_rows_def assms(3))
  with run st show ?thesis by auto
next
  case False
  have "list_all (\<lambda>c. c \<in> set (column_names engagement_audit)) [''outcome'', ''finalized_at'', ''error_code'']"
    by (simp add: column_names_def engagement_audit_def nullable_def required_def defaulted_def)
  moreover have "nullable ''error_code'' TEXT \<in> set (columns engagement_audit)" by (simp add: engagement_audit_def)
  then have "\<not> list_all (\<lambda>cl. typed (col_type cl) (apply_sets [(''outcome'', V_Int out), (''finalized_at'', V_Time fin),
      (''error_code'', opt_value V_Text err)] (\<lambda>_. Null) (col_name cl))) (columns engagement_audit)"
    using False by (auto simp: list_all_iff nullable_def apply_sets_def assms(3) intro!: bexI [of _ "nullable ''error_code'' TEXT"])
  ultimately show ?thesis using False by (simp add: assms(3))
qed

text \<open>Both commands as one transaction on the table.\<close>

lemma audit_transaction:
  assumes "db_wf d" "fits_i16 s"
  shows "snd (transaction field now [audit_sql now s] d) =
      (if \<not> storable s then Inl Type_Mismatch
       else if key_free s (audit_rows d) then Inr [] else Inl Unique_Violation) \<and>
    audit_rows (fst (transaction field now [audit_sql now s] d)) =
      (if storable s \<and> key_free s (audit_rows d) then apply_stmt now s (audit_rows d) else audit_rows d) \<and>
    (\<forall>tn. tn \<noteq> ''engagement_audit'' \<longrightarrow> rows (fst (transaction field now [audit_sql now s] d)) tn = rows d tn)"
proof (cases s)
  case (Insert_Audit a org kind pid usr via rpc eng req summ trace)
  from audit_insert_on_schema [OF assms this, of field now] show ?thesis
    by (auto simp: transaction_def audit_rows_def Insert_Audit simp del: audit_sql.simps execute_stmt.simps)
next
  case (Update_Audit out fin err a)
  from audit_update_on_schema [OF assms this, of field now] show ?thesis
    by (auto simp: transaction_def audit_rows_def Update_Audit simp del: audit_sql.simps execute_stmt.simps)
qed

section \<open>The audit writer on the schema\<close>

text \<open>The row of an insert, and the statement phase one issues for it.\<close>

definition audit_insert_of :: "AuditRow \<Rightarrow> audit_stmt" where
  "audit_insert_of row =
     Insert_Audit (audit_id_as_uuid (ar_audit_id row)) (ar_organization_id row)
       (principal_as_i16 (ar_acting_principal_kind row)) (ar_acting_principal_id row)
       (ar_acting_user_id row) (ar_acting_via row) (ar_rpc_name row) (ar_engagement_id row)
       (ar_request_id row) (ar_request_summary row) (ar_trace_id row)"

lemma audit_insert_fits: "fits_i16 (audit_insert_of row)"
  by (cases "ar_acting_principal_kind row") (simp_all add: audit_insert_of_def)

lemma audit_update_fits: "fits_i16 (Update_Audit (outcome_as_i16 outcome) t ec a)"
  by (cases outcome) simp_all

text \<open>The contract of two databases behind the writer: \<open>abs\<close> maps the states of the first to
  the second, under an invariant the first keeps, and they answer alike to the statements \<open>common\<close> to
  both.\<close>

locale audit_refinement =
  fixes ops :: "('w, 'e) audit_ops"
    and ops' :: "('v, 'e) audit_ops"
    and abs :: "'w \<Rightarrow> 'v"
    and ok :: "'w \<Rightarrow> bool"
    and common :: "audit_stmt \<Rightarrow> bool"
  assumes execute_abs: "ok w \<Longrightarrow> common s \<Longrightarrow>
      execute ops' s (abs w) = (abs (fst (execute ops s w)), snd (execute ops s w))"
    and execute_ok: "ok w \<Longrightarrow> ok (fst (execute ops s w))"
    and now_abs: "utc_now ops' (abs w) = utc_now ops w"
    and sleep_abs: "audit_sleep ops' t (abs w) = abs (audit_sleep ops t w)"
    and sleep_ok: "ok w \<Longrightarrow> ok (audit_sleep ops t w)"
begin

definition finalizes :: "AuditId \<Rightarrow> AuditOutcome \<Rightarrow> string option \<Rightarrow> bool" where
  "finalizes i outcome ec \<longleftrightarrow> (\<forall>t. common (Update_Audit (outcome_as_i16 outcome) t ec (audit_id_as_uuid i)))"

lemma attempt_abs:
  "ok w \<Longrightarrow> finalizes i outcome ec \<Longrightarrow> phase2_attempt ops' i outcome ec (abs w) =
     (abs (fst (phase2_attempt ops i outcome ec w)), snd (phase2_attempt ops i outcome ec w))"
  by (simp add: phase2_attempt_def execute_abs now_abs finalizes_def)

lemma attempt_ok: "ok w \<Longrightarrow> ok (fst (phase2_attempt ops i outcome ec w))"
  by (simp add: phase2_attempt_def execute_ok)

lemma phase1_refines:
  "ok w \<Longrightarrow> common (audit_insert_of row) \<Longrightarrow> phase1_insert ops' row (abs w) =
     (case phase1_insert ops row w of (w', log, res) \<Rightarrow> (abs w', log, res))"
  unfolding phase1_insert_def audit_insert_of_def [symmetric]
  by (simp add: execute_abs split: prod.split sum.split)

lemma phase2_loop_refines:
  "ok w \<Longrightarrow> finalizes i outcome ec \<Longrightarrow> phase2_loop ops' i outcome ec n t (abs w) =
     (case phase2_loop ops i outcome ec n t w of (w', log, res) \<Rightarrow> (abs w', log, res))"
proof (induction "Suc MAX_ATTEMPTS - n" arbitrary: n t w rule: less_induct)
  case less
  show ?case
  proof (cases "n \<le> MAX_ATTEMPTS")
    case True
    obtain w1 res where at: "phase2_attempt ops i outcome ec w = (w1, res)" by fastforce
    then have at': "phase2_attempt ops' i outcome ec (abs w) = (abs w1, res)" and ok1: "ok w1"
      using attempt_abs [OF less.prems] attempt_ok [OF less.prems(1), of i outcome ec] by simp_all
    have again: "phase2_loop ops' i outcome ec (n + 1) t' (abs v) =
        (case phase2_loop ops i outcome ec (n + 1) t' v of (w', log, r) \<Rightarrow> (abs w', log, r))" if "ok v" for t' v
      using True less.prems(2) by (intro less.hyps) (simp_all add: that)
    show ?thesis
    proof (cases res)
      case (Inl e)
      then show ?thesis
        unfolding phase2_loop.simps [of ops' _ _ _ n] phase2_loop.simps [of ops _ _ _ n]
        using True at at' again [OF ok1] again [OF sleep_ok [OF ok1]]
        by (auto simp: Let_def sleep_abs split: prod.split exec.split)
    next
      case (Inr u)
      then show ?thesis
        unfolding phase2_loop.simps [of ops' _ _ _ n] phase2_loop.simps [of ops _ _ _ n]
        using True at at' by simp
    qed
  next
    case False
    then show ?thesis
      unfolding phase2_loop.simps [of ops' _ _ _ n] phase2_loop.simps [of ops _ _ _ n] by simp
  qed
qed

lemma phase2_refines:
  "ok w \<Longrightarrow> finalizes i outcome ec \<Longrightarrow> phase2_finalize ops' i outcome ec (abs w) =
     (case phase2_finalize ops i outcome ec w of (w', log, res) \<Rightarrow> (abs w', log, res))"
  by (simp add: phase2_finalize_def phase2_loop_refines)

end

record sql_world =
  database :: db
  sql_clock :: timestamp
  sql_faults :: "fault list"
  sql_pauses :: "duration list"

fun sql_error_text :: "sql_error \<Rightarrow> string" where
  "sql_error_text Unique_Violation = ''duplicate key''"
| "sql_error_text e = ''refused''"

text \<open>The schema behind a connection that is lost, before or after the statement, when its script says so.\<close>

definition sql_ops :: "(string \<Rightarrow> string \<Rightarrow> string option) \<Rightarrow> (sql_world, string) audit_ops" where
  "sql_ops field =
     \<lparr>execute = (\<lambda>s w.
        case sql_faults w of
          Lost_Before # fs \<Rightarrow> (w\<lparr>sql_faults := fs\<rparr>, Inl ''connection lost'')
        | fs \<Rightarrow>
            (case transaction field (sql_clock w) [audit_sql (sql_clock w) s] (database w) of
               (d, res) \<Rightarrow> (w\<lparr>sql_faults := tl fs, database := d\<rparr>,
                 answer fs (map_ok (\<lambda>_. ()) (map_err sql_error_text res))))),
      utc_now = sql_clock,
      audit_sleep = (\<lambda>t w. w\<lparr>sql_pauses := sql_pauses w @ [t], sql_clock := sql_clock w + t\<rparr>)\<rparr>"

text \<open>The table of \<open>Audit_Writer\<close>, refusing what PostgreSQL cannot store.\<close>

definition checked_ops :: "(audit_world, string) audit_ops" where
  "checked_ops = model_ops
     \<lparr>execute := (\<lambda>s w.
        if storable s then execute model_ops s w
        else (w\<lparr>faults := tl (faults w)\<rparr>,
              case faults w of Lost_Before # _ \<Rightarrow> Inl ''connection lost'' | fs \<Rightarrow> answer fs (Inl ''refused'')))\<rparr>"

definition sql_abs :: "sql_world \<Rightarrow> audit_world" where
  "sql_abs w =
     \<lparr>tbl = audit_rows (database w), clock = sql_clock w, faults = sql_faults w, pauses = sql_pauses w\<rparr>"

definition reachable_world :: "(string \<Rightarrow> string \<Rightarrow> string option) \<Rightarrow> sql_world \<Rightarrow> bool" where
  "reachable_world field w = reachable_db field (database w)"

lemma sql_execute_ok: "reachable_world field w \<Longrightarrow> reachable_world field (fst (execute (sql_ops field) s w))"
  using reachable_db.step [of field "database w" "sql_clock w" "[audit_sql (sql_clock w) s]"]
  by (auto simp: sql_ops_def reachable_world_def split: list.split prod.split fault.split)

lemma checked_execute:
  assumes "reachable_world field w" "fits_i16 s"
  shows "execute checked_ops s (sql_abs w) =
      (sql_abs (fst (execute (sql_ops field) s w)), snd (execute (sql_ops field) s w))"
proof -
  have "db_wf (database w)" using assms(1) reachable_wf by (simp add: reachable_world_def)
  from audit_transaction [OF this assms(2), of field "sql_clock w"] show ?thesis
    by (auto simp: sql_ops_def checked_ops_def model_ops_def sql_abs_def answer_def
        split: list.split prod.split fault.split)
qed

interpretation sqlw: audit_refinement "sql_ops field" checked_ops sql_abs "reachable_world field" fits_i16 for field
  by unfold_locales
     (auto simp: checked_execute sql_execute_ok, simp_all add: sql_ops_def checked_ops_def model_ops_def sql_abs_def
       reachable_world_def)

interpretation storw: audit_refinement "sql_ops field" model_ops sql_abs "reachable_world field"
  "\<lambda>s. fits_i16 s \<and> storable s" for field
proof
  show "execute model_ops s (sql_abs w) = (sql_abs (fst (execute (sql_ops field) s w)), snd (execute (sql_ops field) s w))"
    if "reachable_world field w" "fits_i16 s \<and> storable s" for w s
    using checked_execute [OF that(1), of s] that(2) by (simp add: checked_ops_def)
qed (simp_all add: sql_execute_ok, simp_all add: sql_ops_def model_ops_def sql_abs_def reachable_world_def)

text \<open>C22. The audit writer's statements are well typed against the migration: in every reachable database
  the insert of phase one, whatever the row, is refused exactly when one of its texts has a NUL byte or its
  summary a NUL in a string (nothing the schema says about columns, but what PostgreSQL cannot store), or
  else when its id is taken, and then the error is the violation of the primary key; the update of phase
  two is refused exactly for an error code with a NUL byte. Neither can fail on a column name, a type, a
  missing value, a check or a reference, and neither notifies anyone.\<close>

theorem audit_statements_typed:
  assumes "reachable_db field d"
  shows "snd (execute_stmt field now (audit_sql now (audit_insert_of row)) d) =
      (if \<not> (text_ok (ar_acting_principal_id row) \<and> text_ok (ar_acting_via row) \<and> text_ok (ar_rpc_name row) \<and>
            pred_option json_ok (ar_request_summary row) \<and> pred_option text_ok (ar_trace_id row))
       then Inl Type_Mismatch
       else if audit_id_as_uuid (ar_audit_id row) \<in> set (map db_audit_id (audit_rows d))
       then Inl Unique_Violation else Inr []) \<and>
    snd (execute_stmt field now (audit_sql now (Update_Audit (outcome_as_i16 outcome) t ec a)) d) =
      (if pred_option text_ok ec then Inr [] else Inl Type_Mismatch)"
proof
  note wf = reachable_wf [OF assms]
  show "snd (execute_stmt field now (audit_sql now (audit_insert_of row)) d) =
      (if \<not> (text_ok (ar_acting_principal_id row) \<and> text_ok (ar_acting_via row) \<and> text_ok (ar_rpc_name row) \<and>
            pred_option json_ok (ar_request_summary row) \<and> pred_option text_ok (ar_trace_id row))
       then Inl Type_Mismatch
       else if audit_id_as_uuid (ar_audit_id row) \<in> set (map db_audit_id (audit_rows d))
       then Inl Unique_Violation else Inr [])"
    using audit_insert_on_schema [OF wf audit_insert_fits audit_insert_of_def, of field now row]
    by (auto simp: audit_insert_of_def simp del: audit_sql.simps execute_stmt.simps)
  show "snd (execute_stmt field now (audit_sql now (Update_Audit (outcome_as_i16 outcome) t ec a)) d) =
      (if pred_option text_ok ec then Inr [] else Inl Type_Mismatch)"
    using audit_update_on_schema [OF wf audit_update_fits [of outcome t ec a] refl, of field now]
    by (auto simp del: audit_sql.simps execute_stmt.simps)
qed

text \<open>C8. The audit writer on the schema refines the writer on a table: on every reachable database the two
  phases return the same result and metrics, and the audit table they leave, read back column by column,
  is the one the table model computes, connections lost before and after a statement included. The table
  model refuses the texts PostgreSQL cannot store; for all others it is \<open>model_ops\<close>, so what is shown of
  that holds on the schema.\<close>

theorem audit_writer_on_schema:
  assumes "reachable_world field w"
  shows "phase1_insert checked_ops row (sql_abs w) =
      (case phase1_insert (sql_ops field) row w of (w', log, res) \<Rightarrow> (sql_abs w', log, res)) \<and>
    phase2_finalize checked_ops i outcome ec (sql_abs w) =
      (case phase2_finalize (sql_ops field) i outcome ec w of (w', log, res) \<Rightarrow> (sql_abs w', log, res)) \<and>
    (storable (audit_insert_of row) \<longrightarrow> phase1_insert model_ops row (sql_abs w) =
      (case phase1_insert (sql_ops field) row w of (w', log, res) \<Rightarrow> (sql_abs w', log, res))) \<and>
    (pred_option text_ok ec \<longrightarrow> phase2_finalize model_ops i outcome ec (sql_abs w) =
      (case phase2_finalize (sql_ops field) i outcome ec w of (w', log, res) \<Rightarrow> (sql_abs w', log, res)))"
proof (intro conjI impI)
  show "phase1_insert checked_ops row (sql_abs w) =
      (case phase1_insert (sql_ops field) row w of (w', log, res) \<Rightarrow> (sql_abs w', log, res))"
    by (rule sqlw.phase1_refines [OF assms audit_insert_fits])
  show "phase2_finalize checked_ops i outcome ec (sql_abs w) =
      (case phase2_finalize (sql_ops field) i outcome ec w of (w', log, res) \<Rightarrow> (sql_abs w', log, res))"
    by (rule sqlw.phase2_refines [OF assms]) (use audit_update_fits [of outcome] in \<open>simp add: sqlw.finalizes_def\<close>)
  show "phase1_insert model_ops row (sql_abs w) =
      (case phase1_insert (sql_ops field) row w of (w', log, res) \<Rightarrow> (sql_abs w', log, res))"
    if "storable (audit_insert_of row)"
    by (rule storw.phase1_refines [OF assms]) (simp add: that audit_insert_fits)
  show "phase2_finalize model_ops i outcome ec (sql_abs w) =
      (case phase2_finalize (sql_ops field) i outcome ec w of (w', log, res) \<Rightarrow> (sql_abs w', log, res))"
    if "pred_option text_ok ec"
    by (rule storw.phase2_refines [OF assms]) (use audit_update_fits [of outcome] that in \<open>simp add: storw.finalizes_def\<close>)
qed

section \<open>Phase one inside the caller's transaction\<close>

lemma run_stmts_snoc:
  "run_stmts field now (ss @ [s]) d =
     (case run_stmts field now ss d of
        (d1, Inl e) \<Rightarrow> (d1, Inl e)
      | (d1, Inr ns) \<Rightarrow> (case execute_stmt field now s d1 of (d2, res) \<Rightarrow> (d2, map_ok ((@) ns) res)))"
proof (induction ss arbitrary: d)
  case Nil
  show ?case by (cases "snd (execute_stmt field now s d)") (auto simp: split_beta split: sum.split)
next
  case (Cons s' ss)
  show ?case
  proof (cases "snd (execute_stmt field now s' d)")
    case (Inr ns)
    obtain d1 res1 where r: "run_stmts field now ss (fst (execute_stmt field now s' d)) = (d1, res1)" by fastforce
    then show ?thesis
      using Inr Cons.IH [of "fst (execute_stmt field now s' d)"]
      by (cases res1; cases "snd (execute_stmt field now s d1)") (simp_all add: split_beta)
  qed (simp add: split_beta)
qed

text \<open>C9. If it cannot be audited it does not happen: a transaction that ends with the insert of phase one
  either commits, and then the pending audit row stands at the end of the audit table, or it leaves every
  table as it was and sends no notification, whatever its other statements did.\<close>

theorem no_audit_no_action:
  assumes "reachable_db field d"
    and "transaction field now (acts @ [audit_sql now (audit_insert_of row)]) d = (d', res)"
  shows "(case res of
      Inl e \<Rightarrow> rows d' = rows d
    | Inr ns \<Rightarrow> audit_rows d' = audit_rows (fst (run_stmts field now acts d)) @ [pending_row now row] \<and>
        snd (run_stmts field now acts d) = Inr ns)"
proof (cases res)
  case (Inl e)
  then show ?thesis using assms(2) transaction_Inl by simp
next
  case (Inr ns)
  obtain d1 res1 where acts: "run_stmts field now acts d = (d1, res1)" by fastforce
  have wf: "db_wf d1" using run_stmts_wf [OF reachable_wf [OF assms(1)], of field now acts] acts by simp
  note ins = audit_insert_on_schema [OF wf audit_insert_fits audit_insert_of_def, of field now row]
  from assms(2) Inr acts obtain ns1 where "res1 = Inr ns1"
    by (cases res1) (auto simp: transaction_def run_stmts_snoc)
  then show ?thesis
    using assms(2) Inr acts ins
    by (auto simp: transaction_def run_stmts_snoc audit_rows_def audit_insert_of_def pending_row_def
        simp del: audit_sql.simps execute_stmt.simps split: if_splits)
qed

section \<open>The idempotency check on the schema\<close>

definition engagement_of :: "row \<Rightarrow> engagement_row" where
  "engagement_of r =
     \<lparr>row_engagement_id = the (uuid_opt (r ''engagement_id'')),
      row_organization_id = the (uuid_opt (r ''organization_id'')),
      row_request_id = the (uuid_opt (r ''request_id'')),
      row_payload_hash = the (bytes_opt (r ''payload_hash'')),
      row_status = the (int_opt (r ''status''))\<rparr>"

definition engagement_rows :: "db \<Rightarrow> engagement_row list" where
  "engagement_rows d = map engagement_of (rows d ''engagements'')"

text \<open>The SELECT of the check on the table.\<close>

definition sql_fetch ::
  "db \<Rightarrow> uuid \<Rightarrow> uuid \<Rightarrow> (sql_error, (8 word list \<times> int \<times> uuid) option) result" where
  "sql_fetch d org_id request_id =
     Inr (map_option (\<lambda>r. (the (bytes_opt (r ''payload_hash'')), the (int_opt (r ''status'')),
           the (uuid_opt (r ''engagement_id''))))
       (find (\<lambda>r. r ''organization_id'' = V_Uuid org_id \<and> r ''request_id'' = V_Uuid request_id)
         (rows d ''engagements'')))"

lemma engagements_mem [simp]: "(''engagements'', engagements) \<in> set schema"
  by (simp add: schema_def)

lemma engagement_values:
  assumes "db_wf d" "r \<in> set (rows d ''engagements'')"
  shows "r ''engagement_id'' = V_Uuid (row_engagement_id (engagement_of r))"
    and "r ''organization_id'' = V_Uuid (row_organization_id (engagement_of r))"
    and "r ''request_id'' = V_Uuid (row_request_id (engagement_of r))"
    and "\<exists>b. r ''payload_hash'' = V_Bytes b" "\<exists>i. r ''status'' = V_Int i"
proof -
  have val: "typed t (r n) \<and> r n \<noteq> Null" if "required n t \<in> set (columns engagements)" for n t
    using wf_column [OF assms(1) engagements_mem assms(2) that] by (simp add: required_def)
  have "required ''engagement_id'' UUID \<in> set (columns engagements)"
    "required ''organization_id'' UUID \<in> set (columns engagements)"
    "required ''request_id'' UUID \<in> set (columns engagements)"
    "required ''payload_hash'' BYTEA \<in> set (columns engagements)"
    "required ''status'' SMALLINT \<in> set (columns engagements)"
    by (simp_all add: engagements_def)
  note v = this [THEN val]
  show "r ''engagement_id'' = V_Uuid (row_engagement_id (engagement_of r))"
    using v(1) typed_nonnull(1) by (fastforce simp: engagement_of_def)
  show "r ''organization_id'' = V_Uuid (row_organization_id (engagement_of r))"
    using v(2) typed_nonnull(1) by (fastforce simp: engagement_of_def)
  show "r ''request_id'' = V_Uuid (row_request_id (engagement_of r))"
    using v(3) typed_nonnull(1) by (fastforce simp: engagement_of_def)
  show "\<exists>b. r ''payload_hash'' = V_Bytes b" using v(4) typed_nonnull(2) by blast
  show "\<exists>i. r ''status'' = V_Int i" using v(5) typed_nonnull(3) by blast
qed

lemma find_map: "find p (map f xs) = map_option f (find (p \<circ> f) xs)"
  by (induction xs) simp_all

lemma find_cong_on: "(\<And>x. x \<in> set xs \<Longrightarrow> p x = q x) \<Longrightarrow> find p xs = find q xs"
  by (induction xs) auto

lemma filter_unique: "distinct (map key xs) \<Longrightarrow> x \<in> set xs \<Longrightarrow> filter (\<lambda>y. key y = key x) xs = [x]"
proof (induction xs)
  case (Cons y ys)
  have "key z \<noteq> key y" if "z \<in> set ys" for z using Cons.prems(1) imageI [OF that, of key] by auto
  then have "filter (\<lambda>z. key z = key y) ys = []" by (auto simp: filter_empty_conv)
  then show ?case using Cons by (cases "x = y") (auto simp: image_iff)
qed simp

lemma sql_fetch_eq:
  assumes "db_wf d"
  shows "sql_fetch d org rid = select_engagement (engagement_rows d) org rid"
proof -
  have "find (\<lambda>r. r ''organization_id'' = V_Uuid org \<and> r ''request_id'' = V_Uuid rid) (rows d ''engagements'') =
      find ((\<lambda>r. row_organization_id r = org \<and> row_request_id r = rid) \<circ> engagement_of) (rows d ''engagements'')"
  proof (rule find_cong_on)
    fix r assume "r \<in> set (rows d ''engagements'')"
    note v = engagement_values [OF assms this]
    show "(r ''organization_id'' = V_Uuid org \<and> r ''request_id'' = V_Uuid rid) =
        ((\<lambda>r. row_organization_id r = org \<and> row_request_id r = rid) \<circ> engagement_of) r"
      by (simp add: v(2,3))
  qed
  then show ?thesis
    by (simp add: sql_fetch_def select_engagement_def engagement_rows_def find_map option.map_comp)
       (simp add: comp_def engagement_of_def)
qed

text \<open>The unique constraint, read back: the hypothesis of the check's theorem holds in every reachable
  database.\<close>

lemma request_keys_distinct:
  assumes "db_wf d"
  shows "distinct (map (\<lambda>r. (row_organization_id r, row_request_id r)) (engagement_rows d))"
proof -
  let ?rs = "rows d ''engagements''"
  have uniq: "unique_rows engagements ?rs"
    using db_wf_table [OF assms engagements_mem] by (simp add: table_ok_def)
  have k: "[''organization_id'', ''request_id''] \<in> set (keys engagements)" by (simp add: engagements_def)
  show ?thesis
  proof (clarsimp simp: distinct_conv_nth engagement_rows_def)
    fix i j assume ij: "i < length ?rs" "j < length ?rs" "i \<noteq> j"
      and eq: "row_organization_id (engagement_of (?rs ! i)) = row_organization_id (engagement_of (?rs ! j))"
      "row_request_id (engagement_of (?rs ! i)) = row_request_id (engagement_of (?rs ! j))"
    have "collide [''organization_id'', ''request_id''] (?rs ! i) (?rs ! j)"
      using engagement_values [OF assms nth_mem [OF ij(1)]] engagement_values [OF assms nth_mem [OF ij(2)]] eq
      by (simp add: collide_def)
    then show False using unique_rows_nth [OF uniq k ij(1,2)] ij(3) by simp
  qed
qed

text \<open>C5. Idempotency on the database: whatever transactions ran, a request id of an organisation belongs
  to at most one engagement, and checking it against the row stored for the fields \<open>fs\<close> replays
  that engagement, flagged terminal exactly for the statuses 4 to 6, if the new request has the same
  fields, and is a conflict if it differs in any; an unseen request id is new. The digest and the serialiser
  must not confuse the two requests.\<close>

theorem check_on_database:
  assumes "reachable_db field d" "r \<in> set (engagement_rows d)"
    and "row_payload_hash r = as_bytes (canonical_hash_start_engagement sha256 to_string fs)"
    and "inj_on to_string {canonical_map fs, canonical_map gs}"
    and "inj_on sha256 {canonical_json_start_engagement to_string fs, canonical_json_start_engagement to_string gs}"
    and "(org, rid) \<notin> (\<lambda>r. (row_organization_id r, row_request_id r)) ` set (engagement_rows d)"
  shows "check (sql_fetch d) (row_organization_id r) (row_request_id r)
        (canonical_hash_start_engagement sha256 to_string gs) =
      (if fs = gs then Inr (Replay (row_engagement_id r) (4 \<le> row_status r \<and> row_status r \<le> 6))
       else Inr Conflict) \<and>
    check (sql_fetch d) org rid (canonical_hash_start_engagement sha256 to_string gs) = Inr New \<and>
    length (filter (\<lambda>r'. row_organization_id r' = row_organization_id r \<and> row_request_id r' = row_request_id r)
      (engagement_rows d)) = 1"
proof -
  note wf = reachable_wf [OF assms(1)]
  note keys = request_keys_distinct [OF wf]
  have "sql_fetch d = select_engagement (engagement_rows d)"
    by (intro ext) (rule sql_fetch_eq [OF wf])
  moreover have "length (filter (\<lambda>r'. row_organization_id r' = row_organization_id r \<and> row_request_id r' = row_request_id r)
      (engagement_rows d)) = 1"
    using filter_unique [OF keys assms(2)] by simp
  ultimately show ?thesis
    using check_replay_iff_same_fields [OF keys assms(2-6)] by simp
qed

section \<open>Notifications and the gap-fill query on the schema\<close>

text \<open>The gap-fill query joins each event with its engagement.\<close>

definition gap_row :: "(string \<Rightarrow> string \<Rightarrow> string option) \<Rightarrow> row \<Rightarrow> row \<Rightarrow> GapRow" where
  "gap_row field ee e =
     \<lparr>gr_engagement_id = the (uuid_opt (ee ''engagement_id'')),
      gr_organization_id = the (uuid_opt (ee ''organization_id'')),
      gr_batch_id = uuid_opt (e ''batch_id''),
      gr_sequence = the (int_opt (ee ''sequence'')),
      gr_event_pk = the (int_opt (ee ''event_pk'')),
      gr_event_type = the (int_opt (ee ''event_type'')),
      gr_traceparent = text_opt (json_text_field field (ee ''trace_context'') ''traceparent'')\<rparr>"

definition gap_join :: "(string \<Rightarrow> string \<Rightarrow> string option) \<Rightarrow> db \<Rightarrow> GapRow list" where
  "gap_join field d =
     concat (map (\<lambda>ee. map (gap_row field ee)
       (filter (\<lambda>e. e ''engagement_id'' = ee ''engagement_id'') (rows d ''engagements'')))
       (rows d ''engagement_events''))"

text \<open>The derived \<^verbatim>\<open>Deserialize\<close> of \<open>NotifyPayload\<close>, on the object in the text: a
  required field must be there with its type and in its range, an optional one may be missing or null,
  other keys are ignored.\<close>

fun req_uuid :: "sql_value option \<Rightarrow> uuid option" where
  "req_uuid (Some (V_Uuid u)) = Some u"
| "req_uuid v = None"

fun req_int :: "nat \<Rightarrow> sql_value option \<Rightarrow> int option" where
  "req_int b (Some (V_Int i)) = (if - (2 ^ (b - 1)) \<le> i \<and> i < 2 ^ (b - 1) then Some i else None)"
| "req_int b v = None"

fun opt_uuid :: "sql_value option \<Rightarrow> uuid option option" where
  "opt_uuid None = Some None"
| "opt_uuid (Some Null) = Some None"
| "opt_uuid (Some (V_Uuid u)) = Some (Some u)"
| "opt_uuid v = None"

fun opt_text :: "sql_value option \<Rightarrow> string option option" where
  "opt_text None = Some None"
| "opt_text (Some Null) = Some None"
| "opt_text (Some (V_Text s)) = Some (Some s)"
| "opt_text v = None"

definition decode_payload :: "json_object \<Rightarrow> NotifyPayload option" where
  "decode_payload obj =
     Option.bind (req_uuid (map_of obj ''engagement_id'')) (\<lambda>e.
     Option.bind (req_uuid (map_of obj ''organization_id'')) (\<lambda>org.
     Option.bind (opt_uuid (map_of obj ''batch_id'')) (\<lambda>batch.
     Option.bind (req_int 64 (map_of obj ''sequence'')) (\<lambda>sq.
     Option.bind (req_int 64 (map_of obj ''event_pk'')) (\<lambda>pk.
     Option.bind (req_int 16 (map_of obj ''event_type'')) (\<lambda>ty.
     Option.bind (opt_text (map_of obj ''traceparent'')) (\<lambda>tp.
       Some \<lparr>np_engagement_id = e, np_organization_id = org, np_batch_id = batch, np_sequence = sq,
             np_event_pk = pk, np_event_type = ty, np_traceparent = tp\<rparr>)))))))"

lemma events_mem [simp]: "(''engagement_events'', engagement_events) \<in> set schema"
  by (simp add: schema_def)

lemma events_in_schema [simp]: "map_of schema ''engagement_events'' = Some engagement_events"
  by (simp add: schema_def)

text \<open>The engagement of an event: exactly one row, by the reference and the primary key.\<close>

lemma engagement_of_event:
  assumes "db_wf d" "ee \<in> set (rows d ''engagement_events'')"
  obtains e where "filter (\<lambda>e. e ''engagement_id'' = ee ''engagement_id'') (rows d ''engagements'') = [e]"
    "e \<in> set (rows d ''engagements'')"
proof -
  let ?es = "rows d ''engagements''"
  have "engagement_ref \<in> set (foreign_keys engagement_events)" by (simp add: engagement_events_def)
  then have "refers (rows d) ee engagement_ref"
    using db_wf_table [OF assms(1) events_mem] assms(2)
    by (auto simp: table_ok_def refs_ok_def list_all_iff)
  moreover have "required ''engagement_id'' UUID \<in> set (columns engagement_events)"
    by (simp add: engagement_events_def)
  from wf_column [OF assms(1) events_mem assms(2) this] have "ee ''engagement_id'' \<noteq> Null"
    by (simp add: required_def)
  ultimately obtain e where e: "e \<in> set ?es" "e ''engagement_id'' = ee ''engagement_id''"
    by (auto simp: refers_def engagement_ref_def list_ex_iff)
  have "distinct (map (\<lambda>e. e ''engagement_id'') ?es)"
  proof (clarsimp simp: distinct_conv_nth)
    fix i j assume ij: "i < length ?es" "j < length ?es" "i \<noteq> j" "(?es ! i) ''engagement_id'' = (?es ! j) ''engagement_id''"
    have "unique_rows engagements ?es"
      using db_wf_table [OF assms(1) engagements_mem] by (simp add: table_ok_def)
    moreover have "[''engagement_id''] \<in> set (keys engagements)" by (simp add: engagements_def)
    moreover have "collide [''engagement_id''] (?es ! i) (?es ! j)"
      using ij(4) engagement_values(1) [OF assms(1) nth_mem [OF ij(2)]] by (simp add: collide_def)
    ultimately show False using unique_rows_nth ij(1-3) by blast
  qed
  from filter_unique [OF this e(1)] e that show thesis by simp
qed

lemma event_values:
  assumes "db_wf d" "ee \<in> set (rows d ''engagement_events'')"
  obtains e org sq pk ty where
    "ee ''engagement_id'' = V_Uuid e" "ee ''organization_id'' = V_Uuid org"
    "ee ''sequence'' = V_Int sq" "- (2 ^ 63) \<le> sq" "sq < 2 ^ 63"
    "ee ''event_pk'' = V_Int pk" "- (2 ^ 63) \<le> pk" "pk < 2 ^ 63"
    "ee ''event_type'' = V_Int ty" "- (2 ^ 15) \<le> ty" "ty < 2 ^ 15"
proof -
  have val: "typed t (ee n) \<and> ee n \<noteq> Null"
    if "required n t \<in> set (columns engagement_events) \<or> (\<exists>x. defaulted n t x \<in> set (columns engagement_events))" for n t
    using that wf_column [OF assms(1) events_mem assms(2)] by (fastforce simp: required_def defaulted_def)
  have "required ''engagement_id'' UUID \<in> set (columns engagement_events)"
    "required ''organization_id'' UUID \<in> set (columns engagement_events)"
    "required ''sequence'' BIGINT \<in> set (columns engagement_events)"
    "defaulted ''event_pk'' BIGINT Default_Serial \<in> set (columns engagement_events)"
    "required ''event_type'' SMALLINT \<in> set (columns engagement_events)"
    by (simp_all add: engagement_events_def)
  then have "typed UUID (ee ''engagement_id'') \<and> ee ''engagement_id'' \<noteq> Null"
    "typed UUID (ee ''organization_id'') \<and> ee ''organization_id'' \<noteq> Null"
    "typed BIGINT (ee ''sequence'') \<and> ee ''sequence'' \<noteq> Null"
    "typed BIGINT (ee ''event_pk'') \<and> ee ''event_pk'' \<noteq> Null"
    "typed SMALLINT (ee ''event_type'') \<and> ee ''event_type'' \<noteq> Null"
    by (blast intro!: val)+
  then show thesis using that typed_nonnull by metis
qed

text \<open>An event in the table decodes to the payload the gap fill makes of it.\<close>

lemma event_object_decodes:
  assumes "db_wf d" "ee \<in> set (rows d ''engagement_events'')"
  shows "\<exists>e. filter (\<lambda>e. e ''engagement_id'' = ee ''engagement_id'') (rows d ''engagements'') = [e] \<and>
     decode_payload (event_object field (rows d) ee) = Some (gap_payload (gap_row field ee e))"
proof -
  obtain e where e: "filter (\<lambda>e. e ''engagement_id'' = ee ''engagement_id'') (rows d ''engagements'') = [e]"
    "e \<in> set (rows d ''engagements'')"
    by (rule engagement_of_event [OF assms])
  have "nullable ''batch_id'' UUID \<in> set (columns engagements)" by (simp add: engagements_def)
  from wf_column [OF assms(1) engagements_mem e(2) this] have b: "typed UUID (e ''batch_id'')"
    by (simp add: nullable_def)
  then have batch: "opt_uuid (Some (e ''batch_id'')) = Some (uuid_opt (e ''batch_id''))"
    by (cases "e ''batch_id''") simp_all
  have tp: "opt_text (Some (json_text_field field v k)) = Some (text_opt (json_text_field field v k))" for v k
    by (cases v) (simp_all split: option.split)
  obtain u org sq pk ty where v: "ee ''engagement_id'' = V_Uuid u" "ee ''organization_id'' = V_Uuid org"
    "ee ''sequence'' = V_Int sq" "- (2 ^ 63) \<le> sq" "sq < 2 ^ 63"
    "ee ''event_pk'' = V_Int pk" "- (2 ^ 63) \<le> pk" "pk < 2 ^ 63"
    "ee ''event_type'' = V_Int ty" "- (2 ^ 15) \<le> ty" "ty < 2 ^ 15"
    by (rule event_values [OF assms])
  show ?thesis
    using e(1) v
    by (simp add: decode_payload_def event_object_def batch_of_def batch tp gap_payload_def gap_row_def)
qed

text \<open>What a successful insert does.\<close>

lemma insert_effect:
  assumes "execute_stmt field now (Insert tn vals) d = (d', Inr ns)"
  obtains t r where "rows d' = (rows d)(tn := rows d tn @ [r])" "ns = after_insert field tn (rows d') r"
    "map_of schema tn = Some t" "r = new_row now (event_pk_seq d) t vals"
  using assms
  by (auto simp: Let_def split: option.splits if_splits)

lemma notified_gap_row:
  assumes "reachable_db field d"
    and "execute_stmt field now (Insert ''engagement_events'' vals) d = (d', Inr ns)"
  shows "\<exists>obj row. ns = [obj] \<and> decode_payload obj = Some (gap_payload row) \<and>
     gap_join field d' = gap_join field d @ [row]"
proof -
  obtain r where r: "rows d' = (rows d)(''engagement_events'' := rows d ''engagement_events'' @ [r])"
    "ns = [event_object field (rows d') r]"
    by (rule insert_effect [OF assms(2)]) (simp add: after_insert_def)
  have wf: "db_wf d'"
    using execute_stmt_wf [OF reachable_wf [OF assms(1)], of field now "Insert ''engagement_events'' vals"] assms(2)
    by (simp del: execute_stmt.simps)
  have "r \<in> set (rows d' ''engagement_events'')" by (simp add: r(1))
  from event_object_decodes [OF wf this, of field] obtain e where
    e: "filter (\<lambda>e. e ''engagement_id'' = r ''engagement_id'') (rows d' ''engagements'') = [e]"
    "decode_payload (event_object field (rows d') r) = Some (gap_payload (gap_row field r e))" by blast
  have "gap_join field d' = gap_join field d @ [gap_row field r e]"
    using e(1) by (simp add: gap_join_def r(1))
  then show ?thesis using e(2) r(2) by blast
qed

text \<open>C15. The two ways an event reaches a subscriber agree: the object the trigger notifies on the insert of
  an event decodes to exactly the payload the gap-fill query gives for that event afterwards, batch id
  and trace parent included; the insert adds exactly that one row to what the query sees and changes no other.\<close>

theorem notification_is_gap_row:
  assumes "reachable_db field d"
    and "execute_stmt field now (Insert ''engagement_events'' vals) d = (d', Inr ns)"
  shows "\<exists>obj row. ns = [obj] \<and> decode_payload obj = Some (gap_payload row) \<and>
     gap_join field d' = gap_join field d @ [row]"
  using assms by (rule notified_gap_row)

section \<open>Witnesses\<close>

text \<open>A minimal engagement and one event of it, the way the integration tests insert them.\<close>

definition seed_engagement :: "uuid \<Rightarrow> uuid \<Rightarrow> uuid \<Rightarrow> 8 word list \<Rightarrow> stmt" where
  "seed_engagement engagement_id organization_id request_id hash =
     Insert ''engagements''
       [(''engagement_id'', V_Uuid engagement_id), (''organization_id'', V_Uuid organization_id),
        (''request_id'', V_Uuid request_id), (''payload_hash'', V_Bytes hash),
        (''channel'', V_Int 1), (''mode'', V_Int 1), (''journey_id'', V_Text ''journey-test''),
        (''journey_version'', V_Text ''v1''), (''contact_kind'', V_Int 2),
        (''contact_phone_e164'', V_Text ''+60123456789''), (''created_by_kind'', V_Int 1),
        (''created_by_id'', V_Text ''test''), (''status'', V_Int 1)]"

definition seed_event :: "uuid \<Rightarrow> uuid \<Rightarrow> uuid \<Rightarrow> int \<Rightarrow> stmt" where
  "seed_event event_id engagement_id organization_id sequence =
     Insert ''engagement_events''
       [(''event_id'', V_Uuid event_id), (''engagement_id'', V_Uuid engagement_id),
        (''organization_id'', V_Uuid organization_id), (''sequence'', V_Int sequence),
        (''event_type'', V_Int 1), (''status_after'', V_Int 1), (''source'', V_Int 1)]"

definition no_field :: "string \<Rightarrow> string \<Rightarrow> string option" where
  "no_field j k = None"

lemmas columns_unfold = text_ok_def json_ok_def engagements_def engagement_events_def nullable_def required_def defaulted_def

text \<open>An insert that meets the conditions of the engine.\<close>

lemma execute_insert:
  assumes "map_of schema tn = Some t" "list_all (\<lambda>c. c \<in> set (column_names t)) (map fst vals)"
    and "row_error t (new_row now (event_pk_seq d) t vals) = None"
    and "\<not> clashes t (new_row now (event_pk_seq d) t vals) (rows d tn)"
    and "refs_ok (rows d) t (new_row now (event_pk_seq d) t vals)"
  shows "execute_stmt field now (Insert tn vals) d =
     (let rws = (rows d)(tn := rows d tn @ [new_row now (event_pk_seq d) t vals])
      in ((if draws_serial t vals then d\<lparr>event_pk_seq := event_pk_seq d + 1\<rparr> else d)\<lparr>rows := rws\<rparr>,
          Inr (after_insert field tn rws (new_row now (event_pk_seq d) t vals))))"
  using assms by (simp add: Let_def)

definition engagement_values_of :: "uuid \<Rightarrow> uuid \<Rightarrow> uuid \<Rightarrow> 8 word list \<Rightarrow> (string \<times> sql_value) list" where
  "engagement_values_of engagement_id organization_id request_id hash =
     (case seed_engagement engagement_id organization_id request_id hash of Insert tn vals \<Rightarrow> vals)"

definition seeded :: db where
  "seeded = fst (transaction no_field 5 [seed_engagement 9 1 2 (replicate 32 1)] migrated)"

lemma seeded_reachable: "reachable_db no_field seeded"
  unfolding seeded_def by (intro reachable_db.intros)

definition seed_row :: row where
  "seed_row = new_row 5 1 engagements (engagement_values_of 9 1 2 (replicate 32 1))"

lemma seed_row_ok: "row_error engagements seed_row = None"
  by (simp add: seed_row_def row_error_def contact_check_def columns_unfold new_row_def engagement_values_of_def
      seed_engagement_def)

lemma seed_row_values:
  "seed_row ''engagement_id'' = V_Uuid 9" "seed_row ''organization_id'' = V_Uuid 1"
  "seed_row ''request_id'' = V_Uuid 2" "seed_row ''payload_hash'' = V_Bytes (replicate 32 1)"
  "seed_row ''status'' = V_Int 1"
  by (simp_all add: seed_row_def new_row_def engagement_values_of_def seed_engagement_def)

lemma seeded_eq: "seeded = \<lparr>rows = (\<lambda>t. [])(''engagements'' := [seed_row]), event_pk_seq = 1\<rparr>"
proof -
  let ?vals = "engagement_values_of 9 1 2 (replicate 32 1)"
  have "list_all (\<lambda>c. c \<in> set (column_names engagements)) (map fst ?vals)"
    by (simp add: column_names_def columns_unfold engagement_values_of_def seed_engagement_def)
  moreover have "\<not> draws_serial engagements ?vals"
    by (simp add: draws_serial_def columns_unfold)
  moreover have "refs_ok (rows migrated) engagements seed_row" by (simp add: refs_ok_def engagements_def)
  moreover have "\<not> clashes engagements seed_row (rows migrated ''engagements'')"
    by (simp add: clashes_iff migrated_def)
  moreover have "seed_engagement 9 1 2 (replicate 32 1) = Insert ''engagements'' ?vals"
    by (simp add: engagement_values_of_def seed_engagement_def)
  ultimately show ?thesis
    using execute_insert [of "''engagements''" engagements ?vals 5 migrated no_field] seed_row_ok
    by (simp add: seeded_def transaction_def seed_row_def [symmetric] migrated_def Let_def map_of_schema
        after_insert_def del: execute_stmt.simps)
qed

lemma seeded_rows: "engagement_rows seeded =
    [\<lparr>row_engagement_id = 9, row_organization_id = 1, row_request_id = 2, row_payload_hash = replicate 32 1,
      row_status = 1\<rparr>]"
  by (simp add: seeded_eq engagement_rows_def engagement_of_def seed_row_values)

definition sample_audit :: AuditRow where
  "sample_audit =
     \<lparr>ar_audit_id = AuditId 7, ar_organization_id = Some 1, ar_acting_principal_kind = ServiceAccount,
      ar_acting_principal_id = ''svc'', ar_acting_user_id = None, ar_acting_via = ''grpc/StartEngagement'',
      ar_rpc_name = ''StartEngagement'', ar_engagement_id = Some 9, ar_request_id = Some 2,
      ar_request_summary = None, ar_trace_id = None\<rparr>"

theorem audit_statements_typed_witness:
  "snd (execute_stmt no_field 6 (audit_sql 6 (audit_insert_of sample_audit)) seeded) = Inr [] \<and>
   snd (execute_stmt no_field 6 (audit_sql 6 (Update_Audit (outcome_as_i16 ServerError) 8 (Some ''E1'') 7)) seeded) = Inr []"
  using audit_statements_typed [OF seeded_reachable, of 6 sample_audit ServerError 8 "Some ''E1''" 7]
  by (simp add: audit_rows_def seeded_eq sample_audit_def text_ok_def del: audit_sql.simps execute_stmt.simps)

definition seeded_world :: sql_world where
  "seeded_world = \<lparr>database = seeded, sql_clock = 3, sql_faults = [Lost_After], sql_pauses = []\<rparr>"

theorem audit_writer_on_schema_witness:
  "phase1_insert model_ops sample_audit (sql_abs seeded_world) =
      (case phase1_insert (sql_ops no_field) sample_audit seeded_world of (w', log, res) \<Rightarrow> (sql_abs w', log, res)) \<and>
    phase2_finalize model_ops (AuditId 7) Audit_Success None (sql_abs seeded_world) =
      (case phase2_finalize (sql_ops no_field) (AuditId 7) Audit_Success None seeded_world of
         (w', log, res) \<Rightarrow> (sql_abs w', log, res))"
proof -
  have "reachable_world no_field seeded_world" by (simp add: reachable_world_def seeded_world_def seeded_reachable)
  moreover have "storable (audit_insert_of sample_audit)" by (simp add: audit_insert_of_def sample_audit_def text_ok_def)
  ultimately show ?thesis
    using audit_writer_on_schema [of no_field seeded_world sample_audit "AuditId 7" Audit_Success None] by simp
qed

theorem no_audit_no_action_witness:
  "(case snd (transaction no_field 6 ([seed_engagement 10 1 3 []] @ [audit_sql 6 (audit_insert_of sample_audit)]) seeded) of
      Inl e \<Rightarrow> rows (fst (transaction no_field 6
        ([seed_engagement 10 1 3 []] @ [audit_sql 6 (audit_insert_of sample_audit)]) seeded)) = rows seeded
    | Inr ns \<Rightarrow> audit_rows (fst (transaction no_field 6
        ([seed_engagement 10 1 3 []] @ [audit_sql 6 (audit_insert_of sample_audit)]) seeded)) =
          audit_rows (fst (run_stmts no_field 6 [seed_engagement 10 1 3 []] seeded)) @ [pending_row 6 sample_audit] \<and>
        snd (run_stmts no_field 6 [seed_engagement 10 1 3 []] seeded) = Inr ns)"
  by (rule no_audit_no_action [OF seeded_reachable]) (rule prod.collapse [symmetric])

theorem check_on_database_witness:
  "check (sql_fetch seeded) 1 2 (canonical_hash_start_engagement length_digest channel_text (sample_fields\<lparr>f_channel := ''12''\<rparr>)) =
     Inr Conflict \<and>
   check (sql_fetch seeded) 1 3 (canonical_hash_start_engagement length_digest channel_text (sample_fields\<lparr>f_channel := ''12''\<rparr>)) =
     Inr New \<and>
   length (filter (\<lambda>r'. row_organization_id r' = 1 \<and> row_request_id r' = 2) (engagement_rows seeded)) = 1"
proof -
  let ?r = "\<lparr>row_engagement_id = 9, row_organization_id = 1, row_request_id = 2,
         row_payload_hash = replicate 32 1, row_status = 1\<rparr>"
  let ?g = "sample_fields\<lparr>f_channel := ''12''\<rparr>"
  have ne: "sample_fields \<noteq> ?g" by (simp add: sample_fields_def)
  have "check (sql_fetch seeded) (row_organization_id ?r) (row_request_id ?r)
        (canonical_hash_start_engagement length_digest channel_text ?g) =
      (if sample_fields = ?g then Inr (Replay (row_engagement_id ?r) (4 \<le> row_status ?r \<and> row_status ?r \<le> 6))
       else Inr Conflict) \<and>
    check (sql_fetch seeded) 1 3 (canonical_hash_start_engagement length_digest channel_text ?g) = Inr New \<and>
    length (filter (\<lambda>r'. row_organization_id r' = row_organization_id ?r \<and> row_request_id r' = row_request_id ?r)
      (engagement_rows seeded)) = 1"
    by (rule check_on_database [OF seeded_reachable])
       (auto simp: seeded_rows canonical_hash_start_engagement_def canonical_json_start_engagement_def inj_on_def
          channel_text_canonical canonical_map_eq_iff length_digest_def sample_fields_def)
  then show ?thesis using ne by simp
qed

definition event_values_of :: "uuid \<Rightarrow> uuid \<Rightarrow> uuid \<Rightarrow> int \<Rightarrow> (string \<times> sql_value) list" where
  "event_values_of event_id engagement_id organization_id sequence =
     (case seed_event event_id engagement_id organization_id sequence of Insert tn vals \<Rightarrow> vals)"

lemma seeded_event_runs:
  "\<exists>d ns. execute_stmt no_field 6 (Insert ''engagement_events'' (event_values_of 20 9 1 1)) seeded = (d, Inr ns)"
proof -
  let ?vals = "event_values_of 20 9 1 1"
  let ?r = "new_row 6 1 engagement_events ?vals"
  have "list_all (\<lambda>c. c \<in> set (column_names engagement_events)) (map fst ?vals)"
    by (simp add: column_names_def columns_unfold event_values_of_def seed_event_def)
  moreover have "row_error engagement_events ?r = None"
    by (simp add: row_error_def columns_unfold new_row_def event_values_of_def seed_event_def)
  moreover have "refs_ok (rows seeded) engagement_events ?r"
    by (simp add: refs_ok_def refers_def engagement_ref_def engagement_events_def seeded_eq seed_row_values new_row_def
        event_values_of_def seed_event_def)
  ultimately show ?thesis
    using execute_insert [of "''engagement_events''" engagement_events ?vals 6 seeded no_field]
    by (simp add: Let_def seeded_eq clashes_iff del: execute_stmt.simps)
qed

definition seeded_event :: "db \<times> (sql_error, json_object list) result" where
  "seeded_event = execute_stmt no_field 6 (Insert ''engagement_events'' (event_values_of 20 9 1 1)) seeded"

theorem notification_is_gap_row_witness:
  "\<exists>obj row. snd seeded_event = Inr [obj] \<and> decode_payload obj = Some (gap_payload row) \<and>
     gap_join no_field (fst seeded_event) = gap_join no_field seeded @ [row]"
proof -
  obtain d ns where run: "execute_stmt no_field 6 (Insert ''engagement_events'' (event_values_of 20 9 1 1)) seeded = (d, Inr ns)"
    using seeded_event_runs by blast
  from notification_is_gap_row [OF seeded_reachable run] run show ?thesis
    by (auto simp: seeded_event_def simp del: execute_stmt.simps)
qed

end
