(* ===== verification/Event_Pipeline.thy ===== *)
theory Event_Pipeline
  imports Hub_Db "HOL-Library.Sublist"
begin

text \<open>
  The path of an event from the transaction that stores it to a subscriber: the database of
  \<open>Schema\<close>, the notifications on the LISTEN connection and the manager of \<open>Notify\<close>
  as one system. A commit puts its notifications on the connection if the session is up and nowhere
  otherwise; the manager takes them off one at a time.

  A session can be lost at any time, with any part of what is on it still readable. The manager does not have
  to see that: \<^verbatim>\<open>recv\<close> of \<^verbatim>\<open>sqlx\<close> opens a new session by itself and goes on, and
  \<^verbatim>\<open>try_recv\<close> answers \<^verbatim>\<open>Ok(None)\<close> exactly when the connection was lost. Both happen only
  when everything readable has been read. An error that the manager does see ends its session with what is
  on it.

  The text of a notification is the parameter \<open>render\<close> (\<^verbatim>\<open>json_build_object(...)::text\<close>) and its
  parser \<open>parse\<close> (\<^verbatim>\<open>serde_json\<close>); the theorems ask of them that parsing the text of an object
  that was notified gives what the derived \<^verbatim>\<open>Deserialize\<close> reads from it.
\<close>

section \<open>The system\<close>

record ('w, 'tx) system =
  store :: db
  up :: bool
  wire :: "string list"
  mgr :: "('w, 'tx) manager"

datatype sys_event = Commit nat "stmt list" | Manager run_event | Conn_Lost nat | Silent_Reconnect

text \<open>A step with the objects it notifies.\<close>

inductive sys_step ::
  "(string \<Rightarrow> string \<Rightarrow> string option) \<Rightarrow> (json_object \<Rightarrow> string) \<Rightarrow> ('w, 'tx, 'rx) broadcast_ops
     \<Rightarrow> (string \<Rightarrow> NotifyPayload option) \<Rightarrow> ('w, 'tx) system \<Rightarrow> sys_event \<Rightarrow> json_object list
     \<Rightarrow> ('w, 'tx) system \<Rightarrow> bool"
  for field render ops parse where
  commit: "transaction field now ss (store s) = (d, Inr ns) \<Longrightarrow>
     sys_step field render ops parse s (Commit now ss) ns
       (s\<lparr>store := d, wire := (if up s then wire s @ map render ns else wire s)\<rparr>)"
| abort: "transaction field now ss (store s) = (d, Inl e) \<Longrightarrow>
     sys_step field render ops parse s (Commit now ss) [] (s\<lparr>store := d\<rparr>)"
| receive: "run_step ops parse (mgr s) ev m \<Longrightarrow> notif_of ev = Some txt \<Longrightarrow> wire s = txt # rest \<Longrightarrow>
     sys_step field render ops parse s (Manager ev) [] (s\<lparr>wire := rest, mgr := m\<rparr>)"
| connected: "run_step ops parse (mgr s) Connect_Ok m \<Longrightarrow>
     sys_step field render ops parse s (Manager Connect_Ok) [] (s\<lparr>up := True, wire := [], mgr := m\<rparr>)"
| ok_none: "run_step ops parse (mgr s) Tick_None m \<Longrightarrow> \<not> up s \<Longrightarrow> wire s = [] \<Longrightarrow>
     sys_step field render ops parse s (Manager Tick_None) [] (s\<lparr>mgr := m\<rparr>)"
| closed: "run_step ops parse (mgr s) ev m \<Longrightarrow> notif_of ev = None \<Longrightarrow> ev \<noteq> Connect_Ok \<Longrightarrow> ev \<noteq> Tick_None \<Longrightarrow>
     sys_step field render ops parse s (Manager ev) [] (s\<lparr>up := False, wire := [], mgr := m\<rparr>)"
| conn_lost: "up s \<Longrightarrow>
     sys_step field render ops parse s (Conn_Lost k) [] (s\<lparr>up := False, wire := take k (wire s)\<rparr>)"
| silent_reconnect: "run_phase (mgr s) = Listening \<Longrightarrow> \<not> up s \<Longrightarrow> wire s = [] \<Longrightarrow>
     sys_step field render ops parse s Silent_Reconnect [] (s\<lparr>up := True\<rparr>)"

inductive_cases sys_stepE: "sys_step field render ops parse s a ns s'"

inductive sys_run ::
  "(string \<Rightarrow> string \<Rightarrow> string option) \<Rightarrow> (json_object \<Rightarrow> string) \<Rightarrow> ('w, 'tx, 'rx) broadcast_ops
     \<Rightarrow> (string \<Rightarrow> NotifyPayload option) \<Rightarrow> ('w, 'tx) system \<Rightarrow> sys_event list \<Rightarrow> json_object list
     \<Rightarrow> ('w, 'tx) system \<Rightarrow> bool"
  for field render ops parse s0 where
  start: "sys_run field render ops parse s0 [] [] s0"
| step: "sys_run field render ops parse s0 as pub s \<Longrightarrow> sys_step field render ops parse s a ns s' \<Longrightarrow>
     sys_run field render ops parse s0 (as @ [a]) (pub @ ns) s'"

text \<open>What was published for an engagement, and what is on the connection for it.\<close>

definition published :: "uuid \<Rightarrow> json_object list \<Rightarrow> NotifyPayload list" where
  "published e pub = filter (\<lambda>p. np_engagement_id p = e) (map (the \<circ> decode_payload) pub)"

definition in_flight :: "(string \<Rightarrow> NotifyPayload option) \<Rightarrow> uuid \<Rightarrow> ('w, 'tx) system \<Rightarrow> NotifyPayload list" where
  "in_flight parse e s = filter (\<lambda>p. np_engagement_id p = e) (payloads parse (wire s))"

definition rendered :: "(json_object \<Rightarrow> string) \<Rightarrow> (string \<Rightarrow> NotifyPayload option) \<Rightarrow> json_object list \<Rightarrow> bool" where
  "rendered render parse objs = list_all (\<lambda>obj. render obj \<noteq> [] \<and> parse (render obj) = decode_payload obj) objs"

section \<open>Every notified object decodes\<close>

lemma execute_stmt_decodes:
  assumes "db_wf d" "execute_stmt field now s d = (d', Inr ns)"
  shows "list_all (\<lambda>obj. decode_payload obj \<noteq> None) ns"
proof (cases s)
  case (Insert tn vals)
  obtain r where r: "rows d' = (rows d)(tn := rows d tn @ [r])" "ns = after_insert field tn (rows d') r"
    using insert_effect assms(2) Insert by blast
  have wf: "db_wf d'" using execute_stmt_wf [OF assms(1), of field now s] assms(2) by simp
  show ?thesis
  proof (cases "tn = ''engagement_events''")
    case True
    then have "r \<in> set (rows d' ''engagement_events'')" by (simp add: r(1))
    from event_object_decodes [OF wf this, of field] show ?thesis using r(2) True by (auto simp: after_insert_def)
  qed (simp add: r(2) after_insert_def)
qed (use assms(2) in \<open>auto simp: Let_def split: option.splits list.splits if_splits\<close>)

lemma run_stmts_decodes:
  "db_wf d \<Longrightarrow> run_stmts field now ss d = (d', Inr ns) \<Longrightarrow> list_all (\<lambda>obj. decode_payload obj \<noteq> None) ns"
proof (induction ss arbitrary: d ns)
  case (Cons s ss)
  obtain d1 ns1 ns2 where s: "execute_stmt field now s d = (d1, Inr ns1)"
    and ss: "run_stmts field now ss d1 = (d', Inr ns2)" "ns = ns1 @ ns2"
    using Cons.prems(2) by (auto simp: map_ok_Inr_iff split: prod.splits sum.splits)
  have "db_wf d1" using execute_stmt_wf [OF Cons.prems(1), of field now s] s by simp
  then show ?case
    using Cons.IH [OF _ ss(1)] execute_stmt_decodes [OF Cons.prems(1) s] ss(2) by simp
qed simp

lemma transaction_decodes:
  "db_wf d \<Longrightarrow> transaction field now ss d = (d', Inr ns) \<Longrightarrow> list_all (\<lambda>obj. decode_payload obj \<noteq> None) ns"
  by (rule run_stmts_decodes [of d field now ss d']) (auto simp: transaction_def split: prod.splits sum.splits)

lemma payloads_append: "payloads parse (xs @ ys) = payloads parse xs @ payloads parse ys"
  by (simp add: payloads_def List.map_filter_def)

lemma payloads_render:
  assumes "rendered render parse ns" "list_all (\<lambda>obj. decode_payload obj \<noteq> None) ns"
  shows "payloads parse (map render ns) = map (the \<circ> decode_payload) ns"
  using assms by (induction ns) (auto simp: payloads_def rendered_def List.map_filter_def)

section \<open>What reaches a subscriber\<close>

text \<open>A step of the manager sends the subscriber exactly the event's payload, if it has one for it.\<close>

lemma run_step_stream:
  assumes "broadcast_laws ops sent live known" "attached live e tx m" "run_step ops parse m ev m'"
  shows "attached live e tx m' \<and> sent tx (channels m') = sent tx (channels m) @
     filter (\<lambda>p. np_engagement_id p = e) (payloads parse (case notif_of ev of None \<Rightarrow> [] | Some txt \<Rightarrow> [txt]))"
proof -
  let ?txts = "case notif_of ev of None \<Rightarrow> [] | Some txt \<Rightarrow> [txt]"
  have "fanout_list ops (payloads parse ?txts) (registry m) (channels m) = (registry m', channels m')"
    using run_step_effect [OF assms(3)] by (simp add: deliver_all_fanout)
  from stream_to_subscriber [OF assms(1) _ _ _ this, of tx e] assms(2) show ?thesis
    by (simp add: attached_def)
qed

text \<open>The steps of a connection that stays up: commits and received notifications.\<close>

fun calm :: "sys_event \<Rightarrow> bool" where
  "calm (Commit now ss) = True"
| "calm (Manager ev) = (notif_of ev \<noteq> None)"
| "calm (Conn_Lost k) = False"
| "calm Silent_Reconnect = False"

lemma in_flight_take: "prefix (in_flight parse e (s\<lparr>up := b, wire := take k (wire s)\<rparr>)) (in_flight parse e s)"
proof -
  have "payloads parse (wire s) = payloads parse (take k (wire s)) @ payloads parse (drop k (wire s))"
    by (simp flip: payloads_append)
  then show ?thesis by (simp add: in_flight_def)
qed

text \<open>The bookkeeping of one step: what it sends, takes off the connection and publishes; nothing is lost by a
  calm step while the session is up.\<close>

lemma sys_step_stream:
  assumes laws: "broadcast_laws ops sent live known" and wf: "db_wf (store s)" and at: "attached live e tx (mgr s)"
    and step: "sys_step field render ops parse s a ns s'" and rnd: "up s \<Longrightarrow> rendered render parse ns"
  obtains new where "attached live e tx (mgr s')" "db_wf (store s')"
    "sent tx (channels (mgr s')) = sent tx (channels (mgr s)) @ new"
    "new @ in_flight parse e s' = in_flight parse e s @ published e ns \<or>
     (new = [] \<and> prefix (in_flight parse e s') (in_flight parse e s) \<and> \<not> (calm a \<and> up s))"
  using step
proof (cases rule: sys_step.cases)
  case (commit now ss d)
  have d: "db_wf d" using transaction_wf [OF wf, of field now ss] commit by simp
  show thesis
  proof (cases "up s")
    case True
    have "payloads parse (map render ns) = map (the \<circ> decode_payload) ns"
      using payloads_render [OF rnd [OF True] transaction_decodes [OF wf commit(3)]] .
    then show thesis
      using that [of "[]"] commit at True d by (auto simp: in_flight_def published_def payloads_append)
  next
    case False
    then show thesis using that [of "[]"] commit at d by (auto simp: in_flight_def)
  qed
next
  case (abort now ss d err)
  have "db_wf d" using transaction_wf [OF wf, of field now ss] abort by simp
  then show thesis using that [of "[]"] abort at by (auto simp: in_flight_def published_def)
next
  case (receive ev m tt rest)
  from run_step_stream [OF laws at receive(4)] that wf receive show thesis
    by (auto simp: in_flight_def published_def payloads_def List.map_filter_def)
next
  case (connected m)
  then show thesis
    using run_step_stream [OF laws at connected(4)] that [of "[]"] wf
    by (auto simp: in_flight_def payloads_def List.map_filter_def)
next
  case (ok_none m)
  then show thesis
    using run_step_stream [OF laws at ok_none(4)] that [of "[]"] wf
    by (auto simp: in_flight_def payloads_def List.map_filter_def)
next
  case (closed ev m)
  then show thesis
    using run_step_stream [OF laws at closed(4)] that [of "[]"] wf
    by (auto simp: in_flight_def payloads_def List.map_filter_def)
next
  case (conn_lost k)
  then show thesis using that [of "[]"] in_flight_take [where parse = parse and e = e and s = s and b = False and k = k] wf at by auto
next
  case silent_reconnect
  then show thesis using that [of "[]"] wf at by (auto simp: in_flight_def)
qed

lemma published_append: "published e (xs @ ys) = published e xs @ published e ys"
  by (simp add: published_def)

lemma rendered_append: "rendered render parse (xs @ ys) \<longleftrightarrow> rendered render parse xs \<and> rendered render parse ys"
  by (simp add: rendered_def)

text \<open>Along a run nothing is sent twice, out of order or without having been published.\<close>

lemma sys_run_stream:
  assumes laws: "broadcast_laws ops sent live known"
  shows "sys_run field render ops parse s0 as pub s \<Longrightarrow> db_wf (store s0) \<Longrightarrow> attached live e tx (mgr s0) \<Longrightarrow>
     rendered render parse pub \<Longrightarrow>
     attached live e tx (mgr s) \<and> db_wf (store s) \<and>
     (\<exists>l. sent tx (channels (mgr s)) = sent tx (channels (mgr s0)) @ l \<and>
        subseq (l @ in_flight parse e s) (in_flight parse e s0 @ published e pub))"
proof (induction rule: sys_run.induct)
  case start
  then show ?case by (auto simp: published_def)
next
  case (step as pub s a ns s')
  then obtain l where l: "attached live e tx (mgr s)" "db_wf (store s)"
    "sent tx (channels (mgr s)) = sent tx (channels (mgr s0)) @ l"
    "subseq (l @ in_flight parse e s) (in_flight parse e s0 @ published e pub)"
    by (auto simp: rendered_append)
  obtain new where new: "attached live e tx (mgr s')" "db_wf (store s')"
    "sent tx (channels (mgr s')) = sent tx (channels (mgr s)) @ new"
    "new @ in_flight parse e s' = in_flight parse e s @ published e ns \<or>
     (new = [] \<and> prefix (in_flight parse e s') (in_flight parse e s) \<and> \<not> (calm a \<and> up s))"
    using sys_step_stream [OF laws l(2,1) step.hyps(2)] step.prems by (auto simp: rendered_append)
  have "subseq ((l @ new) @ in_flight parse e s') (in_flight parse e s0 @ published e (pub @ ns))"
    using new(4)
  proof
    assume "new @ in_flight parse e s' = in_flight parse e s @ published e ns"
    then show ?thesis
      using list_emb_append_mono [OF l(4) subseq_order.refl [of "published e ns"]]
      by (simp add: published_append)
  next
    assume "new = [] \<and> prefix (in_flight parse e s') (in_flight parse e s) \<and> \<not> (calm a \<and> up s)"
    then have "subseq ((l @ new) @ in_flight parse e s') (l @ in_flight parse e s)"
      by (auto elim!: prefixE intro: list_emb_prefix)
    then have "subseq ((l @ new) @ in_flight parse e s') (in_flight parse e s0 @ published e pub)"
      using l(4) by (rule subseq_order.trans)
    then show ?thesis
      using list_emb_prefix [of "(=)" _ "in_flight parse e s0 @ published e pub" "published e ns"]
      by (simp add: published_append)
  qed
  then show ?case using new l by auto
qed

lemma calm_step:
  assumes "sys_step field render ops parse s a ns s'" "calm a" "run_phase (mgr s) = Listening" "up s"
  shows "run_phase (mgr s') = Listening \<and> up s'"
proof -
  have "run_phase m = Listening" if "run_step ops parse (mgr s) ev m" "notif_of ev \<noteq> None" for ev m
    using that assms(3) by (auto elim!: run_stepE simp: deliver_fields)
  then show ?thesis using assms by (auto elim!: sys_stepE)
qed

lemma calm_run_stream:
  assumes laws: "broadcast_laws ops sent live known"
  shows "sys_run field render ops parse s0 as pub s \<Longrightarrow> db_wf (store s0) \<Longrightarrow> attached live e tx (mgr s0) \<Longrightarrow>
     rendered render parse pub \<Longrightarrow> list_all calm as \<Longrightarrow> run_phase (mgr s0) = Listening \<Longrightarrow> up s0 \<Longrightarrow>
     run_phase (mgr s) = Listening \<and> up s \<and>
     sent tx (channels (mgr s)) @ in_flight parse e s =
       sent tx (channels (mgr s0)) @ in_flight parse e s0 @ published e pub"
proof (induction rule: sys_run.induct)
  case start
  then show ?case by (simp add: published_def)
next
  case (step as pub s a ns s')
  then have IH: "run_phase (mgr s) = Listening" "up s"
    "sent tx (channels (mgr s)) @ in_flight parse e s =
       sent tx (channels (mgr s0)) @ in_flight parse e s0 @ published e pub"
    by (simp_all add: rendered_append)
  have at: "attached live e tx (mgr s)" "db_wf (store s)"
    using sys_run_stream [OF laws step.hyps(1)] step.prems by (simp_all add: rendered_append)
  have c: "run_phase (mgr s') = Listening \<and> up s'"
    using calm_step [OF step.hyps(2) _ IH(1,2)] step.prems(4) by simp
  obtain new where "sent tx (channels (mgr s')) = sent tx (channels (mgr s)) @ new"
    "new @ in_flight parse e s' = in_flight parse e s @ published e ns"
    using sys_step_stream [OF laws at(2,1) step.hyps(2)] step.prems IH(2) by (auto simp: rendered_append)
  then show ?case using IH(3) c by (simp add: published_append)
qed

text \<open>C7. End to end, whatever fails: a subscriber that subscribes to an engagement and fills its gap from
  the database gets on its channel first the payloads of exactly the stored events above its cursor, in
  sequence order, and then, along every interleaving of transactions, deliveries, lost connections and
  reconnects, seen by the manager or not, a subsequence of what is committed for the engagement from then on: every event at most as
  often as it was committed, in the order of the commits, and nothing that was not. What is still on the
  connection comes after what was delivered.\<close>

theorem pipeline_at_most_once:
  assumes "broadcast_laws ops sent live known" "reachable_db field d"
    and "manager_subscribe_engagement ops e (manager_new w0) = (rx, m1)"
    and "manager_gap_fill ops (gap_select (gap_join field d)) e cursor m1 = (m2, res)"
    and "sys_run field render ops parse \<lparr>store = d, up = False, wire = [], mgr = m2\<rparr> as pub s"
    and "rendered render parse pub"
  shows "\<exists>tx rs l. tx \<notin> known w0 \<and> (res :: (sql_error, unit) result) = Inr () \<and> sorted (map gr_sequence rs) \<and>
     set rs = {r \<in> set (gap_join field d). gr_engagement_id r = e \<and> cursor < gr_sequence r} \<and>
     sent tx (channels (mgr s)) = map gap_payload rs @ l \<and>
     subseq (l @ in_flight parse e s) (published e pub)"
proof -
  obtain tx rs where tx: "tx \<notin> known w0" "res = Inr ()" "sorted (map gr_sequence rs)"
    "set rs = {r \<in> set (gap_join field d). gr_engagement_id r = e \<and> cursor < gr_sequence r}"
    "sent tx (channels m2) = map gap_payload rs" "attached live e tx m2"
    by (rule resumed_subscriber [OF assms(1,3,4)])
  from sys_run_stream [OF assms(1,5) _ _ assms(6), where tx = tx and e = e] reachable_wf [OF assms(2)] tx(5,6)
  obtain l where "sent tx (channels (mgr s)) = map gap_payload rs @ l"
    "subseq (l @ in_flight parse e s) (published e pub)"
    by (auto simp: in_flight_def payloads_def List.map_filter_def)
  then show ?thesis using tx by blast
qed

text \<open>What is on the connection can be received to the end.\<close>

lemma drain_wire:
  assumes laws: "broadcast_laws ops sent live known"
  shows "run_phase (mgr s) = Listening \<Longrightarrow> sys_run field render ops parse s0 as pub s \<Longrightarrow>
     \<exists>bs s'. sys_run field render ops parse s0 (as @ bs) pub s' \<and> list_all calm bs \<and> length bs = length (wire s) \<and>
       wire s' = []"
proof (induction "wire s" arbitrary: s as)
  case Nil
  then show ?case by (intro exI [of _ "[]"] exI [of _ s]) simp
next
  case (Cons x xs)
  let ?m = "deliver ops parse x (mgr s)"
  let ?s = "s\<lparr>wire := xs, mgr := ?m\<rparr>"
  have "sys_step field render ops parse s (Manager (Recv_Notif x)) [] ?s"
    using Cons.prems(1) by (intro receive recv_notif) (simp_all add: Cons.hyps(2) [symmetric])
  then have run: "sys_run field render ops parse s0 (as @ [Manager (Recv_Notif x)]) (pub @ []) ?s"
    using Cons.prems(2) by (intro sys_run.step)
  have "\<exists>bs s'. sys_run field render ops parse s0 ((as @ [Manager (Recv_Notif x)]) @ bs) pub s' \<and> list_all calm bs \<and>
      length bs = length (wire ?s) \<and> wire s' = []"
    using Cons.hyps(1) [of ?s "as @ [Manager (Recv_Notif x)]"] run Cons.prems(1) by (simp add: deliver_fields)
  then obtain bs s' where "sys_run field render ops parse s0 (as @ Manager (Recv_Notif x) # bs) pub s'" "list_all calm bs"
    "length bs = length xs" "wire s' = []" by auto
  then show ?case
    using Cons.hyps(2) by (intro exI [of _ "Manager (Recv_Notif x) # bs"] exI [of _ s']) (simp add: Cons.hyps(2) [symmetric])
qed

text \<open>C6. While the session is up nothing is lost: along every run of commits and deliveries (a health check
  that finds a notification included; one that answers \<^verbatim>\<open>Ok(None)\<close> reports a lost session), what the subscriber was sent followed by what is on the connection for it is exactly what it had
  and what was committed for its engagement since, each event once, in commit order; and the manager can
  always go on until nothing is left on the connection, when the subscriber has it all.\<close>

theorem pipeline_complete_while_connected:
  assumes "broadcast_laws ops sent live known" "reachable_db field (store s0)"
    and "attached live e tx (mgr s0)" "run_phase (mgr s0) = Listening" "up s0"
    and "sys_run field render ops parse s0 as pub s" "list_all calm as" "rendered render parse pub"
  shows "sent tx (channels (mgr s)) @ in_flight parse e s =
      sent tx (channels (mgr s0)) @ in_flight parse e s0 @ published e pub \<and>
    (\<exists>bs s'. sys_run field render ops parse s0 (as @ bs) pub s' \<and> length bs = length (wire s) \<and>
       sent tx (channels (mgr s')) = sent tx (channels (mgr s0)) @ in_flight parse e s0 @ published e pub)"
proof -
  note wf = reachable_wf [OF assms(2)]
  note run = calm_run_stream [OF assms(1,6) wf assms(3,8,7,4,5)]
  obtain bs s' where more: "sys_run field render ops parse s0 (as @ bs) pub s'" "list_all calm bs"
    "length bs = length (wire s)" "wire s' = []"
    using drain_wire [OF assms(1) _ assms(6)] run by blast
  have "sent tx (channels (mgr s')) @ in_flight parse e s' =
      sent tx (channels (mgr s0)) @ in_flight parse e s0 @ published e pub"
    using calm_run_stream [OF assms(1) more(1) wf assms(3,8) _ assms(4,5)] assms(7) more(2) by simp
  moreover have "in_flight parse e s' = []"
    using more(4) by (simp add: in_flight_def payloads_def List.map_filter_def)
  ultimately show ?thesis using run more by auto
qed

section \<open>Witnesses\<close>

definition event_stmt :: stmt where
  "event_stmt = Insert ''engagement_events'' (event_values_of 20 9 1 1)"

definition event_obj :: json_object where
  "event_obj = (case snd seeded_event of Inr (obj # objs) \<Rightarrow> obj | _ \<Rightarrow> [])"

definition one_text :: "json_object \<Rightarrow> string" where
  "one_text obj = ''event''"

definition one_parse :: "string \<Rightarrow> NotifyPayload option" where
  "one_parse s = decode_payload event_obj"

lemma event_commits: "transaction no_field 6 [event_stmt] seeded = (fst seeded_event, Inr [event_obj])"
proof -
  obtain d ns where run: "execute_stmt no_field 6 (Insert ''engagement_events'' (event_values_of 20 9 1 1)) seeded = (d, Inr ns)"
    using seeded_event_runs by blast
  from insert_effect [OF run] obtain obj where "ns = [obj]" by (auto simp: after_insert_def)
  then show ?thesis
    using run by (simp add: transaction_def event_stmt_def event_obj_def seeded_event_def del: execute_stmt.simps)
qed

lemma event_rendered: "rendered one_text one_parse [event_obj]"
  by (simp add: rendered_def one_text_def one_parse_def)

definition sub9 :: "nat \<times> (chan_world, nat) manager" where
  "sub9 = manager_subscribe_engagement log_channels 9 (manager_new no_channels)"

definition filled9 :: "(chan_world, nat) manager \<times> (sql_error, unit) result" where
  "filled9 = manager_gap_fill log_channels (gap_select (gap_join no_field seeded)) 9 0 (snd sub9)"

definition sys0 :: "(chan_world, nat) system" where
  "sys0 = \<lparr>store = seeded, up = False, wire = [], mgr = fst filled9\<rparr>"

lemma filled9_phase: "run_phase (fst filled9) = Top"
  by (simp add: filled9_def sub9_def manager_gap_fill_def manager_subscribe_engagement_def manager_new_def
      split: prod.split)

text \<open>The event is committed before the manager has connected.\<close>

definition sys1 :: "(chan_world, nat) system" where
  "sys1 = sys0\<lparr>store := fst seeded_event\<rparr>"

lemma sys1_run: "sys_run no_field one_text log_channels one_parse sys0 [Commit 6 [event_stmt]] [event_obj] sys1"
proof -
  have "sys_step no_field one_text log_channels one_parse sys0 (Commit 6 [event_stmt]) [event_obj]
      (sys0\<lparr>store := fst seeded_event,
            wire := (if up sys0 then wire sys0 @ map one_text [event_obj] else wire sys0)\<rparr>)"
    by (rule commit) (simp add: sys0_def event_commits)
  then have "sys_step no_field one_text log_channels one_parse sys0 (Commit 6 [event_stmt]) [event_obj] sys1"
    by (simp add: sys1_def sys0_def)
  from sys_run.step [OF sys_run.start this] show ?thesis by simp
qed

theorem pipeline_at_most_once_witness:
  "\<exists>tx rs l. tx \<notin> {..<next_id no_channels} \<and> snd filled9 = Inr () \<and> sorted (map gr_sequence rs) \<and>
     set rs = {r \<in> set (gap_join no_field seeded). gr_engagement_id r = 9 \<and> 0 < gr_sequence r} \<and>
     accepted (channels (mgr sys1)) tx = map gap_payload rs @ l \<and>
     subseq (l @ in_flight one_parse 9 sys1) (published 9 [event_obj])"
proof -
  have "manager_subscribe_engagement log_channels 9 (manager_new no_channels) = (fst sub9, snd sub9)"
    "manager_gap_fill log_channels (gap_select (gap_join no_field seeded)) 9 0 (snd sub9) = (fst filled9, snd filled9)"
    by (simp_all add: sub9_def filled9_def)
  from pipeline_at_most_once [OF log_channels_laws seeded_reachable this sys1_run [unfolded sys0_def] event_rendered]
  show ?thesis .
qed

text \<open>The event is committed while the manager listens.\<close>

definition listening :: "(chan_world, nat) system" where
  "listening =
     \<lparr>store = seeded, up = True, wire = [],
      mgr = (enter_listening (manager_new one_channel))
        \<lparr>registry := \<lparr>by_engagement = [(9, [0])], by_batch = []\<rparr>\<rparr>\<rparr>"

definition sys2 :: "(chan_world, nat) system" where
  "sys2 = listening\<lparr>store := fst seeded_event, wire := [''event'']\<rparr>"

lemma listening_phase: "run_phase (mgr listening) = Listening" "up listening"
  by (simp_all add: listening_def enter_listening_def)

lemma sys2_run: "sys_run no_field one_text log_channels one_parse listening [Commit 6 [event_stmt]] [event_obj] sys2"
proof -
  have "sys_step no_field one_text log_channels one_parse listening (Commit 6 [event_stmt]) [event_obj]
      (listening\<lparr>store := fst seeded_event,
            wire := (if up listening then wire listening @ map one_text [event_obj] else wire listening)\<rparr>)"
    by (rule commit) (simp add: listening_def event_commits)
  then have "sys_step no_field one_text log_channels one_parse listening (Commit 6 [event_stmt]) [event_obj] sys2"
    by (simp add: sys2_def listening_phase one_text_def) (simp add: listening_def)
  from sys_run.step [OF sys_run.start this] show ?thesis by simp
qed

lemma listening_attached: "attached (\<lambda>t w. alive w t) 9 0 (mgr listening)"
  by (simp add: attached_def listening_def registry_wf_def entries_wf_def lookup_def members_def enter_listening_def
      manager_new_def one_channel_def no_channels_def)

theorem pipeline_complete_while_connected_witness:
  "accepted (channels (mgr sys2)) 0 @ in_flight one_parse 9 sys2 =
      accepted (channels (mgr listening)) 0 @ in_flight one_parse 9 listening @ published 9 [event_obj] \<and>
    (\<exists>bs s'. sys_run no_field one_text log_channels one_parse listening ([Commit 6 [event_stmt]] @ bs) [event_obj] s' \<and>
       length bs = length (wire sys2) \<and>
       accepted (channels (mgr s')) 0 =
         accepted (channels (mgr listening)) 0 @ in_flight one_parse 9 listening @ published 9 [event_obj])"
  by (rule pipeline_complete_while_connected [OF log_channels_laws _ listening_attached listening_phase(1,2) sys2_run _ event_rendered])
     (simp_all add: listening_def seeded_reachable)

section \<open>Events that are lost\<close>

lemma decode_engagement:
  "decode_payload obj = Some p \<Longrightarrow> req_uuid (map_of obj ''engagement_id'') = Some (np_engagement_id p)"
  by (auto simp: decode_payload_def bind_eq_Some_conv)

lemma event_obj_published: "published 9 [event_obj] \<noteq> []"
proof -
  obtain r where r: "event_obj = event_object no_field (rows (fst seeded_event)) r" "r ''engagement_id'' = V_Uuid 9"
  proof -
    have run: "execute_stmt no_field 6 (Insert ''engagement_events'' (event_values_of 20 9 1 1)) seeded = (fst seeded_event, Inr [event_obj])"
      using seeded_event_runs event_commits
      by (auto simp: seeded_event_def event_obj_def transaction_def event_stmt_def simp del: execute_stmt.simps)
    from insert_effect [OF run] obtain t r where "[event_obj] = after_insert no_field ''engagement_events'' (rows (fst seeded_event)) r"
      "r = new_row 6 (event_pk_seq seeded) t (event_values_of 20 9 1 1)" by metis
    then show thesis
      using that [of r] by (simp add: after_insert_def new_row_def event_values_of_def seed_event_def)
  qed
  have "decode_payload event_obj \<noteq> None"
    using transaction_decodes [OF reachable_wf [OF seeded_reachable] event_commits] by simp
  then obtain p where "decode_payload event_obj = Some p" by blast
  moreover have "map_of event_obj ''engagement_id'' = Some (V_Uuid 9)"
    by (subst r(1)) (simp add: event_object_def r(2))
  with decode_engagement [OF calculation] have "np_engagement_id p = 9" by simp
  ultimately show ?thesis by (simp add: published_def)
qed

text \<open>C39. What is committed while no session is up is not delivered, whatever happens later: after a
  transaction that commits while the session is down (before the first connect, between two connects, or
  while the manager still takes a lost session for a healthy one), along every continuation, reconnects
  included, a subscriber that is registered all the time is sent only what was already on the connection
  and what is committed afterwards, and nothing of that transaction; with nothing on the connection and no
  later commit for its engagement it is sent nothing at all. Reconnecting replays nothing from the database.\<close>

theorem commit_while_down_lost:
  assumes "broadcast_laws ops sent live known" "reachable_db field (store s0)" "attached live e tx (mgr s0)" "\<not> up s0"
    and "sys_step field render ops parse s0 (Commit now ss) ns s1"
    and "sys_run field render ops parse s1 as pub s" "rendered render parse pub"
  shows "\<exists>l. sent tx (channels (mgr s)) = sent tx (channels (mgr s0)) @ l \<and>
      subseq (l @ in_flight parse e s) (in_flight parse e s0 @ published e pub) \<and>
      (in_flight parse e s0 = [] \<and> published e pub = [] \<longrightarrow> l = [])"
proof -
  have s1: "mgr s1 = mgr s0" "in_flight parse e s1 = in_flight parse e s0" "db_wf (store s1)"
    using assms(4,5) transaction_wf [OF reachable_wf [OF assms(2)], of field now ss]
    by (auto elim!: sys_stepE simp: in_flight_def)
  then obtain l where "sent tx (channels (mgr s)) = sent tx (channels (mgr s0)) @ l"
    "subseq (l @ in_flight parse e s) (in_flight parse e s0 @ published e pub)"
    using sys_run_stream [OF assms(1,6) _ _ assms(7), of e tx] assms(3) by auto
  then show ?thesis by (intro exI [of _ l]) (auto dest: list_emb_Nil2)
qed

text \<open>The event of \<open>sys1\<close> was committed for a registered subscriber before the manager connected; it
  then connects and listens, and nothing comes.\<close>

theorem commit_while_down_lost_witness:
  "published 9 [event_obj] \<noteq> [] \<and> attached (\<lambda>t w. alive w t) 9 0 (mgr sys0) \<and>
   (\<exists>s l. sys_run no_field one_text log_channels one_parse sys1 [Manager Connect_Ok] [] s \<and>
     run_phase (mgr s) = Listening \<and> up s \<and>
     accepted (channels (mgr s)) 0 = accepted (channels (mgr sys0)) 0 @ l \<and> l = [] \<and> in_flight one_parse 9 s = [])"
proof -
  let ?s = "sys1\<lparr>up := True, wire := [], mgr := enter_listening (mgr sys1)\<rparr>"
  have commit: "sys_step no_field one_text log_channels one_parse sys0 (Commit 6 [event_stmt]) [event_obj] sys1"
    using sys_step.commit [of no_field 6 "[event_stmt]" sys0 "fst seeded_event" "[event_obj]" one_text log_channels one_parse]
    by (simp add: sys0_def sys1_def event_commits)
  have "sys_step no_field one_text log_channels one_parse sys1 (Manager Connect_Ok) [] ?s"
    by (rule connected [OF top_connected]) (simp add: sys1_def sys0_def filled9_phase)
  from sys_run.step [OF sys_run.start this]
  have run: "sys_run no_field one_text log_channels one_parse sys1 [Manager Connect_Ok] [] ?s" by simp
  have at: "attached (\<lambda>t w. alive w t) 9 0 (mgr sys0)"
    by (simp add: sys0_def attached_def filled9_def sub9_def manager_gap_fill_def manager_subscribe_engagement_def
        manager_new_def subscribe_engagement_def gap_fill_engagement_def gap_select_def gap_join_def seeded_eq
        log_channels_def no_channels_def registry_default_def entry_push_def registry_wf_def entries_wf_def lookup_def
        members_def)
  have "reachable_db no_field (store sys0)" "\<not> up sys0" "in_flight one_parse 9 sys0 = []" "published 9 [] = []"
    by (simp_all add: sys0_def seeded_reachable in_flight_def published_def payloads_def List.map_filter_def)
  moreover have "rendered one_text one_parse []" by (simp add: rendered_def)
  ultimately obtain l where "accepted (channels (mgr ?s)) 0 = accepted (channels (mgr sys0)) 0 @ l" "l = []"
    using commit_while_down_lost [OF log_channels_laws _ at _ commit run] by blast
  moreover have "run_phase (mgr ?s) = Listening" "in_flight one_parse 9 ?s = []"
    by (simp_all add: enter_listening_def in_flight_def payloads_def List.map_filter_def)
  ultimately show ?thesis using run at event_obj_published by (intro conjI exI [of _ ?s] exI [of _ l]) simp_all
qed

end
