(* ===== verification/Hub_Metrics.thy ===== *)
theory Hub_Metrics
  imports Adapter_Metrics Config
begin

text \<open>
  The hub's metric set (\<^verbatim>\<open>engagement-hub/src/metrics.rs\<close>): the thirty metrics
  \<^verbatim>\<open>Metrics::new\<close> creates and registers, in the order of the code, with the series it seeds.
  The Prometheus client is a parameter: \<open>create\<close> checks a description and \<open>register\<close> adds
  it to a registry, and both can fail, which ends the constructor. Bucket bounds are in milliseconds.
\<close>

section \<open>The metrics\<close>

datatype metric_kind = IntCounter | IntCounterVec | IntGauge | IntGaugeVec | Histogram | HistogramVec

record metric_desc =
  md_kind :: metric_kind
  md_name :: string
  md_help :: string
  md_labels :: "string list"
  md_buckets :: "nat list"

definition registry_adapter_kind_desc :: metric_desc where
  "registry_adapter_kind_desc =
     \<lparr>md_kind = IntGaugeVec,
      md_name = ''engagementhub_registry_adapter_kind'',
      md_help = ''Active Registry adapter implementation (1 for the active kind, 0 for others)'',
      md_labels = [''kind'', ''env'', ''idle_mode''],
      md_buckets = []\<rparr>"

definition otel_exporter_dropped_spans_desc :: metric_desc where
  "otel_exporter_dropped_spans_desc =
     \<lparr>md_kind = IntCounterVec,
      md_name = ''engagementhub_otel_exporter_dropped_spans_total'',
      md_help = ''Spans dropped by each OTEL exporter due to queue-full or export error'',
      md_labels = [''exporter''],
      md_buckets = []\<rparr>"

subsection \<open>Counters\<close>

definition rpc_total_desc :: metric_desc where
  "rpc_total_desc =
     \<lparr>md_kind = IntCounterVec,
      md_name = ''engagementhub_rpc_total'',
      md_help = ''Total RPC calls by method, status code, and caller'',
      md_labels = [''rpc'', ''code'', ''caller_service''],
      md_buckets = []\<rparr>"

definition engagements_started_total_desc :: metric_desc where
  "engagements_started_total_desc =
     \<lparr>md_kind = IntCounterVec,
      md_name = ''engagementhub_engagements_started_total'',
      md_help = ''Total engagements started by channel and mode'',
      md_labels = [''channel'', ''mode''],
      md_buckets = []\<rparr>"

definition engagements_terminal_total_desc :: metric_desc where
  "engagements_terminal_total_desc =
     \<lparr>md_kind = IntCounterVec,
      md_name = ''engagementhub_engagements_terminal_total'',
      md_help = ''Total engagements reaching a terminal status'',
      md_labels = [''terminal_status''],
      md_buckets = []\<rparr>"

definition engagement_errors_total_desc :: metric_desc where
  "engagement_errors_total_desc =
     \<lparr>md_kind = IntCounterVec,
      md_name = ''engagementhub_engagement_errors_total'',
      md_help = ''Total engagement errors by error code'',
      md_labels = [''error_code''],
      md_buckets = []\<rparr>"

definition watch_streams_opened_total_desc :: metric_desc where
  "watch_streams_opened_total_desc =
     \<lparr>md_kind = IntCounter,
      md_name = ''engagementhub_watch_streams_opened_total'',
      md_help = ''Total watch streams opened'',
      md_labels = [],
      md_buckets = []\<rparr>"

definition watch_stream_reconnects_total_desc :: metric_desc where
  "watch_stream_reconnects_total_desc =
     \<lparr>md_kind = IntCounter,
      md_name = ''engagementhub_watch_stream_reconnects_total'',
      md_help = ''Total watch stream reconnection attempts'',
      md_labels = [],
      md_buckets = []\<rparr>"

definition reconciler_swept_total_desc :: metric_desc where
  "reconciler_swept_total_desc =
     \<lparr>md_kind = IntCounterVec,
      md_name = ''engagementhub_reconciler_swept_total'',
      md_help = ''Total engagements swept by the reconciler, by source status and action taken'',
      md_labels = [''from_status'', ''action''],
      md_buckets = []\<rparr>"

definition adapter_retries_total_desc :: metric_desc where
  "adapter_retries_total_desc =
     \<lparr>md_kind = IntCounterVec,
      md_name = ''engagementhub_adapter_retries_total'',
      md_help = ''Total adapter call retries by target, method, and attempt number'',
      md_labels = [''target'', ''method'', ''attempt_number''],
      md_buckets = []\<rparr>"

definition saga_compensation_outcome_total_desc :: metric_desc where
  "saga_compensation_outcome_total_desc =
     \<lparr>md_kind = IntCounterVec,
      md_name = ''engagementhub_saga_compensation_outcome_total'',
      md_help = ''Saga compensation outcomes by stage and result'',
      md_labels = [''stage'', ''result''],
      md_buckets = []\<rparr>"

definition audit_insert_failures_total_desc :: metric_desc where
  "audit_insert_failures_total_desc =
     \<lparr>md_kind = IntCounter,
      md_name = ''engagementhub_audit_insert_failures_total'',
      md_help = ''Total audit insert failures '' @ [CHR 0xE2, CHR 0x80, CHR 0x94] @
        '' any non-zero rate is a compliance breach'',
      md_labels = [],
      md_buckets = []\<rparr>"

definition listen_notify_reconnects_total_desc :: metric_desc where
  "listen_notify_reconnects_total_desc =
     \<lparr>md_kind = IntCounter,
      md_name = ''engagementhub_listen_notify_reconnects_total'',
      md_help = ''Total LISTEN/NOTIFY connection reconnections'',
      md_labels = [],
      md_buckets = []\<rparr>"

definition db_failover_detected_total_desc :: metric_desc where
  "db_failover_detected_total_desc =
     \<lparr>md_kind = IntCounter,
      md_name = ''engagementhub_db_failover_detected_total'',
      md_help = ''Total detected database failover events'',
      md_labels = [],
      md_buckets = []\<rparr>"

subsection \<open>Histograms\<close>

definition rpc_duration_seconds_desc :: metric_desc where
  "rpc_duration_seconds_desc =
     \<lparr>md_kind = HistogramVec,
      md_name = ''engagementhub_rpc_duration_seconds'',
      md_help = ''RPC handler duration in seconds'',
      md_labels = [''rpc'', ''code''],
      md_buckets = [5, 10, 25, 50, 100, 250, 500, 1000, 2500, 5000]\<rparr>"

definition adapter_duration_seconds_desc :: metric_desc where
  "adapter_duration_seconds_desc =
     \<lparr>md_kind = HistogramVec,
      md_name = ''engagementhub_adapter_duration_seconds'',
      md_help = ''Adapter call duration in seconds'',
      md_labels = [''target'', ''method'', ''code''],
      md_buckets = [1, 5, 10, 25, 50, 100, 250, 500, 1000, 2500]\<rparr>"

definition orchestration_duration_seconds_desc :: metric_desc where
  "orchestration_duration_seconds_desc =
     \<lparr>md_kind = HistogramVec,
      md_name = ''engagementhub_orchestration_duration_seconds'',
      md_help = ''Top-level orchestration operation duration in seconds'',
      md_labels = [''stage''],
      md_buckets = [5, 10, 25, 50, 100, 250, 500, 1000, 2500, 5000]\<rparr>"

definition startup_duration_seconds_desc :: metric_desc where
  "startup_duration_seconds_desc =
     \<lparr>md_kind = HistogramVec,
      md_name = ''engagementhub_startup_duration_seconds'',
      md_help = ''StartEngagement per-stage duration in seconds'',
      md_labels = [''stage''],
      md_buckets = [1, 10, 25, 50, 100, 250, 500, 1000, 5000]\<rparr>"

definition call_duration_seconds_desc :: metric_desc where
  "call_duration_seconds_desc =
     \<lparr>md_kind = HistogramVec,
      md_name = ''engagementhub_call_duration_seconds'',
      md_help = ''Total call duration in seconds by outcome'',
      md_labels = [''outcome''],
      md_buckets = [5000, 15000, 30000, 60000, 120000, 300000, 600000, 1800000, 3600000]\<rparr>"

definition time_to_first_response_seconds_desc :: metric_desc where
  "time_to_first_response_seconds_desc =
     \<lparr>md_kind = Histogram,
      md_name = ''engagementhub_time_to_first_response_seconds'',
      md_help = ''Time from engagement start to first AI response in seconds'',
      md_labels = [],
      md_buckets = [25, 50, 100, 250, 500, 1000, 2000, 5000, 10000, 30000]\<rparr>"

definition watch_stream_duration_seconds_desc :: metric_desc where
  "watch_stream_duration_seconds_desc =
     \<lparr>md_kind = Histogram,
      md_name = ''engagementhub_watch_stream_duration_seconds'',
      md_help = ''Watch stream session duration in seconds'',
      md_labels = [],
      md_buckets = [10000, 60000, 300000, 1800000, 3600000, 14400000, 86400000]\<rparr>"

definition listen_notify_fanout_latency_seconds_desc :: metric_desc where
  "listen_notify_fanout_latency_seconds_desc =
     \<lparr>md_kind = Histogram,
      md_name = ''engagementhub_listen_notify_fanout_latency_seconds'',
      md_help = ''LISTEN/NOTIFY fanout latency in seconds'',
      md_labels = [],
      md_buckets = [1, 5, 10, 25, 50, 100, 250, 500, 1000, 2500]\<rparr>"

definition audit_insert_duration_seconds_desc :: metric_desc where
  "audit_insert_duration_seconds_desc =
     \<lparr>md_kind = Histogram,
      md_name = ''engagementhub_audit_insert_duration_seconds'',
      md_help = ''Audit row insert duration in seconds'',
      md_labels = [],
      md_buckets = [1, 2, 5, 10, 25, 50, 100, 250, 500]\<rparr>"

subsection \<open>Gauges\<close>

definition active_engagements_desc :: metric_desc where
  "active_engagements_desc =
     \<lparr>md_kind = IntGaugeVec,
      md_name = ''engagementhub_active_engagements'',
      md_help = ''Current number of active engagements by status'',
      md_labels = [''status''],
      md_buckets = []\<rparr>"

definition active_watches_desc :: metric_desc where
  "active_watches_desc =
     \<lparr>md_kind = IntGaugeVec,
      md_name = ''engagementhub_active_watches'',
      md_help = ''Current number of active watch streams by filter type'',
      md_labels = [''filter_type''],
      md_buckets = []\<rparr>"

definition in_flight_invocations_desc :: metric_desc where
  "in_flight_invocations_desc =
     \<lparr>md_kind = IntGauge,
      md_name = ''engagementhub_in_flight_invocations'',
      md_help = ''Current number of in-flight adapter invocations'',
      md_labels = [],
      md_buckets = []\<rparr>"

definition db_pool_in_use_desc :: metric_desc where
  "db_pool_in_use_desc =
     \<lparr>md_kind = IntGauge,
      md_name = ''engagementhub_db_pool_in_use'',
      md_help = ''Current number of database pool connections in use'',
      md_labels = [],
      md_buckets = []\<rparr>"

definition db_pool_idle_desc :: metric_desc where
  "db_pool_idle_desc =
     \<lparr>md_kind = IntGauge,
      md_name = ''engagementhub_db_pool_idle'',
      md_help = ''Current number of idle database pool connections'',
      md_labels = [],
      md_buckets = []\<rparr>"

definition reconciler_backlog_desc :: metric_desc where
  "reconciler_backlog_desc =
     \<lparr>md_kind = IntGaugeVec,
      md_name = ''engagementhub_reconciler_backlog'',
      md_help = ''Current reconciler backlog depth by engagement class'',
      md_labels = [''class''],
      md_buckets = []\<rparr>"

definition consumer_lag_events_desc :: metric_desc where
  "consumer_lag_events_desc =
     \<lparr>md_kind = IntGauge,
      md_name = ''engagementhub_consumer_lag_events'',
      md_help = ''Estimated number of events received by LISTEN/NOTIFY but not yet delivered to subscribers'',
      md_labels = [],
      md_buckets = []\<rparr>"

section \<open>The constructor\<close>

text \<open>\<open>Register\<close>: create and register a metric; \<open>Seed\<close>: ask for the series of the given
  label values, which creates it, with the value it then has. The client panics when the number of label
  values is not that of the label names.\<close>

datatype setup_step = Register metric_desc | Seed metric_desc "string list" int

definition Metrics_setup :: "RegistryAdapter \<Rightarrow> Env \<Rightarrow> bool \<Rightarrow> setup_step list" where
  "Metrics_setup active e idle_mode =
     map Register [registry_adapter_kind_desc] @
     [Seed registry_adapter_kind_desc
        [adapter_as_metric_label active, env_as_metric_label e, if idle_mode then ''true'' else ''false''] 1] @
     map Register [otel_exporter_dropped_spans_desc] @
     map (\<lambda>l. Seed otel_exporter_dropped_spans_desc [l] 0)
        [''grafana'', ''langfuse'', ''local''] @
     map Register [rpc_total_desc, engagements_started_total_desc, engagements_terminal_total_desc,
        engagement_errors_total_desc, watch_streams_opened_total_desc,
        watch_stream_reconnects_total_desc, reconciler_swept_total_desc, adapter_retries_total_desc,
        saga_compensation_outcome_total_desc, audit_insert_failures_total_desc,
        listen_notify_reconnects_total_desc, db_failover_detected_total_desc, rpc_duration_seconds_desc,
        adapter_duration_seconds_desc, orchestration_duration_seconds_desc] @
     map (\<lambda>l. Seed orchestration_duration_seconds_desc [l] 0)
        [''start_engagement'', ''stop_engagement'', ''cancel_engagement'', ''saga_compensation''] @
     map Register [startup_duration_seconds_desc] @
     map (\<lambda>l. Seed startup_duration_seconds_desc [l] 0)
        [''validate_and_commit'', ''registry_resolve'', ''route_resolved_commit'', ''parallel_bind'',
         ''invocation_requested_commit'', ''audit''] @
     map Register [call_duration_seconds_desc, time_to_first_response_seconds_desc,
        watch_stream_duration_seconds_desc, listen_notify_fanout_latency_seconds_desc,
        audit_insert_duration_seconds_desc, active_engagements_desc, active_watches_desc,
        in_flight_invocations_desc, db_pool_in_use_desc, db_pool_idle_desc, reconciler_backlog_desc] @
     map (\<lambda>l. Seed reconciler_backlog_desc [l] 0)
        [''pending_engagement'', ''orphan_compensation'', ''pending_audit'', ''overrun_live''] @
     map Register [consumer_lag_events_desc]"

type_synonym series = "string \<times> string list \<times> int"

fun run_setup ::
  "(metric_desc \<Rightarrow> ('e, unit) result) \<Rightarrow> (metric_desc \<Rightarrow> 'r \<Rightarrow> 'r \<times> ('e, unit) result) \<Rightarrow> setup_step list \<Rightarrow> 'r \<Rightarrow>
     'r \<times> series list \<times> ('e, unit) result exec" where
  "run_setup create register [] r = (r, [], Ret (Inr ()))"
| "run_setup create register (Register d # steps) r =
     (case create d of
        Inl e \<Rightarrow> (r, [], Ret (Inl e))
      | Inr _ \<Rightarrow>
          (case register d r of
             (r', Inl e) \<Rightarrow> (r', [], Ret (Inl e))
           | (r', Inr _) \<Rightarrow> run_setup create register steps r'))"
| "run_setup create register (Seed d ls v # steps) r =
     (if length ls \<noteq> length (md_labels d) then (r, [], Unwind)
      else let (r', ss, x) = run_setup create register steps r in (r', (md_name d, ls, v) # ss, x))"

definition Metrics_new ::
  "(metric_desc \<Rightarrow> ('e, unit) result) \<Rightarrow> (metric_desc \<Rightarrow> 'r \<Rightarrow> 'r \<times> ('e, unit) result) \<Rightarrow> 'r \<Rightarrow>
     RegistryAdapter \<Rightarrow> Env \<Rightarrow> bool \<Rightarrow> 'r \<times> series list \<times> ('e, unit) result exec" where
  "Metrics_new create register registry active e idle_mode =
     run_setup create register (Metrics_setup active e idle_mode) registry"

text \<open>The fields of \<^verbatim>\<open>Metrics\<close> beside the registry, in their order.\<close>

definition Metrics_fields :: "metric_desc list" where
  "Metrics_fields =
     [registry_adapter_kind_desc, otel_exporter_dropped_spans_desc, rpc_total_desc,
      engagements_started_total_desc, engagements_terminal_total_desc, engagement_errors_total_desc,
      watch_streams_opened_total_desc, watch_stream_reconnects_total_desc, reconciler_swept_total_desc,
      adapter_retries_total_desc, saga_compensation_outcome_total_desc, audit_insert_failures_total_desc,
      listen_notify_reconnects_total_desc, db_failover_detected_total_desc, rpc_duration_seconds_desc,
      adapter_duration_seconds_desc, orchestration_duration_seconds_desc, startup_duration_seconds_desc,
      call_duration_seconds_desc, time_to_first_response_seconds_desc, watch_stream_duration_seconds_desc,
      listen_notify_fanout_latency_seconds_desc, audit_insert_duration_seconds_desc, active_engagements_desc,
      active_watches_desc, in_flight_invocations_desc, db_pool_in_use_desc,
      db_pool_idle_desc, reconciler_backlog_desc, consumer_lag_events_desc]"

text \<open>\<^verbatim>\<open>gather_text\<close>: the encoder and the UTF-8 check of its output may fail.\<close>

definition gather_text :: "('r \<Rightarrow> ('e, 'b) result) \<Rightarrow> ('b \<Rightarrow> ('e, string) result) \<Rightarrow> 'r \<Rightarrow> ('e, string) result" where
  "gather_text encode from_utf8 registry = and_then (encode registry) from_utf8"

lemmas metric_desc_defs =
  registry_adapter_kind_desc_def otel_exporter_dropped_spans_desc_def rpc_total_desc_def
  engagements_started_total_desc_def engagements_terminal_total_desc_def engagement_errors_total_desc_def
  watch_streams_opened_total_desc_def watch_stream_reconnects_total_desc_def reconciler_swept_total_desc_def
  adapter_retries_total_desc_def saga_compensation_outcome_total_desc_def audit_insert_failures_total_desc_def
  listen_notify_reconnects_total_desc_def db_failover_detected_total_desc_def rpc_duration_seconds_desc_def
  adapter_duration_seconds_desc_def orchestration_duration_seconds_desc_def startup_duration_seconds_desc_def
  call_duration_seconds_desc_def time_to_first_response_seconds_desc_def watch_stream_duration_seconds_desc_def
  listen_notify_fanout_latency_seconds_desc_def audit_insert_duration_seconds_desc_def active_engagements_desc_def
  active_watches_desc_def in_flight_invocations_desc_def db_pool_in_use_desc_def
  db_pool_idle_desc_def reconciler_backlog_desc_def consumer_lag_events_desc_def

section \<open>What the client accepts\<close>

text \<open>The documented rules of the client for a description: a name of letters, digits, underscores and
  colons that does not start with a digit; label names likewise, without colons, distinct, and present
  exactly on the vector kinds; ascending buckets, on histograms only.\<close>

definition ident_char :: "char \<Rightarrow> bool" where
  "ident_char c \<longleftrightarrow> c = CHR ''_'' \<or> (CHR ''a'' \<le> c \<and> c \<le> CHR ''z'') \<or> (CHR ''A'' \<le> c \<and> c \<le> CHR ''Z'')"

definition ident :: "string \<Rightarrow> bool" where
  "ident s \<longleftrightarrow> s \<noteq> [] \<and> ident_char (hd s) \<and>
     list_all (\<lambda>c. ident_char c \<or> (CHR ''0'' \<le> c \<and> c \<le> CHR ''9'')) s"

definition desc_ok :: "metric_desc \<Rightarrow> bool" where
  "desc_ok d \<longleftrightarrow> ident (md_name d) \<and> md_help d \<noteq> [] \<and> list_all ident (md_labels d) \<and> distinct (md_labels d) \<and>
     (md_labels d \<noteq> [] \<longleftrightarrow> md_kind d \<in> {IntCounterVec, IntGaugeVec, HistogramVec}) \<and>
     sorted_wrt (<) (md_buckets d) \<and> (md_buckets d \<noteq> [] \<longleftrightarrow> md_kind d \<in> {Histogram, HistogramVec})"

text \<open>A registry takes a new name and refuses one it has.\<close>

definition client_laws ::
  "(metric_desc \<Rightarrow> ('e, unit) result) \<Rightarrow> (metric_desc \<Rightarrow> 'r \<Rightarrow> 'r \<times> ('e, unit) result) \<Rightarrow> ('r \<Rightarrow> string set) \<Rightarrow> bool" where
  "client_laws create register names \<longleftrightarrow> (\<forall>d. desc_ok d \<longrightarrow> create d = Inr ()) \<and>
     (\<forall>d r. if md_name d \<in> names r then \<exists>r' e. register d r = (r', Inl e)
            else \<exists>r'. register d r = (r', Inr ()) \<and> names r' = insert (md_name d) (names r))"

fun descs_of :: "setup_step list \<Rightarrow> metric_desc list" where
  "descs_of [] = []"
| "descs_of (Register d # ss) = d # descs_of ss"
| "descs_of (Seed d ls v # ss) = descs_of ss"

fun series_of :: "setup_step list \<Rightarrow> series list" where
  "series_of [] = []"
| "series_of (Register d # ss) = series_of ss"
| "series_of (Seed d ls v # ss) = (md_name d, ls, v) # series_of ss"

fun seeds_fit :: "setup_step list \<Rightarrow> bool" where
  "seeds_fit [] = True"
| "seeds_fit (Register d # ss) = seeds_fit ss"
| "seeds_fit (Seed d ls v # ss) = (length ls = length (md_labels d) \<and> seeds_fit ss)"

lemma run_setup_ok:
  assumes "client_laws create register names" "list_all desc_ok (descs_of steps)"
    "distinct (map md_name (descs_of steps))" "md_name ` set (descs_of steps) \<inter> names r = {}" "seeds_fit steps"
  shows "\<exists>r'. run_setup create register steps r = (r', series_of steps, Ret (Inr ())) \<and>
     names r' = names r \<union> md_name ` set (descs_of steps)"
  using assms(2-5)
proof (induction steps arbitrary: r rule: descs_of.induct)
  case (2 d ss)
  from assms(1) have "create d = Inr ()" "\<exists>r'. register d r = (r', Inr ()) \<and> names r' = insert (md_name d) (names r)"
    using 2(2,4) unfolding client_laws_def by (auto split: if_splits)
  then obtain r' where r': "create d = Inr ()" "register d r = (r', Inr ())" "names r' = insert (md_name d) (names r)"
    by blast
  have "\<exists>r''. run_setup create register ss r' = (r'', series_of ss, Ret (Inr ())) \<and>
      names r'' = names r' \<union> md_name ` set (descs_of ss)"
    by (rule 2(1)) (use 2(2-5) r'(3) in auto)
  with r' show ?case by auto
next
  case (3 d ls v ss)
  from 3(2-5) have "\<exists>r'. run_setup create register ss r = (r', series_of ss, Ret (Inr ())) \<and>
      names r' = names r \<union> md_name ` set (descs_of ss)" by (intro 3(1)) simp_all
  then show ?case using 3(5) by auto
qed simp

lemma descs_of_append [simp]: "descs_of (xs @ ys) = descs_of xs @ descs_of ys"
  by (induction xs rule: descs_of.induct) simp_all

lemma setup_descs: "descs_of (Metrics_setup active e idle_mode) = Metrics_fields"
  by (simp add: Metrics_setup_def Metrics_fields_def)

lemma setup_seeds: "seeds_fit (Metrics_setup active e idle_mode)"
  by (simp add: Metrics_setup_def registry_adapter_kind_desc_def otel_exporter_dropped_spans_desc_def
      orchestration_duration_seconds_desc_def startup_duration_seconds_desc_def reconciler_backlog_desc_def)

lemma fields_labels:
  "list_all (\<lambda>d. (md_labels d \<noteq> [] \<longleftrightarrow> md_kind d \<in> {IntCounterVec, IntGaugeVec, HistogramVec}) \<and>
     sorted_wrt (<) (md_buckets d) \<and> (md_buckets d \<noteq> [] \<longleftrightarrow> md_kind d \<in> {Histogram, HistogramVec})) Metrics_fields"
  by (simp add: Metrics_fields_def metric_desc_defs)

lemma fields_distinct: "distinct (map md_name Metrics_fields)"
  by (simp add: Metrics_fields_def metric_desc_defs)

text \<open>Nine of the metrics are histograms.\<close>

lemma nine_histograms: "length (filter (\<lambda>d. md_kind d = Histogram \<or> md_kind d = HistogramVec) Metrics_fields) = 9"
  by (simp add: Metrics_fields_def metric_desc_defs)

text \<open>Names and labels are identifiers.\<close>

lemma fields_idents:
  "list_all (\<lambda>d. ident (md_name d) \<and> md_help d \<noteq> []) Metrics_fields"
  by (simp add: Metrics_fields_def metric_desc_defs ident_def ident_char_def less_eq_char_def)

lemma fields_label_idents:
  "list_all (\<lambda>d. list_all ident (md_labels d) \<and> distinct (md_labels d) \<and> ''organization_id'' \<notin> set (md_labels d)) Metrics_fields"
  by (simp add: Metrics_fields_def metric_desc_defs ident_def ident_char_def less_eq_char_def)

lemma fields_ok: "list_all desc_ok Metrics_fields"
  using fields_labels fields_idents fields_label_idents by (simp add: list_all_iff desc_ok_def)

section \<open>The registry after construction\<close>

text \<open>A counter vector of the adapters as a description.\<close>

definition vec_desc :: "counter_vec \<Rightarrow> metric_desc" where
  "vec_desc v = \<lparr>md_kind = IntCounterVec, md_name = vec_name v, md_help = vec_help v,
     md_labels = vec_labels v, md_buckets = []\<rparr>"

lemma adapter_metrics_clash:
  assumes "client_laws create register names" "md_name adapter_retries_total_desc \<in> names r"
  shows "\<exists>r' e. AdapterMetrics_new (\<lambda>v. register (vec_desc v)) r = (r', Inl e)"
proof -
  have "md_name (vec_desc retries_total) \<in> names r"
    using assms(2) by (simp add: vec_desc_def retries_total_def adapter_retries_total_desc_def)
  then obtain r' e where "register (vec_desc retries_total) r = (r', Inl e)"
    using assms(1) unfolding client_laws_def by meson
  then show ?thesis by (simp add: AdapterMetrics_new_def)
qed

lemma setup_series:
  "filter (\<lambda>(n, ls, v). v \<noteq> 0) (series_of (Metrics_setup active e idle_mode)) =
     [(md_name registry_adapter_kind_desc,
       [adapter_as_metric_label active, env_as_metric_label e, if idle_mode then ''true'' else ''false''], 1)] \<and>
   length (series_of (Metrics_setup active e idle_mode)) = 18"
  by (simp add: Metrics_setup_def)

text \<open>C36. Whatever the adapter, environment and mode, on a fresh registry of a client that accepts
  well-formed descriptions and new names the hub's constructor neither fails nor panics: all thirty
  metrics are registered under thirty different names, none of them with an organisation label; eighteen
  series exist from the start, all at zero but the one that names the active adapter, environment and
  mode. The adapters' own metrics cannot be added to that registry: two of their names are taken.\<close>

theorem hub_metrics_registered:
  assumes "client_laws create register names" "names registry = {}"
  shows "\<exists>r ss. Metrics_new create register registry active e idle_mode = (r, ss, Ret (Inr ())) \<and>
    names r = md_name ` set Metrics_fields \<and> card (names r) = 30 \<and>
    list_all (\<lambda>d. ''organization_id'' \<notin> set (md_labels d)) Metrics_fields \<and>
    filter (\<lambda>(n, ls, v). v \<noteq> 0) ss = [(md_name registry_adapter_kind_desc,
       [adapter_as_metric_label active, env_as_metric_label e, if idle_mode then ''true'' else ''false''], 1)] \<and>
    length ss = 18 \<and>
    (\<exists>r' err. AdapterMetrics_new (\<lambda>v. register (vec_desc v)) r = (r', Inl err))"
proof -
  let ?steps = "Metrics_setup active e idle_mode"
  obtain r where r: "run_setup create register ?steps registry = (r, series_of ?steps, Ret (Inr ()))"
    "names r = md_name ` set Metrics_fields"
    using run_setup_ok [OF assms(1), of ?steps registry] fields_ok fields_distinct setup_seeds assms(2)
    by (auto simp: setup_descs)
  have "adapter_retries_total_desc \<in> set Metrics_fields" by (simp add: Metrics_fields_def)
  then have clash: "\<exists>r' err. AdapterMetrics_new (\<lambda>v. register (vec_desc v)) r = (r', Inl err)"
    using adapter_metrics_clash [OF assms(1)] r(2) by blast
  have "card (set (map md_name Metrics_fields)) = length (map md_name Metrics_fields)"
    by (rule distinct_card [OF fields_distinct])
  then have "card (names r) = 30" using r(2) by (simp add: Metrics_fields_def)
  moreover have "list_all (\<lambda>d. ''organization_id'' \<notin> set (md_labels d)) Metrics_fields"
    using fields_label_idents by (simp add: list_all_iff)
  ultimately show ?thesis
    using r clash setup_series [of active e idle_mode] by (simp add: Metrics_new_def)
qed

definition list_register :: "metric_desc \<Rightarrow> string list \<Rightarrow> string list \<times> (unit, unit) result" where
  "list_register d r = (if md_name d \<in> set r then (r, Inl ()) else (md_name d # r, Inr ()))"

theorem hub_metrics_registered_witness:
  "\<exists>r ss. Metrics_new (\<lambda>_. Inr ()) list_register [] Stub Production True = (r, ss, Ret (Inr ())) \<and>
    set r = md_name ` set Metrics_fields \<and> card (set r) = 30 \<and>
    list_all (\<lambda>d. ''organization_id'' \<notin> set (md_labels d)) Metrics_fields \<and>
    filter (\<lambda>(n, ls, v). v \<noteq> 0) ss = [(md_name registry_adapter_kind_desc,
       [adapter_as_metric_label Stub, env_as_metric_label Production, if True then ''true'' else ''false''], 1)] \<and>
    length ss = 18 \<and>
    (\<exists>r' err. AdapterMetrics_new (\<lambda>v. list_register (vec_desc v)) r = (r', Inl err))"
  by (rule hub_metrics_registered) (simp_all add: client_laws_def list_register_def)

end
