(* ===== verification/Otlp_Json.thy ===== *)
theory Otlp_Json
  imports Prelude
begin

text \<open>
  The conversion of finished spans into the OTLP/JSON envelope
  (\<^verbatim>\<open>engagement-hub/src/telemetry/otlp_json.rs\<close>).

  \<^verbatim>\<open>SpanData\<close>, its identifiers and \<^verbatim>\<open>opentelemetry::Value\<close> belong to the
  OpenTelemetry SDK: the model keeps the parts the conversion reads. Identifiers are their big-endian
  bytes, a system time is the signed distance to the Unix epoch in nanoseconds, a double is its bit
  pattern, and the \<^verbatim>\<open>Debug\<close> text of an array (or of a value kind added later) is a parameter.
\<close>

section \<open>The SDK's spans\<close>

datatype SpanKind = Internal | Server | Client | Producer | Consumer

datatype SpanStatus = Status_Unset | Status_Ok | Status_Error string

type_synonym f64 = "64 word"

datatype 'a OtelValue =
    OBool bool
  | OI64 "64 word"
  | OF64 f64
  | OString string
  | OArray 'a
  | OOther 'a

record 'a SpanData =
  sd_trace_id :: "8 word list"
  sd_span_id :: "8 word list"
  sd_parent_span_id :: "8 word list"
  sd_span_kind :: SpanKind
  sd_name :: string
  sd_start_time :: int
  sd_end_time :: int
  sd_attributes :: "(string \<times> 'a OtelValue) list"
  sd_status :: SpanStatus

definition INVALID_SPAN :: "8 word list" where
  "INVALID_SPAN = replicate 8 0"

section \<open>The envelope\<close>

datatype KvValue = StringValue string | BoolValue bool | IntValue string | DoubleValue f64

record KvAttribute =
  kv_key :: string
  kv_value :: KvValue

record OtlpStatus =
  status_code :: string

record OtlpSpan =
  trace_id :: string
  span_id :: string
  parent_span_id :: string
  otlp_name :: string
  kind :: int
  start_time_unix_nano :: string
  end_time_unix_nano :: string
  attributes :: "KvAttribute list"
  otlp_status :: OtlpStatus

record OtlpResource =
  resource_attributes :: "KvAttribute list"

record OtlpScope =
  scope_name :: string

record ScopeSpans =
  scope :: OtlpScope
  spans :: "OtlpSpan list"

record ResourceSpans =
  resource :: OtlpResource
  scope_spans :: "ScopeSpans list"

record TracesData =
  resource_spans :: "ResourceSpans list"

definition STATUS_UNSET :: string where "STATUS_UNSET = ''STATUS_CODE_UNSET''"
definition STATUS_OK :: string where "STATUS_OK = ''STATUS_CODE_OK''"
definition STATUS_ERROR :: string where "STATUS_ERROR = ''STATUS_CODE_ERROR''"

section \<open>The conversion\<close>

definition bytes_to_hex :: "8 word list \<Rightarrow> string" where
  "bytes_to_hex bytes = concat (map (\<lambda>b. hex02 (unat b)) bytes)"

text \<open>A time before the epoch becomes zero.\<close>

definition system_time_to_nano_str :: "int \<Rightarrow> string" where
  "system_time_to_nano_str t = show_nat (if 0 \<le> t then nat t else 0)"

fun span_kind_to_int :: "SpanKind \<Rightarrow> int" where
  "span_kind_to_int Internal = 1"
| "span_kind_to_int Server = 2"
| "span_kind_to_int Client = 3"
| "span_kind_to_int Producer = 4"
| "span_kind_to_int Consumer = 5"

definition show_i64 :: "64 word \<Rightarrow> string" where
  "show_i64 w = (if sint w < 0 then CHR ''-'' # show_nat (nat (- sint w)) else show_nat (nat (sint w)))"

fun otel_value_to_kv :: "('a \<Rightarrow> string) \<Rightarrow> 'a OtelValue \<Rightarrow> KvValue" where
  "otel_value_to_kv fmt_debug (OBool b) = BoolValue b"
| "otel_value_to_kv fmt_debug (OI64 i) = IntValue (show_i64 i)"
| "otel_value_to_kv fmt_debug (OF64 f) = DoubleValue f"
| "otel_value_to_kv fmt_debug (OString s) = StringValue s"
| "otel_value_to_kv fmt_debug (OArray a) = StringValue (fmt_debug a)"
| "otel_value_to_kv fmt_debug (OOther a) = StringValue (fmt_debug a)"

fun status_to_otlp :: "SpanStatus \<Rightarrow> OtlpStatus" where
  "status_to_otlp Status_Unset = \<lparr>status_code = STATUS_UNSET\<rparr>"
| "status_to_otlp Status_Ok = \<lparr>status_code = STATUS_OK\<rparr>"
| "status_to_otlp (Status_Error d) = \<lparr>status_code = STATUS_ERROR\<rparr>"

definition span_to_otlp :: "('a \<Rightarrow> string) \<Rightarrow> 'a SpanData \<Rightarrow> OtlpSpan" where
  "span_to_otlp fmt_debug span =
     \<lparr>trace_id = bytes_to_hex (sd_trace_id span),
      span_id = bytes_to_hex (sd_span_id span),
      parent_span_id =
        (if sd_parent_span_id span = INVALID_SPAN then [] else bytes_to_hex (sd_parent_span_id span)),
      otlp_name = sd_name span,
      kind = span_kind_to_int (sd_span_kind span),
      start_time_unix_nano = system_time_to_nano_str (sd_start_time span),
      end_time_unix_nano = system_time_to_nano_str (sd_end_time span),
      attributes = map (\<lambda>(k, v). \<lparr>kv_key = k, kv_value = otel_value_to_kv fmt_debug v\<rparr>) (sd_attributes span),
      otlp_status = status_to_otlp (sd_status span)\<rparr>"

fun clone_kv_value :: "KvValue \<Rightarrow> KvValue" where
  "clone_kv_value (StringValue s) = StringValue s"
| "clone_kv_value (BoolValue b) = BoolValue b"
| "clone_kv_value (IntValue i) = IntValue i"
| "clone_kv_value (DoubleValue f) = DoubleValue f"

definition spans_to_traces_data ::
  "('a \<Rightarrow> string) \<Rightarrow> 'a SpanData list \<Rightarrow> KvAttribute list \<Rightarrow> string \<Rightarrow> TracesData" where
  "spans_to_traces_data fmt_debug batch resource_attrs name =
     \<lparr>resource_spans =
        [\<lparr>resource = \<lparr>resource_attributes =
              map (\<lambda>kv. \<lparr>kv_key = kv_key kv, kv_value = clone_kv_value (kv_value kv)\<rparr>) resource_attrs\<rparr>,
          scope_spans =
            [\<lparr>scope = \<lparr>scope_name = name\<rparr>, spans = map (span_to_otlp fmt_debug) batch\<rparr>]\<rparr>]\<rparr>"

section \<open>Reading the envelope back\<close>

definition digit_value :: "char \<Rightarrow> nat" where
  "digit_value c = (if of_char c < (58 :: nat) then of_char c - 48 else of_char c - 87)"

fun hex_to_bytes :: "string \<Rightarrow> 8 word list" where
  "hex_to_bytes (c # d # cs) = of_nat (16 * digit_value c + digit_value d) # hex_to_bytes cs"
| "hex_to_bytes _ = []"

definition parse_nat :: "string \<Rightarrow> nat" where
  "parse_nat s = foldl (\<lambda>n c. 10 * n + digit_value c) 0 s"

definition parse_i64 :: "string \<Rightarrow> 64 word" where
  "parse_i64 s = (if s \<noteq> [] \<and> hd s = CHR ''-'' then - of_nat (parse_nat (tl s)) else of_nat (parse_nat s))"

text \<open>What a reader of the trace file recovers of a span: identifiers, the parent (none for a root),
  name, kind, times and attributes; of the status its code.\<close>

record span_view =
  v_trace :: "8 word list"
  v_span :: "8 word list"
  v_parent :: "8 word list option"
  v_name :: string
  v_kind :: SpanKind
  v_start :: nat
  v_end :: nat
  v_attributes :: "(string \<times> unit OtelValue) list"
  v_failed :: "bool option"

definition kind_of_int :: "int \<Rightarrow> SpanKind" where
  "kind_of_int n = (if n = 1 then Internal else if n = 2 then Server else if n = 3 then Client
     else if n = 4 then Producer else Consumer)"

fun value_of_kv :: "KvValue \<Rightarrow> unit OtelValue" where
  "value_of_kv (StringValue s) = OString s"
| "value_of_kv (BoolValue b) = OBool b"
| "value_of_kv (IntValue i) = OI64 (parse_i64 i)"
| "value_of_kv (DoubleValue f) = OF64 f"

definition read_span :: "OtlpSpan \<Rightarrow> span_view" where
  "read_span s =
     \<lparr>v_trace = hex_to_bytes (trace_id s), v_span = hex_to_bytes (span_id s),
      v_parent = (if parent_span_id s = [] then None else Some (hex_to_bytes (parent_span_id s))),
      v_name = otlp_name s, v_kind = kind_of_int (kind s),
      v_start = parse_nat (start_time_unix_nano s), v_end = parse_nat (end_time_unix_nano s),
      v_attributes = map (\<lambda>kv. (kv_key kv, value_of_kv (kv_value kv))) (attributes s),
      v_failed = (if status_code (otlp_status s) = STATUS_OK then Some False
        else if status_code (otlp_status s) = STATUS_ERROR then Some True else None)\<rparr>"

definition read_traces :: "TracesData \<Rightarrow> span_view list" where
  "read_traces t =
     concat (map (\<lambda>r. concat (map (\<lambda>s. map read_span (spans s)) (scope_spans r))) (resource_spans t))"

fun plain_value :: "('a \<Rightarrow> string) \<Rightarrow> 'a OtelValue \<Rightarrow> unit OtelValue" where
  "plain_value dbg (OBool b) = OBool b"
| "plain_value dbg (OI64 i) = OI64 i"
| "plain_value dbg (OF64 f) = OF64 f"
| "plain_value dbg (OString s) = OString s"
| "plain_value dbg (OArray a) = OString (dbg a)"
| "plain_value dbg (OOther a) = OString (dbg a)"

definition view_of :: "('a \<Rightarrow> string) \<Rightarrow> 'a SpanData \<Rightarrow> span_view" where
  "view_of dbg s =
     \<lparr>v_trace = sd_trace_id s, v_span = sd_span_id s,
      v_parent = (if sd_parent_span_id s = INVALID_SPAN then None else Some (sd_parent_span_id s)),
      v_name = sd_name s, v_kind = sd_span_kind s,
      v_start = nat (sd_start_time s), v_end = nat (sd_end_time s),
      v_attributes = map (\<lambda>(k, v). (k, plain_value dbg v)) (sd_attributes s),
      v_failed = (case sd_status s of Status_Unset \<Rightarrow> None | Status_Ok \<Rightarrow> Some False | Status_Error _ \<Rightarrow> Some True)\<rparr>"

section \<open>The round trip\<close>

lemma digit_value_char [simp]: "d < 16 \<Longrightarrow> digit_value (digit_char d) = d"
  by (auto simp: digit_value_def digit_char_def of_char_of)

lemma hex_to_bytes_append:
  "hex_to_bytes (hex02 (unat b) @ cs) = b # hex_to_bytes cs" for b :: "8 word"
proof -
  have "unat b < 256" using unsigned_less [of b] by simp
  then show ?thesis by (simp add: hex02_def div_less_iff_less_mult)
qed

lemma hex_round_trip: "hex_to_bytes (bytes_to_hex bs) = bs"
  by (induction bs) (simp_all add: bytes_to_hex_def hex_to_bytes_append)

lemma parse_nat_snoc: "parse_nat (s @ [c]) = 10 * parse_nat s + digit_value c"
  by (simp add: parse_nat_def)

lemma parse_show_nat [simp]: "parse_nat (show_nat n) = n"
proof (induction n rule: show_nat.induct)
  case (1 n)
  show ?case
  proof (cases "n < 10")
    case True
    then show ?thesis by (subst show_nat.simps) (simp add: parse_nat_def)
  next
    case False
    with 1 show ?thesis by (subst show_nat.simps) (simp add: parse_nat_snoc)
  qed
qed

lemma show_nat_digits: "c \<in> set (show_nat n) \<Longrightarrow> of_char c \<in> {48..57 :: nat}"
proof (induction n rule: show_nat.induct)
  case (1 n)
  have d: "of_char (digit_char (n mod 10)) \<in> {48..57 :: nat}"
    by (auto simp: digit_char_def of_char_of)
  have s: "show_nat n = (if n < 10 then [digit_char n] else show_nat (n div 10) @ [digit_char (n mod 10)])"
    by (subst show_nat.simps) simp
  show ?case
  proof (cases "n < 10")
    case True
    with 1(2) d s show ?thesis by simp
  next
    case False
    with 1(2) s have "c \<in> set (show_nat (n div 10)) \<or> c = digit_char (n mod 10)" by auto
    with 1(1) [OF False] d show ?thesis by blast
  qed
qed

lemma parse_show_i64 [simp]: "parse_i64 (show_i64 w) = w"
proof (cases "sint w < 0")
  case True
  then show ?thesis by (simp add: show_i64_def parse_i64_def)
next
  case False
  have "of_char (hd (show_nat (nat (sint w)))) \<in> {48..57 :: nat}"
    by (rule show_nat_digits [of _ "nat (sint w)"]) simp
  then have "hd (show_nat (nat (sint w))) \<noteq> CHR ''-''" by (intro notI) simp
  with False show ?thesis by (simp add: show_i64_def parse_i64_def)
qed

lemma bytes_to_hex_Nil_iff [simp]: "bytes_to_hex bs = [] \<longleftrightarrow> bs = []"
  by (cases bs) (simp_all add: bytes_to_hex_def hex02_def)

lemma kind_round_trip [simp]: "kind_of_int (span_kind_to_int k) = k"
  by (cases k) (simp_all add: kind_of_int_def)

lemma value_round_trip [simp]: "value_of_kv (otel_value_to_kv dbg v) = plain_value dbg v"
  by (cases v) simp_all

lemma time_round_trip [simp]: "parse_nat (system_time_to_nano_str t) = nat t"
  by (simp add: system_time_to_nano_str_def)

lemma read_span_to_otlp:
  assumes "sd_parent_span_id s \<noteq> []"
  shows "read_span (span_to_otlp dbg s) = view_of dbg s"
  using assms
  by (cases "sd_status s")
     (simp_all add: read_span_def span_to_otlp_def view_of_def hex_round_trip split_beta comp_def
       STATUS_UNSET_def STATUS_OK_def STATUS_ERROR_def)

text \<open>The trace file loses nothing a reader needs: from the envelope of a batch one reads back, for
  every span and in order, the identifiers, whether it is a root and its parent otherwise, name, kind,
  both times in nanoseconds (zero for a time before the epoch), every attribute with its type (64-bit
  integers exactly, arrays as their debug text) and the status code, whatever the resource attributes
  and the scope.\<close>

theorem otlp_round_trip:
  assumes "\<forall>s \<in> set batch. length (sd_parent_span_id s) = 8"
  shows "read_traces (spans_to_traces_data fmt_debug batch resource_attrs name) = map (view_of fmt_debug) batch"
proof -
  have "read_span (span_to_otlp fmt_debug s) = view_of fmt_debug s" if "s \<in> set batch" for s
    using assms that by (intro read_span_to_otlp) force
  then show ?thesis by (simp add: read_traces_def spans_to_traces_data_def)
qed

definition sample_span :: "unit SpanData" where
  "sample_span =
     \<lparr>sd_trace_id = replicate 16 1, sd_span_id = replicate 8 2, sd_parent_span_id = INVALID_SPAN,
      sd_span_kind = Internal, sd_name = ''op'', sd_start_time = 1000000000000000,
      sd_end_time = 1000000042000000, sd_attributes = [(''n'', OI64 (- 7)), (''ok'', OBool True)],
      sd_status = Status_Ok\<rparr>"

theorem otlp_round_trip_witness:
  "read_traces (spans_to_traces_data (\<lambda>_. []) [sample_span, sample_span\<lparr>sd_status := Status_Error ''e''\<rparr>] [] ''s'') =
     [view_of (\<lambda>_. []) sample_span, view_of (\<lambda>_. []) (sample_span\<lparr>sd_status := Status_Error ''e''\<rparr>)]"
  by (subst otlp_round_trip) (simp_all add: sample_span_def INVALID_SPAN_def)

end
