(* ===== verification/Span_Processor.thy ===== *)
theory Span_Processor
  imports Prelude "HOL-Library.Sublist"
begin

text \<open>
  The span processor of the hub's telemetry (\<^verbatim>\<open>engagement-hub/src/telemetry/processor.rs\<close>):
  a bounded channel between the threads that end spans and one background task that batches them,
  exports the batches and, on shutdown, drains what is left.

  Threads and the task interleave: the model is a step relation whose steps are the atomic actions of
  the code between two await points. The exporter is a parameter, a function of what the outside world
  does to the call, the batch and its own state; it answers with what it added itself to the drop counter it
  shares with the processor (\<^verbatim>\<open>IntCounter\<close> is a handle, and the local exporter holds one of the
  same series) and with one of the four ways the awaited
  \<^verbatim>\<open>timeout(EXPORT_TIMEOUT, exporter.export(..))\<close> can end. Spans are values of any type.
\<close>

section \<open>The processor\<close>

definition QUEUE_CAPACITY :: nat where "QUEUE_CAPACITY = 2048"
definition MAX_BATCH :: nat where "MAX_BATCH = 512"
definition EXPORT_TIMEOUT :: duration where "EXPORT_TIMEOUT = from_secs 5"
definition SHUTDOWN_TIMEOUT :: duration where "SHUTDOWN_TIMEOUT = from_secs 5"

datatype export_outcome = ExportOk | ExportErr | ExportElapsed | ExportPanic

type_synonym ('i, 's, 'x) span_exporter = "'i \<Rightarrow> 's list \<Rightarrow> 'x \<Rightarrow> 'x \<times> nat \<times> export_outcome"

text \<open>Where the task stands: at the \<^verbatim>\<open>select!\<close>, awaiting an export (and where it goes on
  from there), in the drain loop, returned, or unwound by a panic of the exporter.\<close>

datatype after_export = To_Select | To_Drain | To_Exit

datatype 's task = Selecting | Exporting "'s list" after_export | Draining | Returned | Unwound

text \<open>\<open>dropped\<close> is the value of the shared counter; \<open>released\<close> is set when the processor itself
  has been dropped, and with it both senders.\<close>

record ('s, 'x) processor =
  capacity :: nat
  channel :: "'s list"
  closed :: bool
  shutdown_tx :: bool
  shutdown_sent :: bool
  task_handle :: bool
  dropped :: "64 word"
  batch :: "'s list"
  task :: "'s task"
  exporter :: 'x
  exporter_shut :: bool
  released :: bool

text \<open>\<open>c\<close> is the value of the drop counter that is handed over. A channel with no slots panics on
  construction.\<close>

definition new_with_capacity :: "'x \<Rightarrow> 64 word \<Rightarrow> nat \<Rightarrow> ('s, 'x) processor exec" where
  "new_with_capacity x c n =
     (if n = 0 then Unwind
      else Ret \<lparr>capacity = n, channel = [], closed = False, shutdown_tx = True, shutdown_sent = False,
             task_handle = True, dropped = c, batch = [], task = Selecting, exporter = x,
             exporter_shut = False, released = False\<rparr>)"

definition new_processor :: "'x \<Rightarrow> 64 word \<Rightarrow> ('s, 'x) processor exec" where
  "new_processor x c = new_with_capacity x c QUEUE_CAPACITY"

text \<open>\<^verbatim>\<open>try_send\<close>: it fails on a full or closed channel. The flag says whether the span
  was taken.\<close>

definition try_send :: "'s \<Rightarrow> ('s, 'x) processor \<Rightarrow> ('s, 'x) processor \<times> bool" where
  "try_send s p =
     (if closed p \<or> capacity p \<le> length (channel p) then (p, False)
      else (p\<lparr>channel := channel p @ [s]\<rparr>, True))"

definition on_end :: "'s \<Rightarrow> ('s, 'x) processor \<Rightarrow> ('s, 'x) processor \<times> bool" where
  "on_end s p =
     (let (p', sent) = try_send s p
      in if sent then (p', True) else (p'\<lparr>dropped := dropped p' + 1\<rparr>, False))"

definition force_flush :: "('s, 'x) processor \<Rightarrow> ('s, 'x) processor" where
  "force_flush p = p"

text \<open>\<^verbatim>\<open>shutdown\<close> before it blocks: the first call takes the sender and fires it, and takes
  the handle it will wait on; later calls find both gone and return at once.\<close>

definition shutdown_begin :: "('s, 'x) processor \<Rightarrow> ('s, 'x) processor \<times> bool" where
  "shutdown_begin p =
     (p\<lparr>shutdown_tx := False, shutdown_sent := shutdown_sent p \<or> shutdown_tx p, task_handle := False\<rparr>,
      task_handle p)"

text \<open>The shutdown branch of the \<^verbatim>\<open>select!\<close> fires when the signal was sent and also when its
  sender was dropped with the processor.\<close>

definition signalled :: "('s, 'x) processor \<Rightarrow> bool" where
  "signalled p \<longleftrightarrow> shutdown_sent p \<or> released p"

section \<open>The background task\<close>

text \<open>\<^verbatim>\<open>std::mem::take(&mut batch)\<close> and the start of the export.\<close>

definition start_export :: "after_export \<Rightarrow> ('s, 'x) processor \<Rightarrow> ('s, 'x) processor" where
  "start_export nxt p = p\<lparr>batch := [], task := Exporting (batch p) nxt\<rparr>"

definition tick :: "('s, 'x) processor \<Rightarrow> ('s, 'x) processor" where
  "tick p = (if batch p = [] then p else start_export To_Select p)"

text \<open>One received span: pushed, and the batch sent on when it is full.\<close>

definition push_span :: "after_export \<Rightarrow> 's \<Rightarrow> 's list \<Rightarrow> ('s, 'x) processor \<Rightarrow> ('s, 'x) processor" where
  "push_span nxt s rest p =
     (let p' = p\<lparr>channel := rest, batch := batch p @ [s]\<rparr>
      in if MAX_BATCH \<le> length (batch p') then start_export nxt p' else p')"

definition shutdown_fires :: "('s, 'x) processor \<Rightarrow> ('s, 'x) processor" where
  "shutdown_fires p = p\<lparr>closed := True, task := Draining\<rparr>"

definition return_task :: "('s, 'x) processor \<Rightarrow> ('s, 'x) processor" where
  "return_task p = p\<lparr>exporter_shut := True, task := Returned\<rparr>"

text \<open>One turn of the drain loop; on an empty channel the final batch, or the end.\<close>

definition drain :: "('s, 'x) processor \<Rightarrow> ('s, 'x) processor" where
  "drain p =
     (case channel p of
        s # rest \<Rightarrow> push_span To_Drain s rest p
      | [] \<Rightarrow> if batch p = [] then return_task p else start_export To_Exit p)"

fun resume :: "after_export \<Rightarrow> ('s, 'x) processor \<Rightarrow> ('s, 'x) processor" where
  "resume To_Select p = p\<lparr>task := Selecting\<rparr>"
| "resume To_Drain p = p\<lparr>task := Draining\<rparr>"
| "resume To_Exit p = return_task p"

text \<open>The end of the awaited export. An error or the timeout counts the whole batch as dropped; a
  panic unwinds the task, which drops its batch and the receiver with what the channel holds.\<close>

definition export_ends ::
  "'x \<Rightarrow> nat \<Rightarrow> export_outcome \<Rightarrow> 's list \<Rightarrow> after_export \<Rightarrow> ('s, 'x) processor \<Rightarrow> ('s, 'x) processor" where
  "export_ends x' own r b nxt p =
     (let p = p\<lparr>exporter := x', dropped := dropped p + of_nat own\<rparr>
      in case r of
        ExportOk \<Rightarrow> resume nxt p
      | ExportPanic \<Rightarrow> p\<lparr>closed := True, channel := [], batch := [], task := Unwound\<rparr>
      | _ \<Rightarrow> resume nxt (p\<lparr>dropped := dropped p + of_nat (length b)\<rparr>))"

section \<open>Interleaved runs\<close>

datatype 's event =
    Span_Ended 's bool
  | Flush_Called
  | Shutdown_Called bool
  | Processor_Dropped
  | Ticked
  | Received 's
  | Shutdown_Seen
  | Drained
  | Export_Ended "'s list" nat export_outcome

inductive proc_step ::
  "('i, 's, 'x) span_exporter \<Rightarrow> ('s, 'x) processor \<Rightarrow> 's event \<Rightarrow> ('s, 'x) processor \<Rightarrow> bool"
  for export where
  span_ended: "\<not> released p \<Longrightarrow> on_end s p = (p', sent) \<Longrightarrow> proc_step export p (Span_Ended s sent) p'"
| flush_called: "\<not> released p \<Longrightarrow> proc_step export p Flush_Called (force_flush p)"
| shutdown_called: "\<not> released p \<Longrightarrow> shutdown_begin p = (p', waits) \<Longrightarrow>
    proc_step export p (Shutdown_Called waits) p'"
| processor_dropped: "\<not> released p \<Longrightarrow> proc_step export p Processor_Dropped (p\<lparr>released := True\<rparr>)"
| ticked: "task p = Selecting \<Longrightarrow> proc_step export p Ticked (tick p)"
| received: "task p = Selecting \<Longrightarrow> channel p = s # rest \<Longrightarrow>
    proc_step export p (Received s) (push_span To_Select s rest p)"
| shutdown_seen: "task p = Selecting \<Longrightarrow> signalled p \<Longrightarrow>
    proc_step export p Shutdown_Seen (shutdown_fires p)"
| drained: "task p = Draining \<Longrightarrow> proc_step export p Drained (drain p)"
| export_ended: "task p = Exporting b nxt \<Longrightarrow> export i b (exporter p) = (x', own, r) \<Longrightarrow>
    proc_step export p (Export_Ended b own r) (export_ends x' own r b nxt p)"

inductive proc_run ::
  "('i, 's, 'x) span_exporter \<Rightarrow> nat \<Rightarrow> 64 word \<Rightarrow> 'x \<Rightarrow> 's event list \<Rightarrow> ('s, 'x) processor \<Rightarrow> bool"
  for export n c x where
  start: "new_with_capacity x c n = Ret p \<Longrightarrow> proc_run export n c x [] p"
| step: "proc_run export n c x es p \<Longrightarrow> proc_step export p e p' \<Longrightarrow> proc_run export n c x (es @ [e]) p'"

text \<open>What a run did, read off its events.\<close>

fun ended_of :: "'s event \<Rightarrow> 's list" where
  "ended_of (Span_Ended s sent) = [s]"
| "ended_of _ = []"

fun rejected_of :: "'s event \<Rightarrow> 's list" where
  "rejected_of (Span_Ended s sent) = (if sent then [] else [s])"
| "rejected_of _ = []"

fun exported_of :: "'s event \<Rightarrow> 's list" where
  "exported_of (Export_Ended b own r) = b"
| "exported_of _ = []"

fun failed_of :: "'s event \<Rightarrow> 's list" where
  "failed_of (Export_Ended b own r) = (if r \<in> {ExportErr, ExportElapsed} then b else [])"
| "failed_of _ = []"

text \<open>What the exporter counted itself.\<close>

fun counted_of :: "'s event \<Rightarrow> nat list" where
  "counted_of (Export_Ended b own r) = [own]"
| "counted_of _ = []"

fun exports_of :: "'s event \<Rightarrow> ('s list \<times> export_outcome) list" where
  "exports_of (Export_Ended b own r) = [(b, r)]"
| "exports_of _ = []"

definition over :: "('s event \<Rightarrow> 'b list) \<Rightarrow> 's event list \<Rightarrow> 'b list" where
  "over f es = concat (map f es)"

text \<open>The spans the processor still holds, oldest first.\<close>

definition pending :: "('s, 'x) processor \<Rightarrow> 's list" where
  "pending p = (case task p of Exporting b _ \<Rightarrow> b | _ \<Rightarrow> []) @ batch p @ channel p"

section \<open>Every span is accounted for\<close>

lemma over_snoc [simp]: "over f (es @ [e]) = over f es @ f e" "over f [] = []"
  by (simp_all add: over_def)

lemma shuffles_single: "xs @ [a] \<in> shuffles xs [a]" "xs @ [a] \<in> shuffles [a] xs"
proof -
  show "xs @ [a] \<in> shuffles xs [a]" by (induction xs) (simp_all add: Cons_in_shuffles_iff)
  then show "xs @ [a] \<in> shuffles [a] xs" by (simp add: shuffles_commutes)
qed

lemma shuffles_snoc2: "xs \<in> shuffles ys zs \<Longrightarrow> xs @ [a] \<in> shuffles ys (zs @ [a])"
  by (induction ys zs arbitrary: xs rule: shuffles.induct)
     (auto simp: Cons_in_shuffles_iff shuffles_single)

lemma shuffles_snoc1: "xs \<in> shuffles ys zs \<Longrightarrow> xs @ [a] \<in> shuffles (ys @ [a]) zs"
  using shuffles_snoc2 [of xs zs ys a] by (simp add: shuffles_commutes)

lemma shuffles_subseq: "xs \<in> shuffles ys zs \<Longrightarrow> subseq zs xs"
  by (induction ys zs arbitrary: xs rule: shuffles.induct) (auto simp: Cons_in_shuffles_iff)

text \<open>What holds at each place the task can stand: the channel is open exactly while the task can still
  go back to the \<^verbatim>\<open>select!\<close>, nothing is buffered beside a batch that is being exported, and an
  exporter is shut down by the return only.\<close>

fun at_task :: "('s, 'x) processor \<Rightarrow> 's task \<Rightarrow> bool" where
  "at_task p Selecting = (\<not> closed p)"
| "at_task p (Exporting b nxt) =
     (b \<noteq> [] \<and> length b \<le> MAX_BATCH \<and> batch p = [] \<and> (closed p \<longleftrightarrow> nxt \<noteq> To_Select) \<and>
      (nxt = To_Exit \<longrightarrow> channel p = []) \<and> (nxt = To_Drain \<longrightarrow> length b = MAX_BATCH))"
| "at_task p Draining = closed p"
| "at_task p Returned = (closed p \<and> channel p = [] \<and> batch p = [])"
| "at_task p Unwound = (closed p \<and> channel p = [] \<and> batch p = [])"

definition proc_wf :: "nat \<Rightarrow> ('s, 'x) processor \<Rightarrow> bool" where
  "proc_wf n p \<longleftrightarrow> capacity p = n \<and> length (channel p) \<le> n \<and> length (batch p) < MAX_BATCH \<and>
     (exporter_shut p \<longleftrightarrow> task p = Returned) \<and> at_task p (task p)"

lemmas proc_defs = on_end_def try_send_def force_flush_def shutdown_begin_def tick_def start_export_def
  push_span_def shutdown_fires_def return_task_def

lemma MAX_BATCH_pos [simp]: "0 < MAX_BATCH" "Suc 0 < MAX_BATCH"
  by (simp_all add: MAX_BATCH_def)

lemma proc_wf_on_end: "proc_wf n p \<Longrightarrow> on_end s p = (p', sent) \<Longrightarrow> proc_wf n p'"
  by (cases "task p"; cases "closed p"; cases "capacity p \<le> length (channel p)")
     (simp_all add: proc_defs proc_wf_def, auto)

lemma proc_wf_push:
  assumes "proc_wf n p" "task p \<in> {Selecting, Draining}" "channel p = s # rest"
    "nxt = (if task p = Selecting then To_Select else To_Drain)"
  shows "proc_wf n (push_span nxt s rest p)"
  using assms by (cases "task p") (auto simp: proc_defs proc_wf_def Let_def)

lemma proc_wf_export_ends:
  assumes "proc_wf n p" "task p = Exporting b nxt"
  shows "proc_wf n (export_ends x' own r b nxt p)"
  using assms by (cases nxt; cases r) (simp_all add: export_ends_def return_task_def Let_def proc_wf_def)

lemma proc_wf_drain: "proc_wf n p \<Longrightarrow> task p = Draining \<Longrightarrow> proc_wf n (drain p)"
  by (cases "channel p")
     (auto simp: drain_def proc_wf_push, simp_all add: proc_defs proc_wf_def)

lemma proc_wf_step:
  assumes "proc_step export p e p'" "proc_wf n p"
  shows "proc_wf n p'"
  using assms
proof cases
  case (shutdown_called waits)
  then show ?thesis using assms(2)
    by (cases "task p") (auto simp: shutdown_begin_def proc_wf_def)
next
  case ticked
  then show ?thesis using assms(2) by (simp add: proc_defs proc_wf_def)
next
  case shutdown_seen
  then show ?thesis using assms(2) by (simp add: shutdown_fires_def proc_wf_def)
next
  case processor_dropped
  then show ?thesis using assms(2) by (cases "task p") (simp_all add: proc_wf_def)
next
  case (received s rest)
  then show ?thesis using assms(2) by (simp add: proc_wf_push)
qed (use assms(2) in \<open>simp_all add: proc_wf_on_end proc_wf_drain proc_wf_export_ends force_flush_def\<close>)

lemma proc_wf_new: "new_with_capacity x c n = Ret p \<Longrightarrow> proc_wf n p"
  by (auto simp: new_with_capacity_def proc_wf_def split: if_splits)

lemma proc_wf_run: "proc_run export n c x es p \<Longrightarrow> proc_wf n p"
  by (induction rule: proc_run.induct) (auto intro: proc_wf_new proc_wf_step)

text \<open>A step moves spans along and never duplicates or reorders them; what is lost, is lost in an
  unwound task.\<close>

fun accepted_of :: "'s event \<Rightarrow> 's list" where
  "accepted_of (Span_Ended s sent) = (if sent then [s] else [])"
| "accepted_of _ = []"

lemma pending_push:
  "task p \<in> {Selecting, Draining} \<Longrightarrow> channel p = s # rest \<Longrightarrow> pending (push_span nxt s rest p) = pending p"
  by (auto simp: pending_def proc_defs Let_def)

lemma pending_export_ends:
  assumes "task p = Exporting b nxt" "r \<noteq> ExportPanic"
  shows "pending p = b @ pending (export_ends x' own r b nxt p)"
  using assms by (cases nxt; cases r) (simp_all add: pending_def export_ends_def return_task_def Let_def)

lemma pending_drain: "task p = Draining \<Longrightarrow> pending (drain p) = pending p"
  by (cases "channel p") (simp_all add: drain_def pending_push, simp add: pending_def proc_defs)

lemma pending_step:
  assumes "proc_step export p e p'" "proc_wf n p"
  shows "\<exists>lost. pending p @ accepted_of e = exported_of e @ pending p' @ lost \<and>
     (task p' \<noteq> Unwound \<longrightarrow> lost = [])"
  using assms(1)
proof cases
  case (span_ended s sent)
  then show ?thesis by (auto simp: on_end_def try_send_def pending_def split: if_splits)
next
  case (shutdown_called waits)
  then show ?thesis by (auto simp: shutdown_begin_def pending_def)
next
  case (export_ended b nxt i x' own r)
  show ?thesis
  proof (cases "r = ExportPanic")
    case True
    with export_ended show ?thesis by (simp add: pending_def export_ends_def)
  next
    case False
    with export_ended show ?thesis using pending_export_ends [of p b nxt r x' own] by simp
  qed
qed (auto simp: pending_push pending_drain, simp_all add: pending_def proc_defs)

lemma unwound_step:
  "proc_step export p e p' \<Longrightarrow> proc_wf n p \<Longrightarrow> task p = Unwound \<Longrightarrow>
     task p' = Unwound \<and> exported_of e = [] \<and> accepted_of e = [] \<and> pending p = [] \<and> pending p' = []"
  by (cases rule: proc_step.cases)
     (auto simp: on_end_def try_send_def force_flush_def shutdown_begin_def pending_def proc_wf_def)

lemma dropped_step:
  assumes "proc_step export p e p'"
  shows "dropped p' = dropped p + of_nat (length (rejected_of e) + length (failed_of e) + sum_list (counted_of e))"
  using assms
proof cases
  case (export_ended b nxt i x' own r)
  then show ?thesis by (cases nxt; cases r) (simp_all add: export_ends_def return_task_def Let_def)
qed (auto simp: proc_defs drain_def Let_def split: list.splits if_splits)

lemma shuffles_event:
  "xs \<in> shuffles ys zs \<Longrightarrow> xs @ ended_of e \<in> shuffles (ys @ rejected_of e) (zs @ accepted_of e)"
  by (cases e) (simp_all add: shuffles_snoc1 shuffles_snoc2)

lemma spans_shuffled:
  "proc_run export n c x es p \<Longrightarrow>
     \<exists>lost. over ended_of es \<in> shuffles (over rejected_of es) (over exported_of es @ pending p @ lost) \<and>
        (task p \<noteq> Unwound \<longrightarrow> lost = [])"
proof (induction rule: proc_run.induct)
  case (start p)
  then show ?case by (auto simp: new_with_capacity_def pending_def split: if_splits)
next
  case (step es p e p')
  note wf = proc_wf_run [OF step.hyps(1)]
  obtain lost where IH: "over ended_of es \<in> shuffles (over rejected_of es) (over exported_of es @ pending p @ lost)"
    "task p \<noteq> Unwound \<longrightarrow> lost = []" using step.IH by blast
  show ?case
  proof (cases "task p = Unwound")
    case True
    then show ?thesis
      using IH(1) unwound_step [OF step.hyps(2) wf] shuffles_event [OF IH(1), of e] by auto
  next
    case False
    then obtain l where l: "pending p @ accepted_of e = exported_of e @ pending p' @ l"
      "task p' \<noteq> Unwound \<longrightarrow> l = []" using pending_step [OF step.hyps(2) wf] by blast
    with False IH shuffles_event [OF IH(1), of e] show ?thesis by auto
  qed
qed

lemma dropped_run:
  "proc_run export n c x es p \<Longrightarrow>
     dropped p = c + of_nat (length (over rejected_of es) + length (over failed_of es) + sum_list (over counted_of es))"
  by (induction rule: proc_run.induct)
     (auto simp: new_with_capacity_def dropped_step algebra_simps split: if_splits)

lemma exports_run:
  "proc_run export n c x es p \<Longrightarrow> \<forall>(b, r) \<in> set (over exports_of es). b \<noteq> [] \<and> length b \<le> MAX_BATCH"
proof (induction rule: proc_run.induct)
  case (step es p e p')
  have "\<forall>(b, r) \<in> set (exports_of e). b \<noteq> [] \<and> length b \<le> MAX_BATCH"
    using step.hyps(2) proc_wf_run [OF step.hyps(1)]
    by (cases rule: proc_step.cases) (auto simp: proc_wf_def)
  then show ?case using step.IH by auto
qed simp

lemma pending_bound: "proc_wf n p \<Longrightarrow> length (pending p) \<le> MAX_BATCH + n"
  by (cases "task p") (auto simp: proc_wf_def pending_def)

text \<open>C16. The processor accounts for every span, whatever the exporter does and however threads, ticks,
  exports and shutdown interleave: the spans that ended are a merge, in order, of those rejected at the
  channel, those handed to the exporter and those still held, with nothing else unless the exporter has
  panicked; the dropped counter has grown by the number of rejected spans, the spans of the exports
  that failed or timed out and what the exporter added to it itself (nothing but for the local exporter, which
  holds a handle of the same series); a full channel rejects the span that has just ended, never an older one;
  no export is empty or above 512 spans; and the processor never holds more than a
  batch beside a full channel.\<close>

theorem spans_accounted_for:
  assumes "proc_run export n c x es p"
  shows "(\<exists>lost. over ended_of es \<in> shuffles (over rejected_of es) (over exported_of es @ pending p @ lost) \<and>
        (task p \<noteq> Unwound \<longrightarrow> lost = [])) \<and>
    dropped p = c + of_nat (length (over rejected_of es) + length (over failed_of es) + sum_list (over counted_of es)) \<and>
    (\<forall>(b, r) \<in> set (over exports_of es). b \<noteq> [] \<and> length b \<le> MAX_BATCH) \<and>
    length (pending p) \<le> MAX_BATCH + n"
  using spans_shuffled [OF assms] dropped_run [OF assms] exports_run [OF assms]
    pending_bound [OF proc_wf_run [OF assms]] by blast

section \<open>The drain\<close>

fun task_rank :: "'s task \<Rightarrow> nat" where
  "task_rank Draining = 2"
| "task_rank (Exporting b nxt) = (if nxt = To_Drain then 3 else 1)"
| "task_rank _ = 0"

definition drain_rank :: "('s, 'x) processor \<Rightarrow> nat" where
  "drain_rank p = 3 * length (channel p) + task_rank (task p)"

lemma drain_rank_drain: "task p = Draining \<Longrightarrow> drain_rank (drain p) < drain_rank p"
  by (cases "channel p") (auto simp: drain_rank_def drain_def proc_defs Let_def)

lemma drain_rank_export_ends:
  "task p = Exporting b nxt \<Longrightarrow> nxt \<noteq> To_Select \<Longrightarrow> drain_rank (export_ends x' own r b nxt p) < drain_rank p"
  by (cases nxt; cases r) (auto simp: drain_rank_def export_ends_def return_task_def Let_def)

text \<open>The task alone from the drain loop on, with \<open>io k\<close> what the world does to its
  \<open>k\<close>-th export: the events of its steps and the state it stops in.\<close>

function finish ::
  "('i, 's, 'x) span_exporter \<Rightarrow> (nat \<Rightarrow> 'i) \<Rightarrow> nat \<Rightarrow> ('s, 'x) processor \<Rightarrow> 's event list \<times> ('s, 'x) processor" where
  "finish export io k p =
     (case task p of
        Draining \<Rightarrow> (let (es, q) = finish export io k (drain p) in (Drained # es, q))
      | Exporting b nxt \<Rightarrow>
          if nxt = To_Select then ([], p)
          else (let (x', own, r) = export (io k) b (exporter p);
                    (es, q) = finish export io (Suc k) (export_ends x' own r b nxt p)
                in (Export_Ended b own r # es, q))
      | _ \<Rightarrow> ([], p))"
  by pat_completeness auto

termination
  by (relation "measure (\<lambda>(export, io, k, p). drain_rank p)")
     (auto simp: drain_rank_drain drain_rank_export_ends)

declare finish.simps [simp del]


lemma finish_Draining:
  "task p = Draining \<Longrightarrow> finish export io k p =
     (Drained # fst (finish export io k (drain p)), snd (finish export io k (drain p)))"
  by (subst finish.simps) (simp add: split_beta)

lemma finish_Exporting:
  "task p = Exporting b nxt \<Longrightarrow> nxt \<noteq> To_Select \<Longrightarrow> export (io k) b (exporter p) = (x', own, r) \<Longrightarrow>
   finish export io k p =
     (Export_Ended b own r # fst (finish export io (Suc k) (export_ends x' own r b nxt p)),
      snd (finish export io (Suc k) (export_ends x' own r b nxt p)))"
  by (subst finish.simps) (simp add: split_beta)

lemma finish_stop: "task p = Returned \<Longrightarrow> finish export io k p = ([], p)"
  by (subst finish.simps) simp

definition finishing :: "('s, 'x) processor \<Rightarrow> bool" where
  "finishing p \<longleftrightarrow> task p \<in> {Draining, Returned} \<or> (\<exists>b nxt. task p = Exporting b nxt \<and> nxt \<noteq> To_Select)"

lemma finishing_drain: "task p = Draining \<Longrightarrow> finishing (drain p)"
  by (cases "channel p") (auto simp: finishing_def drain_def proc_defs Let_def)

lemma finishing_export_ends:
  "nxt \<noteq> To_Select \<Longrightarrow> r \<noteq> ExportPanic \<Longrightarrow> finishing (export_ends x' own r b nxt p)"
  by (cases nxt; cases r) (auto simp: finishing_def export_ends_def return_task_def Let_def)

lemma finishing_induct [consumes 2, case_names returned drain export]:
  assumes "finishing p" and "\<And>i b x. snd (snd (export i b x)) \<noteq> ExportPanic"
    and "\<And>k p. task p = Returned \<Longrightarrow> P k p"
    and "\<And>k p. task p = Draining \<Longrightarrow> finishing (drain p) \<Longrightarrow> P k (drain p) \<Longrightarrow> P k p"
    and "\<And>k p b nxt x' own r. task p = Exporting b nxt \<Longrightarrow> nxt \<noteq> To_Select \<Longrightarrow>
       export (io k) b (exporter p) = (x', own, r) \<Longrightarrow> r \<noteq> ExportPanic \<Longrightarrow>
       P (Suc k) (export_ends x' own r b nxt p) \<Longrightarrow> P k p"
  shows "P k p"
  using assms(1)
proof (induction "drain_rank p" arbitrary: k p rule: less_induct)
  case less
  show ?case
  proof (cases "task p")
    case Draining
    then show ?thesis using less assms(4) by (simp add: finishing_drain drain_rank_drain)
  next
    case (Exporting b nxt)
    then have n: "nxt \<noteq> To_Select" using less.prems by (simp add: finishing_def)
    obtain x' own r where e: "export (io k) b (exporter p) = (x', own, r)" using prod_cases3 by blast
    then have "r \<noteq> ExportPanic" using assms(2) [of "io k" b "exporter p"] by simp
    then show ?thesis
      using less assms(5) [OF Exporting n e] Exporting n by (simp add: finishing_export_ends drain_rank_export_ends)
  qed (use less assms(3) in \<open>auto simp: finishing_def\<close>)
qed

lemma finish_run:
  assumes "finishing p" "\<And>i b x. snd (snd (export i b x)) \<noteq> ExportPanic" "proc_run export n c x es p"
  shows "proc_run export n c x (es @ fst (finish export io k p)) (snd (finish export io k p)) \<and>
     task (snd (finish export io k p)) = Returned \<and> over exported_of (fst (finish export io k p)) = pending p"
  using assms
proof (induction arbitrary: es rule: finishing_induct [where export = export and io = io and k = k])
  case (returned k p)
  then show ?case using proc_wf_run [OF returned(2)] by (simp add: finish_stop pending_def proc_wf_def)
next
  case (drain k p)
  have "proc_run export n c x (es @ [Drained]) (drain p)"
    using drain by (auto intro: proc_run.step proc_step.drained)
  from drain(3) [OF this] drain(1) show ?case by (simp add: finish_Draining pending_drain over_def)
next
  case (export k p b nxt x' own r)
  have "proc_run export n c x (es @ [Export_Ended b own r]) (export_ends x' own r b nxt p)"
    using export by (auto intro: proc_run.step proc_step.export_ended)
  from export(5) [OF this] export(1-4) show ?case
    by (simp add: finish_Exporting pending_export_ends [of p b nxt r x' own] over_def)
qed

text \<open>The number of exports a drain makes.\<close>

definition batches_for :: "nat \<Rightarrow> nat" where
  "batches_for m = (m + (MAX_BATCH - 1)) div MAX_BATCH"

lemma batches_for_simps:
  "batches_for 0 = 0" "batches_for (MAX_BATCH + m) = Suc (batches_for m)"
  "0 < m \<Longrightarrow> m \<le> MAX_BATCH \<Longrightarrow> batches_for m = 1"
  by (simp_all add: batches_for_def MAX_BATCH_def)

lemma finish_exports:
  assumes "finishing p" "\<And>i b x. snd (snd (export i b x)) \<noteq> ExportPanic" "proc_wf n p"
  shows "length (over exports_of (fst (finish export io k p))) = batches_for (length (pending p))"
  using assms
proof (induction rule: finishing_induct [where export = export and io = io and k = k])
  case (returned k p)
  then show ?case by (simp add: finish_stop pending_def proc_wf_def batches_for_simps)
next
  case (drain k p)
  then show ?case by (simp add: finish_Draining proc_wf_drain pending_drain over_def)
next
  case (export k p b nxt x' own r)
  let ?q = "export_ends x' own r b nxt p"
  have IH: "length (over exports_of (fst (finish export io (Suc k) ?q))) = batches_for (length (pending ?q))"
    using export by (simp add: proc_wf_export_ends)
  have p: "pending p = b @ pending ?q" using export by (simp add: pending_export_ends)
  have "batches_for (length (pending p)) = Suc (batches_for (length (pending ?q)))"
  proof (cases nxt)
    case To_Drain
    then have "length b = MAX_BATCH" using export by (simp add: proc_wf_def)
    then show ?thesis unfolding p by (simp add: batches_for_simps)
  next
    case To_Exit
    then have "b \<noteq> [] \<and> length b \<le> MAX_BATCH" "batch p = []" "channel p = []"
      using export by (simp_all add: proc_wf_def)
    moreover from this have "pending p = b" using export by (simp add: pending_def)
    ultimately show ?thesis using p by (simp add: batches_for_simps)
  qed (use export in simp)
  then show ?case using export IH by (simp add: finish_Exporting over_def)
qed


text \<open>C17. A shutdown flushes: from any reachable state in which the shutdown signal is there (sent, or its
  sender dropped with the processor) and the task is at its \<^verbatim>\<open>select!\<close>, with an exporter that never
  panics, the task takes the signal,
  hands everything the processor holds to the exporter in order, in as few batches of at most 512 as
  possible, shuts the exporter down and returns with nothing left. With the production channel these are
  at most five exports of five seconds each, five times what \<^verbatim>\<open>shutdown\<close> waits for.\<close>

theorem shutdown_flushes:
  assumes "proc_run export n c x es p" "task p = Selecting" "signalled p"
    and "\<And>i b x. snd (snd (export i b x)) \<noteq> ExportPanic"
    and "finish export io 0 (shutdown_fires p) = (fs, q)"
  shows "proc_run export n c x (es @ Shutdown_Seen # fs) q \<and> task q = Returned \<and> exporter_shut q \<and>
    pending q = [] \<and> over exported_of fs = pending p \<and>
    length (over exports_of fs) = batches_for (length (pending p)) \<and>
    (n = QUEUE_CAPACITY \<longrightarrow> length (over exports_of fs) * EXPORT_TIMEOUT \<le> 5 * SHUTDOWN_TIMEOUT)"
proof -
  let ?p = "shutdown_fires p"
  have run: "proc_run export n c x (es @ [Shutdown_Seen]) ?p"
    using assms(1-3) by (auto intro: proc_run.step proc_step.shutdown_seen)
  have f: "finishing ?p" by (simp add: finishing_def shutdown_fires_def)
  have pend: "pending ?p = pending p" using assms(2) by (simp add: pending_def shutdown_fires_def)
  have fin: "proc_run export n c x ((es @ [Shutdown_Seen]) @ fs) q" "task q = Returned"
    "over exported_of fs = pending p"
    using finish_run [OF f assms(4) run, where io = io and k = 0] assms(5) by (simp_all add: pend)
  have count: "length (over exports_of fs) = batches_for (length (pending p))"
    using finish_exports [where export = export and io = io and k = 0, OF f assms(4) proc_wf_run [OF run]] assms(5)
    by (simp add: pend)
  have "length (batch p) < MAX_BATCH" "length (channel p) \<le> n"
    using proc_wf_run [OF assms(1)] by (simp_all add: proc_wf_def)
  then have "n = QUEUE_CAPACITY \<longrightarrow> batches_for (length (pending p)) \<le> 5"
    using assms(2) by (auto simp: pending_def batches_for_def MAX_BATCH_def QUEUE_CAPACITY_def)
  then show ?thesis
    using fin count proc_wf_run [OF fin(1)]
    by (simp add: proc_wf_def pending_def EXPORT_TIMEOUT_def SHUTDOWN_TIMEOUT_def)
qed

section \<open>Processors over an exporter that keeps books\<close>

text \<open>What the processor may rely on in an exporter that stores batches: it does not panic; a successful
  export either stores one entry for the whole batch or counts the batch in the drop counter; a failed one
  does neither.\<close>

locale counting_exporter =
  fixes export :: "('i, 's, 'x) span_exporter"
    and good :: "'x \<Rightarrow> bool"
    and stored :: "'x \<Rightarrow> 'l list"
    and entry :: "'s list \<Rightarrow> 'l"
  assumes no_panic: "snd (snd (export i b x)) \<noteq> ExportPanic"
    and keeps_good: "good x \<Longrightarrow> good (fst (export i b x))"
    and succeeds: "good x \<Longrightarrow> export i b x = (x', own, ExportOk) \<Longrightarrow>
       stored x' = stored x @ [entry b] \<and> own = 0 \<or> stored x' = stored x \<and> own = length b"
    and fails: "good x \<Longrightarrow> export i b x = (x', own, r) \<Longrightarrow> r \<noteq> ExportOk \<Longrightarrow> stored x' = stored x \<and> own = 0"
begin

lemma never_unwound: "proc_run export n c x es p \<Longrightarrow> task p \<noteq> Unwound"
proof (induction rule: proc_run.induct)
  case (step es p e p')
  from step.hyps(2) step.IH show ?case
  proof cases
    case (export_ended b nxt i x' own r)
    then have "r \<noteq> ExportPanic" using no_panic [of i b "exporter p"] by simp
    with export_ended step.IH show ?thesis
      by (cases nxt; cases r) (simp_all add: export_ends_def return_task_def Let_def)
  qed (auto simp: proc_defs drain_def Let_def split: list.splits if_splits)
qed (auto simp: new_with_capacity_def split: if_splits)

text \<open>The books: the entries stored and the spans the exporter counted make up the exports that did not
  fail.\<close>

definition booked :: "'x \<Rightarrow> 's event list \<Rightarrow> 'x \<Rightarrow> bool" where
  "booked x es y \<longleftrightarrow> good y \<and> (\<exists>bs. stored y = stored x @ map entry bs \<and>
     subseq (concat bs) (over exported_of es) \<and>
     length (over exported_of es) = length (concat bs) + sum_list (over counted_of es) + length (over failed_of es))"

lemma booked_export:
  assumes "booked x es y" "export i b y = (y', own, r)"
  shows "booked x (es @ [Export_Ended b own r]) y'"
proof -
  obtain bs where IH: "good y" "stored y = stored x @ map entry bs" "subseq (concat bs) (over exported_of es)"
    "length (over exported_of es) = length (concat bs) + sum_list (over counted_of es) + length (over failed_of es)"
    using assms(1) by (auto simp: booked_def)
  have g: "good y'" using keeps_good [OF IH(1), of i b] assms(2) by simp
  have sub: "subseq (concat bs) (over exported_of es @ b)"
    using IH(3) by (rule subseq_rev_drop_many)
  show ?thesis
  proof (cases "r = ExportOk")
    case True
    with succeeds [OF IH(1)] assms(2) consider "stored y' = stored y @ [entry b]" "own = 0"
      | "stored y' = stored y" "own = length b" by metis
    then show ?thesis
    proof cases
      case 1
      then show ?thesis
        using IH g True unfolding booked_def
        by (intro conjI exI [of _ "bs @ [b]"]) (simp_all add: list_emb_append_mono)
    next
      case 2
      then show ?thesis using IH g True sub unfolding booked_def by (intro conjI exI [of _ bs]) simp_all
    qed
  next
    case False
    then have "r \<in> {ExportErr, ExportElapsed}"
      using no_panic [of i b y] assms(2) by (cases r) auto
    then show ?thesis
      using IH g False sub fails [OF IH(1) assms(2)] unfolding booked_def
      by (intro conjI exI [of _ bs]) auto
  qed
qed

lemma booked_run: "proc_run export n c x es p \<Longrightarrow> good x \<Longrightarrow> booked x es (exporter p)"
proof (induction rule: proc_run.induct)
  case (start p)
  then show ?case by (auto simp: booked_def new_with_capacity_def split: if_splits)
next
  case (step es p e p')
  from step.hyps(2) show ?case
  proof cases
    case (export_ended b nxt i x' own r)
    then have "exporter p' = x'" by (cases nxt; cases r) (simp_all add: export_ends_def return_task_def Let_def)
    then show ?thesis using booked_export step export_ended by auto
  qed (use step in \<open>auto simp: booked_def proc_defs drain_def Let_def split: list.splits if_splits\<close>)
qed

lemma books_balance:
  assumes "proc_run export n c x es p" "good x"
  shows "\<exists>bs refused. stored (exporter p) = stored x @ map entry bs \<and>
     dropped p = c + of_nat (length (over rejected_of es) + length (over failed_of es) + refused) \<and>
     subseq (concat bs) (over ended_of es) \<and>
     length (over ended_of es) =
       length (concat bs) + length (over rejected_of es) + length (over failed_of es) + refused + length (pending p)"
proof -
  obtain bs where b: "stored (exporter p) = stored x @ map entry bs" "subseq (concat bs) (over exported_of es)"
    "length (over exported_of es) = length (concat bs) + sum_list (over counted_of es) + length (over failed_of es)"
    using booked_run [OF assms] by (auto simp: booked_def)
  have sh: "over ended_of es \<in> shuffles (over rejected_of es) (over exported_of es @ pending p)"
    using spans_shuffled [OF assms(1)] never_unwound [OF assms(1)] by auto
  have "subseq (concat bs) (over ended_of es)"
    using b(2) shuffles_subseq [OF sh] subseq_order.trans subseq_rev_drop_many by blast
  then show ?thesis
    using b dropped_run [OF assms(1)] length_shuffles [OF sh]
    by (intro exI [of _ bs] exI [of _ "sum_list (over counted_of es)"])
       simp
qed

end

section \<open>A concrete run\<close>

text \<open>Two spans end on a channel with one slot, the second is rejected, and shutdown is called.\<close>

definition keep_all :: "(unit, nat, nat list) span_exporter" where
  "keep_all i b x = (x @ b, 0, ExportOk)"

definition sample_events :: "nat event list" where
  "sample_events = [Span_Ended 7 True, Span_Ended 8 False, Shutdown_Called True]"

definition sample_processor :: "(nat, nat list) processor" where
  "sample_processor =
     \<lparr>capacity = 1, channel = [7], closed = False, shutdown_tx = False, shutdown_sent = True,
      task_handle = False, dropped = 1, batch = [], task = Selecting, exporter = [], exporter_shut = False, released = False\<rparr>"

lemma sample_run: "proc_run keep_all 1 0 [] sample_events sample_processor"
proof -
  define p0 :: "(nat, nat list) processor" where "p0 =
     \<lparr>capacity = 1, channel = [], closed = False, shutdown_tx = True, shutdown_sent = False,
      task_handle = True, dropped = 0, batch = [], task = Selecting, exporter = [], exporter_shut = False, released = False\<rparr>"
  have "proc_run keep_all 1 0 [] [] p0"
    by (rule proc_run.start) (simp add: new_with_capacity_def p0_def)
  then have "proc_run keep_all 1 0 [] ([] @ [Span_Ended 7 True]) (p0\<lparr>channel := [7]\<rparr>)"
    by (rule proc_run.step) (rule proc_step.span_ended, simp_all add: on_end_def try_send_def p0_def)
  then have "proc_run keep_all 1 0 [] (([] @ [Span_Ended 7 True]) @ [Span_Ended 8 False])
      (p0\<lparr>channel := [7], dropped := 1\<rparr>)"
    by (rule proc_run.step) (rule proc_step.span_ended, simp_all add: on_end_def try_send_def p0_def)
  then have "proc_run keep_all 1 0 []
      ((([] @ [Span_Ended 7 True]) @ [Span_Ended 8 False]) @ [Shutdown_Called True]) sample_processor"
    by (rule proc_run.step)
       (rule proc_step.shutdown_called, simp_all add: shutdown_begin_def p0_def sample_processor_def)
  then show ?thesis by (simp add: sample_events_def)
qed

theorem spans_accounted_for_witness:
  "over ended_of sample_events \<in> shuffles (over rejected_of sample_events)
      (over exported_of sample_events @ pending sample_processor) \<and>
    dropped sample_processor = 0 + of_nat (length (over rejected_of sample_events) + length (over failed_of sample_events) +
      sum_list (over counted_of sample_events)) \<and>
    length (pending sample_processor) \<le> MAX_BATCH + 1"
  using spans_accounted_for [OF sample_run] by (auto simp: sample_processor_def)

lemma sample_finish:
  "finish keep_all (\<lambda>_. ()) 0 (shutdown_fires sample_processor) =
     ([Drained, Drained, Export_Ended [7] 0 ExportOk],
      sample_processor\<lparr>closed := True, channel := [], batch := [], task := Returned, exporter := [7],
        exporter_shut := True\<rparr>)"
  by (simp add: finish.simps sample_processor_def shutdown_fires_def drain_def push_span_def start_export_def
      export_ends_def return_task_def Let_def keep_all_def MAX_BATCH_def)

theorem shutdown_flushes_witness:
  "\<exists>q. proc_run keep_all 1 0 [] (sample_events @ [Shutdown_Seen, Drained, Drained, Export_Ended [7] 0 ExportOk]) q \<and>
    task q = Returned \<and> exporter_shut q \<and> pending q = [] \<and> exporter q = [7]"
  using shutdown_flushes [OF sample_run _ _ _ sample_finish]
  by (intro exI [where x = "sample_processor\<lparr>closed := True, channel := [], batch := [], task := Returned,
        exporter := [7], exporter_shut := True\<rparr>"]) (simp add: sample_processor_def keep_all_def signalled_def)

end
