(* ===== verification/Local_Exporter.thy ===== *)
theory Local_Exporter
  imports Otlp_Json Span_Processor
begin

text \<open>
  The local trace files (\<^verbatim>\<open>engagement-hub/src/telemetry/local_exporter.rs\<close>): one file per
  service and day, one JSON line per exported batch, a size cap per file, and the purge of old files at
  start-up.

  The dates of \<^verbatim>\<open>chrono\<close> and the JSON text of \<^verbatim>\<open>serde_json\<close> are parameters
  (\<open>trace_lib\<close>). What the operating system does to one call of the exporter (today's date, which
  of the file operations fail, after how many bytes a write fails) is a value of \<open>trace_io\<close>, over
  which every statement quantifies. The file system is the sizes of the files that were there and the log of
  what was appended since.
\<close>

section \<open>The file system\<close>

record 'd trace_io =
  io_today :: 'd
  io_mkdir :: bool
  io_open :: bool
  io_meta :: bool
  io_write :: "nat option"

text \<open>\<open>Whole\<close>: \<^verbatim>\<open>write_all\<close> wrote everything; \<open>Torn\<close>: it failed part way.\<close>

datatype append = Whole string string | Torn string string

fun append_path :: "append \<Rightarrow> string" where
  "append_path (Whole path s) = path"
| "append_path (Torn path s) = path"

fun append_text :: "append \<Rightarrow> string" where
  "append_text (Whole path s) = s"
| "append_text (Torn path s) = s"

record trace_files =
  found_size :: "string \<Rightarrow> nat"
  appended :: "append list"

definition file_len :: "trace_files \<Rightarrow> string \<Rightarrow> nat" where
  "file_len fs path =
     found_size fs path + sum_list (map (\<lambda>a. if append_path a = path then length (append_text a) else 0) (appended fs))"

definition path_join :: "string \<Rightarrow> string \<Rightarrow> string" where
  "path_join dir name = dir @ ''/'' @ name"

section \<open>The exporter\<close>

definition MAX_FILE_BYTES :: nat where
  "MAX_FILE_BYTES = 100 * 1024 * 1024"

record ('d, 'a) trace_lib =
  fmt_date :: "'d \<Rightarrow> string"
  parse_date :: "string \<Rightarrow> 'd option"
  days_since :: "'d \<Rightarrow> 'd \<Rightarrow> int"
  fmt_debug :: "'a \<Rightarrow> string"
  to_json :: "TracesData \<Rightarrow> string option"

text \<open>The drop counter is a handle of a series: its label. What is added to it is an effect of the
  call.\<close>

record 'd JsonlFileExporter =
  service_name :: string
  traces_dir :: string
  current_date :: 'd
  current_file :: "string option"
  size_cap :: nat
  drop_counter :: "string option"
  resource_attrs :: "KvAttribute list"

datatype ExportError = Io_Error | Serde_Error

definition new_inner ::
  "string \<Rightarrow> string \<Rightarrow> 'd \<Rightarrow> nat \<Rightarrow> string option \<Rightarrow> KvAttribute list \<Rightarrow> 'd JsonlFileExporter" where
  "new_inner name dir date cap counter attrs =
     \<lparr>service_name = name, traces_dir = dir, current_date = date, current_file = None, size_cap = cap,
      drop_counter = counter, resource_attrs = attrs\<rparr>"

definition new_exporter :: "string \<Rightarrow> KvAttribute list \<Rightarrow> 'd \<Rightarrow> 'd JsonlFileExporter" where
  "new_exporter name attrs today = new_inner name ''.traces'' today MAX_FILE_BYTES None attrs"

definition new_with_counter :: "string \<Rightarrow> KvAttribute list \<Rightarrow> string \<Rightarrow> 'd \<Rightarrow> 'd JsonlFileExporter" where
  "new_with_counter name attrs counter today =
     new_inner name ''.traces'' today MAX_FILE_BYTES (Some counter) attrs"

definition file_path :: "('d, 'a) trace_lib \<Rightarrow> 'd JsonlFileExporter \<Rightarrow> 'd \<Rightarrow> string" where
  "file_path lib self date =
     path_join (traces_dir self) (service_name self @ ''-'' @ fmt_date lib date @ ''.jsonl'')"

definition ensure_file ::
  "('d, 'a) trace_lib \<Rightarrow> 'd trace_io \<Rightarrow> 'd JsonlFileExporter \<Rightarrow> 'd JsonlFileExporter \<times> (ExportError, string) result" where
  "ensure_file lib io self =
     (let self = (if io_today io \<noteq> current_date self
                  then self\<lparr>current_date := io_today io, current_file := None\<rparr> else self) in
      case current_file self of
        Some f \<Rightarrow> (self, Inr f)
      | None \<Rightarrow>
          if \<not> io_mkdir io then (self, Inl Io_Error)
          else let path = file_path lib self (current_date self) in
               if \<not> io_open io then (self, Inl Io_Error)
               else (self\<lparr>current_file := Some path\<rparr>, Inr path))"

text \<open>The result of a call with the increments it made, each with the label of its series.\<close>

definition write_batch ::
  "('d, 'a) trace_lib \<Rightarrow> 'd trace_io \<Rightarrow> 'a SpanData list \<Rightarrow> 'd JsonlFileExporter \<times> trace_files \<Rightarrow>
     ('d JsonlFileExporter \<times> trace_files) \<times> (string \<times> nat) list \<times> (ExportError, unit) result" where
  "write_batch lib io bt st =
     (let (self, fs) = st; (self, opened) = ensure_file lib io self in
      case opened of
        Inl e \<Rightarrow> ((self, fs), [], Inl e)
      | Inr f \<Rightarrow>
          (let size = (if io_meta io then file_len fs f else 0) in
           if size_cap self \<le> size then
             ((self, fs), case drop_counter self of None \<Rightarrow> [] | Some c \<Rightarrow> [(c, length bt)], Inr ())
           else
             case to_json lib (spans_to_traces_data (fmt_debug lib) bt (resource_attrs self) ''engagement-hub'') of
               None \<Rightarrow> ((self, fs), [], Inl Serde_Error)
             | Some json \<Rightarrow>
                 (let line = json @ [CHR 0x0A] in
                  case io_write io of
                    None \<Rightarrow> ((self, fs\<lparr>appended := appended fs @ [Whole f line]\<rparr>), [], Inr ())
                  | Some k \<Rightarrow> ((self, fs\<lparr>appended := appended fs @ [Torn f (take k line)]\<rparr>), [], Inl Io_Error))))"

text \<open>The future of \<^verbatim>\<open>export\<close> is ready when it is returned, so the processor's timeout never
  fires on it. To a processor whose counter is the series \<open>label\<close> the increments of that series are
  what the exporter added to its counter.\<close>

definition added :: "string \<Rightarrow> (string \<times> nat) list \<Rightarrow> nat" where
  "added label counted = sum_list (map snd (filter (\<lambda>ck. fst ck = label) counted))"

definition jsonl_export ::
  "('d, 'a) trace_lib \<Rightarrow> string \<Rightarrow> ('d trace_io, 'a SpanData, 'd JsonlFileExporter \<times> trace_files) span_exporter" where
  "jsonl_export lib label io bt st =
     (let (st', counted, r) = write_batch lib io bt st
      in (st', added label counted, case r of Inl e \<Rightarrow> ExportErr | Inr _ \<Rightarrow> ExportOk))"

section \<open>The purge of old files\<close>

text \<open>An entry of the directory: its path and its name as \<^verbatim>\<open>to_string_lossy\<close> gives it.\<close>

record dir_entry =
  entry_path :: string
  entry_name :: string

text \<open>\<^verbatim>\<open>str::trim_end_matches\<close> strips the suffix as often as it is there; a slice
  \<^verbatim>\<open>&s[i..]\<close> panics inside a multi-byte character.\<close>

function trim_end_matches :: "string \<Rightarrow> string \<Rightarrow> string" where
  "trim_end_matches pat s =
     (if pat \<noteq> [] \<and> suffix pat s then trim_end_matches pat (take (length s - length pat) s) else s)"
  by pat_completeness auto
termination
  by (relation "measure (\<lambda>(pat, s). length s)") (auto simp: suffix_def)

declare trim_end_matches.simps [simp del]

definition is_continuation :: "char \<Rightarrow> bool" where
  "is_continuation c \<longleftrightarrow> 128 \<le> (of_char c :: nat) \<and> (of_char c :: nat) < 192"

definition is_char_boundary :: "string \<Rightarrow> nat \<Rightarrow> bool" where
  "is_char_boundary s i \<longleftrightarrow> i = 0 \<or> i = length s \<or> i < length s \<and> \<not> is_continuation (s ! i)"

definition str_from :: "string \<Rightarrow> nat \<Rightarrow> string exec" where
  "str_from s i = (if is_char_boundary s i then Ret (drop i s) else Unwind)"

text \<open>The loop over the entries (\<open>Inl\<close>: an entry that could not be read, which
  \<^verbatim>\<open>flatten\<close> skips): the paths removed, and whether it ended or panicked.
  \<open>remove_ok\<close> says which removals succeed; a failed one is only logged.\<close>

fun purge_loop ::
  "('d, 'a) trace_lib \<Rightarrow> 'd \<Rightarrow> int \<Rightarrow> (string \<Rightarrow> bool) \<Rightarrow> (unit + dir_entry) list \<Rightarrow> string list \<times> unit exec" where
  "purge_loop lib today retention_days remove_ok [] = ([], Ret ())"
| "purge_loop lib today retention_days remove_ok (Inl u # es) = purge_loop lib today retention_days remove_ok es"
| "purge_loop lib today retention_days remove_ok (Inr e # es) =
     (if \<not> suffix ''.jsonl'' (entry_name e) then purge_loop lib today retention_days remove_ok es
      else let without_ext = trim_end_matches ''.jsonl'' (entry_name e) in
        if length without_ext < 10 then purge_loop lib today retention_days remove_ok es
        else case str_from without_ext (length without_ext - 10) of
          Unwind \<Rightarrow> ([], Unwind)
        | Ret date_str \<Rightarrow>
            (case parse_date lib date_str of
               None \<Rightarrow> purge_loop lib today retention_days remove_ok es
             | Some file_date \<Rightarrow>
                 if retention_days < days_since lib today file_date \<and> remove_ok (entry_path e)
                 then let (gone, r) = purge_loop lib today retention_days remove_ok es in (entry_path e # gone, r)
                 else purge_loop lib today retention_days remove_ok es))"

definition purge_old_files ::
  "('d, 'a) trace_lib \<Rightarrow> 'd \<Rightarrow> int \<Rightarrow> (string \<Rightarrow> bool) \<Rightarrow> (unit + dir_entry) list option \<Rightarrow> string list \<times> unit exec" where
  "purge_old_files lib today retention_days remove_ok dir =
     (case dir of None \<Rightarrow> ([], Ret ()) | Some es \<Rightarrow> purge_loop lib today retention_days remove_ok es)"

section \<open>The exporter keeps books\<close>

definition jsonl_wf :: "('d, 'a) trace_lib \<Rightarrow> 'd JsonlFileExporter \<Rightarrow> bool" where
  "jsonl_wf lib self \<longleftrightarrow> (\<forall>f. current_file self = Some f \<longrightarrow> f = file_path lib self (current_date self))"

definition same_setup :: "'d JsonlFileExporter \<Rightarrow> 'd JsonlFileExporter \<Rightarrow> bool" where
  "same_setup a b \<longleftrightarrow> service_name a = service_name b \<and> traces_dir a = traces_dir b \<and>
     size_cap a = size_cap b \<and> resource_attrs a = resource_attrs b \<and> drop_counter a = drop_counter b"

text \<open>The entry of a batch: \<open>None\<close> when it cannot be written as JSON.\<close>

definition json_line :: "('d, 'a) trace_lib \<Rightarrow> KvAttribute list \<Rightarrow> 'a SpanData list \<Rightarrow> string option" where
  "json_line lib attrs bt =
     map_option (\<lambda>json. json @ [CHR 0x0A])
       (to_json lib (spans_to_traces_data (fmt_debug lib) bt attrs ''engagement-hub''))"

fun whole_lines :: "append list \<Rightarrow> string option list" where
  "whole_lines [] = []"
| "whole_lines (Whole p s # as) = Some s # whole_lines as"
| "whole_lines (Torn p s # as) = whole_lines as"

lemma whole_lines_append [simp]: "whole_lines (as @ bs) = whole_lines as @ whole_lines bs"
  by (induction as rule: whole_lines.induct) simp_all

lemma ensure_file_effect:
  assumes "ensure_file lib io self = (self', r)" "jsonl_wf lib self"
  shows "jsonl_wf lib self' \<and> same_setup self' self \<and>
     (\<forall>f. r = Inr f \<longrightarrow> f = file_path lib self (io_today io) \<and> current_date self' = io_today io)"
  using assms
  by (cases "io_today io = current_date self"; cases "current_file self"; cases "io_mkdir io"; cases "io_open io")
     (auto simp: ensure_file_def jsonl_wf_def same_setup_def file_path_def Let_def)

lemma file_path_setup: "same_setup a b \<Longrightarrow> file_path lib a d = file_path lib b d"
  by (simp add: same_setup_def file_path_def)

text \<open>The four ways one call can go, whatever the system does to it.\<close>

lemma write_batch_cases:
  assumes "write_batch lib io bt (self, fs) = ((self', fs'), counted, r)" "jsonl_wf lib self"
  obtains (failed) e where "r = Inl e" "fs' = fs" "counted = []"
      "jsonl_wf lib self'" "same_setup self' self"
  | (capped) "r = Inr ()" "fs' = fs"
      "counted = (case drop_counter self of None \<Rightarrow> [] | Some c \<Rightarrow> [(c, length bt)])"
      "jsonl_wf lib self'" "same_setup self' self"
  | (wrote) path line where "r = Inr ()" "path = file_path lib self (io_today io)"
      "json_line lib (resource_attrs self) bt = Some line" "fs' = fs\<lparr>appended := appended fs @ [Whole path line]\<rparr>"
      "io_meta io \<longrightarrow> file_len fs path < size_cap self" "counted = []"
      "jsonl_wf lib self'" "same_setup self' self"
  | (torn) path line k where "r = Inl Io_Error" "io_write io = Some k" "path = file_path lib self (io_today io)"
      "json_line lib (resource_attrs self) bt = Some line" "fs' = fs\<lparr>appended := appended fs @ [Torn path (take k line)]\<rparr>"
      "io_meta io \<longrightarrow> file_len fs path < size_cap self" "counted = []"
      "jsonl_wf lib self'" "same_setup self' self"
proof -
  obtain s1 o1 where e: "ensure_file lib io self = (s1, o1)" by force
  note ef = ensure_file_effect [OF e assms(2)]
  let ?json = "to_json lib (spans_to_traces_data (fmt_debug lib) bt (resource_attrs self) ''engagement-hub'')"
  show ?thesis
  proof (cases o1)
    case (Inl x)
    then show ?thesis using assms(1) e ef by (intro failed [of x]) (simp_all add: write_batch_def)
  next
    case (Inr f)
    let ?size = "if io_meta io then file_len fs f else 0"
    have f: "f = file_path lib self (io_today io)" "resource_attrs s1 = resource_attrs self"
      "size_cap s1 = size_cap self" "drop_counter s1 = drop_counter self" using ef Inr by (auto simp: same_setup_def)
    note eqs = assms(1) [unfolded write_batch_def e Inr Let_def prod.case sum.case f(2,3,4)]
    show ?thesis
    proof (cases "size_cap self \<le> ?size")
      case True
      then show ?thesis using eqs ef by (intro capped) (auto simp: same_setup_def)
    next
      case False
      then have room: "io_meta io \<longrightarrow> file_len fs f < size_cap self" by auto
      show ?thesis
      proof (cases ?json)
        case None
        then show ?thesis using eqs False ef by (intro failed [of Serde_Error]) auto
      next
        case (Some json)
        then have line: "json_line lib (resource_attrs self) bt = Some (json @ [CHR 0x0A])"
          by (simp add: json_line_def)
        show ?thesis
        proof (cases "io_write io")
          case None
          then show ?thesis using eqs False Some ef by (intro wrote [OF _ f(1) line]) (use room in auto)
        next
          case (Some k)
          then show ?thesis using eqs False \<open>?json = _\<close> ef by (intro torn [OF _ Some f(1) line]) (use room in auto)
        qed
      qed
    qed
  qed
qed

definition jsonl_good ::
  "('d, 'a) trace_lib \<Rightarrow> string \<Rightarrow> KvAttribute list \<Rightarrow> 'd JsonlFileExporter \<times> trace_files \<Rightarrow> bool" where
  "jsonl_good lib label attrs st \<longleftrightarrow>
     jsonl_wf lib (fst st) \<and> resource_attrs (fst st) = attrs \<and> drop_counter (fst st) = Some label"

definition jsonl_stored :: "'d JsonlFileExporter \<times> trace_files \<Rightarrow> string option list" where
  "jsonl_stored st = whole_lines (appended (snd st))"

lemmas jsonl_books = jsonl_good_def jsonl_stored_def same_setup_def added_def

lemma jsonl_export_keeps:
  assumes "jsonl_good lib label attrs st" "jsonl_export lib label io bt st = (st', own, r)"
  shows "jsonl_good lib label attrs st' \<and>
    (r = ExportOk \<and> (jsonl_stored st' = jsonl_stored st @ [json_line lib attrs bt] \<and> own = 0 \<or>
       jsonl_stored st' = jsonl_stored st \<and> own = length bt) \<or>
     r = ExportErr \<and> jsonl_stored st' = jsonl_stored st \<and> own = 0)"
proof -
  obtain self fs where st: "st = (self, fs)" by force
  have wf: "jsonl_wf lib self" using assms(1) st by (simp add: jsonl_good_def)
  obtain self' fs' counted w where wb: "write_batch lib io bt (self, fs) = ((self', fs'), counted, w)"
    and e: "st' = (self', fs')" "own = added label counted" "r = (case w of Inl e \<Rightarrow> ExportErr | Inr _ \<Rightarrow> ExportOk)"
    using assms(2) st by (cases st') (auto simp: jsonl_export_def split: prod.splits)
  from wb wf show ?thesis
    by (cases rule: write_batch_cases) (use assms(1) e st in \<open>auto simp: jsonl_books\<close>)
qed

interpretation jsonl: counting_exporter "jsonl_export lib label" "jsonl_good lib label attrs" jsonl_stored "json_line lib attrs"
  for lib :: "('d, 'a) trace_lib" and label attrs
proof
  show "snd (snd (jsonl_export lib label i b x)) \<noteq> ExportPanic" for i b x
    by (simp add: jsonl_export_def split_beta split: sum.splits)
  show "jsonl_good lib label attrs (fst (jsonl_export lib label i b x))" if "jsonl_good lib label attrs x" for i b x
    using jsonl_export_keeps [OF that, of i b] by (metis prod.exhaust_sel)
qed (use jsonl_export_keeps in blast)+

text \<open>C23. Behind the local exporter the books balance exactly, whatever fails and however the calls
  interleave, with the one counter that processor and exporter share: the complete lines written since
  start-up are, in order, one per stored batch; every span that ended is in exactly one of them, or is
  counted in the drop counter (rejected at the channel, in a batch that could not be written, or in one the
  exporter refused because its file had reached the cap), or is still held; the stored spans keep the order
  in which they ended; and nothing else moves the counter.\<close>

theorem local_pipeline_balances:
  assumes "proc_run (jsonl_export lib label) n c (new_with_counter name attrs label today, fs) es p"
  shows "\<exists>bs capped.
     whole_lines (appended (snd (exporter p))) = whole_lines (appended fs) @ map (json_line lib attrs) bs \<and>
     dropped p = c + of_nat (length (over rejected_of es) + length (over failed_of es) + capped) \<and>
     subseq (concat bs) (over ended_of es) \<and>
     length (over ended_of es) =
       length (concat bs) + length (over rejected_of es) + length (over failed_of es) + capped + length (pending p)"
proof -
  have "jsonl_good lib label attrs (new_with_counter name attrs label today, fs)"
    by (simp add: jsonl_good_def jsonl_wf_def new_with_counter_def new_inner_def)
  from jsonl.books_balance [OF assms this] show ?thesis
    by (simp add: jsonl_stored_def)
qed

section \<open>Days and caps\<close>

fun export_all ::
  "('d, 'a) trace_lib \<Rightarrow> ('d trace_io \<times> 'a SpanData list) list \<Rightarrow> 'd JsonlFileExporter \<times> trace_files \<Rightarrow>
     'd JsonlFileExporter \<times> trace_files" where
  "export_all lib [] st = st"
| "export_all lib ((io, bt) # jobs) st = export_all lib jobs (fst (write_batch lib io bt st))"

text \<open>What one export leaves in the files: nothing, or a chunk of its line in the file of its day, which was
  below the cap.\<close>

definition lands :: "('d, 'a) trace_lib \<Rightarrow> 'd JsonlFileExporter \<Rightarrow> ('d trace_io \<times> 'a SpanData list) list \<Rightarrow> append \<Rightarrow> bool" where
  "lands lib self jobs a \<longleftrightarrow> (\<exists>(io, bt) \<in> set jobs. append_path a = file_path lib self (io_today io) \<and>
     (\<exists>line. json_line lib (resource_attrs self) bt = Some line \<and> prefix (append_text a) line))"

lemma file_len_append:
  "file_len (fs\<lparr>appended := appended fs @ [a]\<rparr>) path =
     file_len fs path + (if append_path a = path then length (append_text a) else 0)"
  by (simp add: file_len_def)

lemma write_batch_lands:
  assumes "jsonl_wf lib self" "write_batch lib io bt (self, fs) = ((self', fs'), w)"
  shows "jsonl_wf lib self' \<and> same_setup self' self \<and>
    (fs' = fs \<or> (\<exists>a. fs' = fs\<lparr>appended := appended fs @ [a]\<rparr> \<and> lands lib self [(io, bt)] a \<and>
       (io_meta io \<longrightarrow> file_len fs (append_path a) < size_cap self)))"
proof -
  obtain counted r where "write_batch lib io bt (self, fs) = ((self', fs'), counted, r)"
    using assms(2) by (cases w) auto
  from this assms(1) show ?thesis
    by (cases rule: write_batch_cases) (auto simp: lands_def take_is_prefix)
qed

lemma lands_setup: "same_setup a b \<Longrightarrow> lands lib a = lands lib b"
  by (simp add: lands_def fun_eq_iff file_path_setup) (simp add: same_setup_def)

lemma lands_mono: "lands lib self [j] a \<Longrightarrow> j \<in> set jobs \<Longrightarrow> lands lib self jobs a"
  by (auto simp: lands_def)

text \<open>The sizes of files can be read, and no line is longer than \<open>L\<close>.\<close>

definition lines_fit ::
  "('d, 'a) trace_lib \<Rightarrow> KvAttribute list \<Rightarrow> nat \<Rightarrow> ('d trace_io \<times> 'a SpanData list) list \<Rightarrow> bool" where
  "lines_fit lib attrs L jobs \<longleftrightarrow> list_all (\<lambda>(io, bt). io_meta io \<and>
     (case json_line lib attrs bt of None \<Rightarrow> True | Some line \<Rightarrow> length line \<le> L)) jobs"

lemma lands_length:
  "lands lib self jobs a \<Longrightarrow> lines_fit lib (resource_attrs self) L jobs \<Longrightarrow> length (append_text a) \<le> L"
  by (fastforce simp: lands_def lines_fit_def list_all_iff dest!: prefix_length_le)

lemma export_all_files:
  assumes "export_all lib jobs (self, fs) = (self', fs')" "jsonl_wf lib self"
    and "lines_fit lib (resource_attrs self) L jobs"
  shows "(\<exists>new. appended fs' = appended fs @ new \<and> (\<forall>a \<in> set new. lands lib self jobs a)) \<and>
     (\<forall>path. file_len fs' path \<le> file_len fs path \<or> file_len fs' path < size_cap self + L)"
  using assms
proof (induction jobs arbitrary: self fs)
  case Nil
  then show ?case by simp
next
  case (Cons j jobs)
  obtain io bt where j: "j = (io, bt)" by force
  obtain s1 f1 r where e: "write_batch lib io bt (self, fs) = ((s1, f1), r)" by (metis prod.exhaust)
  note step = write_batch_lands [OF Cons.prems(2) e]
  have conf: "same_setup s1 self" "size_cap s1 = size_cap self" "resource_attrs s1 = resource_attrs self"
    using step by (auto simp: same_setup_def)
  have fit: "lines_fit lib (resource_attrs self) L [j]" "lines_fit lib (resource_attrs self) L jobs"
    using Cons.prems(3) by (simp_all add: lines_fit_def)
  have "(\<exists>new. appended fs' = appended f1 @ new \<and> (\<forall>a \<in> set new. lands lib s1 jobs a)) \<and>
     (\<forall>path. file_len fs' path \<le> file_len f1 path \<or> file_len fs' path < size_cap s1 + L)"
    by (rule Cons.IH) (use Cons.prems(1) e j step conf fit in simp_all)
  then obtain new where new: "appended fs' = appended f1 @ new" "\<forall>a \<in> set new. lands lib self jobs a"
    and len: "\<And>path. file_len fs' path \<le> file_len f1 path \<or> file_len fs' path < size_cap self + L"
    unfolding lands_setup [OF conf(1)] conf(2) by blast
  have later: "\<forall>a \<in> set new. lands lib self (j # jobs) a" using new(2) by (force simp: lands_def)
  from step consider "f1 = fs" | a where "f1 = fs\<lparr>appended := appended fs @ [a]\<rparr>" "lands lib self [j] a"
    "io_meta io \<longrightarrow> file_len fs (append_path a) < size_cap self" using j by blast
  then show ?case
  proof cases
    case 1
    then show ?thesis using new later len by auto
  next
    case (2 a)
    have "file_len f1 path \<le> file_len fs path \<or> file_len f1 path < size_cap self + L" for path
      using 2 lands_length [OF 2(2) fit(1)] fit(1) j by (auto simp: file_len_append lines_fit_def)
    then have "file_len fs' path \<le> file_len fs path \<or> file_len fs' path < size_cap self + L" for path
      using len [of path] by (meson order_trans order_le_less_trans)
    moreover have "appended fs' = appended fs @ a # new" "\<forall>b \<in> set (a # new). lands lib self (j # jobs) b"
      using 2 new later lands_mono [OF 2(2)] by auto
    ultimately show ?thesis by blast
  qed
qed

text \<open>C24. Rotation and cap over any history of exports of a new exporter, whatever files were there and
  whichever operations fail: everything appended is a prefix of the JSON line of one of the batches, in
  the file of the service and of the day of that export; and as long as sizes can be read no file grows
  past the cap by more than the line that reached it.\<close>

theorem daily_files_capped:
  assumes "export_all lib jobs (new_inner name dir date cap counter attrs, fs) = (self', fs')"
    and "lines_fit lib attrs L jobs"
  shows "(\<exists>new. appended fs' = appended fs @ new \<and>
       (\<forall>a \<in> set new. \<exists>(io, bt) \<in> set jobs.
          append_path a = path_join dir (name @ ''-'' @ fmt_date lib (io_today io) @ ''.jsonl'') \<and>
          (\<exists>line. json_line lib attrs bt = Some line \<and> prefix (append_text a) line))) \<and>
    (\<forall>path. file_len fs' path \<le> file_len fs path \<or> file_len fs' path < cap + L)"
proof -
  let ?self = "new_inner name dir date cap counter attrs"
  have "jsonl_wf lib ?self" "resource_attrs ?self = attrs" "size_cap ?self = cap"
    "file_path lib ?self d = path_join dir (name @ ''-'' @ fmt_date lib d @ ''.jsonl'')" for d
    by (simp_all add: jsonl_wf_def new_inner_def file_path_def)
  then show ?thesis
    using export_all_files [OF assms(1), of L] assms(2) by (simp add: lands_def)
qed

section \<open>What the purge removes\<close>

text \<open>The stem of a name, the names on which the slice panics, and the names whose last ten bytes before
  the extension are a date older than the retention.\<close>

definition stem :: "dir_entry \<Rightarrow> string" where
  "stem e = trim_end_matches ''.jsonl'' (entry_name e)"

definition dated :: "dir_entry \<Rightarrow> bool" where
  "dated e \<longleftrightarrow> suffix ''.jsonl'' (entry_name e) \<and> 10 \<le> length (stem e)"

definition splits_char :: "dir_entry \<Rightarrow> bool" where
  "splits_char e \<longleftrightarrow> dated e \<and> \<not> is_char_boundary (stem e) (length (stem e) - 10)"

definition expired :: "('d, 'a) trace_lib \<Rightarrow> 'd \<Rightarrow> int \<Rightarrow> dir_entry \<Rightarrow> bool" where
  "expired lib today retention_days e \<longleftrightarrow> dated e \<and>
     (case parse_date lib (drop (length (stem e) - 10) (stem e)) of
        None \<Rightarrow> False | Some d \<Rightarrow> retention_days < days_since lib today d)"

fun readable :: "(unit + dir_entry) list \<Rightarrow> dir_entry list" where
  "readable [] = []"
| "readable (Inl u # es) = readable es"
| "readable (Inr e # es) = e # readable es"

lemmas purge_defs = expired_def splits_char_def dated_def stem_def str_from_def

text \<open>C38. The purge, exactly: it goes through the readable entries in order and removes those whose last
  ten bytes before the extension parse as a date older than the retention (and whose removal succeeds),
  up to the first name whose tenth byte from the end of the stem is inside a multi-byte character; there it
  panics, and without such a name it ends normally.\<close>

theorem purge_exact:
  "purge_loop lib today retention_days remove_ok es =
     (map entry_path (filter (\<lambda>e. expired lib today retention_days e \<and> remove_ok (entry_path e))
        (takeWhile (\<lambda>e. \<not> splits_char e) (readable es))),
      if \<exists>e \<in> set (readable es). splits_char e then Unwind else Ret ())"
proof (induction es rule: readable.induct)
  case (3 e es)
  show ?case
  proof (cases "splits_char e")
    case True
    then show ?thesis by (simp add: purge_defs not_less)
  next
    case False
    then show ?thesis using 3 by (auto simp: purge_defs Let_def not_less split: option.splits)
  qed
qed simp_all

text \<open>The exporter's own files: a date prints as ten ASCII digits and dashes.\<close>

definition digit_or_dash :: "char \<Rightarrow> bool" where
  "digit_or_dash c \<longleftrightarrow> c = CHR ''-'' \<or> 48 \<le> (of_char c :: nat) \<and> (of_char c :: nat) \<le> 57"

definition date_text :: "string \<Rightarrow> bool" where
  "date_text s \<longleftrightarrow> length s = 10 \<and> list_all digit_or_dash s"

lemma digit_or_dash_ascii: "digit_or_dash c \<Longrightarrow> \<not> is_continuation c \<and> c \<noteq> CHR ''l''"
  by (auto simp: digit_or_dash_def is_continuation_def)

definition own_entry :: "('d, 'a) trace_lib \<Rightarrow> 'd JsonlFileExporter \<Rightarrow> 'd \<Rightarrow> dir_entry" where
  "own_entry lib self d =
     \<lparr>entry_path = file_path lib self d, entry_name = service_name self @ ''-'' @ fmt_date lib d @ ''.jsonl''\<rparr>"

lemma trim_once:
  assumes "\<not> suffix pat s" "pat \<noteq> []"
  shows "trim_end_matches pat (s @ pat) = s"
proof -
  have "trim_end_matches pat (s @ pat) = trim_end_matches pat s"
    using assms(2) by (subst trim_end_matches.simps) (simp add: suffix_def)
  also have "\<dots> = s" using assms(1) by (subst trim_end_matches.simps) simp
  finally show ?thesis .
qed

lemma own_entry_stem:
  assumes "date_text (fmt_date lib d)"
  shows "stem (own_entry lib self d) = service_name self @ ''-'' @ fmt_date lib d"
proof -
  let ?s = "service_name self @ ''-'' @ fmt_date lib d"
  have "fmt_date lib d \<noteq> []" "\<forall>c \<in> set (fmt_date lib d). digit_or_dash c"
    using assms by (auto simp: date_text_def list_all_iff)
  then have "last ?s \<noteq> CHR ''l''" using digit_or_dash_ascii last_in_set by fastforce
  moreover have "last ?s = CHR ''l''" if "suffix ''.jsonl'' ?s"
    using that unfolding suffix_def by (metis last_appendR last.simps list.distinct(1))
  ultimately have "\<not> suffix ''.jsonl'' ?s" by blast
  from trim_once [OF this] show ?thesis by (simp add: stem_def own_entry_def)
qed

lemma own_entry_dated:
  assumes "date_text (fmt_date lib d)"
  shows "dated (own_entry lib self d) \<and> \<not> splits_char (own_entry lib self d) \<and>
    drop (length (stem (own_entry lib self d)) - 10) (stem (own_entry lib self d)) = fmt_date lib d"
proof -
  have len: "length (fmt_date lib d) = 10" and "digit_or_dash (fmt_date lib d ! 0)"
    using assms by (simp_all add: date_text_def list_all_length)
  then have "\<not> is_continuation (fmt_date lib d ! 0)" by (simp add: digit_or_dash_ascii)
  then have "is_char_boundary (stem (own_entry lib self d)) (length (stem (own_entry lib self d)) - 10)"
    using len by (simp add: own_entry_stem [OF assms] is_char_boundary_def nth_append)
  moreover have "dated (own_entry lib self d)"
    using len by (simp add: dated_def own_entry_stem [OF assms]) (simp add: own_entry_def suffix_def)
  ultimately show ?thesis using len by (simp add: splits_char_def own_entry_stem [OF assms])
qed

lemma own_entry_expired:
  assumes "date_text (fmt_date lib d)" "parse_date lib (fmt_date lib d) = Some d"
  shows "expired lib today n (own_entry lib self d) \<longleftrightarrow> n < days_since lib today d"
  using own_entry_dated [OF assms(1), of self] assms(2) by (simp add: expired_def)

text \<open>Retention of the exporter's own files: in a directory that holds its files of any days, in any
  order, the purge never panics and removes exactly the files of the days more than the retention ago,
  given only that these dates print as ten digits and dashes and parse back.\<close>

theorem own_files_retained:
  assumes "\<forall>d \<in> set days. date_text (fmt_date lib d) \<and> parse_date lib (fmt_date lib d) = Some d"
  shows "purge_old_files lib today retention_days (\<lambda>_. True) (Some (map (Inr \<circ> own_entry lib self) days)) =
    (map (file_path lib self) (filter (\<lambda>d. retention_days < days_since lib today d) days), Ret ())"
  using assms
proof (induction days)
  case (Cons d days)
  then have d: "date_text (fmt_date lib d)" "parse_date lib (fmt_date lib d) = Some d" by simp_all
  note own = own_entry_dated [OF d(1), of self]
  then have "is_char_boundary (stem (own_entry lib self d)) (length (stem (own_entry lib self d)) - 10)"
    by (simp add: splits_char_def)
  with own Cons d show ?case
    by (simp add: purge_old_files_def dated_def str_from_def Let_def stem_def not_less own_entry_def)
qed (simp add: purge_old_files_def)

text \<open>A name of the directory that is not the exporter's can stop the process at start-up: here an
  accented letter ten bytes before the extension.\<close>

definition accented_entry :: dir_entry where
  "accented_entry =
     \<lparr>entry_path = ''.traces/x'', entry_name = [CHR 0xC3, CHR 0xA9] @ ''-trace-v2.jsonl''\<rparr>"

lemma accented_splits: "splits_char accented_entry"
  by code_simp

lemma purge_panics:
  "purge_old_files lib today retention_days remove_ok (Some [Inr accented_entry]) = ([], Unwind)"
  using accented_splits
  by (simp add: purge_old_files_def splits_char_def dated_def stem_def str_from_def Let_def not_less)

section \<open>Concrete runs\<close>

text \<open>A calendar of two days, eight days apart, and an encoder that prints the number of spans.\<close>

definition two_days :: "(bool, unit) trace_lib" where
  "two_days =
     \<lparr>fmt_date = (\<lambda>d. if d then ''2024-01-09'' else ''2024-01-01''),
      parse_date = (\<lambda>s. if s = ''2024-01-09'' then Some True else if s = ''2024-01-01'' then Some False else None),
      days_since = (\<lambda>a b. (if a then 8 else 0) - (if b then 8 else 0)),
      fmt_debug = (\<lambda>_. []),
      to_json = (\<lambda>t. Some (show_nat (length (read_traces t))))\<rparr>"

definition calm :: "bool \<Rightarrow> bool trace_io" where
  "calm d = \<lparr>io_today = d, io_mkdir = True, io_open = True, io_meta = True, io_write = None\<rparr>"

definition no_files :: trace_files where
  "no_files = \<lparr>found_size = (\<lambda>_. 0), appended = []\<rparr>"

lemma two_days_line: "json_line two_days attrs bt = Some (show_nat (length bt) @ [CHR 0x0A])"
  by (simp add: json_line_def two_days_def read_traces_def spans_to_traces_data_def)

theorem own_files_retained_witness:
  "purge_old_files two_days True 7 (\<lambda>_. True)
     (Some (map (Inr \<circ> own_entry two_days (new_exporter ''hub'' [] True)) [False, True])) =
   ([''.traces/hub-2024-01-01.jsonl''], Ret ())"
  by (subst own_files_retained)
     (simp_all add: two_days_def date_text_def digit_or_dash_def file_path_def path_join_def new_exporter_def new_inner_def)

definition two_jobs :: "(bool trace_io \<times> unit SpanData list) list" where
  "two_jobs = [(calm False, [sample_span]), (calm True, [sample_span, sample_span])]"

theorem daily_files_capped_witness:
  "\<exists>self' fs' new. export_all two_days two_jobs (new_inner ''hub'' ''d'' False 100 None [], no_files) = (self', fs') \<and>
     appended fs' = appended no_files @ new \<and>
     list_all (\<lambda>a. \<exists>(io, bt) \<in> set two_jobs.
       append_path a = path_join ''d'' (''hub'' @ ''-'' @ fmt_date two_days (io_today io) @ ''.jsonl'') \<and>
       (\<exists>line. json_line two_days [] bt = Some line \<and> prefix (append_text a) line)) new \<and>
     (\<forall>path. file_len fs' path \<le> file_len no_files path \<or> file_len fs' path < 100 + 2)"
proof -
  obtain self' fs' where e: "export_all two_days two_jobs (new_inner ''hub'' ''d'' False 100 None [], no_files) = (self', fs')"
    by force
  have "lines_fit two_days [] 2 two_jobs"
    by (simp add: lines_fit_def two_jobs_def two_days_line calm_def numeral_2_eq_2 [symmetric])
  from daily_files_capped [OF e this] e show ?thesis unfolding list_all_iff by blast
qed

text \<open>One span through the local pipeline: it ends, is received, a tick exports it.\<close>

definition local_start :: "bool JsonlFileExporter \<times> trace_files" where
  "local_start = (new_with_counter ''hub'' [] ''local'' False, no_files)"

lemma local_run:
  "\<exists>p. proc_run (jsonl_export two_days ''local'') 1 0 local_start
     [Span_Ended sample_span True, Received sample_span, Ticked, Export_Ended [sample_span] 0 ExportOk] p"
proof -
  define p0 :: "(unit SpanData, bool JsonlFileExporter \<times> trace_files) processor" where "p0 =
     \<lparr>capacity = 1, channel = [], closed = False, shutdown_tx = True, shutdown_sent = False,
      task_handle = True, dropped = 0, batch = [], task = Selecting, exporter = local_start, exporter_shut = False, released = False\<rparr>"
  obtain x' k r where x: "jsonl_export two_days ''local'' (calm False) [sample_span] local_start = (x', k, r)" by (metis prod.exhaust)
  have r: "k = 0 \<and> r = ExportOk"
    using x by (simp add: jsonl_export_def write_batch_def ensure_file_def local_start_def new_with_counter_def
        new_inner_def calm_def no_files_def two_days_def file_len_def MAX_FILE_BYTES_def added_def Let_def)
  have "proc_run (jsonl_export two_days ''local'') 1 0 local_start [] p0"
    by (rule proc_run.start) (simp add: new_with_capacity_def p0_def)
  then have "proc_run (jsonl_export two_days ''local'') 1 0 local_start ([] @ [Span_Ended sample_span True]) (p0\<lparr>channel := [sample_span]\<rparr>)"
    by (rule proc_run.step) (rule proc_step.span_ended, simp_all add: on_end_def try_send_def p0_def)
  then have "proc_run (jsonl_export two_days ''local'') 1 0 local_start (([] @ [Span_Ended sample_span True]) @ [Received sample_span])
      (push_span To_Select sample_span [] (p0\<lparr>channel := [sample_span]\<rparr>))"
    by (rule proc_run.step) (rule proc_step.received, simp_all add: p0_def)
  then have "proc_run (jsonl_export two_days ''local'') 1 0 local_start
      ((([] @ [Span_Ended sample_span True]) @ [Received sample_span]) @ [Ticked])
      (tick (push_span To_Select sample_span [] (p0\<lparr>channel := [sample_span]\<rparr>)))"
    by (rule proc_run.step) (rule proc_step.ticked, simp add: p0_def push_span_def Let_def MAX_BATCH_def)
  then have "proc_run (jsonl_export two_days ''local'') 1 0 local_start
      (((([] @ [Span_Ended sample_span True]) @ [Received sample_span]) @ [Ticked]) @ [Export_Ended [sample_span] k r])
      (export_ends x' k r [sample_span] To_Select
        (tick (push_span To_Select sample_span [] (p0\<lparr>channel := [sample_span]\<rparr>))))"
    by (rule proc_run.step)
       (rule proc_step.export_ended [where i = "calm False"],
        simp_all add: p0_def push_span_def tick_def start_export_def Let_def MAX_BATCH_def x)
  then show ?thesis using r by auto
qed

theorem local_pipeline_balances_witness:
  "\<exists>(p :: (unit SpanData, bool JsonlFileExporter \<times> trace_files) processor) bs capped.
     whole_lines (appended (snd (exporter p))) = whole_lines (appended no_files) @ map (json_line two_days []) bs \<and>
     dropped p = 0 + of_nat (0 + 0 + capped) \<and>
     subseq (concat bs) [sample_span] \<and> length [sample_span] = length (concat bs) + 0 + 0 + capped + length (pending p)"
proof -
  let ?es = "[Span_Ended sample_span True, Received sample_span, Ticked, Export_Ended [sample_span] 0 ExportOk]"
  obtain p where p: "proc_run (jsonl_export two_days ''local'') 1 0 (new_with_counter ''hub'' [] ''local'' False, no_files) ?es p"
    using local_run unfolding local_start_def by blast
  have "over ended_of ?es = [sample_span]" "length (over rejected_of ?es) = 0" "length (over failed_of ?es) = 0"
    by (simp_all add: over_def)
  from local_pipeline_balances [OF p, unfolded this] show ?thesis by (rule exI)
qed

end
