(* ===== verification/Telemetry.thy ===== *)
theory Telemetry
  imports Local_Exporter Config
begin

text \<open>
  Setting telemetry up (\<^verbatim>\<open>engagement-hub/src/telemetry/mod.rs\<close>): the base64 encoder of
  the Langfuse credentials, the resource attributes, and which span processors the tracer provider gets.
  The OTLP exporters belong to \<^verbatim>\<open>opentelemetry_otlp\<close>: whether one can be built is a
  parameter, and the model keeps what it was built from. The log subscriber is not modelled.
\<close>

unbundle bit_operations_syntax

section \<open>Base64\<close>

definition TABLE :: string where
  "TABLE = ''ABCDEFGHIJKLMNOPQRSTUVWXYZabcdefghijklmnopqrstuvwxyz0123456789+/''"

fun chunks3 :: "'a list \<Rightarrow> 'a list list" where
  "chunks3 [] = []"
| "chunks3 [a] = [[a]]"
| "chunks3 [a, b] = [[a, b]]"
| "chunks3 (a # b # c # xs) = [a, b, c] # chunks3 xs"

definition encode_chunk :: "nat list \<Rightarrow> string" where
  "encode_chunk chunk =
     (let b0 = chunk ! 0;
          b1 = (if length chunk > 1 then chunk ! 1 else 0);
          b2 = (if length chunk > 2 then chunk ! 2 else 0)
      in [TABLE ! drop_bit 2 b0,
          TABLE ! (push_bit 4 (b0 AND 3) OR drop_bit 4 b1),
          if length chunk > 1 then TABLE ! (push_bit 2 (b1 AND 0xf) OR drop_bit 6 b2) else CHR ''='',
          if length chunk > 2 then TABLE ! (b2 AND 0x3f) else CHR ''=''])"

definition base64_encode :: "string \<Rightarrow> string" where
  "base64_encode input = concat (map encode_chunk (chunks3 (map of_char input)))"

section \<open>The provider\<close>

datatype 'd exporter_spec =
    Otlp_Tonic string
  | Otlp_Http string "(string \<times> string) list"
  | Jsonl_File "'d JsonlFileExporter"

text \<open>A processor as it is created: its name, its exporter and the label of its drop counter.\<close>

record 'd processor_spec =
  proc_name :: string
  proc_exporter :: "'d exporter_spec"
  proc_drop_label :: string

record 'd tracer_provider =
  provider_resource :: "(string \<times> string) list"
  provider_processors :: "'d processor_spec list"

definition build_provider :: "(string \<times> string) list \<Rightarrow> 'd processor_spec list \<Rightarrow> 'd tracer_provider" where
  "build_provider res procs =
     foldl (\<lambda>b p. b\<lparr>provider_processors := provider_processors b @ [p]\<rparr>)
       \<lparr>provider_resource = res, provider_processors = []\<rparr> procs"

text \<open>What the process finds at start-up: its version, which exporters can be built, today's date, the
  trace directory, and the removals that succeed.\<close>

record ('d, 'a) telemetry_env =
  pkg_version :: string
  tonic_builds :: "string \<Rightarrow> bool"
  http_builds :: "string \<Rightarrow> (string \<times> string) list \<Rightarrow> bool"
  local_today :: 'd
  traces_found :: "(unit + dir_entry) list option"
  removes :: "string \<Rightarrow> bool"

definition build_resource_attrs :: "string \<Rightarrow> Config \<Rightarrow> KvAttribute list" where
  "build_resource_attrs version cfg =
     [\<lparr>kv_key = ''service.name'', kv_value = StringValue ''engagement-hub''\<rparr>,
      \<lparr>kv_key = ''service.version'', kv_value = StringValue version\<rparr>,
      \<lparr>kv_key = ''deployment.environment'', kv_value = StringValue (env_as_metric_label (env cfg))\<rparr>]"

definition telemetry_resource :: "string \<Rightarrow> Config \<Rightarrow> (string \<times> string) list" where
  "telemetry_resource version cfg =
     [(''service.name'', ''engagement-hub''), (''service.version'', version),
      (''service.namespace'', ''revocall''),
      (''deployment.environment'', env_as_metric_label (env cfg))]"

definition grafana_processors :: "('d, 'a) telemetry_env \<Rightarrow> Config \<Rightarrow> 'd processor_spec list" where
  "grafana_processors te cfg =
     (if otel_export_grafana cfg \<and> tonic_builds te (otel_grafana_endpoint cfg) then
        [\<lparr>proc_name = ''grafana'', proc_exporter = Otlp_Tonic (otel_grafana_endpoint cfg),
          proc_drop_label = ''grafana''\<rparr>]
      else [])"

definition langfuse_headers :: "Config \<Rightarrow> (string \<times> string) list" where
  "langfuse_headers cfg =
     (let auth = base64_encode (unwrap_or [] (langfuse_public_key cfg) @ '':'' @
                   unwrap_or [] (langfuse_secret_key cfg))
      in [(''Authorization'', ''Basic '' @ auth)])"

definition langfuse_processors :: "('d, 'a) telemetry_env \<Rightarrow> Config \<Rightarrow> 'd processor_spec list" where
  "langfuse_processors te cfg =
     (if otel_export_langfuse cfg \<and> http_builds te (otel_langfuse_endpoint cfg) (langfuse_headers cfg) then
        [\<lparr>proc_name = ''langfuse'',
          proc_exporter = Otlp_Http (otel_langfuse_endpoint cfg) (langfuse_headers cfg),
          proc_drop_label = ''langfuse''\<rparr>]
      else [])"

definition local_processor :: "('d, 'a) telemetry_env \<Rightarrow> Config \<Rightarrow> 'd processor_spec" where
  "local_processor te cfg =
     \<lparr>proc_name = ''local'',
      proc_exporter = Jsonl_File (new_with_counter ''engagement-hub''
        (build_resource_attrs (pkg_version te) cfg) ''local'' (local_today te)),
      proc_drop_label = ''local''\<rparr>"

text \<open>The trace files removed, and the provider unless the purge panicked.\<close>

definition init_telemetry ::
  "('d, 'a) trace_lib \<Rightarrow> ('d, 'a) telemetry_env \<Rightarrow> Config \<Rightarrow> string list \<times> 'd tracer_provider exec" where
  "init_telemetry lib te cfg =
     (let remote = grafana_processors te cfg @ langfuse_processors te cfg;
          res = telemetry_resource (pkg_version te) cfg
      in if otel_export_local cfg then
           (let (gone, r) = purge_old_files lib (local_today te) 7 (removes te) (traces_found te)
            in (gone, exec_map (\<lambda>_. build_provider res (remote @ [local_processor te cfg])) r))
         else ([], Ret (build_provider res remote)))"

section \<open>Decoding base64\<close>

text \<open>The decoder of RFC 4648, for the round trip.\<close>

definition b64_value :: "char \<Rightarrow> nat" where
  "b64_value c = length (takeWhile (\<lambda>x. x \<noteq> c) TABLE)"

fun base64_decode :: "string \<Rightarrow> string" where
  "base64_decode (a # b # c # d # rest) =
     (let w = b64_value a; x = b64_value b; y = b64_value c; z = b64_value d
      in char_of (4 * w + x div 16) #
         (if c = CHR ''='' then []
          else char_of (16 * (x mod 16) + y div 4) #
            (if d = CHR ''='' then [] else [char_of (64 * (y mod 4) + z)]))) @ base64_decode rest"
| "base64_decode _ = []"

lemma TABLE_value:
  assumes "i < 64"
  shows "b64_value (TABLE ! i) = i" "TABLE ! i \<noteq> CHR ''=''"
proof -
  have "list_all (\<lambda>i. b64_value (TABLE ! i) = i \<and> TABLE ! i \<noteq> CHR ''='') [0..<64]" by code_simp
  then show "b64_value (TABLE ! i) = i" "TABLE ! i \<noteq> CHR ''=''" using assms by (simp_all add: list_all_iff)
qed

lemma or_low_bits:
  assumes "y < 2 ^ k"
  shows "push_bit k x OR y = 2 ^ k * x + (y :: nat)"
proof -
  have "bit y n \<Longrightarrow> n < k" for n
    using assms by (metis bit_take_bit_iff take_bit_nat_eq_self)
  then have "push_bit k x + y = push_bit k x OR y"
    by (intro disjunctive_add) (force simp: bit_push_bit_iff not_le)
  then show ?thesis by (simp add: push_bit_eq_mult mult.commute)
qed

lemma and_low_bits: "(b :: nat) AND 3 = b mod 4" "b AND 0xf = b mod 16" "b AND 0x3f = b mod 64"
  using take_bit_eq_mask [of 2 b] take_bit_eq_mask [of 4 b] take_bit_eq_mask [of 6 b]
  by (simp_all add: take_bit_eq_mod mask_eq_exp_minus_1)

text \<open>The four indices of a chunk, in arithmetic; all are below 64, so the table is never read out of
  range.\<close>

lemma chunk_indices:
  assumes "b0 < 256" "b1 < 256" "b2 < 256"
  shows "drop_bit 2 b0 = b0 div 4" "push_bit 4 (b0 AND 3) OR drop_bit 4 b1 = 16 * (b0 mod 4) + b1 div 16"
    "push_bit 2 (b1 AND 0xf) OR drop_bit 6 b2 = 4 * (b1 mod 16) + b2 div (64 :: nat)"
    "b0 div 4 < 64" "16 * (b0 mod 4) + b1 div 16 < 64" "4 * (b1 mod 16) + b2 div 64 < 64" "b2 mod 64 < 64"
proof -
  have d: "b1 div 16 < 2 ^ 4" "b2 div 64 < 2 ^ 2" using assms by (simp_all add: div_less_iff_less_mult)
  show "drop_bit 2 b0 = b0 div 4" by (simp add: drop_bit_eq_div)
  show "push_bit 4 (b0 AND 3) OR drop_bit 4 b1 = 16 * (b0 mod 4) + b1 div 16"
    using or_low_bits [OF d(1)] by (simp add: drop_bit_eq_div and_low_bits)
  show "push_bit 2 (b1 AND 0xf) OR drop_bit 6 b2 = 4 * (b1 mod 16) + b2 div (64 :: nat)"
    using or_low_bits [OF d(2)] by (simp add: drop_bit_eq_div and_low_bits)
  show "b0 div 4 < 64" "16 * (b0 mod 4) + b1 div 16 < 64" "4 * (b1 mod 16) + b2 div 64 < 64" "b2 mod 64 < 64"
    using d assms mod_less_divisor [of 4 b0] mod_less_divisor [of 16 b1] by simp_all
qed

lemma of_char_lt [simp]: "(of_char c :: nat) < 256"
  using of_char_mod_256 [of c] by (metis mod_less_divisor zero_less_numeral)

lemma regroup:
  assumes "n < 256"
  shows "(16 * (m mod 4) + n div 16) div 16 = m mod 4" "(16 * (m mod 4) + n div 16) mod 16 = n div 16"
    "(4 * (m mod 16) + n div 64) div 4 = m mod 16" "(4 * (m mod 16) + n div 64) mod 4 = n div 64"
    "n div 16 div 16 = 0" "n div 16 mod 16 = n div 16" "n div 64 div 4 = 0" "n div 64 mod 4 = n div 64"
    "4 * (m div 4) + m mod 4 = m" "16 * (m div 16) + m mod 16 = m" "64 * (m div 64) + m mod 64 = (m :: nat)"
  using assms by (simp_all add: div_less_iff_less_mult)

lemma decode_quad:
  assumes "w < 64" "x < 64"
  shows "base64_decode (TABLE ! w # TABLE ! x # CHR ''='' # CHR ''='' # rest) =
      char_of (4 * w + x div 16) # base64_decode rest"
    "y < 64 \<Longrightarrow> base64_decode (TABLE ! w # TABLE ! x # TABLE ! y # CHR ''='' # rest) =
      char_of (4 * w + x div 16) # char_of (16 * (x mod 16) + y div 4) # base64_decode rest"
    "y < 64 \<Longrightarrow> z < 64 \<Longrightarrow> base64_decode (TABLE ! w # TABLE ! x # TABLE ! y # TABLE ! z # rest) =
      char_of (4 * w + x div 16) # char_of (16 * (x mod 16) + y div 4) # char_of (64 * (y mod 4) + z) #
        base64_decode rest"
  using assms by (simp_all add: TABLE_value Let_def)

lemma decode_encode_chunk:
  assumes "length cs \<in> {1, 2, 3}"
  shows "base64_decode (encode_chunk (map of_char cs) @ rest) = cs @ base64_decode rest"
proof -
  have chunk: "b0 < 256 \<Longrightarrow> encode_chunk [b0] = [TABLE ! (b0 div 4), TABLE ! (16 * (b0 mod 4) + 0 div 16), CHR ''='', CHR ''='']"
    "b0 < 256 \<Longrightarrow> b1 < 256 \<Longrightarrow> encode_chunk [b0, b1] =
       [TABLE ! (b0 div 4), TABLE ! (16 * (b0 mod 4) + b1 div 16), TABLE ! (4 * (b1 mod 16) + 0 div 64), CHR ''='']"
    "b0 < 256 \<Longrightarrow> b1 < 256 \<Longrightarrow> b2 < 256 \<Longrightarrow> encode_chunk [b0, b1, b2] =
       [TABLE ! (b0 div 4), TABLE ! (16 * (b0 mod 4) + b1 div 16), TABLE ! (4 * (b1 mod 16) + b2 div 64),
        TABLE ! (b2 mod 64)]" for b0 b1 b2
    using chunk_indices(1-3) [of b0 b1 b2] chunk_indices(1-3) [of b0 b1 0] chunk_indices(1-3) [of b0 0 0]
    unfolding encode_chunk_def Let_def by (simp_all add: and_low_bits)
  from assms consider a where "cs = [a]" | a b where "cs = [a, b]" | a b c where "cs = [a, b, c]"
    by (auto simp: numeral_eq_Suc length_Suc_conv)
  then show ?thesis
  proof cases
    case (1 a)
    then show ?thesis
      using chunk_indices(4-6) [of "of_char a" 0 0]
      by (simp add: chunk(1) decode_quad regroup del: base64_decode.simps div_0 add_0_right)
  next
    case (2 a b)
    then show ?thesis
      using chunk_indices(4-6) [of "of_char a" "of_char b" 0]
      by (simp add: chunk(2) decode_quad regroup del: base64_decode.simps div_0 add_0_right)
  next
    case (3 a b c)
    then show ?thesis
      using chunk_indices(4-7) [of "of_char a" "of_char b" "of_char c"]
      by (simp add: chunk(3) decode_quad regroup del: base64_decode.simps)
  qed
qed

text \<open>The encoder is base64: for every byte string, decoding its output by RFC 4648 gives the string
  back, and the output is four characters for every three bytes begun.\<close>

lemma base64_decode_encode:
  "base64_decode (base64_encode s) = s \<and> length (base64_encode s) = (length s + 2) div 3 * 4"
proof -
  have len: "length (encode_chunk c) = 4" for c by (simp add: encode_chunk_def Let_def)
  show ?thesis
  proof (induction s rule: chunks3.induct)
    case (4 a b c xs)
    moreover have "(5 + length xs) div 3 = Suc (Suc (Suc (length xs)) div 3)" by presburger
    ultimately show ?case
      using decode_encode_chunk [of "[a, b, c]" "base64_encode xs"] by (simp add: base64_encode_def len)
  next
    case (2 v)
    show ?case using decode_encode_chunk [of "[v]" "[]"] by (simp add: base64_encode_def len)
  next
    case (3 v w)
    show ?case using decode_encode_chunk [of "[v, w]" "[]"] by (simp add: base64_encode_def len)
  qed (simp add: base64_encode_def)
qed

section \<open>What telemetry starts with\<close>

lemma foldl_processors:
  "foldl (\<lambda>b p. b\<lparr>provider_processors := provider_processors b @ [p]\<rparr>) b procs =
     b\<lparr>provider_processors := provider_processors b @ procs\<rparr>"
  by (induction procs arbitrary: b) simp_all

lemma build_provider_simps [simp]:
  "provider_processors (build_provider res procs) = procs" "provider_resource (build_provider res procs) = res"
  by (simp_all add: build_provider_def foldl_processors)

lemma exec_map_Unwind_iff: "exec_map f r = Unwind \<longleftrightarrow> r = Unwind"
  by (cases r) simp_all

lemma init_telemetry_Ret:
  "init_telemetry lib te cfg = (gone, Ret provider) \<Longrightarrow>
     provider_processors provider = grafana_processors te cfg @ langfuse_processors te cfg @
       (if otel_export_local cfg then [local_processor te cfg] else [])"
  by (auto simp: init_telemetry_def Let_def exec_map_Ret_iff split: if_splits prod.splits)

text \<open>The one processor with a local exporter; the exporter counts in the series of its processor.\<close>

lemma local_processor_only:
  "init_telemetry lib te cfg = (gone, Ret provider) \<Longrightarrow> p \<in> set (provider_processors provider) \<Longrightarrow>
     proc_exporter p = Jsonl_File x \<Longrightarrow>
     otel_export_local cfg \<and> proc_drop_label p = ''local'' \<and>
     x = new_with_counter ''engagement-hub'' (build_resource_attrs (pkg_version te) cfg) (proc_drop_label p) (local_today te)"
  by (auto simp: grafana_processors_def langfuse_processors_def local_processor_def dest!: init_telemetry_Ret
      split: if_splits)

text \<open>Telemetry cannot stop the process unless it is to write local files and the trace directory holds a
  name that the purge cannot slice.\<close>

lemma init_telemetry_panics_iff:
  "snd (init_telemetry lib te cfg) = Unwind \<longleftrightarrow>
     otel_export_local cfg \<and> snd (purge_old_files lib (local_today te) 7 (removes te) (traces_found te)) = Unwind"
  by (simp add: init_telemetry_def Let_def split_beta exec_map_Unwind_iff)

text \<open>C37. The credentials reach Langfuse: under a configuration that passed validation, if the Langfuse
  export is on and its exporter can be built, the provider has exactly one processor for it, and the
  basic-auth header of that processor decodes to the configured public and secret key, both non-empty,
  joined by a colon.\<close>

theorem langfuse_credentials_sent:
  assumes "validate cfg = Inr ()" "otel_export_langfuse cfg"
    and "http_builds te (otel_langfuse_endpoint cfg) (langfuse_headers cfg)"
    and "init_telemetry lib te cfg = (gone, Ret provider)"
  shows "\<exists>pk sk auth. langfuse_public_key cfg = Some pk \<and> langfuse_secret_key cfg = Some sk \<and>
    pk \<noteq> [] \<and> sk \<noteq> [] \<and> base64_decode auth = pk @ '':'' @ sk \<and>
    filter (\<lambda>p. proc_name p = ''langfuse'') (provider_processors provider) =
      [\<lparr>proc_name = ''langfuse'',
        proc_exporter = Otlp_Http (otel_langfuse_endpoint cfg) [(''Authorization'', ''Basic '' @ auth)],
        proc_drop_label = ''langfuse''\<rparr>]"
proof -
  have "langfuse_ready cfg" using assms(1,2) by (simp add: validate_cases split: if_splits)
  then obtain pk sk where k: "langfuse_public_key cfg = Some pk" "langfuse_secret_key cfg = Some sk" "pk \<noteq> []" "sk \<noteq> []"
    by (auto simp: langfuse_ready_def split: option.splits)
  have "filter (\<lambda>p. proc_name p = ''langfuse'') (provider_processors provider) = langfuse_processors te cfg"
    using init_telemetry_Ret [OF assms(4)]
    by (simp add: grafana_processors_def langfuse_processors_def local_processor_def)
  then show ?thesis
    using k assms(2,3) base64_decode_encode [of "pk @ '':'' @ sk"]
    by (intro exI [of _ pk] exI [of _ sk] exI [of _ "base64_encode (pk @ '':'' @ sk)"])
       (simp add: langfuse_processors_def langfuse_headers_def)
qed

definition quiet_start :: "(bool, unit) telemetry_env" where
  "quiet_start =
     \<lparr>pkg_version = ''0.1.0'', tonic_builds = (\<lambda>_. True), http_builds = (\<lambda>_ _. True), local_today = True,
      traces_found = Some [], removes = (\<lambda>_. True)\<rparr>"

definition langfuse_config :: Config where
  "langfuse_config = sample_config\<lparr>otel_export_langfuse := True, otel_export_local := True,
     langfuse_public_key := Some ''pk'', langfuse_secret_key := Some ''sk''\<rparr>"

theorem langfuse_credentials_sent_witness:
  "\<exists>auth. base64_decode auth = ''pk:sk'' \<and>
     filter (\<lambda>p. proc_name p = ''langfuse'')
       (case snd (init_telemetry two_days quiet_start langfuse_config) of Ret provider \<Rightarrow> provider_processors provider | Unwind \<Rightarrow> []) =
     [\<lparr>proc_name = ''langfuse'',
       proc_exporter = Otlp_Http (otel_langfuse_endpoint langfuse_config) [(''Authorization'', ''Basic '' @ auth)],
       proc_drop_label = ''langfuse''\<rparr>]"
proof -
  obtain gone provider where i: "init_telemetry two_days quiet_start langfuse_config = (gone, Ret provider)"
    by (simp add: init_telemetry_def Let_def purge_old_files_def quiet_start_def langfuse_config_def)
  have "validate langfuse_config = Inr ()" "otel_export_langfuse langfuse_config"
    "http_builds quiet_start (otel_langfuse_endpoint langfuse_config) (langfuse_headers langfuse_config)"
    by (simp_all add: validate_def langfuse_config_def sample_config_def quiet_start_def)
  moreover have "langfuse_public_key langfuse_config = Some ''pk''" "langfuse_secret_key langfuse_config = Some ''sk''"
    by (simp_all add: langfuse_config_def)
  ultimately show ?thesis using langfuse_credentials_sent [OF _ _ _ i] unfolding i by auto
qed

end
