(* ===== verification/Servers.thy ===== *)
theory Servers
  imports Prelude
begin

text \<open>
  The servers of the hub process and its shutdown: \<^verbatim>\<open>server/grpc.rs\<close>,
  \<^verbatim>\<open>server/http.rs\<close>, \<^verbatim>\<open>shutdown.rs\<close> and the end of
  \<^verbatim>\<open>main.rs\<close>.

  The gRPC stack, the HTTP framework and the sockets are not part of the repository: a server task is
  running or ended, it may end at any time with an error (a failed bind included), and it may end after
  the shutdown flag is set. The process is a step relation between the statements of
  \<^verbatim>\<open>main\<close> and the ends of the tasks.
\<close>

section \<open>Watch channels\<close>

text \<open>The two \<^verbatim>\<open>watch::channel(false)\<close> of \<^verbatim>\<open>Shutdown\<close>, each as the value it
  holds.\<close>

record Shutdown =
  drain_flag :: bool
  shutdown_flag :: bool

definition Shutdown_default :: Shutdown where
  "Shutdown_default = \<lparr>drain_flag = False, shutdown_flag = False\<rparr>"

section \<open>The HTTP endpoints\<close>

type_synonym http_answer = "nat \<times> string"

text \<open>\<open>gathered\<close> is the result of \<^verbatim>\<open>gather_text\<close>, an error as its
  \<^verbatim>\<open>Display\<close>.\<close>

definition metrics_handler :: "(string, string) result \<Rightarrow> http_answer" where
  "metrics_handler gathered =
     (case gathered of Inr t \<Rightarrow> (200, t) | Inl e \<Rightarrow> (500, ''gather failed: '' @ e))"

definition livez_handler :: http_answer where
  "livez_handler = (200, ''ok'')"

definition readyz_handler :: "Shutdown \<Rightarrow> http_answer" where
  "readyz_handler s = (if drain_flag s then (503, ''draining'') else (200, ''ready''))"

text \<open>The router on a GET request; a path without a route is the framework's 404.\<close>

definition http_get :: "(string, string) result \<Rightarrow> Shutdown \<Rightarrow> string \<Rightarrow> http_answer" where
  "http_get gathered s path =
     (if path = ''/metrics'' then metrics_handler gathered
      else if path = ''/livez'' then livez_handler
      else if path = ''/readyz'' then readyz_handler s
      else (404, []))"

section \<open>The gRPC servers\<close>

datatype ServingStatus = Serving | NotServing

text \<open>A server task: running, or ended with or without an error.\<close>

datatype server_task = Running | Ended_Ok | Ended_Err

record GrpcServers =
  external_handle :: "server_task option"
  internal_handle :: server_task
  external_reporter :: "ServingStatus option"
  internal_reporter :: ServingStatus

text \<open>\<^verbatim>\<open>spawn\<close> starts the tasks and returns; the sockets are bound inside the tasks, so it
  cannot fail.\<close>

definition spawn_servers :: "bool \<Rightarrow> (string, GrpcServers) result" where
  "spawn_servers bind_external =
     Inr \<lparr>external_handle = (if bind_external then Some Running else None), internal_handle = Running,
          external_reporter = (if bind_external then Some Serving else None), internal_reporter = Serving\<rparr>"

text \<open>\<^verbatim>\<open>signal_draining\<close> awaits the internal reporter and then the external one.\<close>

definition drain_internal :: "GrpcServers \<Rightarrow> GrpcServers" where
  "drain_internal g = g\<lparr>internal_reporter := NotServing\<rparr>"

definition drain_external :: "GrpcServers \<Rightarrow> GrpcServers" where
  "drain_external g = g\<lparr>external_reporter := map_option (\<lambda>_. NotServing) (external_reporter g)\<rparr>"

definition signal_draining :: "GrpcServers \<Rightarrow> GrpcServers" where
  "signal_draining g = drain_external (drain_internal g)"

section \<open>The process after start-up\<close>

text \<open>Where \<^verbatim>\<open>main\<close> stands.\<close>

datatype main_at =
    Wait_Signal
  | Send_Drain
  | Drain_Internal
  | Drain_External
  | Send_Shutdown
  | Join_Http
  | Join_External
  | Join_Internal
  | Close_Pool
  | Stop_Telemetry
  | Exited

record hub =
  at :: main_at
  flags :: Shutdown
  grpc :: GrpcServers
  http_handle :: server_task
  pool_open :: bool
  telemetry_up :: bool

definition hub_started :: "GrpcServers \<Rightarrow> hub" where
  "hub_started g =
     \<lparr>at = Wait_Signal, flags = Shutdown_default, grpc = g, http_handle = Running, pool_open = True,
      telemetry_up = True\<rparr>"

definition is_running :: "server_task \<Rightarrow> bool" where
  "is_running t \<longleftrightarrow> t = Running"

text \<open>One statement of \<^verbatim>\<open>main\<close>; \<open>None\<close> while it waits. The results of the joined
  tasks are discarded.\<close>

definition main_next :: "bool \<Rightarrow> hub \<Rightarrow> hub option" where
  "main_next signal h =
     (case at h of
        Wait_Signal \<Rightarrow> if signal then Some (h\<lparr>at := Send_Drain\<rparr>) else None
      | Send_Drain \<Rightarrow> Some (h\<lparr>at := Drain_Internal, flags := (flags h)\<lparr>drain_flag := True\<rparr>\<rparr>)
      | Drain_Internal \<Rightarrow> Some (h\<lparr>at := Drain_External, grpc := drain_internal (grpc h)\<rparr>)
      | Drain_External \<Rightarrow> Some (h\<lparr>at := Send_Shutdown, grpc := drain_external (grpc h)\<rparr>)
      | Send_Shutdown \<Rightarrow> Some (h\<lparr>at := Join_Http, flags := (flags h)\<lparr>shutdown_flag := True\<rparr>\<rparr>)
      | Join_Http \<Rightarrow> if is_running (http_handle h) then None else Some (h\<lparr>at := Join_External\<rparr>)
      | Join_External \<Rightarrow>
          if external_handle (grpc h) = Some Running then None else Some (h\<lparr>at := Join_Internal\<rparr>)
      | Join_Internal \<Rightarrow>
          if is_running (internal_handle (grpc h)) then None else Some (h\<lparr>at := Close_Pool\<rparr>)
      | Close_Pool \<Rightarrow> Some (h\<lparr>at := Stop_Telemetry, pool_open := False\<rparr>)
      | Stop_Telemetry \<Rightarrow> Some (h\<lparr>at := Exited, telemetry_up := False\<rparr>)
      | Exited \<Rightarrow> None)"

datatype hub_event = Main bool | Http_Ends server_task | External_Ends server_task | Internal_Ends server_task

text \<open>A task may end with an error at any time, and without one only after the shutdown flag. What is said
  about progress below counts on the second kind of end only (\<open>graceful\<close>).\<close>

definition may_end :: "server_task \<Rightarrow> hub \<Rightarrow> bool" where
  "may_end t h \<longleftrightarrow> t = Ended_Err \<or> t = Ended_Ok \<and> shutdown_flag (flags h)"

inductive hub_step :: "hub \<Rightarrow> hub_event \<Rightarrow> hub \<Rightarrow> bool" where
  main_moves: "main_next sig h = Some h' \<Longrightarrow> hub_step h (Main sig) h'"
| http_ends: "http_handle h = Running \<Longrightarrow> may_end t h \<Longrightarrow> at h \<noteq> Exited \<Longrightarrow>
    hub_step h (Http_Ends t) (h\<lparr>http_handle := t\<rparr>)"
| external_ends: "external_handle (grpc h) = Some Running \<Longrightarrow> may_end t h \<Longrightarrow> at h \<noteq> Exited \<Longrightarrow>
    hub_step h (External_Ends t) (h\<lparr>grpc := (grpc h)\<lparr>external_handle := Some t\<rparr>\<rparr>)"
| internal_ends: "internal_handle (grpc h) = Running \<Longrightarrow> may_end t h \<Longrightarrow> at h \<noteq> Exited \<Longrightarrow>
    hub_step h (Internal_Ends t) (h\<lparr>grpc := (grpc h)\<lparr>internal_handle := t\<rparr>\<rparr>)"

inductive hub_run :: "hub \<Rightarrow> hub_event list \<Rightarrow> hub \<Rightarrow> bool" for h where
  start: "hub_run h [] h"
| step: "hub_run h es h' \<Longrightarrow> hub_step h' e h'' \<Longrightarrow> hub_run h (es @ [e]) h''"

section \<open>The order of a shutdown\<close>

fun main_rank :: "main_at \<Rightarrow> nat" where
  "main_rank Wait_Signal = 10"
| "main_rank Send_Drain = 9"
| "main_rank Drain_Internal = 8"
| "main_rank Drain_External = 7"
| "main_rank Send_Shutdown = 6"
| "main_rank Join_Http = 5"
| "main_rank Join_External = 4"
| "main_rank Join_Internal = 3"
| "main_rank Close_Pool = 2"
| "main_rank Stop_Telemetry = 1"
| "main_rank Exited = 0"

text \<open>What is settled at each statement, as a function of how far \<^verbatim>\<open>main\<close> has come.\<close>

definition hub_inv :: "bool \<Rightarrow> hub \<Rightarrow> bool" where
  "hub_inv ext h \<longleftrightarrow>
     (drain_flag (flags h) \<longleftrightarrow> main_rank (at h) \<le> 8) \<and>
     (internal_reporter (grpc h) = (if main_rank (at h) \<le> 7 then NotServing else Serving)) \<and>
     (external_reporter (grpc h) =
        (if ext then Some (if main_rank (at h) \<le> 6 then NotServing else Serving) else None)) \<and>
     (shutdown_flag (flags h) \<longleftrightarrow> main_rank (at h) \<le> 5) \<and>
     (main_rank (at h) \<le> 4 \<longrightarrow> http_handle h \<noteq> Running) \<and>
     (external_handle (grpc h) = None \<longleftrightarrow> \<not> ext) \<and>
     (main_rank (at h) \<le> 3 \<longrightarrow> external_handle (grpc h) \<noteq> Some Running) \<and>
     (main_rank (at h) \<le> 2 \<longrightarrow> internal_handle (grpc h) \<noteq> Running) \<and>
     (pool_open h \<longleftrightarrow> 2 \<le> main_rank (at h)) \<and> (telemetry_up h \<longleftrightarrow> 1 \<le> main_rank (at h))"

lemma hub_inv_main:
  assumes "hub_inv ext h" "main_next sig h = Some h'"
  shows "hub_inv ext h'"
  using assms
  by (cases "at h"; cases ext)
     (auto simp: main_next_def hub_inv_def drain_internal_def drain_external_def is_running_def split: if_splits)

lemma may_end_stops: "may_end t h \<Longrightarrow> t \<noteq> Running"
  by (auto simp: may_end_def)

lemma hub_inv_step: "hub_step h e h' \<Longrightarrow> hub_inv ext h \<Longrightarrow> hub_inv ext h'"
proof (induction rule: hub_step.induct)
  case (main_moves sig h h')
  then show ?case by (blast intro: hub_inv_main)
qed (auto simp: hub_inv_def dest: may_end_stops)

lemma hub_inv_run:
  assumes "spawn_servers ext = Inr g" "hub_run (hub_started g) es h"
  shows "hub_inv ext h"
  using assms(2)
proof (induction rule: hub_run.induct)
  case start
  then show ?case
    using assms(1) by (auto simp: spawn_servers_def hub_started_def hub_inv_def Shutdown_default_def)
qed (rule hub_inv_step)


text \<open>C20. The order of a shutdown, with or without the external listener and however the server tasks end:
  the servers are only told to stop once readiness answers 503 and every gRPC health service reports not
  serving; the database pool is only closed when no server task runs any more; telemetry only goes down
  after the pool, and the process only exits after both. Until the signal readiness answers 200.\<close>

theorem shutdown_order:
  assumes "spawn_servers ext = Inr g" "hub_run (hub_started g) es h"
  shows "(shutdown_flag (flags h) \<longrightarrow> http_get gathered (flags h) ''/readyz'' = (503, ''draining'') \<and>
       internal_reporter (grpc h) = NotServing \<and> external_reporter (grpc h) \<noteq> Some Serving) \<and>
    (\<not> pool_open h \<longrightarrow> http_handle h \<noteq> Running \<and> internal_handle (grpc h) \<noteq> Running \<and>
       external_handle (grpc h) \<noteq> Some Running \<and> shutdown_flag (flags h)) \<and>
    (\<not> telemetry_up h \<longrightarrow> \<not> pool_open h) \<and> (at h = Exited \<longleftrightarrow> \<not> telemetry_up h) \<and>
    (at h = Wait_Signal \<longrightarrow> http_get gathered (flags h) ''/readyz'' = (200, ''ready''))"
proof -
  have inv: "hub_inv ext h" by (rule hub_inv_run [OF assms])
  have "at h = Exited \<longleftrightarrow> main_rank (at h) = 0" by (cases "at h") simp_all
  then show ?thesis using inv
    by (cases ext) (auto simp: hub_inv_def http_get_def readyz_handler_def)
qed

section \<open>A signalled process ends\<close>

fun task_count :: "server_task \<Rightarrow> nat" where
  "task_count Running = 1"
| "task_count _ = 0"

definition hub_rank :: "hub \<Rightarrow> nat" where
  "hub_rank h = main_rank (at h) + task_count (http_handle h) + task_count (internal_handle (grpc h)) +
     (case external_handle (grpc h) of None \<Rightarrow> 0 | Some t \<Rightarrow> task_count t)"

lemma hub_rank_step: "hub_step h e h' \<Longrightarrow> hub_rank h' < hub_rank h"
proof (induction rule: hub_step.induct)
  case (main_moves sig h h')
  then show ?case
    by (cases "at h") (auto simp: main_next_def hub_rank_def drain_internal_def drain_external_def split: if_splits)
qed (auto simp: hub_rank_def may_end_def)

lemma hub_rank_run: "hub_run h es h' \<Longrightarrow> length es + hub_rank h' \<le> hub_rank h"
proof (induction rule: hub_run.induct)
  case (step es h' e h'')
  then show ?case using hub_rank_step [OF step.hyps(2)] by simp
qed simp

lemma task_count_le: "task_count t \<le> 1"
  by (cases t) simp_all

lemma hub_rank_bound: "at h \<noteq> Wait_Signal \<Longrightarrow> hub_rank h \<le> 12"
proof -
  assume "at h \<noteq> Wait_Signal"
  then have "main_rank (at h) \<le> 9" by (cases "at h") simp_all
  then show ?thesis
    using task_count_le [of "http_handle h"] task_count_le [of "internal_handle (grpc h)"]
      task_count_le [of "the (external_handle (grpc h))"]
    by (auto simp: hub_rank_def split: option.splits)
qed

lemma hub_run_append: "hub_run a es b \<Longrightarrow> hub_run b fs c \<Longrightarrow> hub_run a (es @ fs) c"
  by (rotate_tac 1, induction rule: hub_run.induct)
     (simp, metis append.assoc hub_run.step)

text \<open>A step in which no server task fails: main moves on, or a task that was told to stop ends.\<close>

fun graceful :: "hub_event \<Rightarrow> bool" where
  "graceful (Main sig) = True"
| "graceful (Http_Ends t) = (t \<noteq> Ended_Err)"
| "graceful (External_Ends t) = (t \<noteq> Ended_Err)"
| "graceful (Internal_Ends t) = (t \<noteq> Ended_Err)"

text \<open>A process past the signal has such a step until it has exited.\<close>

lemma hub_progress:
  assumes "hub_inv ext h" "at h \<noteq> Wait_Signal" "\<And>e h'. graceful e \<Longrightarrow> \<not> hub_step h e h'"
  shows "at h = Exited"
proof (rule ccontr)
  assume live: "at h \<noteq> Exited"
  have stuck: "main_next True h = None"
    using assms(3) [of "Main True"] by (cases "main_next True h") (auto intro: hub_step.main_moves)
  have "shutdown_flag (flags h)" if "at h \<in> {Join_Http, Join_External, Join_Internal}"
    using assms(1) that by (auto simp: hub_inv_def)
  then have ends: "may_end Ended_Ok h" if "at h \<in> {Join_Http, Join_External, Join_Internal}"
    using that by (simp add: may_end_def)
  show False
    using stuck live assms(2) ends hub_step.http_ends [of h Ended_Ok] hub_step.external_ends [of h Ended_Ok]
      hub_step.internal_ends [of h Ended_Ok] assms(3) [of "Http_Ends Ended_Ok"]
      assms(3) [of "External_Ends Ended_Ok"] assms(3) [of "Internal_Ends Ended_Ok"]
    by (cases "at h") (auto simp: main_next_def is_running_def split: if_splits)
qed

lemma main_at_monotone: "hub_step h e h' \<Longrightarrow> at h \<noteq> Wait_Signal \<Longrightarrow> at h' \<noteq> Wait_Signal"
proof (induction rule: hub_step.induct)
  case (main_moves sig h h')
  then show ?case by (cases "at h") (auto simp: main_next_def split: if_splits)
qed simp_all

lemma past_signal_run: "hub_run h es h' \<Longrightarrow> at h \<noteq> Wait_Signal \<Longrightarrow> at h' \<noteq> Wait_Signal"
  by (induction rule: hub_run.induct) (auto dest: main_at_monotone)

text \<open>With steps of this kind alone it gets to its exit.\<close>

lemma graceful_exit:
  "hub_inv ext h \<Longrightarrow> at h \<noteq> Wait_Signal \<Longrightarrow>
     \<exists>gs h'. hub_run h gs h' \<and> list_all graceful gs \<and> at h' = Exited"
proof (induction "hub_rank h" arbitrary: h rule: less_induct)
  case less
  show ?case
  proof (cases "at h = Exited")
    case True
    then show ?thesis using hub_run.start [of h] by (intro exI [of _ "[]"]) auto
  next
    case False
    then obtain e h1 where e: "graceful e" "hub_step h e h1" using hub_progress [OF less.prems] by blast
    then obtain gs h' where "hub_run h1 gs h'" "list_all graceful gs" "at h' = Exited"
      using less.hyps [OF hub_rank_step] less.prems hub_inv_step main_at_monotone by blast
    moreover have "hub_run h ([] @ [e]) h1" using hub_run.step [OF hub_run.start e(2)] .
    ultimately show ?thesis using hub_run_append e(1) by (intro exI [of _ "e # gs"]) fastforce
  qed
qed

text \<open>C21. Once the signal has arrived the process exits, and no server task has to fail for it: every
  continuation of such a run, whatever main and the server tasks do in which order, has at most twelve
  steps; as long as main has not returned there is a next step that is main's own or the end without an
  error of a task that was told to stop, and such steps lead to the exit; and a process that has none left
  has returned from main, with the pool closed and telemetry shut down. (A task that was never told to stop
  has no such step, so a shutdown that forgot to set the flag would be stuck at a join.)\<close>

theorem shutdown_terminates:
  assumes "spawn_servers ext = Inr g" "hub_run (hub_started g) es h" "at h \<noteq> Wait_Signal" "hub_run h fs h'"
  shows "length fs \<le> 12 \<and>
    ((\<forall>e h''. graceful e \<longrightarrow> \<not> hub_step h' e h'') \<longrightarrow>
       at h' = Exited \<and> \<not> pool_open h' \<and> \<not> telemetry_up h') \<and>
    (\<exists>gs h''. hub_run h' gs h'' \<and> list_all graceful gs \<and>
       at h'' = Exited \<and> \<not> pool_open h'' \<and> \<not> telemetry_up h'')"
proof -
  have inv: "hub_inv ext h'" by (rule hub_inv_run [OF assms(1) hub_run_append [OF assms(2,4)]])
  have past: "at h' \<noteq> Wait_Signal" by (rule past_signal_run [OF assms(4,3)])
  have exited: "\<not> pool_open k \<and> \<not> telemetry_up k" if "hub_inv ext k" "at k = Exited" for k
    using that by (simp add: hub_inv_def)
  have "length fs \<le> 12" using hub_rank_run [OF assms(4)] hub_rank_bound [OF assms(3)] by simp
  moreover have "at h' = Exited" if "\<forall>e h''. graceful e \<longrightarrow> \<not> hub_step h' e h''"
    using hub_progress [OF inv past] that by blast
  moreover obtain gs k where k: "hub_run h' gs k" "list_all graceful gs" "at k = Exited"
    using graceful_exit [OF inv past] by blast
  moreover have "hub_inv ext k"
    by (rule hub_inv_run [OF assms(1) hub_run_append [OF hub_run_append [OF assms(2,4)] k(1)]])
  ultimately show ?thesis using inv exited by blast
qed

text \<open>Before the signal main sees nothing: whichever server tasks have ended, with whatever error, it still
  waits and the process stays up.\<close>

lemma task_ends_unnoticed:
  "hub_run h es h' \<Longrightarrow> at h = Wait_Signal \<Longrightarrow> Main True \<notin> set es \<Longrightarrow> at h' = Wait_Signal \<and> pool_open h' = pool_open h"
proof (induction rule: hub_run.induct)
  case (step es h' e h'')
  then have at: "at h' = Wait_Signal" "pool_open h' = pool_open h" "e \<noteq> Main True" by auto
  from step.hyps(2) at show ?case
    by (cases rule: hub_step.cases) (auto simp: main_next_def split: if_splits)
qed simp

section \<open>Concrete runs\<close>

text \<open>The steps as a function of the event, to replay a run.\<close>

fun hub_exec :: "hub \<Rightarrow> hub_event \<Rightarrow> hub option" where
  "hub_exec h (Main sig) = main_next sig h"
| "hub_exec h (Http_Ends t) =
     (if http_handle h = Running \<and> may_end t h \<and> at h \<noteq> Exited then Some (h\<lparr>http_handle := t\<rparr>) else None)"
| "hub_exec h (External_Ends t) =
     (if external_handle (grpc h) = Some Running \<and> may_end t h \<and> at h \<noteq> Exited
      then Some (h\<lparr>grpc := (grpc h)\<lparr>external_handle := Some t\<rparr>\<rparr>) else None)"
| "hub_exec h (Internal_Ends t) =
     (if internal_handle (grpc h) = Running \<and> may_end t h \<and> at h \<noteq> Exited
      then Some (h\<lparr>grpc := (grpc h)\<lparr>internal_handle := t\<rparr>\<rparr>) else None)"

lemma hub_exec_step: "hub_exec h e = Some h' \<longleftrightarrow> hub_step h e h'"
  by (cases e) (auto intro: hub_step.intros elim: hub_step.cases split: if_splits)

fun replay :: "hub_event list \<Rightarrow> hub \<Rightarrow> hub option" where
  "replay [] h = Some h"
| "replay (e # es) h = (case hub_exec h e of None \<Rightarrow> None | Some h' \<Rightarrow> replay es h')"

lemma hub_run_single: "hub_step h e h' \<Longrightarrow> hub_run h [e] h'"
  using hub_run.step [OF hub_run.start] by simp

lemma replay_run: "replay es h = Some h' \<Longrightarrow> hub_run h es h'"
proof (induction es arbitrary: h)
  case (Cons e es)
  then obtain h1 where "hub_step h e h1" "hub_run h1 es h'" by (auto simp: hub_exec_step split: option.splits)
  then show ?case using hub_run_append [OF hub_run_single] by fastforce
qed (simp add: hub_run.start)

text \<open>A process in idle mode that fails to bind its HTTP port, is signalled and exits.\<close>

definition sample_servers :: GrpcServers where
  "sample_servers =
     \<lparr>external_handle = None, internal_handle = Running, external_reporter = None, internal_reporter = Serving\<rparr>"

definition sample_exit :: hub where
  "sample_exit =
     \<lparr>at = Exited, flags = \<lparr>drain_flag = True, shutdown_flag = True\<rparr>,
      grpc = \<lparr>external_handle = None, internal_handle = Ended_Ok, external_reporter = None,
        internal_reporter = NotServing\<rparr>,
      http_handle = Ended_Err, pool_open = False, telemetry_up = False\<rparr>"

definition sample_signalled :: hub where
  "sample_signalled = (hub_started sample_servers)\<lparr>at := Send_Drain, http_handle := Ended_Err\<rparr>"

lemma sample_spawn: "spawn_servers False = Inr sample_servers"
  by (simp add: spawn_servers_def sample_servers_def)

lemma sample_signalled_run: "hub_run (hub_started sample_servers) [Http_Ends Ended_Err, Main True] sample_signalled"
  by (rule replay_run)
     (simp add: sample_signalled_def hub_started_def may_end_def main_next_def)

lemma sample_exit_run:
  "hub_run sample_signalled
     ([Main True, Main True, Main True, Main True, Internal_Ends Ended_Ok] @ replicate 5 (Main True)) sample_exit"
  by (rule replay_run)
     (simp add: sample_signalled_def hub_started_def sample_servers_def sample_exit_def Shutdown_default_def
       may_end_def main_next_def drain_internal_def drain_external_def is_running_def eval_nat_numeral)

lemma sample_exit_stuck: "\<not> hub_step sample_exit e h"
  by (auto simp: hub_exec_step [symmetric] sample_exit_def main_next_def elim!: hub_exec.elims)

theorem shutdown_order_witness:
  "http_get (Inr []) (flags sample_exit) ''/readyz'' = (503, ''draining'') \<and>
    internal_reporter (grpc sample_exit) = NotServing \<and> http_handle sample_exit \<noteq> Running \<and>
    internal_handle (grpc sample_exit) \<noteq> Running \<and> \<not> pool_open sample_exit \<and> \<not> telemetry_up sample_exit"
proof -
  have "shutdown_flag (flags sample_exit)" "\<not> telemetry_up sample_exit" by (simp_all add: sample_exit_def)
  then show ?thesis
    using shutdown_order [OF sample_spawn hub_run_append [OF sample_signalled_run sample_exit_run]] by blast
qed

theorem shutdown_terminates_witness:
  "length ([Main True, Main True, Main True, Main True, Internal_Ends Ended_Ok] @ replicate 5 (Main True)) \<le> 12 \<and>
    at sample_exit = Exited \<and> \<not> pool_open sample_exit \<and> \<not> telemetry_up sample_exit"
proof -
  have "at sample_signalled \<noteq> Wait_Signal" by (simp add: sample_signalled_def)
  from shutdown_terminates [OF sample_spawn sample_signalled_run this sample_exit_run] sample_exit_stuck
  show ?thesis by blast
qed

end
