(* ===== verification/Hub_Main.thy ===== *)
theory Hub_Main
  imports Hub_Metrics Telemetry Servers
begin

text \<open>
  The whole start of the process (\<^verbatim>\<open>main.rs\<close>) over the components it starts: the
  configuration, the metric set, telemetry, the database pool (\<^verbatim>\<open>db.rs\<close>), the migrations
  and the servers. \<open>Config\<close> states start-up over the outcomes of these calls; here they are the
  modelled constructors. Parsing a database URL, opening a
  pool and running migrations belong to \<^verbatim>\<open>sqlx\<close> and are parameters. The LISTEN manager that
  main spawns beside the servers is the subject of \<open>Notify\<close>; it opens its own connection, which is not one
  of the pool's.
\<close>

section \<open>The database pool\<close>

datatype log_level = Level_Debug | Level_Warn

record 'o connect_options =
  parsed_url :: 'o
  application_name :: string
  statement_level :: log_level
  slow_level :: log_level
  slow_threshold :: duration

record 'o pool_options =
  connect_with :: "'o connect_options"
  min_connections :: "32 word"
  max_connections :: "32 word"
  idle_timeout :: duration
  acquire_timeout :: duration
  max_lifetime :: "duration option"
  after_connect :: string

definition pool_options_of :: "Config \<Rightarrow> 'o \<Rightarrow> 'o pool_options" where
  "pool_options_of cfg url =
     \<lparr>connect_with =
        \<lparr>parsed_url = url, application_name = ''engagement-hub'', statement_level = Level_Debug,
         slow_level = Level_Warn, slow_threshold = from_millis (unat (db_slow_query_ms cfg))\<rparr>,
      min_connections = db_pool_min cfg,
      max_connections = db_pool_max cfg,
      idle_timeout = from_secs (unat (db_idle_timeout_secs cfg)),
      acquire_timeout = from_secs (unat (db_acquire_timeout_secs cfg)),
      max_lifetime = Some (from_secs (unat (db_max_lifetime_secs cfg))),
      after_connect = ''SET statement_timeout = '' @ show_nat (unat (db_statement_timeout_ms cfg))\<rparr>"

datatype pool_error = Invalid_Url | Pool_Failed

text \<open>\<open>from_str\<close> parses the URL, \<open>open_pool\<close> opens the pool and says whether it could.\<close>

definition build_pool ::
  "(string \<Rightarrow> 'o option) \<Rightarrow> ('o pool_options \<Rightarrow> bool) \<Rightarrow> Config \<Rightarrow> (pool_error, 'o pool_options) result" where
  "build_pool from_str open_pool cfg =
     (case from_str (database_url cfg) of
        None \<Rightarrow> Inl Invalid_Url
      | Some url \<Rightarrow>
          (let opts = pool_options_of cfg url
           in if open_pool opts then Inr opts else Inl Pool_Failed))"

section \<open>Main up to the running process\<close>

record ('e, 'r, 'd, 'a, 'o) outside =
  create_metric :: "metric_desc \<Rightarrow> ('e, unit) result"
  register_metric :: "metric_desc \<Rightarrow> 'r \<Rightarrow> 'r \<times> ('e, unit) result"
  new_registry :: 'r
  trace_library :: "('d, 'a) trace_lib"
  telemetry_env :: "('d, 'a) telemetry_env"
  from_str :: "string \<Rightarrow> 'o option"
  open_pool :: "'o pool_options \<Rightarrow> bool"
  migrations_ok :: bool

datatype ('d, 'o) hub_outcome =
    Hub_Exit nat
  | Hub_Up Config "series list" "'d tracer_provider" "'o pool_options" hub

definition hub_main ::
  "('e, 'r, 'd, 'a, 'o) outside \<Rightarrow> Config \<Rightarrow> bool \<Rightarrow> string option \<Rightarrow> ('d, 'o) hub_outcome" where
  "hub_main w cfg local_var_set otel_type =
     (case effective_config cfg local_var_set otel_type of
        None \<Rightarrow> Hub_Exit 78
      | Some cfg \<Rightarrow>
     (case Metrics_new (create_metric w) (register_metric w) (new_registry w)
             (registry_adapter cfg) (env cfg) (track_0_idle_mode cfg) of
        (_, _, Unwind) \<Rightarrow> Hub_Exit 101
      | (_, _, Ret (Inl e)) \<Rightarrow> Hub_Exit 1
      | (_, ss, Ret (Inr _)) \<Rightarrow>
     (case snd (init_telemetry (trace_library w) (telemetry_env w) cfg) of
        Unwind \<Rightarrow> Hub_Exit 101
      | Ret provider \<Rightarrow>
     (case build_pool (from_str w) (open_pool w) cfg of
        Inl e \<Rightarrow> Hub_Exit 1
      | Inr pool \<Rightarrow>
          if \<not> migrations_ok w then Hub_Exit 70
          else
     (case spawn_servers (bind_external_port cfg) of
        Inl e \<Rightarrow> Hub_Exit 1
      | Inr servers \<Rightarrow> Hub_Up cfg ss provider pool (hub_started servers))))))"

section \<open>What a running process guarantees\<close>

lemma effective_config_timeout:
  "effective_config cfg b t = Some cfg' \<Longrightarrow> db_statement_timeout_ms cfg' = db_statement_timeout_ms cfg"
  by (auto simp: effective_config_def Let_def apply_otel_local_default_def apply_otel_type_legacy_def
      split: sum.splits option.splits if_splits)

lemma run_setup_series:
  "snd (snd (run_setup create register steps r)) = Ret (Inr u) \<Longrightarrow>
     fst (snd (run_setup create register steps r)) = series_of steps"
proof (induction steps arbitrary: r)
  case (Cons s steps)
  then show ?case by (cases s) (auto simp: split_beta split: sum.splits if_splits)
qed simp

lemma hub_main_Up:
  assumes "hub_main w cfg b t = Hub_Up cfg' ss provider pool h"
  obtains url gone where "effective_config cfg b t = Some cfg'"
    "ss = series_of (Metrics_setup (registry_adapter cfg') (env cfg') (track_0_idle_mode cfg'))"
    "init_telemetry (trace_library w) (telemetry_env w) cfg' = (gone, Ret provider)"
    "pool = pool_options_of cfg' url" "spawn_servers (bind_external_port cfg') = Inr (grpc h)" "h = hub_started (grpc h)"
proof -
  obtain gone where "effective_config cfg b t = Some cfg'" "init_telemetry (trace_library w) (telemetry_env w) cfg' = (gone, Ret provider)"
    "ss = series_of (Metrics_setup (registry_adapter cfg') (env cfg') (track_0_idle_mode cfg'))"
    "build_pool (from_str w) (open_pool w) cfg' = Inr pool"
    "spawn_servers (bind_external_port cfg') = Inr (grpc h)" "h = hub_started (grpc h)"
    using assms
    by (cases "snd (init_telemetry (trace_library w) (telemetry_env w) (the (effective_config cfg b t)))")
       (auto simp: hub_main_def Metrics_new_def hub_started_def prod_eq_iff run_setup_series
         split: option.splits prod.splits exec.splits sum.splits if_splits)
  then show ?thesis
    using that by (auto simp: build_pool_def Let_def split: option.splits if_splits)
qed

lemma drop_series:
  "l \<in> {''grafana'', ''langfuse'', ''local''} \<Longrightarrow>
     (md_name otel_exporter_dropped_spans_desc, [l], 0) \<in> set (series_of (Metrics_setup a e i))"
  by (auto simp: Metrics_setup_def)

lemma drop_labels:
  "init_telemetry lib te cfg = (gone, Ret provider) \<Longrightarrow> p \<in> set (provider_processors provider) \<Longrightarrow>
     proc_drop_label p \<in> {''grafana'', ''langfuse'', ''local''}"
  by (auto simp: grafana_processors_def langfuse_processors_def local_processor_def dest!: init_telemetry_Ret split: if_splits)

lemma local_counter_shared:
  "init_telemetry lib te cfg = (gone, Ret provider) \<Longrightarrow> p \<in> set (provider_processors provider) \<Longrightarrow>
     proc_exporter p = Jsonl_File x \<Longrightarrow> drop_counter x = Some (proc_drop_label p)"
  by (drule (2) local_processor_only) (simp add: new_with_counter_def new_inner_def)

text \<open>C19. What holds of every process that gets past start-up, for its whole life: each connection of the
  pool is opened with the operator's statement timeout, which is not zero (the LISTEN connection is not one
  of the pool's and has none); the drop counter of every span processor exists at zero before the first span,
  and an exporter that counts drops itself counts them in the series of its processor; and a production process that serves from the stub
  registry never has an external listener nor an external health service.\<close>

theorem hub_up_guarantees:
  assumes "hub_main w cfg local_var_set otel_type = Hub_Up cfg' ss provider pool h" "hub_run h es h'"
  shows "after_connect pool = ''SET statement_timeout = '' @ show_nat (unat (db_statement_timeout_ms cfg)) \<and>
    db_statement_timeout_ms cfg \<noteq> 0 \<and>
    (\<forall>p \<in> set (provider_processors provider).
       (md_name otel_exporter_dropped_spans_desc, [proc_drop_label p], 0) \<in> set ss \<and>
       (\<forall>x. proc_exporter p = Jsonl_File x \<longrightarrow> drop_counter x = Some (proc_drop_label p))) \<and>
    (env cfg = Production \<and> registry_adapter cfg = Stub \<longrightarrow>
       external_handle (grpc h') = None \<and> external_reporter (grpc h') = None)"
proof -
  obtain url gone where up: "effective_config cfg local_var_set otel_type = Some cfg'"
    "ss = series_of (Metrics_setup (registry_adapter cfg') (env cfg') (track_0_idle_mode cfg'))"
    "init_telemetry (trace_library w) (telemetry_env w) cfg' = (gone, Ret provider)"
    "pool = pool_options_of cfg' url" "spawn_servers (bind_external_port cfg') = Inr (grpc h)" "h = hub_started (grpc h)"
    using hub_main_Up [OF assms(1)] .
  note valid = effective_config_valid [OF up(1)] and same = effective_config_timeout [OF up(1)]
  have timeout: "db_statement_timeout_ms cfg \<noteq> 0"
    using valid same by (simp add: validate_cases split: if_splits)
  have "hub_inv (bind_external_port cfg') h'"
    using hub_inv_run [OF up(5)] assms(2) up(6) by simp
  moreover have "\<not> bind_external_port cfg'" if "env cfg = Production" "registry_adapter cfg = Stub"
    using valid that by (auto simp: validate_cases bind_external_port_def split: if_splits)
  ultimately have "env cfg = Production \<and> registry_adapter cfg = Stub \<longrightarrow>
       external_handle (grpc h') = None \<and> external_reporter (grpc h') = None"
    by (auto simp: hub_inv_def)
  moreover have "\<forall>p \<in> set (provider_processors provider).
       (md_name otel_exporter_dropped_spans_desc, [proc_drop_label p], 0) \<in> set ss \<and>
       (\<forall>x. proc_exporter p = Jsonl_File x \<longrightarrow> drop_counter x = Some (proc_drop_label p))"
    using drop_labels [OF up(3)] local_counter_shared [OF up(3)] drop_series unfolding up(2) by blast
  ultimately show ?thesis using timeout same up(4) by (simp add: pool_options_of_def)
qed

definition calm_outside :: "(unit, string list, bool, unit, string) outside" where
  "calm_outside =
     \<lparr>create_metric = (\<lambda>_. Inr ()), register_metric = list_register, new_registry = [], trace_library = two_days,
      telemetry_env = quiet_start, from_str = Some, open_pool = (\<lambda>_. True), migrations_ok = True\<rparr>"

definition idle_config :: Config where
  "idle_config = sample_config\<lparr>env := Production, registry_adapter := Stub, track_0_idle_mode := True\<rparr>"

lemma calm_Up: "\<exists>ss provider pool h. hub_main calm_outside idle_config True None = Hub_Up idle_config ss provider pool h"
proof -
  have "client_laws (create_metric calm_outside) (register_metric calm_outside) set"
    by (simp add: client_laws_def calm_outside_def list_register_def)
  from run_setup_ok [OF this, of "Metrics_setup Stub Production True" "[]"]
  obtain r where "Metrics_new (create_metric calm_outside) (register_metric calm_outside) []
      Stub Production True = (r, series_of (Metrics_setup Stub Production True), Ret (Inr ()))"
    unfolding Metrics_new_def using fields_ok fields_distinct setup_seeds by (auto simp: setup_descs)
  then show ?thesis
    by (simp add: hub_main_def effective_config_def apply_otel_local_default_def validate_def idle_config_def
        sample_config_def calm_outside_def init_telemetry_def Let_def build_pool_def spawn_servers_def)
qed

theorem hub_up_guarantees_witness:
  "\<exists>ss provider pool h. hub_main calm_outside idle_config True None = Hub_Up idle_config ss provider pool h \<and>
    after_connect (pool :: string pool_options) = ''SET statement_timeout = '' @ show_nat (unat (db_statement_timeout_ms idle_config)) \<and>
    external_handle (grpc h) = None \<and> external_reporter (grpc h) = None"
proof -
  obtain ss provider pool h where up: "hub_main calm_outside idle_config True None = Hub_Up idle_config ss provider pool h"
    using calm_Up by blast
  have "env idle_config = Production" "registry_adapter idle_config = Stub" by (simp_all add: idle_config_def)
  then show ?thesis using up hub_up_guarantees [OF up hub_run.start] by blast
qed

end
