(* ===== verification/Payload_Text.thy ===== *)
theory Payload_Text
  imports Hub_Db
begin

text \<open>
  The text of a notification. The trigger sends \<^verbatim>\<open>json_build_object(...)::text\<close>, which PostgreSQL
  writes with a blank on each side of a colon and after a comma; the tests of
  \<^verbatim>\<open>hub/notify.rs\<close> measure \<^verbatim>\<open>serde_json::to_string\<close> of a \<open>NotifyPayload\<close>, which
  writes no blanks. \<open>payload_object\<close> is the derived \<^verbatim>\<open>Serialize\<close>; the object the trigger
  builds is always of that form, so both texts are renderings of one object, and their lengths are known exactly.
  The text of an id and the quoting of a string are parameters.
\<close>

section \<open>Rendering\<close>

definition payload_object :: "NotifyPayload \<Rightarrow> json_object" where
  "payload_object p =
     [(''engagement_id'', V_Uuid (np_engagement_id p)),
      (''organization_id'', V_Uuid (np_organization_id p)),
      (''batch_id'', opt_value V_Uuid (np_batch_id p)),
      (''sequence'', V_Int (np_sequence p)),
      (''event_pk'', V_Int (np_event_pk p)),
      (''event_type'', V_Int (np_event_type p)),
      (''traceparent'', opt_value V_Text (np_traceparent p))]"

text \<open>\<open>esc\<close> quotes and escapes a string; \<open>other\<close> is the text of a value that a notification
  never holds.\<close>

record texts =
  id_text :: "uuid \<Rightarrow> string"
  esc :: "string \<Rightarrow> string"
  other :: "sql_value \<Rightarrow> string"

fun value_text :: "texts \<Rightarrow> sql_value \<Rightarrow> string" where
  "value_text tx Null = ''null''"
| "value_text tx (V_Uuid u) = quoted (id_text tx u)"
| "value_text tx (V_Int i) = show_int i"
| "value_text tx (V_Text s) = esc tx s"
| "value_text tx v = other tx v"

definition object_text :: "string \<Rightarrow> string \<Rightarrow> texts \<Rightarrow> json_object \<Rightarrow> string" where
  "object_text colon comma tx obj = ''{'' @ join comma (map (\<lambda>(k, v). quoted k @ colon @ value_text tx v) obj) @ ''}''"

definition notify_text :: "texts \<Rightarrow> json_object \<Rightarrow> string" where
  "notify_text = object_text '' : '' '', ''"

definition serde_text :: "texts \<Rightarrow> NotifyPayload \<Rightarrow> string" where
  "serde_text tx p = object_text '':'' '','' tx (payload_object p)"

section \<open>The object and the payload\<close>

definition in_range :: "NotifyPayload \<Rightarrow> bool" where
  "in_range p \<longleftrightarrow>
     - (2 ^ 63) \<le> np_sequence p \<and> np_sequence p < 2 ^ 63 \<and> - (2 ^ 63) \<le> np_event_pk p \<and> np_event_pk p < 2 ^ 63 \<and>
     - (2 ^ 15) \<le> np_event_type p \<and> np_event_type p < 2 ^ 15"

lemma decode_payload_object: "in_range p \<Longrightarrow> decode_payload (payload_object p) = Some p"
  by (cases "np_batch_id p"; cases "np_traceparent p")
     (simp_all add: decode_payload_def payload_object_def in_range_def)

text \<open>What the trigger builds for an event of a well-formed database is the object of a payload.\<close>

lemma event_object_payload:
  assumes "db_wf d" "ee \<in> set (rows d ''engagement_events'')"
  obtains p where "event_object field (rows d) ee = payload_object p" "in_range p"
proof -
  obtain e where e: "filter (\<lambda>e. e ''engagement_id'' = ee ''engagement_id'') (rows d ''engagements'') = [e]"
    "e \<in> set (rows d ''engagements'')"
    by (rule engagement_of_event [OF assms])
  have "nullable ''batch_id'' UUID \<in> set (columns engagements)" by (simp add: engagements_def)
  from wf_column [OF assms(1) engagements_mem e(2) this] have "typed UUID (e ''batch_id'')"
    by (simp add: nullable_def)
  then obtain b where b: "e ''batch_id'' = opt_value V_Uuid b"
    by (cases "e ''batch_id''") (auto intro: that [of None] that [of "Some _"])
  have "\<exists>t. json_text_field field v k = opt_value V_Text t" for v k
    by (cases v; cases "case v of V_Json j \<Rightarrow> field j k | _ \<Rightarrow> None") (auto intro: exI [of _ None] exI [of _ "Some _"])
  then obtain t where t: "json_text_field field (ee ''trace_context'') ''traceparent'' = opt_value V_Text t" by blast
  obtain u org sq pk ty where v: "ee ''engagement_id'' = V_Uuid u" "ee ''organization_id'' = V_Uuid org"
    "ee ''sequence'' = V_Int sq" "- (2 ^ 63) \<le> sq" "sq < 2 ^ 63"
    "ee ''event_pk'' = V_Int pk" "- (2 ^ 63) \<le> pk" "pk < 2 ^ 63"
    "ee ''event_type'' = V_Int ty" "- (2 ^ 15) \<le> ty" "ty < 2 ^ 15"
    by (rule event_values [OF assms])
  show thesis
    by (rule that [of "\<lparr>np_engagement_id = u, np_organization_id = org, np_batch_id = b, np_sequence = sq,
          np_event_pk = pk, np_event_type = ty, np_traceparent = t\<rparr>"])
       (use e(1) v in \<open>simp_all add: event_object_def batch_of_def payload_object_def in_range_def b t\<close>)
qed

section \<open>Lengths\<close>

lemma show_nat_length: "n < 10 ^ k \<Longrightarrow> 0 < k \<Longrightarrow> length (show_nat n) \<le> k"
proof (induction n arbitrary: k rule: show_nat.induct)
  case (1 n)
  show ?case
  proof (cases "n < 10")
    case False
    then have "k \<noteq> 1" using "1.prems" by auto
    then have "1 < k" using "1.prems" by simp
    then obtain k' where k: "k = Suc k'" "0 < k'" by (cases k) auto
    have "n div 10 < 10 ^ k'" using "1.prems"(1) k by (simp add: div_less_iff_less_mult mult.commute)
    then have "length (show_nat (n div 10)) \<le> k'" using "1.IH" False k(2) by blast
    then show ?thesis using False k by (subst show_nat.simps) simp
  qed (use "1.prems" in \<open>subst show_nat.simps, simp\<close>)
qed

lemma show_int_length:
  assumes "- (10 ^ k) < i" "i < 10 ^ k" "0 < k"
  shows "1 \<le> length (show_int i)" "length (show_int i) \<le> k + 1"
proof -
  have pos: "1 \<le> length (show_nat n)" for n using show_nat_nonempty [of n] by (cases "show_nat n") simp_all
  then show "1 \<le> length (show_int i)" by (simp add: show_int_def le_SucI)
  have "nat i < 10 ^ k" "nat (- i) < 10 ^ k" using assms by (auto simp: nat_less_iff)
  then show "length (show_int i) \<le> k + 1"
    using show_nat_length assms(3) by (fastforce simp: show_int_def intro: le_SucI)
qed

text \<open>Both texts to the byte, for ids of 36 characters.\<close>

lemma object_text_length:
  assumes "\<forall>u. length (id_text tx u) = 36"
  shows "length (object_text colon comma tx (payload_object p)) =
     165 + 7 * length colon + 6 * length comma + length (show_int (np_sequence p)) + length (show_int (np_event_pk p)) +
     length (show_int (np_event_type p)) + (case np_batch_id p of None \<Rightarrow> 4 | Some b \<Rightarrow> 38) +
     (case np_traceparent p of None \<Rightarrow> 4 | Some t \<Rightarrow> length (esc tx t))"
  using assms by (simp add: object_text_def payload_object_def quoted_def split: option.split)

section \<open>The size of a notification\<close>

text \<open>C30. How long a notification is: for ids of 36 characters the text the trigger sends for any event any
  transaction may insert is at least 205 bytes and at most 282 and the text of its trace parent, and exactly 20
  more than the text the tests measure. The size limit of 200 bytes that the payload type documents never
  holds on the channel; the 8,000 bytes PostgreSQL allows are exceeded only by a trace parent of more
  than 7,700.\<close>

theorem notification_size:
  assumes "reachable_db field d" "\<forall>u. length (id_text tx u) = 36"
    and "execute_stmt field now (Insert ''engagement_events'' vals) d = (d', Inr ns)"
  shows "\<exists>p. ns = [payload_object p] \<and> decode_payload (payload_object p) = Some p \<and>
     205 \<le> length (notify_text tx (payload_object p)) \<and>
     length (notify_text tx (payload_object p)) \<le>
       282 + (case np_traceparent p of None \<Rightarrow> 4 | Some t \<Rightarrow> length (esc tx t)) \<and>
     length (notify_text tx (payload_object p)) = length (serde_text tx p) + 20"
proof -
  obtain r where r: "rows d' = (rows d)(''engagement_events'' := rows d ''engagement_events'' @ [r])"
    "ns = [event_object field (rows d') r]"
    by (rule insert_effect [OF assms(3)]) (simp add: after_insert_def)
  have wf: "db_wf d'"
    using execute_stmt_wf [OF reachable_wf [OF assms(1)], of field now "Insert ''engagement_events'' vals"] assms(3)
    by (simp del: execute_stmt.simps)
  have "r \<in> set (rows d' ''engagement_events'')" by (simp add: r(1))
  from event_object_payload [OF wf this] obtain p where p: "ns = [payload_object p]" "in_range p"
    using r(2) by metis
  note len = object_text_length [OF assms(2), where p = p]
  have d: "1 \<le> length (show_int (np_sequence p))" "length (show_int (np_sequence p)) \<le> 20"
    "1 \<le> length (show_int (np_event_pk p))" "length (show_int (np_event_pk p)) \<le> 20"
    "1 \<le> length (show_int (np_event_type p))" "length (show_int (np_event_type p)) \<le> 6"
    using p(2) show_int_length [of 19 "np_sequence p"] show_int_length [of 19 "np_event_pk p"]
      show_int_length [of 5 "np_event_type p"] by (auto simp: in_range_def)
  show ?thesis
    using d by (intro exI [of _ p]) (auto simp: p decode_payload_object notify_text_def serde_text_def len split: option.split)
qed

text \<open>The event of the witnesses, on texts with ids of 36 zeros.\<close>

definition zero_texts :: texts where
  "zero_texts = \<lparr>id_text = (\<lambda>u. replicate 36 CHR ''0''), esc = quoted, other = (\<lambda>v. [])\<rparr>"

theorem notification_size_witness:
  "\<exists>p. snd seeded_event = Inr [payload_object p] \<and> decode_payload (payload_object p) = Some p \<and>
     205 \<le> length (notify_text zero_texts (payload_object p)) \<and>
     length (notify_text zero_texts (payload_object p)) \<le>
       282 + (case np_traceparent p of None \<Rightarrow> 4 | Some t \<Rightarrow> length (esc zero_texts t)) \<and>
     length (notify_text zero_texts (payload_object p)) = length (serde_text zero_texts p) + 20"
proof -
  obtain d ns where run: "execute_stmt no_field 6 (Insert ''engagement_events'' (event_values_of 20 9 1 1)) seeded = (d, Inr ns)"
    using seeded_event_runs by blast
  have "\<forall>u. length (id_text zero_texts u) = 36" by (simp add: zero_texts_def)
  from notification_size [OF seeded_reachable this run] run show ?thesis
    by (auto simp: seeded_event_def simp del: execute_stmt.simps)
qed

end
