(* ===== verification/Test_Support.thy ===== *)
theory Test_Support
  imports Adapter_Calls
begin

text \<open>
  What the translations of the repository's unit tests share. A test is a computation that passes when it
  returns and fails when it panics, as under \<^verbatim>\<open>cargo test\<close>; \<open>assert_true\<close>,
  \<open>expect_ok\<close> and \<open>expect_err\<close> are the macros and methods the tests end with. What a
  test takes from outside (fresh ids, the clock, the timer) is a parameter of its translation, so that a theorem
  about it speaks of every run.

  \<open>mock_env\<close> puts a mock server's state beside the world of any environment; a mock's handler is a
  client call on that state (\<open>mock_call\<close>).
\<close>

named_theorems test_defs \<open>definitions of the test harness\<close>

definition assert_true :: "bool \<Rightarrow> unit exec" where
  "assert_true b = (if b then Ret () else Unwind)"

fun expect_ok :: "('e, 'a) result \<Rightarrow> 'a exec" where
  "expect_ok (Inr a) = Ret a"
| "expect_ok (Inl e) = Unwind"

fun expect_err :: "('e, 'a) result \<Rightarrow> 'e exec" where
  "expect_err (Inl e) = Ret e"
| "expect_err (Inr a) = Unwind"

fun is_ok :: "('e, 'a) result \<Rightarrow> bool" where
  "is_ok (Inr a) = True"
| "is_ok (Inl e) = False"

text \<open>\<^verbatim>\<open>matches!(r, Err(p))\<close>.\<close>

fun err_matches :: "('e \<Rightarrow> bool) \<Rightarrow> ('e, 'a) result \<Rightarrow> bool" where
  "err_matches p (Inl e) = p e"
| "err_matches p (Inr a) = False"

text \<open>Awaiting a call: its panic is the test's panic.\<close>

definition awaiting :: "'m \<times> metric_log \<times> 'r exec \<Rightarrow> ('r \<Rightarrow> 'm \<Rightarrow> metric_log \<Rightarrow> unit exec) \<Rightarrow> unit exec" where
  "awaiting out k = (case out of (m, log, r) \<Rightarrow> exec_bind r (\<lambda>x. k x m log))"

text \<open>Awaiting the handle of a spawned call: its panic is a value, \<^verbatim>\<open>result.unwrap_err().is_panic()\<close>.\<close>

definition spawned_panics :: "'m \<times> metric_log \<times> 'r exec \<Rightarrow> bool" where
  "spawned_panics out = is_unwind (snd (snd out))"

definition passes :: "unit exec \<Rightarrow> bool" where
  "passes t = (t = Ret ())"

declare assert_true_def [test_defs] awaiting_def [test_defs] spawned_panics_def [test_defs] passes_def [test_defs]

section \<open>Mock servers\<close>

definition mock_env :: "('w, 'z) adapter_env_scheme \<Rightarrow> ('w \<times> 'm) adapter_env" where
  "mock_env env =
     \<lparr>env_now = (\<lambda>(w, m). env_now env w),
      env_jitter = (\<lambda>b (w, m). case env_jitter env b w of (j, w') \<Rightarrow> (j, (w', m))),
      env_sleep = (\<lambda>d (w, m). (env_sleep env d w, m)),
      env_new_v4 = (\<lambda>(w, m). case env_new_v4 env w of (u, w') \<Rightarrow> (u, (w', m)))\<rparr>"

definition mock_call :: "('req \<Rightarrow> 'm \<Rightarrow> 'm \<times> ('s, 'r) result) \<Rightarrow> ('w \<times> 'm, 'req, 's, 'r) call" where
  "mock_call handler req = (\<lambda>(w, m). case handler req m of (m', res) \<Rightarrow> ((w, m'), Completed res))"

lemma mock_env_simps [simp]:
  "env_now (mock_env env) (w, m) = env_now env w"
  "env_jitter (mock_env env) b (w, m) = (fst (env_jitter env b w), (snd (env_jitter env b w), m))"
  "env_sleep (mock_env env) d (w, m) = (env_sleep env d w, m)"
  "env_new_v4 (mock_env env) (w, m) = (fst (env_new_v4 env w), (snd (env_new_v4 env w), m))"
  by (simp_all add: mock_env_def split_beta)

lemma mock_call_simp [simp]:
  "mock_call handler req (w, m) = ((w, fst (handler req m)), Completed (snd (handler req m)))"
  by (simp add: mock_call_def split_beta)

lemma show_nat_Suc [simp]:
  "show_nat (Suc (Suc 0)) = ''2''" "show_nat (Suc (Suc (Suc 0))) = ''3''" "show_nat (Suc (Suc (Suc (Suc 0)))) = ''4''"
  by code_simp+

end
