(* ===== verification/Tests_Policies.thy ===== *)
theory Tests_Policies
  imports Test_Support
begin

text \<open>
  The unit tests of \<^verbatim>\<open>adapters/src/policies.rs\<close>, \<^verbatim>\<open>saga.rs\<close> and
  \<^verbatim>\<open>metrics.rs\<close>, translated one by one, and that each passes: those of the retry combinator for
  every clock, jitter and timer, the two that read the clock twice for the readings they can pass with.
\<close>

section \<open>The error type of the tests\<close>

datatype E = E_Transient | E_Permanent | E_Panic | E_Deadline

definition E_traits :: "E error_traits" where
  "E_traits = \<lparr>is_retryable = (\<lambda>e. e = E_Transient), from_panic = E_Panic, from_deadline = E_Deadline\<rparr>"

definition no_sleep_config :: "nat \<Rightarrow> RetryConfig" where
  "no_sleep_config m = \<lparr>max_attempts = m, initial_backoff = 0, max_backoff = 0\<rparr>"

text \<open>A closure that counts its calls (\<^verbatim>\<open>c.fetch_add(1, SeqCst)\<close>) and answers by the count so far.\<close>

definition counted :: "(nat \<Rightarrow> (E, int) result attempt) \<Rightarrow> ('w \<times> nat, E, int) attempt_fn" where
  "counted reply = (\<lambda>(w, n). ((w, Suc n), reply n))"

section \<open>The retry tests\<close>

definition success_on_first_attempt :: "'w adapter_env \<Rightarrow> 'w \<Rightarrow> unit exec" where
  "success_on_first_attempt env w =
     awaiting (with_retry E_traits (mock_env env) (no_sleep_config 3) None ''t'' False
         (counted (\<lambda>_. Completed (Inr 42))) (w, 0))
       (\<lambda>r (w', n) log. assert_true (r = Inr 42 \<and> n = 1))"

definition retries_transient_then_succeeds :: "'w adapter_env \<Rightarrow> 'w \<Rightarrow> unit exec" where
  "retries_transient_then_succeeds env w =
     awaiting (with_retry E_traits (mock_env env) (no_sleep_config 3) None ''t'' False
         (counted (\<lambda>count. Completed (if count < 2 then Inl E_Transient else Inr 1))) (w, 0))
       (\<lambda>r (w', n) log. assert_true (r = Inr 1 \<and> n = 3))"

definition no_retry_on_permanent :: "'w adapter_env \<Rightarrow> 'w \<Rightarrow> unit exec" where
  "no_retry_on_permanent env w =
     awaiting (with_retry E_traits (mock_env env) (no_sleep_config 3) None ''t'' False
         (counted (\<lambda>_. Completed (Inl E_Permanent))) (w, 0))
       (\<lambda>r (w', n) log. assert_true (r = Inl E_Permanent \<and> n = 1))"

definition exhausts_all_attempts_on_persistent_transient :: "'w adapter_env \<Rightarrow> 'w \<Rightarrow> unit exec" where
  "exhausts_all_attempts_on_persistent_transient env w =
     awaiting (with_retry E_traits (mock_env env) (no_sleep_config 3) None ''t'' False
         (counted (\<lambda>_. Completed (Inl E_Transient))) (w, 0))
       (\<lambda>r (w', n) log. assert_true (r = Inl E_Transient \<and> n = 3))"

definition catches_panic_and_returns_from_panic :: "'w adapter_env \<Rightarrow> 'w \<Rightarrow> unit exec" where
  "catches_panic_and_returns_from_panic env w =
     awaiting (with_retry E_traits (mock_env env) (no_sleep_config 1) None ''t'' False
         (counted (\<lambda>_. Poll_Panic)) (w, 0))
       (\<lambda>r (w', n) log. assert_true (r = Inl E_Panic))"

definition records_retry_metrics :: "'w adapter_env \<Rightarrow> 'w \<Rightarrow> unit exec" where
  "records_retry_metrics env w =
     awaiting (with_retry E_traits (mock_env env) (no_sleep_config 3) None ''reg'' True
         (counted (\<lambda>_. Completed (Inl E_Transient))) (w, 0))
       (\<lambda>r (w', n) log. assert_true
          (counter_total (vec_name retries_total) [''reg'', ''1''] log = 1 \<and>
           counter_total (vec_name retries_total) [''reg'', ''2''] log = 1))"

definition catches_panic_in_synchronous_closure_prefix :: "'w adapter_env \<Rightarrow> 'w \<Rightarrow> unit exec" where
  "catches_panic_in_synchronous_closure_prefix env w =
     awaiting (with_retry E_traits (mock_env env) (no_sleep_config 1) None ''t'' False
         (counted (\<lambda>_. Sync_Panic)) (w, 0))
       (\<lambda>r (w', n) log. assert_true (r = Inl E_Panic))"

lemmas retry_test_defs = success_on_first_attempt_def retries_transient_then_succeeds_def no_retry_on_permanent_def
  exhausts_all_attempts_on_persistent_transient_def catches_panic_and_returns_from_panic_def
  records_retry_metrics_def catches_panic_in_synchronous_closure_prefix_def

lemma retry_tests_pass:
  "passes (success_on_first_attempt env w)"
  "passes (retries_transient_then_succeeds env w)"
  "passes (no_retry_on_permanent env w)"
  "passes (exhausts_all_attempts_on_persistent_transient env w)"
  "passes (catches_panic_and_returns_from_panic env w)"
  "passes (records_retry_metrics env w)"
  "passes (catches_panic_in_synchronous_closure_prefix env w)"
  by (simp_all add: retry_test_defs test_defs with_retry_def retry_loop.simps counted_def no_sleep_config_def
      E_traits_def deadline_gate_def dur_mul_def metrics_ops_def Let_def split_beta)

section \<open>The deadline tests\<close>

text \<open>\<open>t0\<close> is the clock when the context is built, \<open>t1\<close> when it is read.\<close>

definition deadline_too_close_when_remaining_less_than_200ms :: "instant \<Rightarrow> instant \<Rightarrow> unit exec" where
  "deadline_too_close_when_remaining_less_than_200ms t0 t1 =
     exec_bind (from_remaining t0 (from_millis 100) (from_secs 5)) (\<lambda>ctx. assert_true (is_too_close t1 ctx))"

definition deadline_not_too_close_when_remaining_generous :: "instant \<Rightarrow> instant \<Rightarrow> unit exec" where
  "deadline_not_too_close_when_remaining_generous t0 t1 =
     exec_bind (from_remaining t0 (from_secs 10) (from_secs 5)) (\<lambda>ctx. assert_true (\<not> is_too_close t1 ctx))"

definition deadline_none_never_too_close :: "instant \<Rightarrow> unit exec" where
  "deadline_none_never_too_close t1 = assert_true (\<not> is_too_close t1 deadline_none)"

definition write_retry_is_two_attempts :: "unit exec" where
  "write_retry_is_two_attempts = assert_true (max_attempts WRITE_RETRY = 2)"

definition cleanup_retry_is_five_attempts :: "unit exec" where
  "cleanup_retry_is_five_attempts = assert_true (max_attempts CLEANUP_RETRY = 5)"

definition deadline_too_close_short_circuits_before_next_attempt :: "instant \<Rightarrow> 'w adapter_env \<Rightarrow> 'w \<Rightarrow> unit exec" where
  "deadline_too_close_short_circuits_before_next_attempt t0 env w =
     exec_bind (from_remaining t0 (from_millis 100) (from_secs 5)) (\<lambda>ctx.
       awaiting (with_retry E_traits (mock_env env) (no_sleep_config 3) (Some ctx) ''t'' False
           (counted (\<lambda>_. Completed (Inl E_Transient))) (w, 0))
         (\<lambda>r (w', n) log. assert_true (n = 1 \<and> r = Inl E_Deadline)))"

definition deadline_gate_considers_next_backoff :: "instant \<Rightarrow> 'w adapter_env \<Rightarrow> 'w \<Rightarrow> unit exec" where
  "deadline_gate_considers_next_backoff t0 env w =
     exec_bind (from_remaining t0 (from_millis 250) (from_secs 5)) (\<lambda>ctx.
       awaiting (with_retry E_traits (mock_env env)
           \<lparr>max_attempts = 3, initial_backoff = from_millis 50, max_backoff = from_secs 2\<rparr> (Some ctx) ''t'' False
           (counted (\<lambda>_. Completed (Inl E_Transient))) (w, 0))
         (\<lambda>r (w', n) log. assert_true (n = 1 \<and> r = Inl E_Deadline)))"

lemmas deadline_test_defs = from_remaining_def is_too_close_def remaining_def deadline_gate_def instant_add_def
  dur_add_def saturating_duration_since_def PROPAGATION_MARGIN_def ADAPTER_FLOOR_def from_millis_def from_secs_def
  DURATION_MAX_def

text \<open>The tests of a close deadline pass whenever the clock does not run backwards; the one of a generous
  deadline passes exactly when at most 4.8 s go by between its two readings.\<close>

lemma deadline_tests_pass:
  assumes "t0 + from_secs 5 \<le> INSTANT_MAX" "t0 \<le> t1" "\<And>v. t0 \<le> env_now env v"
  shows "passes (deadline_too_close_when_remaining_less_than_200ms t0 t1)"
    "passes (deadline_not_too_close_when_remaining_generous t0 t1) \<longleftrightarrow> t1 - t0 \<le> from_millis 4800"
    "passes (deadline_none_never_too_close t1)"
    "passes (deadline_too_close_short_circuits_before_next_attempt t0 env w)"
    "passes (deadline_gate_considers_next_backoff t0 env w)"
proof -
  show "passes (deadline_too_close_when_remaining_less_than_200ms t0 t1)"
    using assms(1,2)
    by (simp add: deadline_too_close_when_remaining_less_than_200ms_def test_defs deadline_test_defs)
  show "passes (deadline_not_too_close_when_remaining_generous t0 t1) \<longleftrightarrow> t1 - t0 \<le> from_millis 4800"
    using assms(1,2)
    by (auto simp: deadline_not_too_close_when_remaining_generous_def test_defs deadline_test_defs split: if_splits)
  show "passes (deadline_none_never_too_close t1)"
    by (simp add: deadline_none_never_too_close_def test_defs is_too_close_def deadline_none_def)
  have now: "t0 + a - env_now env v < a + b" if "0 < b" for v a b
    using assms(3) [of v] that by arith
  show "passes (deadline_too_close_short_circuits_before_next_attempt t0 env w)"
    using assms(1) now [of 150000000 50000000]
    by (simp add: deadline_too_close_short_circuits_before_next_attempt_def test_defs with_retry_def retry_loop.simps
        counted_def no_sleep_config_def E_traits_def deadline_test_defs Let_def)
  show "passes (deadline_gate_considers_next_backoff t0 env w)"
    using assms(1) now [of 50000000 200000000]
    by (simp add: deadline_gate_considers_next_backoff_def test_defs with_retry_def retry_loop.simps
        counted_def E_traits_def deadline_test_defs Let_def)
qed

section \<open>The tests of the saga labels and of the metrics\<close>

definition stage_labels_match_prd_spec :: "unit exec" where
  "stage_labels_match_prd_spec =
     assert_true (stage_as_label JmCancel = ''jm_cancel'' \<and> stage_as_label VmStop = ''vm_stop'')"

definition outcome_labels_match_prd_spec :: "unit exec" where
  "outcome_labels_match_prd_spec =
     assert_true (outcome_as_label Compensation_Success = ''success'' \<and>
       outcome_as_label TransientFailureRetried = ''transient_failure_retried'' \<and>
       outcome_as_label ExhaustedToReconciler = ''exhausted_to_reconciler'' \<and>
       outcome_as_label NoCompensationNeeded = ''no_compensation_needed'')"

definition all_combinations_covered :: "unit exec" where
  "all_combinations_covered =
     assert_true (length CompensationStage_ALL = 2 \<and> length CompensationOutcome_ALL = 4)"

text \<open>What the gathered text shows: a family once it has a series, and a series with its value.\<close>

definition shows_family :: "string \<Rightarrow> metric_log \<Rightarrow> bool" where
  "shows_family n log = list_ex (\<lambda>(n', ls). n' = n) (counter_series log)"

definition shows_series :: "string \<Rightarrow> string list \<Rightarrow> nat \<Rightarrow> metric_log \<Rightarrow> bool" where
  "shows_series n ls k log = (list_ex (\<lambda>s. s = (n, ls)) (counter_series log) \<and> counter_total n ls log = k)"

definition registers_all_counters :: "(counter_vec \<Rightarrow> 'r \<Rightarrow> 'r \<times> ('e, unit) result) \<Rightarrow> 'r \<Rightarrow> unit exec" where
  "registers_all_counters register r =
     exec_bind (expect_ok (snd (AdapterMetrics_new register r))) (\<lambda>init.
       let log = init @ [inc_by retries_total [''registry'', ''1''] 1, inc_by deadline_exceeded_total [''registry''] 1]
       in assert_true (shows_family ''engagementhub_adapter_retries_total'' log \<and>
            shows_family ''engagementhub_deadline_exceeded_total'' log \<and>
            shows_family ''engagementhub_saga_compensation_outcome_total'' log))"

definition saga_counter_is_zero_initialized_for_all_label_combinations ::
  "(counter_vec \<Rightarrow> 'r \<Rightarrow> 'r \<times> ('e, unit) result) \<Rightarrow> 'r \<Rightarrow> unit exec" where
  "saga_counter_is_zero_initialized_for_all_label_combinations register r =
     exec_bind (expect_ok (snd (AdapterMetrics_new register r))) (\<lambda>log.
       assert_true (list_all (\<lambda>stage. list_all (\<lambda>outcome.
         shows_series ''engagementhub_saga_compensation_outcome_total''
           [stage_as_label stage, outcome_as_label outcome] 0 log) CompensationOutcome_ALL) CompensationStage_ALL))"

definition record_compensation_increments_correct_series ::
  "(counter_vec \<Rightarrow> 'r \<Rightarrow> 'r \<times> ('e, unit) result) \<Rightarrow> 'r \<Rightarrow> unit exec" where
  "record_compensation_increments_correct_series register r =
     exec_bind (expect_ok (snd (AdapterMetrics_new register r))) (\<lambda>init.
       let log = init @ record_compensation JmCancel Compensation_Success @ record_compensation VmStop ExhaustedToReconciler
       in assert_true
            (shows_series ''engagementhub_saga_compensation_outcome_total'' [''jm_cancel'', ''success''] 1 log \<and>
             shows_series ''engagementhub_saga_compensation_outcome_total'' [''vm_stop'', ''exhausted_to_reconciler''] 1 log))"

lemmas metric_test_defs = registers_all_counters_def saga_counter_is_zero_initialized_for_all_label_combinations_def
  record_compensation_increments_correct_series_def

text \<open>The metrics tests, on any registry that accepts the three families.\<close>

lemma metrics_tests_pass:
  assumes "\<And>v r. snd (register v r) = Inr ()"
  shows "passes (registers_all_counters register r)"
    "passes (saga_counter_is_zero_initialized_for_all_label_combinations register r)"
    "passes (record_compensation_increments_correct_series register r)"
  using assms
  by (simp_all add: metric_test_defs test_defs AdapterMetrics_new_def split_beta saga_zero_init_def
      CompensationStage_ALL_def CompensationOutcome_ALL_def inc_by_def counter_vec_defs shows_family_def
      shows_series_def record_compensation_def Let_def)

lemma constant_tests_pass:
  "passes stage_labels_match_prd_spec" "passes outcome_labels_match_prd_spec" "passes all_combinations_covered"
  "passes write_retry_is_two_attempts" "passes cleanup_retry_is_five_attempts"
  by (simp_all add: test_defs stage_labels_match_prd_spec_def outcome_labels_match_prd_spec_def
      all_combinations_covered_def CompensationStage_ALL_def CompensationOutcome_ALL_def write_retry_is_two_attempts_def
      cleanup_retry_is_five_attempts_def WRITE_RETRY_def CLEANUP_RETRY_def)

end
