(* ===== verification/Tests_Grpc.thy ===== *)
theory Tests_Grpc
  imports Test_Support Journey_Manager_Grpc Voice_Manager_Grpc Registry_Grpc Registry_Stub
begin

text \<open>
  The unit tests of the three gRPC adapters and of the Registry stub
  (\<^verbatim>\<open>adapters/src/journey_manager_grpc.rs\<close>, \<^verbatim>\<open>voice_manager_grpc.rs\<close>,
  \<^verbatim>\<open>registry_grpc.rs\<close>, \<^verbatim>\<open>registry_stub.rs\<close>), with their mock servers, and that each passes
  for every clock, jitter, timer and source of ids. Of the codec they need that a printed UUID parses back, of
  the source of ids that two ids in a row differ; the in-process transport hands a request to the mock's handler
  and its answer back.
\<close>

definition codec_ok :: "('z) codec_scheme \<Rightarrow> bool" where
  "codec_ok cd = (\<forall>u. parse_uuid cd (uuid_to_string cd u) = Inr u)"

lemma codec_okD: "codec_ok cd \<Longrightarrow> parse_uuid cd (uuid_to_string cd u) = Inr u"
  by (simp add: codec_ok_def)

lemma codec_ok_inj: "codec_ok cd \<Longrightarrow> uuid_to_string cd u = uuid_to_string cd v \<longleftrightarrow> u = v"
  by (metis codec_okD sum.inject(2))

definition unavailable :: "string \<Rightarrow> Status" where
  "unavailable msg = \<lparr>code = Code_Unavailable, status_message = msg\<rparr>"

definition not_found :: "string \<Rightarrow> Status" where
  "not_found msg = \<lparr>code = NotFound, status_message = msg\<rparr>"

definition invalid_argument :: "string \<Rightarrow> Status" where
  "invalid_argument msg = \<lparr>code = InvalidArgument, status_message = msg\<rparr>"

definition permission_denied :: "string \<Rightarrow> Status" where
  "permission_denied msg = \<lparr>code = PermissionDenied, status_message = msg\<rparr>"

lemmas status_defs = unavailable_def not_found_def invalid_argument_def permission_denied_def

lemmas run_defs = test_defs with_retry_def retry_loop.simps exchange_def deadline_gate_def dur_mul_def metrics_ops_def
  WRITE_RETRY_def CLEANUP_RETRY_def DEFAULT_RETRY_def GRACEFUL_STOP_RETRY_def REGISTRY_RESOLVE_RETRY_def
  from_millis_def from_secs_def DURATION_MAX_def Let_def

section \<open>The mock Journey Manager\<close>

record CallCounters =
  cnt_create :: nat
  cnt_cancel :: nat
  cnt_timeline :: nat

record MockJm =
  create_result :: "(Status, ExecutionRefProto) result"
  cancel_result :: "(Status, unit) result"
  timeline_result :: "(Status, TimelineEventProto list) result"
  jm_seen_request_ids :: "string list"
  jm_counters :: CallCounters

definition CallCounters_default :: CallCounters where
  "CallCounters_default = \<lparr>cnt_create = 0, cnt_cancel = 0, cnt_timeline = 0\<rparr>"

definition always_ok_create :: "codec \<Rightarrow> uuid \<Rightarrow> MockJm" where
  "always_ok_create cd ref_id =
     \<lparr>create_result = Inr \<lparr>erp_id = uuid_to_string cd ref_id\<rparr>, cancel_result = Inr (), timeline_result = Inr [],
      jm_seen_request_ids = [], jm_counters = CallCounters_default\<rparr>"

definition mock_create_execution ::
  "CreateExecutionRequest \<Rightarrow> MockJm \<Rightarrow> MockJm \<times> (Status, CreateExecutionResponse) result" where
  "mock_create_execution req m =
     (let m1 = m\<lparr>jm_counters := (jm_counters m)\<lparr>cnt_create := cnt_create (jm_counters m) + 1\<rparr>,
               jm_seen_request_ids := jm_seen_request_ids m @ [ceq_request_id req]\<rparr>
      in (m1, map_ok (\<lambda>r. \<lparr>execution_ref = Some r\<rparr>) (create_result m1)))"

definition mock_cancel_execution ::
  "CancelExecutionRequest \<Rightarrow> MockJm \<Rightarrow> MockJm \<times> (Status, unit) result" where
  "mock_cancel_execution req m =
     (let m1 = m\<lparr>jm_counters := (jm_counters m)\<lparr>cnt_cancel := cnt_cancel (jm_counters m) + 1\<rparr>,
               jm_seen_request_ids := jm_seen_request_ids m @ [cxq_request_id req]\<rparr>
      in (m1, cancel_result m1))"

definition mock_get_execution_timeline ::
  "GetExecutionTimelineRequest \<Rightarrow> MockJm \<Rightarrow> MockJm \<times> (Status, GetExecutionTimelineResponse) result" where
  "mock_get_execution_timeline req m =
     (let m1 = m\<lparr>jm_counters := (jm_counters m)\<lparr>cnt_timeline := cnt_timeline (jm_counters m) + 1\<rparr>,
               jm_seen_request_ids := jm_seen_request_ids m @ [etq_request_id req]\<rparr>
      in (m1, map_ok (\<lambda>events. \<lparr>etr_events = events\<rparr>) (timeline_result m1)))"

definition jm_server :: "('w \<times> MockJm) JourneyManagerClient" where
  "jm_server =
     \<lparr>rpc_create_execution = mock_call mock_create_execution,
      rpc_cancel_execution = mock_call mock_cancel_execution,
      rpc_get_execution_timeline = mock_call mock_get_execution_timeline\<rparr>"

definition jm_mock :: "(Status, ExecutionRefProto) result \<Rightarrow> (Status, unit) result
    \<Rightarrow> (Status, TimelineEventProto list) result \<Rightarrow> MockJm" where
  "jm_mock create cancel timeline =
     \<lparr>create_result = create, cancel_result = cancel, timeline_result = timeline,
      jm_seen_request_ids = [], jm_counters = CallCounters_default\<rparr>"

definition jm_create_req :: "string \<Rightarrow> uuid \<Rightarrow> CreateExecutionReq" where
  "jm_create_req version eng =
     \<lparr>ce_journey_version = version, ce_org_id = ''org-1'', ce_engagement_id = EngagementId eng\<rparr>"

lemmas mock_jm_defs = always_ok_create_def mock_create_execution_def mock_cancel_execution_def
  mock_get_execution_timeline_def jm_server_def jm_mock_def jm_create_req_def CallCounters_default_def
  jm_map_status_def execution_of_response_def timeline_of_response_def jm_error_traits_def jmg_create_execution_def
  jmg_cancel_execution_def jmg_get_execution_timeline_def

section \<open>The tests of the Journey Manager adapter\<close>

definition create_execution_happy_path :: "codec \<Rightarrow> 'w adapter_env \<Rightarrow> uuid \<Rightarrow> uuid \<Rightarrow> 'w \<Rightarrow> unit exec" where
  "create_execution_happy_path cd env exec_id eng w =
     awaiting (jmg_create_execution (mock_env env) cd jm_server (jm_create_req ''v1'' eng) (w, always_ok_create cd exec_id))
       (\<lambda>r (w', mock) log. exec_bind (expect_ok r) (\<lambda>r.
          assert_true (execution_id r = exec_id \<and> length (jm_seen_request_ids mock) = 1 \<and>
            is_ok (parse_uuid cd (jm_seen_request_ids mock ! 0)))))"

definition create_execution_invalid_argument_maps_to_permanent ::
  "codec \<Rightarrow> 'w adapter_env \<Rightarrow> uuid \<Rightarrow> 'w \<Rightarrow> unit exec" where
  "create_execution_invalid_argument_maps_to_permanent cd env eng w =
     awaiting (jmg_create_execution (mock_env env) cd jm_server (jm_create_req ''bogus'' eng)
         (w, jm_mock (Inl (invalid_argument ''bad journey_version'')) (Inr ()) (Inr [])))
       (\<lambda>r m log. exec_bind (expect_err r) (\<lambda>err. assert_true (case err of Jm_Permanent _ \<Rightarrow> True | _ \<Rightarrow> False)))"

definition create_execution_unavailable_maps_to_unavailable ::
  "codec \<Rightarrow> 'w adapter_env \<Rightarrow> uuid \<Rightarrow> 'w \<Rightarrow> unit exec" where
  "create_execution_unavailable_maps_to_unavailable cd env eng w =
     awaiting (jmg_create_execution (mock_env env) cd jm_server (jm_create_req ''v1'' eng)
         (w, jm_mock (Inl (unavailable ''down'')) (Inr ()) (Inr [])))
       (\<lambda>r m log. exec_bind (expect_err r) (\<lambda>err. assert_true (err = Jm_Unavailable)))"

definition create_execution_retries_exactly_twice_on_transient ::
  "codec \<Rightarrow> 'w adapter_env \<Rightarrow> uuid \<Rightarrow> 'w \<Rightarrow> unit exec" where
  "create_execution_retries_exactly_twice_on_transient cd env eng w =
     awaiting (jmg_create_execution (mock_env env) cd jm_server (jm_create_req ''v1'' eng)
         (w, jm_mock (Inl (unavailable ''flaky'')) (Inr ()) (Inr [])))
       (\<lambda>r (w', mock) log. assert_true (cnt_create (jm_counters mock) = 2))"

definition create_execution_request_id_is_stable_across_retries ::
  "codec \<Rightarrow> 'w adapter_env \<Rightarrow> uuid \<Rightarrow> 'w \<Rightarrow> unit exec" where
  "create_execution_request_id_is_stable_across_retries cd env eng w =
     awaiting (jmg_create_execution (mock_env env) cd jm_server (jm_create_req ''v1'' eng)
         (w, jm_mock (Inl (unavailable ''flaky'')) (Inr ()) (Inr [])))
       (\<lambda>r (w', mock) log. let ids = jm_seen_request_ids mock
          in assert_true (length ids = 2 \<and> ids ! 0 = ids ! 1))"

definition cancel_execution_happy_path :: "codec \<Rightarrow> 'w adapter_env \<Rightarrow> uuid \<Rightarrow> uuid \<Rightarrow> 'w \<Rightarrow> unit exec" where
  "cancel_execution_happy_path cd env exec_id ref w =
     awaiting (jmg_cancel_execution (mock_env env) cd jm_server \<lparr>execution_id = ref\<rparr> CompensateFailedBind
         (w, always_ok_create cd exec_id))
       (\<lambda>r (w', mock) log. exec_bind (expect_ok r) (\<lambda>_. assert_true (cnt_cancel (jm_counters mock) = 1)))"

definition cancel_execution_retries_five_times_on_transient ::
  "codec \<Rightarrow> 'w adapter_env \<Rightarrow> uuid \<Rightarrow> uuid \<Rightarrow> 'w \<Rightarrow> unit exec" where
  "cancel_execution_retries_five_times_on_transient cd env exec_id ref w =
     awaiting (jmg_cancel_execution (mock_env env) cd jm_server \<lparr>execution_id = ref\<rparr> CompensateFailedBind
         (w, jm_mock (Inr \<lparr>erp_id = uuid_to_string cd exec_id\<rparr>) (Inl (unavailable ''flaky'')) (Inr [])))
       (\<lambda>r (w', mock) log. assert_true (cnt_cancel (jm_counters mock) = 5))"

definition get_execution_timeline_returns_events_in_order ::
  "codec \<Rightarrow> 'w adapter_env \<Rightarrow> uuid \<Rightarrow> 'w \<Rightarrow> unit exec" where
  "get_execution_timeline_returns_events_in_order cd env ref w =
     awaiting (jmg_get_execution_timeline (mock_env env) cd jm_server \<lparr>execution_id = ref\<rparr> \<lparr>after_sequence = None\<rparr>
         (w, jm_mock (Inl (not_found ''n/a'')) (Inr ())
               (Inr [\<lparr>tep_sequence = 1, tep_kind = ''node_entered''\<rparr>, \<lparr>tep_sequence = 2, tep_kind = ''node_exited''\<rparr>])))
       (\<lambda>r m log. exec_bind (expect_ok r) (\<lambda>t.
          assert_true (length (timeline_events t) = 2 \<and> event_sequence (timeline_events t ! 0) = 1 \<and>
            event_kind (timeline_events t ! 0) = ''node_entered'')))"

definition cross_call_request_ids_are_distinct ::
  "codec \<Rightarrow> 'w adapter_env \<Rightarrow> uuid \<Rightarrow> uuid \<Rightarrow> uuid \<Rightarrow> 'w \<Rightarrow> unit exec" where
  "cross_call_request_ids_are_distinct cd env exec_id eng ref w =
     awaiting (jmg_create_execution (mock_env env) cd jm_server (jm_create_req ''v1'' eng) (w, always_ok_create cd exec_id))
       (\<lambda>_ m1 _.
     awaiting (jmg_cancel_execution (mock_env env) cd jm_server \<lparr>execution_id = ref\<rparr> CompensateFailedBind m1)
       (\<lambda>_ (w', mock) _. let ids = jm_seen_request_ids mock
          in assert_true (length ids = 2 \<and> ids ! 0 \<noteq> ids ! 1)))"

lemmas jm_test_defs = create_execution_happy_path_def create_execution_invalid_argument_maps_to_permanent_def
  create_execution_unavailable_maps_to_unavailable_def create_execution_retries_exactly_twice_on_transient_def
  create_execution_request_id_is_stable_across_retries_def cancel_execution_happy_path_def
  cancel_execution_retries_five_times_on_transient_def get_execution_timeline_returns_events_in_order_def
  cross_call_request_ids_are_distinct_def

lemma jm_tests_pass:
  assumes "codec_ok cd" "fst (env_new_v4 env (snd (env_new_v4 env w))) \<noteq> fst (env_new_v4 env w)"
  shows "passes (create_execution_happy_path cd env exec_id eng w)"
    "passes (create_execution_invalid_argument_maps_to_permanent cd env eng w)"
    "passes (create_execution_unavailable_maps_to_unavailable cd env eng w)"
    "passes (create_execution_retries_exactly_twice_on_transient cd env eng w)"
    "passes (create_execution_request_id_is_stable_across_retries cd env eng w)"
    "passes (cancel_execution_happy_path cd env exec_id ref w)"
    "passes (cancel_execution_retries_five_times_on_transient cd env exec_id ref w)"
    "passes (get_execution_timeline_returns_events_in_order cd env ref w)"
    "passes (cross_call_request_ids_are_distinct cd env exec_id eng ref w)"
  using assms(2) assms(2) [symmetric]
  by (simp_all add: jm_test_defs mock_jm_defs run_defs status_defs codec_okD [OF assms(1)] codec_ok_inj [OF assms(1)])

section \<open>A slow Journey Manager\<close>

text \<open>The slow server answers after five seconds and the channel gives up after 200 ms with the status of its
  choice; time is the world, and a sleep or a call lets it pass.\<close>

definition clock_env :: "(duration \<Rightarrow> duration) \<Rightarrow> (instant \<Rightarrow> uuid) \<Rightarrow> instant adapter_env" where
  "clock_env jit ids =
     \<lparr>env_now = (\<lambda>w. w), env_jitter = (\<lambda>b w. (jit b, w)), env_sleep = (\<lambda>d w. w + d), env_new_v4 = (\<lambda>w. (ids w, w))\<rparr>"

definition with_timeout ::
  "duration \<Rightarrow> 's \<Rightarrow> ('req \<Rightarrow> duration \<times> ('s, 'r) result attempt) \<Rightarrow> (instant, 'req, 's, 'r) call" where
  "with_timeout limit expired handler req w =
     (case handler req of (work, ans) \<Rightarrow>
        if work \<le> limit then (w + work, ans) else (w + limit, Completed (Inl expired)))"

definition SlowMockJm :: "codec \<Rightarrow> uuid \<Rightarrow> duration \<Rightarrow> Status \<Rightarrow> instant JourneyManagerClient" where
  "SlowMockJm cd eid limit expired =
     \<lparr>rpc_create_execution = with_timeout limit expired
        (\<lambda>_. (from_secs 5, Completed (Inr \<lparr>execution_ref = Some \<lparr>erp_id = uuid_to_string cd eid\<rparr>\<rparr>))),
      rpc_cancel_execution = with_timeout limit expired (\<lambda>_. (0, Poll_Panic)),
      rpc_get_execution_timeline = with_timeout limit expired (\<lambda>_. (0, Poll_Panic))\<rparr>"

definition slow_downstream_does_not_hang_forever_when_caller_adds_timeout ::
  "codec \<Rightarrow> (duration \<Rightarrow> duration) \<Rightarrow> (instant \<Rightarrow> uuid) \<Rightarrow> Status \<Rightarrow> uuid \<Rightarrow> uuid \<Rightarrow> instant \<Rightarrow> unit exec" where
  "slow_downstream_does_not_hang_forever_when_caller_adds_timeout cd jit ids expired eid eng start =
     awaiting (jmg_create_execution (clock_env jit ids) cd (SlowMockJm cd eid (from_millis 200) expired)
         (jm_create_req ''v1'' eng) start)
       (\<lambda>r now log. exec_bind (expect_err r) (\<lambda>err.
          assert_true (saturating_duration_since now start < from_secs 2)))"

lemma slow_test_passes:
  assumes "\<forall>b. jit b \<le> b"
  shows "passes (slow_downstream_does_not_hang_forever_when_caller_adds_timeout cd jit ids expired eid eng start)"
proof -
  have "jit 50000000 \<le> 50000000"
    using assms by blast
  then show ?thesis
    by (simp add: slow_downstream_does_not_hang_forever_when_caller_adds_timeout_def clock_env_def with_timeout_def
        SlowMockJm_def run_defs jmg_create_execution_def jm_create_req_def jm_error_traits_def
        saturating_duration_since_def)
qed

section \<open>The mock Voice Manager\<close>

record VmCounters =
  n_start :: nat
  n_stop :: nat
  n_token :: nat
  n_create_tel :: nat
  n_list_tel :: nat
  n_get_tel :: nat
  n_update_tel :: nat
  n_delete_tel :: nat

definition VmCounters_default :: VmCounters where
  "VmCounters_default =
     \<lparr>n_start = 0, n_stop = 0, n_token = 0, n_create_tel = 0, n_list_tel = 0, n_get_tel = 0, n_update_tel = 0,
      n_delete_tel = 0\<rparr>"

record MockVm =
  vs_start_result :: "(Status, VoiceSessionRefProto) result"
  stop_result :: "(Status, unit) result"
  token_result :: "(Status, string) result"
  telephony_result :: "(Status, TelephonyProto) result"
  list_result :: "(Status, TelephonyProto list) result"
  vm_seen_request_ids :: "string list"
  seen_stop_modes :: "i32 list"
  vm_counters :: VmCounters

definition happy :: "codec \<Rightarrow> uuid \<Rightarrow> MockVm" where
  "happy cd default_id =
     \<lparr>vs_start_result = Inr \<lparr>vsr_id = uuid_to_string cd default_id\<rparr>,
      stop_result = Inr (),
      token_result = Inr ''token-abc'',
      telephony_result =
        Inr \<lparr>tp_id = uuid_to_string cd default_id, tp_org_id = ''org-1'', tp_phone_number = ''+60123456789''\<rparr>,
      list_result = Inr [],
      vm_seen_request_ids = [],
      seen_stop_modes = [],
      vm_counters = VmCounters_default\<rparr>"

definition mock_start_voice_session ::
  "StartVoiceSessionRequest \<Rightarrow> MockVm \<Rightarrow> MockVm \<times> (Status, StartVoiceSessionResponse) result" where
  "mock_start_voice_session req m =
     (let m1 = m\<lparr>vm_counters := (vm_counters m)\<lparr>n_start := n_start (vm_counters m) + 1\<rparr>,
               vm_seen_request_ids := vm_seen_request_ids m @ [svq_request_id req]\<rparr>
      in (m1, map_ok (\<lambda>r. \<lparr>session_ref = Some r\<rparr>) (vs_start_result m1)))"

definition mock_stop_voice_session ::
  "StopVoiceSessionRequest \<Rightarrow> MockVm \<Rightarrow> MockVm \<times> (Status, unit) result" where
  "mock_stop_voice_session req m =
     (let m1 = m\<lparr>vm_counters := (vm_counters m)\<lparr>n_stop := n_stop (vm_counters m) + 1\<rparr>,
               vm_seen_request_ids := vm_seen_request_ids m @ [stq_request_id req],
               seen_stop_modes := seen_stop_modes m @ [stq_mode req]\<rparr>
      in (m1, stop_result m1))"

definition mock_issue_test_token ::
  "IssueTestTokenRequest \<Rightarrow> MockVm \<Rightarrow> MockVm \<times> (Status, IssueTestTokenResponse) result" where
  "mock_issue_test_token req m =
     (let m1 = m\<lparr>vm_counters := (vm_counters m)\<lparr>n_token := n_token (vm_counters m) + 1\<rparr>,
               vm_seen_request_ids := vm_seen_request_ids m @ [itq_request_id req]\<rparr>
      in (m1, map_ok (\<lambda>t. \<lparr>itr_token = t\<rparr>) (token_result m1)))"

definition mock_create_telephony ::
  "CreateTelephonyRequest \<Rightarrow> MockVm \<Rightarrow> MockVm \<times> (Status, TelephonyResponse) result" where
  "mock_create_telephony req m =
     (let m1 = m\<lparr>vm_counters := (vm_counters m)\<lparr>n_create_tel := n_create_tel (vm_counters m) + 1\<rparr>,
               vm_seen_request_ids := vm_seen_request_ids m @ [ctq_request_id req]\<rparr>
      in (m1, map_ok (\<lambda>t. \<lparr>tr_telephony = Some t\<rparr>) (telephony_result m1)))"

definition mock_list_telephonies ::
  "ListTelephoniesRequest \<Rightarrow> MockVm \<Rightarrow> MockVm \<times> (Status, ListTelephoniesResponse) result" where
  "mock_list_telephonies req m =
     (let m1 = m\<lparr>vm_counters := (vm_counters m)\<lparr>n_list_tel := n_list_tel (vm_counters m) + 1\<rparr>,
               vm_seen_request_ids := vm_seen_request_ids m @ [ltq_request_id req]\<rparr>
      in (m1, map_ok (\<lambda>v. \<lparr>telephonies = v\<rparr>) (list_result m1)))"

definition mock_get_telephony ::
  "GetTelephonyRequest \<Rightarrow> MockVm \<Rightarrow> MockVm \<times> (Status, TelephonyResponse) result" where
  "mock_get_telephony req m =
     (let m1 = m\<lparr>vm_counters := (vm_counters m)\<lparr>n_get_tel := n_get_tel (vm_counters m) + 1\<rparr>,
               vm_seen_request_ids := vm_seen_request_ids m @ [gtq_request_id req]\<rparr>
      in (m1, map_ok (\<lambda>t. \<lparr>tr_telephony = Some t\<rparr>) (telephony_result m1)))"

definition mock_update_telephony ::
  "UpdateTelephonyRequest \<Rightarrow> MockVm \<Rightarrow> MockVm \<times> (Status, TelephonyResponse) result" where
  "mock_update_telephony req m =
     (let m1 = m\<lparr>vm_counters := (vm_counters m)\<lparr>n_update_tel := n_update_tel (vm_counters m) + 1\<rparr>,
               vm_seen_request_ids := vm_seen_request_ids m @ [utq_request_id req]\<rparr>
      in (m1, map_ok (\<lambda>t. \<lparr>tr_telephony = Some t\<rparr>) (telephony_result m1)))"

definition mock_delete_telephony ::
  "DeleteTelephonyRequest \<Rightarrow> MockVm \<Rightarrow> MockVm \<times> (Status, unit) result" where
  "mock_delete_telephony req m =
     (let m1 = m\<lparr>vm_counters := (vm_counters m)\<lparr>n_delete_tel := n_delete_tel (vm_counters m) + 1\<rparr>,
               vm_seen_request_ids := vm_seen_request_ids m @ [dtq_request_id req]\<rparr>
      in (m1, stop_result m1))"

definition vm_server :: "('w \<times> MockVm) VoiceManagerClient" where
  "vm_server =
     \<lparr>rpc_start_voice_session = mock_call mock_start_voice_session,
      rpc_stop_voice_session = mock_call mock_stop_voice_session,
      rpc_issue_test_token = mock_call mock_issue_test_token,
      rpc_create_telephony = mock_call mock_create_telephony,
      rpc_list_telephonies = mock_call mock_list_telephonies,
      rpc_get_telephony = mock_call mock_get_telephony,
      rpc_update_telephony = mock_call mock_update_telephony,
      rpc_delete_telephony = mock_call mock_delete_telephony\<rparr>"

lemmas mock_vm_defs = VmCounters_default_def happy_def vm_server_def
  mock_start_voice_session_def vmg_start_voice_session_def
  mock_stop_voice_session_def vmg_stop_voice_session_def
  mock_issue_test_token_def vmg_issue_test_token_def
  mock_create_telephony_def vmg_create_telephony_def
  mock_list_telephonies_def vmg_list_telephonies_def
  mock_get_telephony_def vmg_get_telephony_def
  mock_update_telephony_def vmg_update_telephony_def
  mock_delete_telephony_def vmg_delete_telephony_def
  vm_map_status_def telephony_of_response_def telephony_from_proto_def session_of_response_def vm_error_traits_def

section \<open>The tests of the Voice Manager adapter\<close>

definition start_voice_session_happy :: "codec \<Rightarrow> 'w adapter_env \<Rightarrow> uuid \<Rightarrow> uuid \<Rightarrow> 'w \<Rightarrow> unit exec" where
  "start_voice_session_happy cd env sid eng w =
     awaiting (vmg_start_voice_session (mock_env env) cd vm_server
         \<lparr>sv_engagement_id = EngagementId eng, sv_org_id = ''org-1''\<rparr> (w, happy cd sid))
       (\<lambda>r m log. exec_bind (expect_ok r) (\<lambda>r. assert_true (session_id r = sid)))"

definition stop_voice_session_abort_uses_5_attempts_on_transient ::
  "codec \<Rightarrow> 'w adapter_env \<Rightarrow> uuid \<Rightarrow> uuid \<Rightarrow> 'w \<Rightarrow> unit exec" where
  "stop_voice_session_abort_uses_5_attempts_on_transient cd env did ref w =
     awaiting (vmg_stop_voice_session (mock_env env) cd vm_server \<lparr>session_id = ref\<rparr> Abort
         (w, (happy cd did)\<lparr>stop_result := Inl (unavailable ''flaky'')\<rparr>))
       (\<lambda>r (w', mock) log. assert_true (n_stop (vm_counters mock) = 5))"

definition stop_voice_session_graceful_uses_1_attempt_on_transient ::
  "codec \<Rightarrow> 'w adapter_env \<Rightarrow> uuid \<Rightarrow> uuid \<Rightarrow> 'w \<Rightarrow> unit exec" where
  "stop_voice_session_graceful_uses_1_attempt_on_transient cd env did ref w =
     awaiting (vmg_stop_voice_session (mock_env env) cd vm_server \<lparr>session_id = ref\<rparr> Graceful
         (w, (happy cd did)\<lparr>stop_result := Inl (unavailable ''flaky'')\<rparr>))
       (\<lambda>r (w', mock) log. assert_true (n_stop (vm_counters mock) = 1))"

definition stop_voice_session_passes_mode_correctly ::
  "codec \<Rightarrow> 'w adapter_env \<Rightarrow> uuid \<Rightarrow> uuid \<Rightarrow> uuid \<Rightarrow> 'w \<Rightarrow> unit exec" where
  "stop_voice_session_passes_mode_correctly cd env did ref1 ref2 w =
     awaiting (vmg_stop_voice_session (mock_env env) cd vm_server \<lparr>session_id = ref1\<rparr> Abort (w, happy cd did))
       (\<lambda>r1 m1 _. exec_bind (expect_ok r1) (\<lambda>_.
     awaiting (vmg_stop_voice_session (mock_env env) cd vm_server \<lparr>session_id = ref2\<rparr> Graceful m1)
       (\<lambda>r2 (w', mock) _. exec_bind (expect_ok r2) (\<lambda>_.
          let modes = seen_stop_modes mock
          in assert_true (modes ! 0 = stop_mode_as_i32 STOP_MODE_ABORT \<and>
               modes ! 1 = stop_mode_as_i32 STOP_MODE_GRACEFUL)))))"

definition issue_test_token_happy :: "codec \<Rightarrow> 'w adapter_env \<Rightarrow> uuid \<Rightarrow> 'w \<Rightarrow> unit exec" where
  "issue_test_token_happy cd env did w =
     awaiting (vmg_issue_test_token (mock_env env) cd vm_server \<lparr>it_org_id = ''org-1''\<rparr> (w, happy cd did))
       (\<lambda>r m log. exec_bind (expect_ok r) (\<lambda>t. assert_true (token t = ''token-abc'')))"

definition telephony_crud_roundtrip :: "codec \<Rightarrow> 'w adapter_env \<Rightarrow> uuid \<Rightarrow> 'w \<Rightarrow> unit exec" where
  "telephony_crud_roundtrip cd env tid w =
     awaiting (vmg_create_telephony (mock_env env) cd vm_server
         \<lparr>ct_org_id = ''org-1'', ct_phone_number = ''+60123456789''\<rparr> (w, happy cd tid))
       (\<lambda>r1 m1 _. exec_bind (expect_ok r1) (\<lambda>created.
          exec_bind (assert_true (telephony_org_id created = ''org-1'')) (\<lambda>_.
     awaiting (vmg_get_telephony (mock_env env) cd vm_server (TelephonyId tid) m1)
       (\<lambda>r2 m2 _. exec_bind (expect_ok r2) (\<lambda>got.
          exec_bind (assert_true (phone_number got = ''+60123456789'')) (\<lambda>_.
     awaiting (vmg_update_telephony (mock_env env) cd vm_server
         \<lparr>ut_id = TelephonyId tid, ut_phone_number = ''+60111111111''\<rparr> m2)
       (\<lambda>r3 m3 _. exec_bind (expect_ok r3) (\<lambda>updated.
          exec_bind (assert_true (telephony_org_id updated = ''org-1'')) (\<lambda>_.
     awaiting (vmg_delete_telephony (mock_env env) cd vm_server (TelephonyId tid) ''decommissioned'' m3)
       (\<lambda>r4 (w', mock) _. exec_bind (expect_ok r4) (\<lambda>_.
          assert_true (n_delete_tel (vm_counters mock) = 1))))))))))))"

definition list_telephonies_passes_page_token :: "codec \<Rightarrow> 'w adapter_env \<Rightarrow> uuid \<Rightarrow> 'w \<Rightarrow> unit exec" where
  "list_telephonies_passes_page_token cd env did w =
     awaiting (vmg_list_telephonies (mock_env env) cd vm_server
         \<lparr>lt_org_id = ''org-1'', page_token = Some ''next-page''\<rparr> (w, happy cd did))
       (\<lambda>r m log. exec_bind (expect_ok r) (\<lambda>v. assert_true (v = [])))"

definition create_telephony_retries_twice_on_transient :: "codec \<Rightarrow> 'w adapter_env \<Rightarrow> uuid \<Rightarrow> 'w \<Rightarrow> unit exec" where
  "create_telephony_retries_twice_on_transient cd env did w =
     awaiting (vmg_create_telephony (mock_env env) cd vm_server
         \<lparr>ct_org_id = ''org-1'', ct_phone_number = ''+60123456789''\<rparr>
         (w, (happy cd did)\<lparr>telephony_result := Inl (unavailable ''flaky'')\<rparr>))
       (\<lambda>r (w', mock) log. assert_true (n_create_tel (vm_counters mock) = 2))"

definition issue_test_token_invalid_argument_maps_to_permanent ::
  "codec \<Rightarrow> 'w adapter_env \<Rightarrow> uuid \<Rightarrow> 'w \<Rightarrow> unit exec" where
  "issue_test_token_invalid_argument_maps_to_permanent cd env did w =
     awaiting (vmg_issue_test_token (mock_env env) cd vm_server \<lparr>it_org_id = ''bad''\<rparr>
         (w, (happy cd did)\<lparr>token_result := Inl (invalid_argument ''bad org_id'')\<rparr>))
       (\<lambda>r m log. exec_bind (expect_err r) (\<lambda>e. assert_true (case e of Vm_Permanent _ \<Rightarrow> True | _ \<Rightarrow> False)))"

lemmas vm_test_defs = start_voice_session_happy_def stop_voice_session_abort_uses_5_attempts_on_transient_def
  stop_voice_session_graceful_uses_1_attempt_on_transient_def stop_voice_session_passes_mode_correctly_def
  issue_test_token_happy_def telephony_crud_roundtrip_def list_telephonies_passes_page_token_def
  create_telephony_retries_twice_on_transient_def issue_test_token_invalid_argument_maps_to_permanent_def

lemma vm_tests_pass:
  assumes "codec_ok cd"
  shows "passes (start_voice_session_happy cd env sid eng w)"
    "passes (stop_voice_session_abort_uses_5_attempts_on_transient cd env did ref w)"
    "passes (stop_voice_session_graceful_uses_1_attempt_on_transient cd env did ref w)"
    "passes (stop_voice_session_passes_mode_correctly cd env did ref1 ref2 w)"
    "passes (issue_test_token_happy cd env did w)"
    "passes (telephony_crud_roundtrip cd env tid w)"
    "passes (list_telephonies_passes_page_token cd env did w)"
    "passes (create_telephony_retries_twice_on_transient cd env did w)"
    "passes (issue_test_token_invalid_argument_maps_to_permanent cd env did w)"
  by (simp_all add: vm_test_defs mock_vm_defs run_defs status_defs codec_okD [OF assms])

section \<open>The Registry adapter\<close>

record MockRegistry =
  snap_result :: "(Status, ResolvedSnapshotProto) result"
  profile_result :: "(Status, VoiceProfileProto) result"

definition mock_resolve_snapshot ::
  "ResolveSnapshotRequest \<Rightarrow> MockRegistry \<Rightarrow> MockRegistry \<times> (Status, ResolveSnapshotResponse) result" where
  "mock_resolve_snapshot req m = (m, map_ok (\<lambda>r. \<lparr>rsr_snapshot = Some r\<rparr>) (snap_result m))"

definition mock_get_voice_profile ::
  "GetVoiceProfileRequest \<Rightarrow> MockRegistry \<Rightarrow> MockRegistry \<times> (Status, GetVoiceProfileResponse) result" where
  "mock_get_voice_profile req m = (m, map_ok (\<lambda>r. \<lparr>vpr_profile = Some r\<rparr>) (profile_result m))"

definition registry_server :: "('w \<times> MockRegistry) RegistryClient" where
  "registry_server =
     \<lparr>rpc_resolve_snapshot = mock_call mock_resolve_snapshot,
      rpc_get_voice_profile = mock_call mock_get_voice_profile\<rparr>"

definition resolve_snapshot_success :: "codec \<Rightarrow> 'w adapter_env \<Rightarrow> 'w \<Rightarrow> unit exec" where
  "resolve_snapshot_success cd env w =
     awaiting (rg_resolve_snapshot (mock_env env) cd registry_server
         \<lparr>rs_org_id = ''o1'', rs_journey_version = ''v1''\<rparr>
         (w, \<lparr>snap_result = Inr \<lparr>rsp_snapshot_id = ''snap-grpc'', rsp_journey_version = ''v1''\<rparr>,
              profile_result = Inl (not_found ''n/a'')\<rparr>))
       (\<lambda>r m log. exec_bind (expect_ok r) (\<lambda>snap. assert_true (snapshot_id snap = ''snap-grpc'')))"

definition not_found_maps_to_permanent :: "codec \<Rightarrow> 'w adapter_env \<Rightarrow> 'w \<Rightarrow> unit exec" where
  "not_found_maps_to_permanent cd env w =
     awaiting (rg_resolve_snapshot (mock_env env) cd registry_server
         \<lparr>rs_org_id = ''o1'', rs_journey_version = ''vX''\<rparr>
         (w, \<lparr>snap_result = Inl (not_found ''unknown''), profile_result = Inl (not_found ''n/a'')\<rparr>))
       (\<lambda>r m log. exec_bind (expect_err r) (\<lambda>err. assert_true (case err of Registry_Permanent _ \<Rightarrow> True | _ \<Rightarrow> False)))"

definition unavailable_maps_correctly :: "codec \<Rightarrow> 'w adapter_env \<Rightarrow> 'w \<Rightarrow> unit exec" where
  "unavailable_maps_correctly cd env w =
     awaiting (rg_resolve_snapshot (mock_env env) cd registry_server
         \<lparr>rs_org_id = ''o1'', rs_journey_version = ''v1''\<rparr>
         (w, \<lparr>snap_result = Inl (unavailable ''down''), profile_result = Inl (not_found ''n/a'')\<rparr>))
       (\<lambda>r m log. exec_bind (expect_err r) (\<lambda>err. assert_true (err = Registry_Unavailable)))"

definition get_voice_profile_success :: "codec \<Rightarrow> 'w adapter_env \<Rightarrow> uuid \<Rightarrow> 'w \<Rightarrow> unit exec" where
  "get_voice_profile_success cd env pid w =
     awaiting (rg_get_voice_profile (mock_env env) cd registry_server (VoiceProfileId pid)
         (w, \<lparr>snap_result = Inl (not_found ''n/a''),
              profile_result = Inr \<lparr>vpp_id = uuid_to_string cd pid, vpp_name = ''grpc-bot''\<rparr>\<rparr>))
       (\<lambda>r m log. exec_bind (expect_ok r) (\<lambda>vp. assert_true (profile_name vp = ''grpc-bot'')))"

definition permission_denied_maps_to_permanent :: "codec \<Rightarrow> 'w adapter_env \<Rightarrow> 'w \<Rightarrow> unit exec" where
  "permission_denied_maps_to_permanent cd env w =
     awaiting (rg_resolve_snapshot (mock_env env) cd registry_server
         \<lparr>rs_org_id = ''o1'', rs_journey_version = ''v1''\<rparr>
         (w, \<lparr>snap_result = Inl (permission_denied ''not allowed''), profile_result = Inl (not_found ''n/a'')\<rparr>))
       (\<lambda>r m log. exec_bind (expect_err r) (\<lambda>err. assert_true (case err of Registry_Permanent _ \<Rightarrow> True | _ \<Rightarrow> False)))"

lemmas registry_test_defs = resolve_snapshot_success_def not_found_maps_to_permanent_def unavailable_maps_correctly_def
  get_voice_profile_success_def permission_denied_maps_to_permanent_def

lemmas mock_registry_defs = mock_resolve_snapshot_def mock_get_voice_profile_def registry_server_def
  rg_resolve_snapshot_def rg_get_voice_profile_def registry_map_status_def snapshot_of_response_def
  profile_of_response_def registry_error_traits_def

lemma registry_tests_pass:
  assumes "codec_ok cd"
  shows "passes (resolve_snapshot_success cd env w)"
    "passes (not_found_maps_to_permanent cd env w)"
    "passes (unavailable_maps_correctly cd env w)"
    "passes (get_voice_profile_success cd env pid w)"
    "passes (permission_denied_maps_to_permanent cd env w)"
  by (simp_all add: registry_test_defs mock_registry_defs run_defs status_defs codec_okD [OF assms])

section \<open>The Registry stub\<close>

definition stub :: "(uuid \<Rightarrow> string) \<Rightarrow> RegistryStubAdapter" where
  "stub str =
     stub_new str
       [\<lparr>snapshot_id = ''snap-1'', snap_journey_version = ''v1''\<rparr>,
        \<lparr>snapshot_id = ''snap-2'', snap_journey_version = ''v2''\<rparr>]
       [\<lparr>profile_id = VoiceProfileId 0, profile_name = ''bot''\<rparr>]"

definition resolve_known_version :: "(uuid \<Rightarrow> string) \<Rightarrow> unit exec" where
  "resolve_known_version str =
     exec_bind (expect_ok (stub_resolve_snapshot (stub str) \<lparr>rs_org_id = ''org1'', rs_journey_version = ''v1''\<rparr>))
       (\<lambda>snap. assert_true (snapshot_id snap = ''snap-1''))"

definition resolve_unknown_version_returns_permanent :: "(uuid \<Rightarrow> string) \<Rightarrow> unit exec" where
  "resolve_unknown_version_returns_permanent str =
     exec_bind (expect_err (stub_resolve_snapshot (stub str) \<lparr>rs_org_id = ''org1'', rs_journey_version = ''vX''\<rparr>))
       (\<lambda>err. assert_true (case err of Registry_Permanent _ \<Rightarrow> True | _ \<Rightarrow> False))"

definition get_known_profile :: "(uuid \<Rightarrow> string) \<Rightarrow> unit exec" where
  "get_known_profile str =
     exec_bind (expect_ok (stub_get_voice_profile str (stub str) (VoiceProfileId 0)))
       (\<lambda>vp. assert_true (profile_name vp = ''bot''))"

text \<open>The unknown profile's id is a fresh one, never the nil id.\<close>

definition get_unknown_profile_returns_permanent :: "(uuid \<Rightarrow> string) \<Rightarrow> uuid \<Rightarrow> unit exec" where
  "get_unknown_profile_returns_permanent str fresh =
     exec_bind (expect_err (stub_get_voice_profile str (stub str) (VoiceProfileId fresh)))
       (\<lambda>err. assert_true (case err of Registry_Permanent _ \<Rightarrow> True | _ \<Rightarrow> False))"

definition default_fixtures_resolves_v1_fixture :: "(uuid \<Rightarrow> string) \<Rightarrow> unit exec" where
  "default_fixtures_resolves_v1_fixture str =
     exec_bind (expect_ok (stub_resolve_snapshot (with_default_fixtures str)
         \<lparr>rs_org_id = ''org1'', rs_journey_version = ''v1-fixture''\<rparr>))
       (\<lambda>snap. assert_true (snapshot_id snap = ''fixture-snap-v1''))"

lemma stub_tests_pass:
  assumes "str fresh \<noteq> str 0"
  shows "passes (resolve_known_version str)"
    "passes (resolve_unknown_version_returns_permanent str)"
    "passes (get_known_profile str)"
    "passes (get_unknown_profile_returns_permanent str fresh)"
    "passes (default_fixtures_resolves_v1_fixture str)"
  using assms
  by (simp_all add: resolve_known_version_def resolve_unknown_version_returns_permanent_def get_known_profile_def
      get_unknown_profile_returns_permanent_def default_fixtures_resolves_v1_fixture_def stub_def stub_new_def
      with_default_fixtures_def stub_resolve_snapshot_def stub_get_voice_profile_def collect_map_def test_defs)

section \<open>The suite\<close>

definition jm_suite :: "codec \<Rightarrow> 'w adapter_env \<Rightarrow> uuid \<Rightarrow> uuid \<Rightarrow> uuid \<Rightarrow> 'w \<Rightarrow> unit exec list" where
  "jm_suite cd env exec_id eng ref w =
     [create_execution_happy_path cd env exec_id eng w,
      create_execution_invalid_argument_maps_to_permanent cd env eng w,
      create_execution_unavailable_maps_to_unavailable cd env eng w,
      create_execution_retries_exactly_twice_on_transient cd env eng w,
      create_execution_request_id_is_stable_across_retries cd env eng w,
      cancel_execution_happy_path cd env exec_id ref w,
      cancel_execution_retries_five_times_on_transient cd env exec_id ref w,
      get_execution_timeline_returns_events_in_order cd env ref w,
      cross_call_request_ids_are_distinct cd env exec_id eng ref w]"

definition vm_suite :: "codec \<Rightarrow> 'w adapter_env \<Rightarrow> uuid \<Rightarrow> uuid \<Rightarrow> uuid \<Rightarrow> 'w \<Rightarrow> unit exec list" where
  "vm_suite cd env did eng ref w =
     [start_voice_session_happy cd env did eng w,
      stop_voice_session_abort_uses_5_attempts_on_transient cd env did ref w,
      stop_voice_session_graceful_uses_1_attempt_on_transient cd env did ref w,
      stop_voice_session_passes_mode_correctly cd env did ref eng w,
      issue_test_token_happy cd env did w,
      telephony_crud_roundtrip cd env did w,
      list_telephonies_passes_page_token cd env did w,
      create_telephony_retries_twice_on_transient cd env did w,
      issue_test_token_invalid_argument_maps_to_permanent cd env did w]"

definition registry_suite :: "codec \<Rightarrow> 'w adapter_env \<Rightarrow> uuid \<Rightarrow> 'w \<Rightarrow> unit exec list" where
  "registry_suite cd env pid w =
     [resolve_snapshot_success cd env w,
      not_found_maps_to_permanent cd env w,
      unavailable_maps_correctly cd env w,
      get_voice_profile_success cd env pid w,
      permission_denied_maps_to_permanent cd env w]"

text \<open>The unit tests of the three gRPC adapters pass in every environment: whatever the clock reads, however
  long the jitter and the timer take, and whatever ids are drawn (two in a row differing), each of the 23
  tests against the repository's mock servers returns without a failed assertion, and so does the one
  against the slow server when the jitter stays within the back-off.\<close>

theorem adapter_tests_pass:
  assumes "codec_ok cd" "fst (env_new_v4 env (snd (env_new_v4 env w))) \<noteq> fst (env_new_v4 env w)" "\<forall>b. jit b \<le> b"
  shows "list_all passes (jm_suite cd env i1 i2 i3 w @ vm_suite cd env i1 i2 i3 w @ registry_suite cd env i1 w @
     [slow_downstream_does_not_hang_forever_when_caller_adds_timeout cd jit ids expired i1 i2 start])"
  by (simp add: jm_suite_def vm_suite_def registry_suite_def jm_tests_pass [OF assms(1,2)] vm_tests_pass [OF assms(1)]
      registry_tests_pass [OF assms(1)] slow_test_passes [OF assms(3)])

definition counting_env :: "nat adapter_env" where
  "counting_env =
     \<lparr>env_now = (\<lambda>w. w), env_jitter = (\<lambda>b w. (b, w)), env_sleep = (\<lambda>d w. w), env_new_v4 = (\<lambda>w. (of_nat w, w + 1))\<rparr>"

lemma unary_codec_ok: "codec_ok unary_codec"
  by (simp add: codec_ok_def unary_codec_def list_all_iff)

theorem adapter_tests_pass_witness:
  "list_all passes (jm_suite unary_codec counting_env 1 2 3 0 @ vm_suite unary_codec counting_env 1 2 3 0 @
     registry_suite unary_codec counting_env 1 0 @
     [slow_downstream_does_not_hang_forever_when_caller_adds_timeout unary_codec (\<lambda>b. b) of_nat (unavailable ''late'') 1 2 7])"
  by (rule adapter_tests_pass) (simp_all add: unary_codec_ok counting_env_def)

end
