(* ===== verification/Tests_Fakes.thy ===== *)
theory Tests_Fakes
  imports Test_Support Fakes
begin

text \<open>
  The unit tests of the fake ports (\<^verbatim>\<open>ports/src/fake\<close>), file by file and in their order, with the
  sample values they build, and that each passes: pushed outcomes come back as the results they stand for, in
  the order they were pushed, and an injected panic or an empty queue panics the task that calls. Every fresh
  id a test draws is a parameter of its translation, and so is the float \<open>z\<close> written
  \<^verbatim>\<open>0.0\<close> in the source.
\<close>

text \<open>A push before the rest of a test; its panic is the test's.\<close>

definition pushed :: "('m \<Rightarrow> 'm \<times> unit exec) \<Rightarrow> 'm \<Rightarrow> ('m \<Rightarrow> unit exec) \<Rightarrow> unit exec" where
  "pushed push m k = (case push m of (m', r) \<Rightarrow> exec_bind r (\<lambda>_. k m'))"

lemmas fake_run_defs = test_defs pushed_def with_lock_def new_mutex_def push_back_def pop_respond_def fake_call_def

section \<open>The registry fake\<close>

definition fake_test_resolve_snapshot_success :: "unit exec" where
  "fake_test_resolve_snapshot_success =
     pushed (push_resolve_snapshot (Success \<lparr>snapshot_id = ''snap-1'', snap_journey_version = ''v1''\<rparr>)) FakeRegistryPort_new (\<lambda>fake.
     awaiting (fake_resolve_snapshot \<lparr>rs_org_id = ''org-1'', rs_journey_version = ''v1''\<rparr> fake) (\<lambda>result fake log.
     assert_true (is_ok result)))"

definition fake_test_resolve_snapshot_transient :: "unit exec" where
  "fake_test_resolve_snapshot_transient =
     pushed (push_resolve_snapshot (Outcome_Transient ''timeout'')) FakeRegistryPort_new (\<lambda>fake.
     awaiting (fake_resolve_snapshot \<lparr>rs_org_id = ''org-1'', rs_journey_version = ''v1''\<rparr> fake) (\<lambda>result fake log.
     assert_true (err_matches (\<lambda>e. case e of Registry_Transient _ \<Rightarrow> True | _ \<Rightarrow> False) result)))"

definition fake_test_resolve_snapshot_permanent :: "unit exec" where
  "fake_test_resolve_snapshot_permanent =
     pushed (push_resolve_snapshot (Outcome_Permanent ''not found'')) FakeRegistryPort_new (\<lambda>fake.
     awaiting (fake_resolve_snapshot \<lparr>rs_org_id = ''org-1'', rs_journey_version = ''v1''\<rparr> fake) (\<lambda>result fake log.
     assert_true (err_matches (\<lambda>e. case e of Registry_Permanent _ \<Rightarrow> True | _ \<Rightarrow> False) result)))"

definition fake_test_resolve_snapshot_unavailable :: "unit exec" where
  "fake_test_resolve_snapshot_unavailable =
     pushed (push_resolve_snapshot Outcome_Unavailable) FakeRegistryPort_new (\<lambda>fake.
     awaiting (fake_resolve_snapshot \<lparr>rs_org_id = ''org-1'', rs_journey_version = ''v1''\<rparr> fake) (\<lambda>result fake log.
     assert_true (err_matches (\<lambda>e. e = Registry_Unavailable) result)))"

definition fake_test_resolve_snapshot_panic :: "unit exec" where
  "fake_test_resolve_snapshot_panic =
     pushed (push_resolve_snapshot Outcome_Panic) FakeRegistryPort_new (\<lambda>fake.
     assert_true (spawned_panics (fake_resolve_snapshot \<lparr>rs_org_id = ''org-1'', rs_journey_version = ''v1''\<rparr> fake)))"

definition fake_test_get_voice_profile_success :: "uuid \<Rightarrow> uuid \<Rightarrow> unit exec" where
  "fake_test_get_voice_profile_success u1 u2 =
     pushed (push_get_voice_profile (Success \<lparr>profile_id = VoiceProfileId u1, profile_name = ''test-profile''\<rparr>)) FakeRegistryPort_new (\<lambda>fake.
     awaiting (fake_get_voice_profile (VoiceProfileId u2) fake) (\<lambda>result fake log.
     assert_true (is_ok result)))"

definition fake_test_get_voice_profile_transient :: "uuid \<Rightarrow> unit exec" where
  "fake_test_get_voice_profile_transient u1 =
     pushed (push_get_voice_profile (Outcome_Transient ''timeout'')) FakeRegistryPort_new (\<lambda>fake.
     awaiting (fake_get_voice_profile (VoiceProfileId u1) fake) (\<lambda>result fake log.
     assert_true (err_matches (\<lambda>e. case e of Registry_Transient _ \<Rightarrow> True | _ \<Rightarrow> False) result)))"

definition fake_test_get_voice_profile_permanent :: "uuid \<Rightarrow> unit exec" where
  "fake_test_get_voice_profile_permanent u1 =
     pushed (push_get_voice_profile (Outcome_Permanent ''not found'')) FakeRegistryPort_new (\<lambda>fake.
     awaiting (fake_get_voice_profile (VoiceProfileId u1) fake) (\<lambda>result fake log.
     assert_true (err_matches (\<lambda>e. case e of Registry_Permanent _ \<Rightarrow> True | _ \<Rightarrow> False) result)))"

definition fake_test_get_voice_profile_panic :: "uuid \<Rightarrow> unit exec" where
  "fake_test_get_voice_profile_panic u1 =
     pushed (push_get_voice_profile Outcome_Panic) FakeRegistryPort_new (\<lambda>fake.
     assert_true (spawned_panics (fake_get_voice_profile (VoiceProfileId u1) fake)))"

definition fake_test_resolve_snapshot_queue_ordering :: "unit exec" where
  "fake_test_resolve_snapshot_queue_ordering =
     pushed (push_resolve_snapshot (Outcome_Transient ''first'')) FakeRegistryPort_new (\<lambda>fake.
     pushed (push_resolve_snapshot (Success \<lparr>snapshot_id = ''snap-1'', snap_journey_version = ''v1''\<rparr>)) fake (\<lambda>fake.
     awaiting (fake_resolve_snapshot \<lparr>rs_org_id = ''org-1'', rs_journey_version = ''v1''\<rparr> fake) (\<lambda>first fake log.
     exec_bind (assert_true (err_matches (\<lambda>e. case e of Registry_Transient msg \<Rightarrow> msg = ''first'' | _ \<Rightarrow> False) first)) (\<lambda>_.
     awaiting (fake_resolve_snapshot \<lparr>rs_org_id = ''org-1'', rs_journey_version = ''v1''\<rparr> fake) (\<lambda>second fake log.
     assert_true (is_ok second))))))"

definition fake_test_resolve_snapshot_empty_queue_panics :: "unit exec" where
  "fake_test_resolve_snapshot_empty_queue_panics =
     assert_true (spawned_panics (fake_resolve_snapshot \<lparr>rs_org_id = ''org-1'', rs_journey_version = ''v1''\<rparr> FakeRegistryPort_new))"

lemmas fake_rg_ops = FakeRegistryPort_new_def
  push_resolve_snapshot_def fake_resolve_snapshot_def push_get_voice_profile_def fake_get_voice_profile_def

lemmas fake_rg_tests =
  fake_test_resolve_snapshot_success_def fake_test_resolve_snapshot_transient_def
  fake_test_resolve_snapshot_permanent_def fake_test_resolve_snapshot_unavailable_def
  fake_test_resolve_snapshot_panic_def fake_test_get_voice_profile_success_def
  fake_test_get_voice_profile_transient_def fake_test_get_voice_profile_permanent_def
  fake_test_get_voice_profile_panic_def fake_test_resolve_snapshot_queue_ordering_def
  fake_test_resolve_snapshot_empty_queue_panics_def

lemma fake_rg_tests_pass:
  "passes fake_test_resolve_snapshot_success"
  "passes fake_test_resolve_snapshot_transient"
  "passes fake_test_resolve_snapshot_permanent"
  "passes fake_test_resolve_snapshot_unavailable"
  "passes fake_test_resolve_snapshot_panic"
  "passes (fake_test_get_voice_profile_success u1 u2)"
  "passes (fake_test_get_voice_profile_transient u1)"
  "passes (fake_test_get_voice_profile_permanent u1)"
  "passes (fake_test_get_voice_profile_panic u1)"
  "passes fake_test_resolve_snapshot_queue_ordering"
  "passes fake_test_resolve_snapshot_empty_queue_panics"
  by (simp_all add: fake_rg_tests fake_rg_ops fake_run_defs)

section \<open>The Journey Manager fake\<close>

definition sample_exec_ref :: "uuid \<Rightarrow> ExecutionRef" where
  "sample_exec_ref u1 = \<lparr>execution_id = u1\<rparr>"

definition sample_create_req :: "uuid \<Rightarrow> CreateExecutionReq" where
  "sample_create_req u1 = \<lparr>ce_journey_version = ''v1'', ce_org_id = ''org-1'', ce_engagement_id = EngagementId u1\<rparr>"

definition sample_timeline_opts :: "TimelineOpts" where
  "sample_timeline_opts = \<lparr>after_sequence = None\<rparr>"

definition fake_test_create_execution_success :: "uuid \<Rightarrow> uuid \<Rightarrow> unit exec" where
  "fake_test_create_execution_success u1 u2 =
     pushed (push_create_execution (Success \<lparr>execution_id = u1\<rparr>)) FakeJourneyManagerPort_new (\<lambda>fake.
     awaiting (fake_create_execution (sample_create_req u2) fake) (\<lambda>result fake log.
     exec_bind (expect_ok result) (\<lambda>result.
     assert_true (execution_id result = u1))))"

definition fake_test_create_execution_transient :: "uuid \<Rightarrow> unit exec" where
  "fake_test_create_execution_transient u1 =
     pushed (push_create_execution (Outcome_Transient ''timeout'')) FakeJourneyManagerPort_new (\<lambda>fake.
     awaiting (fake_create_execution (sample_create_req u1) fake) (\<lambda>result fake log.
     assert_true (err_matches (\<lambda>e. case e of Jm_Transient _ \<Rightarrow> True | _ \<Rightarrow> False) result)))"

definition fake_test_create_execution_permanent :: "uuid \<Rightarrow> unit exec" where
  "fake_test_create_execution_permanent u1 =
     pushed (push_create_execution (Outcome_Permanent ''invalid'')) FakeJourneyManagerPort_new (\<lambda>fake.
     awaiting (fake_create_execution (sample_create_req u1) fake) (\<lambda>result fake log.
     assert_true (err_matches (\<lambda>e. case e of Jm_Permanent _ \<Rightarrow> True | _ \<Rightarrow> False) result)))"

definition fake_test_create_execution_unavailable :: "uuid \<Rightarrow> unit exec" where
  "fake_test_create_execution_unavailable u1 =
     pushed (push_create_execution Outcome_Unavailable) FakeJourneyManagerPort_new (\<lambda>fake.
     awaiting (fake_create_execution (sample_create_req u1) fake) (\<lambda>result fake log.
     assert_true (err_matches (\<lambda>e. e = Jm_Unavailable) result)))"

definition fake_test_create_execution_panic :: "uuid \<Rightarrow> unit exec" where
  "fake_test_create_execution_panic u1 =
     pushed (push_create_execution Outcome_Panic) FakeJourneyManagerPort_new (\<lambda>fake.
     assert_true (spawned_panics (fake_create_execution (sample_create_req u1) fake)))"

definition fake_test_cancel_execution_success :: "uuid \<Rightarrow> unit exec" where
  "fake_test_cancel_execution_success u1 =
     pushed (push_cancel_execution (Success ())) FakeJourneyManagerPort_new (\<lambda>fake.
     awaiting (fake_cancel_execution (sample_exec_ref u1) UserRequested fake) (\<lambda>result fake log.
     assert_true (is_ok result)))"

definition fake_test_cancel_execution_transient :: "uuid \<Rightarrow> unit exec" where
  "fake_test_cancel_execution_transient u1 =
     pushed (push_cancel_execution (Outcome_Transient ''timeout'')) FakeJourneyManagerPort_new (\<lambda>fake.
     awaiting (fake_cancel_execution (sample_exec_ref u1) UserRequested fake) (\<lambda>result fake log.
     assert_true (err_matches (\<lambda>e. case e of Jm_Transient _ \<Rightarrow> True | _ \<Rightarrow> False) result)))"

definition fake_test_cancel_execution_permanent :: "uuid \<Rightarrow> unit exec" where
  "fake_test_cancel_execution_permanent u1 =
     pushed (push_cancel_execution (Outcome_Permanent ''not found'')) FakeJourneyManagerPort_new (\<lambda>fake.
     awaiting (fake_cancel_execution (sample_exec_ref u1) UserRequested fake) (\<lambda>result fake log.
     assert_true (err_matches (\<lambda>e. case e of Jm_Permanent _ \<Rightarrow> True | _ \<Rightarrow> False) result)))"

definition fake_test_cancel_execution_panic :: "uuid \<Rightarrow> unit exec" where
  "fake_test_cancel_execution_panic u1 =
     pushed (push_cancel_execution Outcome_Panic) FakeJourneyManagerPort_new (\<lambda>fake.
     assert_true (spawned_panics (fake_cancel_execution (sample_exec_ref u1) UserRequested fake)))"

definition fake_test_get_execution_timeline_success :: "uuid \<Rightarrow> unit exec" where
  "fake_test_get_execution_timeline_success u1 =
     pushed (push_get_execution_timeline (Success \<lparr>timeline_events = []\<rparr>)) FakeJourneyManagerPort_new (\<lambda>fake.
     awaiting (fake_get_execution_timeline (sample_exec_ref u1) sample_timeline_opts fake) (\<lambda>result fake log.
     assert_true (is_ok result)))"

definition fake_test_get_execution_timeline_transient :: "uuid \<Rightarrow> unit exec" where
  "fake_test_get_execution_timeline_transient u1 =
     pushed (push_get_execution_timeline (Outcome_Transient ''timeout'')) FakeJourneyManagerPort_new (\<lambda>fake.
     awaiting (fake_get_execution_timeline (sample_exec_ref u1) sample_timeline_opts fake) (\<lambda>result fake log.
     assert_true (err_matches (\<lambda>e. case e of Jm_Transient _ \<Rightarrow> True | _ \<Rightarrow> False) result)))"

definition fake_test_get_execution_timeline_permanent :: "uuid \<Rightarrow> unit exec" where
  "fake_test_get_execution_timeline_permanent u1 =
     pushed (push_get_execution_timeline (Outcome_Permanent ''not found'')) FakeJourneyManagerPort_new (\<lambda>fake.
     awaiting (fake_get_execution_timeline (sample_exec_ref u1) sample_timeline_opts fake) (\<lambda>result fake log.
     assert_true (err_matches (\<lambda>e. case e of Jm_Permanent _ \<Rightarrow> True | _ \<Rightarrow> False) result)))"

definition fake_test_get_execution_timeline_panic :: "uuid \<Rightarrow> unit exec" where
  "fake_test_get_execution_timeline_panic u1 =
     pushed (push_get_execution_timeline Outcome_Panic) FakeJourneyManagerPort_new (\<lambda>fake.
     assert_true (spawned_panics (fake_get_execution_timeline (sample_exec_ref u1) sample_timeline_opts fake)))"

definition fake_test_create_execution_queue_ordering :: "uuid \<Rightarrow> uuid \<Rightarrow> uuid \<Rightarrow> unit exec" where
  "fake_test_create_execution_queue_ordering u1 u2 u3 =
     pushed (push_create_execution (Outcome_Transient ''first'')) FakeJourneyManagerPort_new (\<lambda>fake.
     pushed (push_create_execution (Success (sample_exec_ref u1))) fake (\<lambda>fake.
     awaiting (fake_create_execution (sample_create_req u2) fake) (\<lambda>first fake log.
     exec_bind (assert_true (err_matches (\<lambda>e. case e of Jm_Transient msg \<Rightarrow> msg = ''first'' | _ \<Rightarrow> False) first)) (\<lambda>_.
     awaiting (fake_create_execution (sample_create_req u3) fake) (\<lambda>second fake log.
     assert_true (is_ok second))))))"

definition fake_test_create_execution_empty_queue_panics :: "uuid \<Rightarrow> unit exec" where
  "fake_test_create_execution_empty_queue_panics u1 =
     assert_true (spawned_panics (fake_create_execution (sample_create_req u1) FakeJourneyManagerPort_new))"

lemmas fake_jm_ops = FakeJourneyManagerPort_new_def
  push_create_execution_def fake_create_execution_def push_cancel_execution_def fake_cancel_execution_def
  push_get_execution_timeline_def fake_get_execution_timeline_def

lemmas fake_jm_tests =
  sample_exec_ref_def sample_create_req_def sample_timeline_opts_def fake_test_create_execution_success_def
  fake_test_create_execution_transient_def fake_test_create_execution_permanent_def
  fake_test_create_execution_unavailable_def fake_test_create_execution_panic_def
  fake_test_cancel_execution_success_def fake_test_cancel_execution_transient_def
  fake_test_cancel_execution_permanent_def fake_test_cancel_execution_panic_def
  fake_test_get_execution_timeline_success_def fake_test_get_execution_timeline_transient_def
  fake_test_get_execution_timeline_permanent_def fake_test_get_execution_timeline_panic_def
  fake_test_create_execution_queue_ordering_def fake_test_create_execution_empty_queue_panics_def

lemma fake_jm_tests_pass:
  "passes (fake_test_create_execution_success u1 u2)"
  "passes (fake_test_create_execution_transient u1)"
  "passes (fake_test_create_execution_permanent u1)"
  "passes (fake_test_create_execution_unavailable u1)"
  "passes (fake_test_create_execution_panic u1)"
  "passes (fake_test_cancel_execution_success u1)"
  "passes (fake_test_cancel_execution_transient u1)"
  "passes (fake_test_cancel_execution_permanent u1)"
  "passes (fake_test_cancel_execution_panic u1)"
  "passes (fake_test_get_execution_timeline_success u1)"
  "passes (fake_test_get_execution_timeline_transient u1)"
  "passes (fake_test_get_execution_timeline_permanent u1)"
  "passes (fake_test_get_execution_timeline_panic u1)"
  "passes (fake_test_create_execution_queue_ordering u1 u2 u3)"
  "passes (fake_test_create_execution_empty_queue_panics u1)"
  by (simp_all add: fake_jm_tests fake_jm_ops fake_run_defs)

section \<open>The Voice Manager fake\<close>

definition sample_session_ref :: "uuid \<Rightarrow> VoiceSessionRef" where
  "sample_session_ref u1 = \<lparr>session_id = u1\<rparr>"

definition sample_telephony :: "uuid \<Rightarrow> Telephony" where
  "sample_telephony u1 = \<lparr>telephony_id = TelephonyId u1, telephony_org_id = ''org-1'', phone_number = ''+1234567890''\<rparr>"

definition sample_start_req :: "uuid \<Rightarrow> StartVoiceSessionReq" where
  "sample_start_req u1 = \<lparr>sv_engagement_id = EngagementId u1, sv_org_id = ''org-1''\<rparr>"

definition sample_issue_token_req :: "IssueTestTokenReq" where
  "sample_issue_token_req = \<lparr>it_org_id = ''org-1''\<rparr>"

definition sample_create_telephony_req :: "CreateTelephonyReq" where
  "sample_create_telephony_req = \<lparr>ct_org_id = ''org-1'', ct_phone_number = ''+1234567890''\<rparr>"

definition sample_list_telephonies_req :: "ListTelephoniesReq" where
  "sample_list_telephonies_req = \<lparr>lt_org_id = ''org-1'', page_token = None\<rparr>"

definition sample_update_telephony_req :: "uuid \<Rightarrow> UpdateTelephonyReq" where
  "sample_update_telephony_req u1 = \<lparr>ut_id = TelephonyId u1, ut_phone_number = ''+0987654321''\<rparr>"

definition fake_test_start_voice_session_success :: "uuid \<Rightarrow> uuid \<Rightarrow> unit exec" where
  "fake_test_start_voice_session_success u1 u2 =
     pushed (push_start_voice_session (Success \<lparr>session_id = u1\<rparr>)) FakeVoiceManagerPort_new (\<lambda>fake.
     awaiting (fake_start_voice_session (sample_start_req u2) fake) (\<lambda>result fake log.
     exec_bind (expect_ok result) (\<lambda>result.
     assert_true (session_id result = u1))))"

definition fake_test_start_voice_session_transient :: "uuid \<Rightarrow> unit exec" where
  "fake_test_start_voice_session_transient u1 =
     pushed (push_start_voice_session (Outcome_Transient ''timeout'')) FakeVoiceManagerPort_new (\<lambda>fake.
     awaiting (fake_start_voice_session (sample_start_req u1) fake) (\<lambda>result fake log.
     assert_true (err_matches (\<lambda>e. case e of Vm_Transient _ \<Rightarrow> True | _ \<Rightarrow> False) result)))"

definition fake_test_start_voice_session_permanent :: "uuid \<Rightarrow> unit exec" where
  "fake_test_start_voice_session_permanent u1 =
     pushed (push_start_voice_session (Outcome_Permanent ''invalid'')) FakeVoiceManagerPort_new (\<lambda>fake.
     awaiting (fake_start_voice_session (sample_start_req u1) fake) (\<lambda>result fake log.
     assert_true (err_matches (\<lambda>e. case e of Vm_Permanent _ \<Rightarrow> True | _ \<Rightarrow> False) result)))"

definition fake_test_start_voice_session_unavailable :: "uuid \<Rightarrow> unit exec" where
  "fake_test_start_voice_session_unavailable u1 =
     pushed (push_start_voice_session Outcome_Unavailable) FakeVoiceManagerPort_new (\<lambda>fake.
     awaiting (fake_start_voice_session (sample_start_req u1) fake) (\<lambda>result fake log.
     assert_true (err_matches (\<lambda>e. e = Vm_Unavailable) result)))"

definition fake_test_start_voice_session_panic :: "uuid \<Rightarrow> unit exec" where
  "fake_test_start_voice_session_panic u1 =
     pushed (push_start_voice_session Outcome_Panic) FakeVoiceManagerPort_new (\<lambda>fake.
     assert_true (spawned_panics (fake_start_voice_session (sample_start_req u1) fake)))"

definition fake_test_stop_voice_session_success :: "uuid \<Rightarrow> unit exec" where
  "fake_test_stop_voice_session_success u1 =
     pushed (push_stop_voice_session (Success ())) FakeVoiceManagerPort_new (\<lambda>fake.
     awaiting (fake_stop_voice_session (sample_session_ref u1) Graceful fake) (\<lambda>result fake log.
     assert_true (is_ok result)))"

definition fake_test_stop_voice_session_transient :: "uuid \<Rightarrow> unit exec" where
  "fake_test_stop_voice_session_transient u1 =
     pushed (push_stop_voice_session (Outcome_Transient ''timeout'')) FakeVoiceManagerPort_new (\<lambda>fake.
     awaiting (fake_stop_voice_session (sample_session_ref u1) Graceful fake) (\<lambda>result fake log.
     assert_true (err_matches (\<lambda>e. case e of Vm_Transient _ \<Rightarrow> True | _ \<Rightarrow> False) result)))"

definition fake_test_stop_voice_session_permanent :: "uuid \<Rightarrow> unit exec" where
  "fake_test_stop_voice_session_permanent u1 =
     pushed (push_stop_voice_session (Outcome_Permanent ''not found'')) FakeVoiceManagerPort_new (\<lambda>fake.
     awaiting (fake_stop_voice_session (sample_session_ref u1) Graceful fake) (\<lambda>result fake log.
     assert_true (err_matches (\<lambda>e. case e of Vm_Permanent _ \<Rightarrow> True | _ \<Rightarrow> False) result)))"

definition fake_test_stop_voice_session_panic :: "uuid \<Rightarrow> unit exec" where
  "fake_test_stop_voice_session_panic u1 =
     pushed (push_stop_voice_session Outcome_Panic) FakeVoiceManagerPort_new (\<lambda>fake.
     assert_true (spawned_panics (fake_stop_voice_session (sample_session_ref u1) Graceful fake)))"

definition fake_test_issue_test_token_success :: "unit exec" where
  "fake_test_issue_test_token_success =
     pushed (push_issue_test_token (Success \<lparr>token = ''tok123''\<rparr>)) FakeVoiceManagerPort_new (\<lambda>fake.
     awaiting (fake_issue_test_token sample_issue_token_req fake) (\<lambda>result fake log.
     exec_bind (expect_ok result) (\<lambda>result.
     assert_true (token result = ''tok123''))))"

definition fake_test_issue_test_token_transient :: "unit exec" where
  "fake_test_issue_test_token_transient =
     pushed (push_issue_test_token (Outcome_Transient ''timeout'')) FakeVoiceManagerPort_new (\<lambda>fake.
     awaiting (fake_issue_test_token sample_issue_token_req fake) (\<lambda>result fake log.
     assert_true (err_matches (\<lambda>e. case e of Vm_Transient _ \<Rightarrow> True | _ \<Rightarrow> False) result)))"

definition fake_test_issue_test_token_permanent :: "unit exec" where
  "fake_test_issue_test_token_permanent =
     pushed (push_issue_test_token (Outcome_Permanent ''denied'')) FakeVoiceManagerPort_new (\<lambda>fake.
     awaiting (fake_issue_test_token sample_issue_token_req fake) (\<lambda>result fake log.
     assert_true (err_matches (\<lambda>e. case e of Vm_Permanent _ \<Rightarrow> True | _ \<Rightarrow> False) result)))"

definition fake_test_issue_test_token_panic :: "unit exec" where
  "fake_test_issue_test_token_panic =
     pushed (push_issue_test_token Outcome_Panic) FakeVoiceManagerPort_new (\<lambda>fake.
     assert_true (spawned_panics (fake_issue_test_token sample_issue_token_req fake)))"

definition fake_test_create_telephony_success :: "uuid \<Rightarrow> unit exec" where
  "fake_test_create_telephony_success u1 =
     pushed (push_create_telephony (Success \<lparr>telephony_id = TelephonyId u1, telephony_org_id = ''org-1'', phone_number = ''+1234567890''\<rparr>)) FakeVoiceManagerPort_new (\<lambda>fake.
     awaiting (fake_create_telephony sample_create_telephony_req fake) (\<lambda>result fake log.
     exec_bind (expect_ok result) (\<lambda>result.
     assert_true (telephony_id result = TelephonyId u1))))"

definition fake_test_create_telephony_transient :: "unit exec" where
  "fake_test_create_telephony_transient =
     pushed (push_create_telephony (Outcome_Transient ''timeout'')) FakeVoiceManagerPort_new (\<lambda>fake.
     awaiting (fake_create_telephony sample_create_telephony_req fake) (\<lambda>result fake log.
     assert_true (err_matches (\<lambda>e. case e of Vm_Transient _ \<Rightarrow> True | _ \<Rightarrow> False) result)))"

definition fake_test_create_telephony_permanent :: "unit exec" where
  "fake_test_create_telephony_permanent =
     pushed (push_create_telephony (Outcome_Permanent ''invalid'')) FakeVoiceManagerPort_new (\<lambda>fake.
     awaiting (fake_create_telephony sample_create_telephony_req fake) (\<lambda>result fake log.
     assert_true (err_matches (\<lambda>e. case e of Vm_Permanent _ \<Rightarrow> True | _ \<Rightarrow> False) result)))"

definition fake_test_create_telephony_panic :: "unit exec" where
  "fake_test_create_telephony_panic =
     pushed (push_create_telephony Outcome_Panic) FakeVoiceManagerPort_new (\<lambda>fake.
     assert_true (spawned_panics (fake_create_telephony sample_create_telephony_req fake)))"

definition fake_test_list_telephonies_success :: "uuid \<Rightarrow> unit exec" where
  "fake_test_list_telephonies_success u1 =
     pushed (push_list_telephonies (Success ([sample_telephony u1]))) FakeVoiceManagerPort_new (\<lambda>fake.
     awaiting (fake_list_telephonies sample_list_telephonies_req fake) (\<lambda>result fake log.
     assert_true (is_ok result)))"

definition fake_test_list_telephonies_transient :: "unit exec" where
  "fake_test_list_telephonies_transient =
     pushed (push_list_telephonies (Outcome_Transient ''timeout'')) FakeVoiceManagerPort_new (\<lambda>fake.
     awaiting (fake_list_telephonies sample_list_telephonies_req fake) (\<lambda>result fake log.
     assert_true (err_matches (\<lambda>e. case e of Vm_Transient _ \<Rightarrow> True | _ \<Rightarrow> False) result)))"

definition fake_test_list_telephonies_permanent :: "unit exec" where
  "fake_test_list_telephonies_permanent =
     pushed (push_list_telephonies (Outcome_Permanent ''forbidden'')) FakeVoiceManagerPort_new (\<lambda>fake.
     awaiting (fake_list_telephonies sample_list_telephonies_req fake) (\<lambda>result fake log.
     assert_true (err_matches (\<lambda>e. case e of Vm_Permanent _ \<Rightarrow> True | _ \<Rightarrow> False) result)))"

definition fake_test_list_telephonies_panic :: "unit exec" where
  "fake_test_list_telephonies_panic =
     pushed (push_list_telephonies Outcome_Panic) FakeVoiceManagerPort_new (\<lambda>fake.
     assert_true (spawned_panics (fake_list_telephonies sample_list_telephonies_req fake)))"

definition fake_test_get_telephony_success :: "uuid \<Rightarrow> uuid \<Rightarrow> unit exec" where
  "fake_test_get_telephony_success u1 u2 =
     pushed (push_get_telephony (Success \<lparr>telephony_id = TelephonyId u1, telephony_org_id = ''org-1'', phone_number = ''+1234567890''\<rparr>)) FakeVoiceManagerPort_new (\<lambda>fake.
     awaiting (fake_get_telephony (TelephonyId u2) fake) (\<lambda>result fake log.
     exec_bind (expect_ok result) (\<lambda>result.
     assert_true (telephony_id result = TelephonyId u1))))"

definition fake_test_get_telephony_transient :: "uuid \<Rightarrow> unit exec" where
  "fake_test_get_telephony_transient u1 =
     pushed (push_get_telephony (Outcome_Transient ''timeout'')) FakeVoiceManagerPort_new (\<lambda>fake.
     awaiting (fake_get_telephony (TelephonyId u1) fake) (\<lambda>result fake log.
     assert_true (err_matches (\<lambda>e. case e of Vm_Transient _ \<Rightarrow> True | _ \<Rightarrow> False) result)))"

definition fake_test_get_telephony_permanent :: "uuid \<Rightarrow> unit exec" where
  "fake_test_get_telephony_permanent u1 =
     pushed (push_get_telephony (Outcome_Permanent ''not found'')) FakeVoiceManagerPort_new (\<lambda>fake.
     awaiting (fake_get_telephony (TelephonyId u1) fake) (\<lambda>result fake log.
     assert_true (err_matches (\<lambda>e. case e of Vm_Permanent _ \<Rightarrow> True | _ \<Rightarrow> False) result)))"

definition fake_test_get_telephony_panic :: "uuid \<Rightarrow> unit exec" where
  "fake_test_get_telephony_panic u1 =
     pushed (push_get_telephony Outcome_Panic) FakeVoiceManagerPort_new (\<lambda>fake.
     assert_true (spawned_panics (fake_get_telephony (TelephonyId u1) fake)))"

definition fake_test_update_telephony_success :: "uuid \<Rightarrow> uuid \<Rightarrow> unit exec" where
  "fake_test_update_telephony_success u1 u2 =
     pushed (push_update_telephony (Success \<lparr>telephony_id = TelephonyId u1, telephony_org_id = ''org-1'', phone_number = ''+0987654321''\<rparr>)) FakeVoiceManagerPort_new (\<lambda>fake.
     awaiting (fake_update_telephony (sample_update_telephony_req u2) fake) (\<lambda>result fake log.
     exec_bind (expect_ok result) (\<lambda>result.
     assert_true (telephony_id result = TelephonyId u1))))"

definition fake_test_update_telephony_transient :: "uuid \<Rightarrow> unit exec" where
  "fake_test_update_telephony_transient u1 =
     pushed (push_update_telephony (Outcome_Transient ''timeout'')) FakeVoiceManagerPort_new (\<lambda>fake.
     awaiting (fake_update_telephony (sample_update_telephony_req u1) fake) (\<lambda>result fake log.
     assert_true (err_matches (\<lambda>e. case e of Vm_Transient _ \<Rightarrow> True | _ \<Rightarrow> False) result)))"

definition fake_test_update_telephony_permanent :: "uuid \<Rightarrow> unit exec" where
  "fake_test_update_telephony_permanent u1 =
     pushed (push_update_telephony (Outcome_Permanent ''conflict'')) FakeVoiceManagerPort_new (\<lambda>fake.
     awaiting (fake_update_telephony (sample_update_telephony_req u1) fake) (\<lambda>result fake log.
     assert_true (err_matches (\<lambda>e. case e of Vm_Permanent _ \<Rightarrow> True | _ \<Rightarrow> False) result)))"

definition fake_test_update_telephony_panic :: "uuid \<Rightarrow> unit exec" where
  "fake_test_update_telephony_panic u1 =
     pushed (push_update_telephony Outcome_Panic) FakeVoiceManagerPort_new (\<lambda>fake.
     assert_true (spawned_panics (fake_update_telephony (sample_update_telephony_req u1) fake)))"

definition fake_test_delete_telephony_success :: "uuid \<Rightarrow> unit exec" where
  "fake_test_delete_telephony_success u1 =
     pushed (push_delete_telephony (Success ())) FakeVoiceManagerPort_new (\<lambda>fake.
     awaiting (fake_delete_telephony (TelephonyId u1) ''none'' fake) (\<lambda>result fake log.
     assert_true (is_ok result)))"

definition fake_test_delete_telephony_transient :: "uuid \<Rightarrow> unit exec" where
  "fake_test_delete_telephony_transient u1 =
     pushed (push_delete_telephony (Outcome_Transient ''timeout'')) FakeVoiceManagerPort_new (\<lambda>fake.
     awaiting (fake_delete_telephony (TelephonyId u1) ''none'' fake) (\<lambda>result fake log.
     assert_true (err_matches (\<lambda>e. case e of Vm_Transient _ \<Rightarrow> True | _ \<Rightarrow> False) result)))"

definition fake_test_delete_telephony_permanent :: "uuid \<Rightarrow> unit exec" where
  "fake_test_delete_telephony_permanent u1 =
     pushed (push_delete_telephony (Outcome_Permanent ''not found'')) FakeVoiceManagerPort_new (\<lambda>fake.
     awaiting (fake_delete_telephony (TelephonyId u1) ''none'' fake) (\<lambda>result fake log.
     assert_true (err_matches (\<lambda>e. case e of Vm_Permanent _ \<Rightarrow> True | _ \<Rightarrow> False) result)))"

definition fake_test_delete_telephony_panic :: "uuid \<Rightarrow> unit exec" where
  "fake_test_delete_telephony_panic u1 =
     pushed (push_delete_telephony Outcome_Panic) FakeVoiceManagerPort_new (\<lambda>fake.
     assert_true (spawned_panics (fake_delete_telephony (TelephonyId u1) ''none'' fake)))"

definition fake_test_start_voice_session_queue_ordering :: "uuid \<Rightarrow> uuid \<Rightarrow> uuid \<Rightarrow> unit exec" where
  "fake_test_start_voice_session_queue_ordering u1 u2 u3 =
     pushed (push_start_voice_session (Outcome_Transient ''first'')) FakeVoiceManagerPort_new (\<lambda>fake.
     pushed (push_start_voice_session (Success (sample_session_ref u1))) fake (\<lambda>fake.
     awaiting (fake_start_voice_session (sample_start_req u2) fake) (\<lambda>first fake log.
     exec_bind (assert_true (err_matches (\<lambda>e. case e of Vm_Transient msg \<Rightarrow> msg = ''first'' | _ \<Rightarrow> False) first)) (\<lambda>_.
     awaiting (fake_start_voice_session (sample_start_req u3) fake) (\<lambda>second fake log.
     assert_true (is_ok second))))))"

definition fake_test_start_voice_session_empty_queue_panics :: "uuid \<Rightarrow> unit exec" where
  "fake_test_start_voice_session_empty_queue_panics u1 =
     assert_true (spawned_panics (fake_start_voice_session (sample_start_req u1) FakeVoiceManagerPort_new))"

lemmas fake_vm_ops = FakeVoiceManagerPort_new_def
  push_start_voice_session_def fake_start_voice_session_def push_stop_voice_session_def
  fake_stop_voice_session_def push_issue_test_token_def fake_issue_test_token_def push_create_telephony_def
  fake_create_telephony_def push_list_telephonies_def fake_list_telephonies_def push_get_telephony_def
  fake_get_telephony_def push_update_telephony_def fake_update_telephony_def push_delete_telephony_def
  fake_delete_telephony_def

lemmas fake_vm_tests =
  sample_session_ref_def sample_telephony_def sample_start_req_def sample_issue_token_req_def
  sample_create_telephony_req_def sample_list_telephonies_req_def sample_update_telephony_req_def
  fake_test_start_voice_session_success_def fake_test_start_voice_session_transient_def
  fake_test_start_voice_session_permanent_def fake_test_start_voice_session_unavailable_def
  fake_test_start_voice_session_panic_def fake_test_stop_voice_session_success_def
  fake_test_stop_voice_session_transient_def fake_test_stop_voice_session_permanent_def
  fake_test_stop_voice_session_panic_def fake_test_issue_test_token_success_def
  fake_test_issue_test_token_transient_def fake_test_issue_test_token_permanent_def
  fake_test_issue_test_token_panic_def fake_test_create_telephony_success_def
  fake_test_create_telephony_transient_def fake_test_create_telephony_permanent_def
  fake_test_create_telephony_panic_def fake_test_list_telephonies_success_def
  fake_test_list_telephonies_transient_def fake_test_list_telephonies_permanent_def
  fake_test_list_telephonies_panic_def fake_test_get_telephony_success_def fake_test_get_telephony_transient_def
  fake_test_get_telephony_permanent_def fake_test_get_telephony_panic_def fake_test_update_telephony_success_def
  fake_test_update_telephony_transient_def fake_test_update_telephony_permanent_def
  fake_test_update_telephony_panic_def fake_test_delete_telephony_success_def
  fake_test_delete_telephony_transient_def fake_test_delete_telephony_permanent_def
  fake_test_delete_telephony_panic_def fake_test_start_voice_session_queue_ordering_def
  fake_test_start_voice_session_empty_queue_panics_def

lemma fake_vm_tests_pass:
  "passes (fake_test_start_voice_session_success u1 u2)"
  "passes (fake_test_start_voice_session_transient u1)"
  "passes (fake_test_start_voice_session_permanent u1)"
  "passes (fake_test_start_voice_session_unavailable u1)"
  "passes (fake_test_start_voice_session_panic u1)"
  "passes (fake_test_stop_voice_session_success u1)"
  "passes (fake_test_stop_voice_session_transient u1)"
  "passes (fake_test_stop_voice_session_permanent u1)"
  "passes (fake_test_stop_voice_session_panic u1)"
  "passes fake_test_issue_test_token_success"
  "passes fake_test_issue_test_token_transient"
  "passes fake_test_issue_test_token_permanent"
  "passes fake_test_issue_test_token_panic"
  "passes (fake_test_create_telephony_success u1)"
  "passes fake_test_create_telephony_transient"
  "passes fake_test_create_telephony_permanent"
  "passes fake_test_create_telephony_panic"
  "passes (fake_test_list_telephonies_success u1)"
  "passes fake_test_list_telephonies_transient"
  "passes fake_test_list_telephonies_permanent"
  "passes fake_test_list_telephonies_panic"
  "passes (fake_test_get_telephony_success u1 u2)"
  "passes (fake_test_get_telephony_transient u1)"
  "passes (fake_test_get_telephony_permanent u1)"
  "passes (fake_test_get_telephony_panic u1)"
  "passes (fake_test_update_telephony_success u1 u2)"
  "passes (fake_test_update_telephony_transient u1)"
  "passes (fake_test_update_telephony_permanent u1)"
  "passes (fake_test_update_telephony_panic u1)"
  "passes (fake_test_delete_telephony_success u1)"
  "passes (fake_test_delete_telephony_transient u1)"
  "passes (fake_test_delete_telephony_permanent u1)"
  "passes (fake_test_delete_telephony_panic u1)"
  "passes (fake_test_start_voice_session_queue_ordering u1 u2 u3)"
  "passes (fake_test_start_voice_session_empty_queue_panics u1)"
  by (simp_all add: fake_vm_tests fake_vm_ops fake_run_defs)

section \<open>The post-call fake\<close>

definition sample_eng_id :: "uuid \<Rightarrow> EngagementId" where
  "sample_eng_id u1 = EngagementId u1"

definition sample_empty_page :: "CallLog Page" where
  "sample_empty_page = \<lparr>items = [], page_total_size = Some 0, next_page_token = None\<rparr>"

definition sample_agent_req :: "ListAgentCallLogsReq" where
  "sample_agent_req = \<lparr>la_agent_id = ''agent-1'', la_skip = None, la_limit = None, la_start_date = None, la_end_date = None, la_identity = None, la_id = None, la_batch_id = None\<rparr>"

definition sample_org_req :: "ListOrgCallLogsReq" where
  "sample_org_req = \<lparr>lo_org_id = ''org-1'', lo_skip = None, lo_limit = None, lo_start_date = None, lo_end_date = None, lo_contact_number = None, lo_call_id = None\<rparr>"

definition fake_test_get_transcript_success :: "uuid \<Rightarrow> unit exec" where
  "fake_test_get_transcript_success u1 =
     pushed (push_get_transcript (Success \<lparr>messages = [], transcript_total_size = 3\<rparr>)) FakePostCallPort_new (\<lambda>fake.
     awaiting (fake_get_transcript (sample_eng_id u1) fake) (\<lambda>result fake log.
     exec_bind (expect_ok result) (\<lambda>result.
     assert_true (transcript_total_size result = 3 \<and> messages result = []))))"

definition fake_test_get_transcript_transient :: "uuid \<Rightarrow> unit exec" where
  "fake_test_get_transcript_transient u1 =
     pushed (push_get_transcript (Outcome_Transient ''timeout'')) FakePostCallPort_new (\<lambda>fake.
     awaiting (fake_get_transcript (sample_eng_id u1) fake) (\<lambda>result fake log.
     assert_true (err_matches (\<lambda>e. case e of PostCall_Transient _ \<Rightarrow> True | _ \<Rightarrow> False) result)))"

definition fake_test_get_transcript_permanent :: "uuid \<Rightarrow> unit exec" where
  "fake_test_get_transcript_permanent u1 =
     pushed (push_get_transcript (Outcome_Permanent ''not found'')) FakePostCallPort_new (\<lambda>fake.
     awaiting (fake_get_transcript (sample_eng_id u1) fake) (\<lambda>result fake log.
     assert_true (err_matches (\<lambda>e. case e of PostCall_Permanent _ \<Rightarrow> True | _ \<Rightarrow> False) result)))"

definition fake_test_get_transcript_unavailable :: "uuid \<Rightarrow> unit exec" where
  "fake_test_get_transcript_unavailable u1 =
     pushed (push_get_transcript Outcome_Unavailable) FakePostCallPort_new (\<lambda>fake.
     awaiting (fake_get_transcript (sample_eng_id u1) fake) (\<lambda>result fake log.
     assert_true (err_matches (\<lambda>e. e = PostCall_Unavailable) result)))"

definition fake_test_get_transcript_panic :: "uuid \<Rightarrow> unit exec" where
  "fake_test_get_transcript_panic u1 =
     pushed (push_get_transcript Outcome_Panic) FakePostCallPort_new (\<lambda>fake.
     assert_true (spawned_panics (fake_get_transcript (sample_eng_id u1) fake)))"

definition fake_test_get_summary_success :: "uuid \<Rightarrow> unit exec" where
  "fake_test_get_summary_success u1 =
     pushed (push_get_summary (Success \<lparr>summary = ''test summary'', resolution = None, resolution_explanation = None\<rparr>)) FakePostCallPort_new (\<lambda>fake.
     awaiting (fake_get_summary (sample_eng_id u1) fake) (\<lambda>result fake log.
     exec_bind (expect_ok result) (\<lambda>result.
     assert_true (summary result = ''test summary''))))"

definition fake_test_get_summary_transient :: "uuid \<Rightarrow> unit exec" where
  "fake_test_get_summary_transient u1 =
     pushed (push_get_summary (Outcome_Transient ''timeout'')) FakePostCallPort_new (\<lambda>fake.
     awaiting (fake_get_summary (sample_eng_id u1) fake) (\<lambda>result fake log.
     assert_true (err_matches (\<lambda>e. case e of PostCall_Transient _ \<Rightarrow> True | _ \<Rightarrow> False) result)))"

definition fake_test_get_summary_permanent :: "uuid \<Rightarrow> unit exec" where
  "fake_test_get_summary_permanent u1 =
     pushed (push_get_summary (Outcome_Permanent ''not found'')) FakePostCallPort_new (\<lambda>fake.
     awaiting (fake_get_summary (sample_eng_id u1) fake) (\<lambda>result fake log.
     assert_true (err_matches (\<lambda>e. case e of PostCall_Permanent _ \<Rightarrow> True | _ \<Rightarrow> False) result)))"

definition fake_test_get_summary_panic :: "uuid \<Rightarrow> unit exec" where
  "fake_test_get_summary_panic u1 =
     pushed (push_get_summary Outcome_Panic) FakePostCallPort_new (\<lambda>fake.
     assert_true (spawned_panics (fake_get_summary (sample_eng_id u1) fake)))"

definition fake_test_get_sentiment_success :: "uuid \<Rightarrow> unit exec" where
  "fake_test_get_sentiment_success u1 =
     pushed (push_get_sentiment (Success \<lparr>label = ''neutral'', justification = ''no data''\<rparr>)) FakePostCallPort_new (\<lambda>fake.
     awaiting (fake_get_sentiment (sample_eng_id u1) fake) (\<lambda>result fake log.
     exec_bind (expect_ok result) (\<lambda>result.
     assert_true (label result = ''neutral''))))"

definition fake_test_get_sentiment_transient :: "uuid \<Rightarrow> unit exec" where
  "fake_test_get_sentiment_transient u1 =
     pushed (push_get_sentiment (Outcome_Transient ''timeout'')) FakePostCallPort_new (\<lambda>fake.
     awaiting (fake_get_sentiment (sample_eng_id u1) fake) (\<lambda>result fake log.
     assert_true (err_matches (\<lambda>e. case e of PostCall_Transient _ \<Rightarrow> True | _ \<Rightarrow> False) result)))"

definition fake_test_get_sentiment_permanent :: "uuid \<Rightarrow> unit exec" where
  "fake_test_get_sentiment_permanent u1 =
     pushed (push_get_sentiment (Outcome_Permanent ''not found'')) FakePostCallPort_new (\<lambda>fake.
     awaiting (fake_get_sentiment (sample_eng_id u1) fake) (\<lambda>result fake log.
     assert_true (err_matches (\<lambda>e. case e of PostCall_Permanent _ \<Rightarrow> True | _ \<Rightarrow> False) result)))"

definition fake_test_get_sentiment_panic :: "uuid \<Rightarrow> unit exec" where
  "fake_test_get_sentiment_panic u1 =
     pushed (push_get_sentiment Outcome_Panic) FakePostCallPort_new (\<lambda>fake.
     assert_true (spawned_panics (fake_get_sentiment (sample_eng_id u1) fake)))"

definition fake_test_get_output_extraction_success :: "uuid \<Rightarrow> unit exec" where
  "fake_test_get_output_extraction_success u1 =
     pushed (push_get_output_extraction (Success \<lparr>output_fields = []\<rparr>)) FakePostCallPort_new (\<lambda>fake.
     awaiting (fake_get_output_extraction (sample_eng_id u1) fake) (\<lambda>result fake log.
     assert_true (is_ok result)))"

definition fake_test_get_output_extraction_transient :: "uuid \<Rightarrow> unit exec" where
  "fake_test_get_output_extraction_transient u1 =
     pushed (push_get_output_extraction (Outcome_Transient ''timeout'')) FakePostCallPort_new (\<lambda>fake.
     awaiting (fake_get_output_extraction (sample_eng_id u1) fake) (\<lambda>result fake log.
     assert_true (err_matches (\<lambda>e. case e of PostCall_Transient _ \<Rightarrow> True | _ \<Rightarrow> False) result)))"

definition fake_test_get_output_extraction_permanent :: "uuid \<Rightarrow> unit exec" where
  "fake_test_get_output_extraction_permanent u1 =
     pushed (push_get_output_extraction (Outcome_Permanent ''not found'')) FakePostCallPort_new (\<lambda>fake.
     awaiting (fake_get_output_extraction (sample_eng_id u1) fake) (\<lambda>result fake log.
     assert_true (err_matches (\<lambda>e. case e of PostCall_Permanent _ \<Rightarrow> True | _ \<Rightarrow> False) result)))"

definition fake_test_get_output_extraction_panic :: "uuid \<Rightarrow> unit exec" where
  "fake_test_get_output_extraction_panic u1 =
     pushed (push_get_output_extraction Outcome_Panic) FakePostCallPort_new (\<lambda>fake.
     assert_true (spawned_panics (fake_get_output_extraction (sample_eng_id u1) fake)))"

definition fake_test_list_agent_call_logs_success :: "unit exec" where
  "fake_test_list_agent_call_logs_success =
     pushed (push_list_agent_call_logs (Success sample_empty_page)) FakePostCallPort_new (\<lambda>fake.
     awaiting (fake_list_agent_call_logs sample_agent_req fake) (\<lambda>result fake log.
     assert_true (is_ok result)))"

definition fake_test_list_agent_call_logs_transient :: "unit exec" where
  "fake_test_list_agent_call_logs_transient =
     pushed (push_list_agent_call_logs (Outcome_Transient ''timeout'')) FakePostCallPort_new (\<lambda>fake.
     awaiting (fake_list_agent_call_logs sample_agent_req fake) (\<lambda>result fake log.
     assert_true (err_matches (\<lambda>e. case e of PostCall_Transient _ \<Rightarrow> True | _ \<Rightarrow> False) result)))"

definition fake_test_list_agent_call_logs_permanent :: "unit exec" where
  "fake_test_list_agent_call_logs_permanent =
     pushed (push_list_agent_call_logs (Outcome_Permanent ''forbidden'')) FakePostCallPort_new (\<lambda>fake.
     awaiting (fake_list_agent_call_logs sample_agent_req fake) (\<lambda>result fake log.
     assert_true (err_matches (\<lambda>e. case e of PostCall_Permanent _ \<Rightarrow> True | _ \<Rightarrow> False) result)))"

definition fake_test_list_agent_call_logs_panic :: "unit exec" where
  "fake_test_list_agent_call_logs_panic =
     pushed (push_list_agent_call_logs Outcome_Panic) FakePostCallPort_new (\<lambda>fake.
     assert_true (spawned_panics (fake_list_agent_call_logs sample_agent_req fake)))"

definition fake_test_list_org_call_logs_success :: "unit exec" where
  "fake_test_list_org_call_logs_success =
     pushed (push_list_org_call_logs (Success sample_empty_page)) FakePostCallPort_new (\<lambda>fake.
     awaiting (fake_list_org_call_logs sample_org_req fake) (\<lambda>result fake log.
     assert_true (is_ok result)))"

definition fake_test_list_org_call_logs_transient :: "unit exec" where
  "fake_test_list_org_call_logs_transient =
     pushed (push_list_org_call_logs (Outcome_Transient ''timeout'')) FakePostCallPort_new (\<lambda>fake.
     awaiting (fake_list_org_call_logs sample_org_req fake) (\<lambda>result fake log.
     assert_true (err_matches (\<lambda>e. case e of PostCall_Transient _ \<Rightarrow> True | _ \<Rightarrow> False) result)))"

definition fake_test_list_org_call_logs_permanent :: "unit exec" where
  "fake_test_list_org_call_logs_permanent =
     pushed (push_list_org_call_logs (Outcome_Permanent ''forbidden'')) FakePostCallPort_new (\<lambda>fake.
     awaiting (fake_list_org_call_logs sample_org_req fake) (\<lambda>result fake log.
     assert_true (err_matches (\<lambda>e. case e of PostCall_Permanent _ \<Rightarrow> True | _ \<Rightarrow> False) result)))"

definition fake_test_list_org_call_logs_panic :: "unit exec" where
  "fake_test_list_org_call_logs_panic =
     pushed (push_list_org_call_logs Outcome_Panic) FakePostCallPort_new (\<lambda>fake.
     assert_true (spawned_panics (fake_list_org_call_logs sample_org_req fake)))"

definition fake_test_get_transcript_queue_ordering :: "uuid \<Rightarrow> uuid \<Rightarrow> unit exec" where
  "fake_test_get_transcript_queue_ordering u1 u2 =
     pushed (push_get_transcript (Outcome_Transient ''first'')) FakePostCallPort_new (\<lambda>fake.
     pushed (push_get_transcript (Success \<lparr>messages = [], transcript_total_size = 0\<rparr>)) fake (\<lambda>fake.
     awaiting (fake_get_transcript (sample_eng_id u1) fake) (\<lambda>first fake log.
     exec_bind (assert_true (err_matches (\<lambda>e. case e of PostCall_Transient msg \<Rightarrow> msg = ''first'' | _ \<Rightarrow> False) first)) (\<lambda>_.
     awaiting (fake_get_transcript (sample_eng_id u2) fake) (\<lambda>second fake log.
     assert_true (is_ok second))))))"

definition fake_test_get_transcript_empty_queue_panics :: "uuid \<Rightarrow> unit exec" where
  "fake_test_get_transcript_empty_queue_panics u1 =
     assert_true (spawned_panics (fake_get_transcript (sample_eng_id u1) FakePostCallPort_new))"

lemmas fake_pc_ops = FakePostCallPort_new_def
  push_get_transcript_def fake_get_transcript_def push_get_summary_def fake_get_summary_def
  push_get_sentiment_def fake_get_sentiment_def push_get_output_extraction_def fake_get_output_extraction_def
  push_list_agent_call_logs_def fake_list_agent_call_logs_def push_list_org_call_logs_def
  fake_list_org_call_logs_def

lemmas fake_pc_tests =
  sample_eng_id_def sample_empty_page_def sample_agent_req_def sample_org_req_def
  fake_test_get_transcript_success_def fake_test_get_transcript_transient_def
  fake_test_get_transcript_permanent_def fake_test_get_transcript_unavailable_def
  fake_test_get_transcript_panic_def fake_test_get_summary_success_def fake_test_get_summary_transient_def
  fake_test_get_summary_permanent_def fake_test_get_summary_panic_def fake_test_get_sentiment_success_def
  fake_test_get_sentiment_transient_def fake_test_get_sentiment_permanent_def fake_test_get_sentiment_panic_def
  fake_test_get_output_extraction_success_def fake_test_get_output_extraction_transient_def
  fake_test_get_output_extraction_permanent_def fake_test_get_output_extraction_panic_def
  fake_test_list_agent_call_logs_success_def fake_test_list_agent_call_logs_transient_def
  fake_test_list_agent_call_logs_permanent_def fake_test_list_agent_call_logs_panic_def
  fake_test_list_org_call_logs_success_def fake_test_list_org_call_logs_transient_def
  fake_test_list_org_call_logs_permanent_def fake_test_list_org_call_logs_panic_def
  fake_test_get_transcript_queue_ordering_def fake_test_get_transcript_empty_queue_panics_def

lemma fake_pc_tests_pass:
  "passes (fake_test_get_transcript_success u1)"
  "passes (fake_test_get_transcript_transient u1)"
  "passes (fake_test_get_transcript_permanent u1)"
  "passes (fake_test_get_transcript_unavailable u1)"
  "passes (fake_test_get_transcript_panic u1)"
  "passes (fake_test_get_summary_success u1)"
  "passes (fake_test_get_summary_transient u1)"
  "passes (fake_test_get_summary_permanent u1)"
  "passes (fake_test_get_summary_panic u1)"
  "passes (fake_test_get_sentiment_success u1)"
  "passes (fake_test_get_sentiment_transient u1)"
  "passes (fake_test_get_sentiment_permanent u1)"
  "passes (fake_test_get_sentiment_panic u1)"
  "passes (fake_test_get_output_extraction_success u1)"
  "passes (fake_test_get_output_extraction_transient u1)"
  "passes (fake_test_get_output_extraction_permanent u1)"
  "passes (fake_test_get_output_extraction_panic u1)"
  "passes fake_test_list_agent_call_logs_success"
  "passes fake_test_list_agent_call_logs_transient"
  "passes fake_test_list_agent_call_logs_permanent"
  "passes fake_test_list_agent_call_logs_panic"
  "passes fake_test_list_org_call_logs_success"
  "passes fake_test_list_org_call_logs_transient"
  "passes fake_test_list_org_call_logs_permanent"
  "passes fake_test_list_org_call_logs_panic"
  "passes (fake_test_get_transcript_queue_ordering u1 u2)"
  "passes (fake_test_get_transcript_empty_queue_panics u1)"
  by (simp_all add: fake_pc_tests fake_pc_ops fake_run_defs)

section \<open>The analytics fake\<close>

definition sample_empty_analytics :: "f64 \<Rightarrow> Analytics" where
  "sample_empty_analytics z = \<lparr>average_conversation_duration = z, containment_rate = z, customer_satisfaction_rate = z, dropoff_rate = z, escalation_rate = z, total_inquiries = 0, category_counts = Map.empty\<rparr>"

definition sample_empty_metrics :: "Metrics" where
  "sample_empty_metrics = \<lparr>categories = [], series = []\<rparr>"

definition sample_agent_analytics_req :: "GetAgentAnalyticsReq" where
  "sample_agent_analytics_req = \<lparr>gaa_agent_id = ''agent-1'', gaa_metric = None, gaa_granularity = None, gaa_start_date = None, gaa_end_date = None\<rparr>"

definition sample_agent_metrics_req :: "GetAgentMetricsReq" where
  "sample_agent_metrics_req = \<lparr>gam_agent_id = ''agent-1'', gam_metric = None, gam_granularity = None, gam_start_date = None, gam_end_date = None\<rparr>"

definition sample_org_analytics_req :: "GetOrgAnalyticsReq" where
  "sample_org_analytics_req = \<lparr>goa_org_id = ''org-1'', goa_metric = None, goa_granularity = None, goa_start_date = None, goa_end_date = None\<rparr>"

definition sample_org_metrics_req :: "GetOrgMetricsReq" where
  "sample_org_metrics_req = \<lparr>gom_org_id = ''org-1'', gom_metric = None, gom_granularity = None, gom_start_date = None, gom_end_date = None\<rparr>"

definition fake_test_get_agent_analytics_success :: "f64 \<Rightarrow> unit exec" where
  "fake_test_get_agent_analytics_success z =
     pushed (push_get_agent_analytics (Success (sample_empty_analytics z))) FakeAnalyticsPort_new (\<lambda>fake.
     awaiting (fake_get_agent_analytics sample_agent_analytics_req fake) (\<lambda>result fake log.
     assert_true (is_ok result)))"

definition fake_test_get_agent_analytics_transient :: "unit exec" where
  "fake_test_get_agent_analytics_transient =
     pushed (push_get_agent_analytics (Outcome_Transient ''timeout'')) FakeAnalyticsPort_new (\<lambda>fake.
     awaiting (fake_get_agent_analytics sample_agent_analytics_req fake) (\<lambda>result fake log.
     assert_true (err_matches (\<lambda>e. case e of Analytics_Transient _ \<Rightarrow> True | _ \<Rightarrow> False) result)))"

definition fake_test_get_agent_analytics_permanent :: "unit exec" where
  "fake_test_get_agent_analytics_permanent =
     pushed (push_get_agent_analytics (Outcome_Permanent ''forbidden'')) FakeAnalyticsPort_new (\<lambda>fake.
     awaiting (fake_get_agent_analytics sample_agent_analytics_req fake) (\<lambda>result fake log.
     assert_true (err_matches (\<lambda>e. case e of Analytics_Permanent _ \<Rightarrow> True | _ \<Rightarrow> False) result)))"

definition fake_test_get_agent_analytics_unavailable :: "unit exec" where
  "fake_test_get_agent_analytics_unavailable =
     pushed (push_get_agent_analytics Outcome_Unavailable) FakeAnalyticsPort_new (\<lambda>fake.
     awaiting (fake_get_agent_analytics sample_agent_analytics_req fake) (\<lambda>result fake log.
     assert_true (err_matches (\<lambda>e. e = Analytics_Unavailable) result)))"

definition fake_test_get_agent_analytics_panic :: "unit exec" where
  "fake_test_get_agent_analytics_panic =
     pushed (push_get_agent_analytics Outcome_Panic) FakeAnalyticsPort_new (\<lambda>fake.
     assert_true (spawned_panics (fake_get_agent_analytics sample_agent_analytics_req fake)))"

definition fake_test_get_agent_metrics_success :: "unit exec" where
  "fake_test_get_agent_metrics_success =
     pushed (push_get_agent_metrics (Success sample_empty_metrics)) FakeAnalyticsPort_new (\<lambda>fake.
     awaiting (fake_get_agent_metrics sample_agent_metrics_req fake) (\<lambda>result fake log.
     assert_true (is_ok result)))"

definition fake_test_get_agent_metrics_transient :: "unit exec" where
  "fake_test_get_agent_metrics_transient =
     pushed (push_get_agent_metrics (Outcome_Transient ''timeout'')) FakeAnalyticsPort_new (\<lambda>fake.
     awaiting (fake_get_agent_metrics sample_agent_metrics_req fake) (\<lambda>result fake log.
     assert_true (err_matches (\<lambda>e. case e of Analytics_Transient _ \<Rightarrow> True | _ \<Rightarrow> False) result)))"

definition fake_test_get_agent_metrics_permanent :: "unit exec" where
  "fake_test_get_agent_metrics_permanent =
     pushed (push_get_agent_metrics (Outcome_Permanent ''forbidden'')) FakeAnalyticsPort_new (\<lambda>fake.
     awaiting (fake_get_agent_metrics sample_agent_metrics_req fake) (\<lambda>result fake log.
     assert_true (err_matches (\<lambda>e. case e of Analytics_Permanent _ \<Rightarrow> True | _ \<Rightarrow> False) result)))"

definition fake_test_get_agent_metrics_panic :: "unit exec" where
  "fake_test_get_agent_metrics_panic =
     pushed (push_get_agent_metrics Outcome_Panic) FakeAnalyticsPort_new (\<lambda>fake.
     assert_true (spawned_panics (fake_get_agent_metrics sample_agent_metrics_req fake)))"

definition fake_test_get_org_analytics_success :: "f64 \<Rightarrow> unit exec" where
  "fake_test_get_org_analytics_success z =
     pushed (push_get_org_analytics (Success (sample_empty_analytics z))) FakeAnalyticsPort_new (\<lambda>fake.
     awaiting (fake_get_org_analytics sample_org_analytics_req fake) (\<lambda>result fake log.
     assert_true (is_ok result)))"

definition fake_test_get_org_analytics_transient :: "unit exec" where
  "fake_test_get_org_analytics_transient =
     pushed (push_get_org_analytics (Outcome_Transient ''timeout'')) FakeAnalyticsPort_new (\<lambda>fake.
     awaiting (fake_get_org_analytics sample_org_analytics_req fake) (\<lambda>result fake log.
     assert_true (err_matches (\<lambda>e. case e of Analytics_Transient _ \<Rightarrow> True | _ \<Rightarrow> False) result)))"

definition fake_test_get_org_analytics_permanent :: "unit exec" where
  "fake_test_get_org_analytics_permanent =
     pushed (push_get_org_analytics (Outcome_Permanent ''forbidden'')) FakeAnalyticsPort_new (\<lambda>fake.
     awaiting (fake_get_org_analytics sample_org_analytics_req fake) (\<lambda>result fake log.
     assert_true (err_matches (\<lambda>e. case e of Analytics_Permanent _ \<Rightarrow> True | _ \<Rightarrow> False) result)))"

definition fake_test_get_org_analytics_panic :: "unit exec" where
  "fake_test_get_org_analytics_panic =
     pushed (push_get_org_analytics Outcome_Panic) FakeAnalyticsPort_new (\<lambda>fake.
     assert_true (spawned_panics (fake_get_org_analytics sample_org_analytics_req fake)))"

definition fake_test_get_org_metrics_success :: "unit exec" where
  "fake_test_get_org_metrics_success =
     pushed (push_get_org_metrics (Success sample_empty_metrics)) FakeAnalyticsPort_new (\<lambda>fake.
     awaiting (fake_get_org_metrics sample_org_metrics_req fake) (\<lambda>result fake log.
     assert_true (is_ok result)))"

definition fake_test_get_org_metrics_transient :: "unit exec" where
  "fake_test_get_org_metrics_transient =
     pushed (push_get_org_metrics (Outcome_Transient ''timeout'')) FakeAnalyticsPort_new (\<lambda>fake.
     awaiting (fake_get_org_metrics sample_org_metrics_req fake) (\<lambda>result fake log.
     assert_true (err_matches (\<lambda>e. case e of Analytics_Transient _ \<Rightarrow> True | _ \<Rightarrow> False) result)))"

definition fake_test_get_org_metrics_permanent :: "unit exec" where
  "fake_test_get_org_metrics_permanent =
     pushed (push_get_org_metrics (Outcome_Permanent ''forbidden'')) FakeAnalyticsPort_new (\<lambda>fake.
     awaiting (fake_get_org_metrics sample_org_metrics_req fake) (\<lambda>result fake log.
     assert_true (err_matches (\<lambda>e. case e of Analytics_Permanent _ \<Rightarrow> True | _ \<Rightarrow> False) result)))"

definition fake_test_get_org_metrics_panic :: "unit exec" where
  "fake_test_get_org_metrics_panic =
     pushed (push_get_org_metrics Outcome_Panic) FakeAnalyticsPort_new (\<lambda>fake.
     assert_true (spawned_panics (fake_get_org_metrics sample_org_metrics_req fake)))"

definition fake_test_get_agent_analytics_queue_ordering :: "f64 \<Rightarrow> unit exec" where
  "fake_test_get_agent_analytics_queue_ordering z =
     pushed (push_get_agent_analytics (Outcome_Transient ''first'')) FakeAnalyticsPort_new (\<lambda>fake.
     pushed (push_get_agent_analytics (Success (sample_empty_analytics z))) fake (\<lambda>fake.
     awaiting (fake_get_agent_analytics sample_agent_analytics_req fake) (\<lambda>first fake log.
     exec_bind (assert_true (err_matches (\<lambda>e. case e of Analytics_Transient msg \<Rightarrow> msg = ''first'' | _ \<Rightarrow> False) first)) (\<lambda>_.
     awaiting (fake_get_agent_analytics sample_agent_analytics_req fake) (\<lambda>second fake log.
     assert_true (is_ok second))))))"

definition fake_test_get_agent_analytics_empty_queue_panics :: "unit exec" where
  "fake_test_get_agent_analytics_empty_queue_panics =
     assert_true (spawned_panics (fake_get_agent_analytics sample_agent_analytics_req FakeAnalyticsPort_new))"

lemmas fake_an_ops = FakeAnalyticsPort_new_def
  push_get_agent_analytics_def fake_get_agent_analytics_def push_get_agent_metrics_def
  fake_get_agent_metrics_def push_get_org_analytics_def fake_get_org_analytics_def push_get_org_metrics_def
  fake_get_org_metrics_def

lemmas fake_an_tests =
  sample_empty_analytics_def sample_empty_metrics_def sample_agent_analytics_req_def
  sample_agent_metrics_req_def sample_org_analytics_req_def sample_org_metrics_req_def
  fake_test_get_agent_analytics_success_def fake_test_get_agent_analytics_transient_def
  fake_test_get_agent_analytics_permanent_def fake_test_get_agent_analytics_unavailable_def
  fake_test_get_agent_analytics_panic_def fake_test_get_agent_metrics_success_def
  fake_test_get_agent_metrics_transient_def fake_test_get_agent_metrics_permanent_def
  fake_test_get_agent_metrics_panic_def fake_test_get_org_analytics_success_def
  fake_test_get_org_analytics_transient_def fake_test_get_org_analytics_permanent_def
  fake_test_get_org_analytics_panic_def fake_test_get_org_metrics_success_def
  fake_test_get_org_metrics_transient_def fake_test_get_org_metrics_permanent_def
  fake_test_get_org_metrics_panic_def fake_test_get_agent_analytics_queue_ordering_def
  fake_test_get_agent_analytics_empty_queue_panics_def

lemma fake_an_tests_pass:
  "passes (fake_test_get_agent_analytics_success z)"
  "passes fake_test_get_agent_analytics_transient"
  "passes fake_test_get_agent_analytics_permanent"
  "passes fake_test_get_agent_analytics_unavailable"
  "passes fake_test_get_agent_analytics_panic"
  "passes fake_test_get_agent_metrics_success"
  "passes fake_test_get_agent_metrics_transient"
  "passes fake_test_get_agent_metrics_permanent"
  "passes fake_test_get_agent_metrics_panic"
  "passes (fake_test_get_org_analytics_success z)"
  "passes fake_test_get_org_analytics_transient"
  "passes fake_test_get_org_analytics_permanent"
  "passes fake_test_get_org_analytics_panic"
  "passes fake_test_get_org_metrics_success"
  "passes fake_test_get_org_metrics_transient"
  "passes fake_test_get_org_metrics_permanent"
  "passes fake_test_get_org_metrics_panic"
  "passes (fake_test_get_agent_analytics_queue_ordering z)"
  "passes fake_test_get_agent_analytics_empty_queue_panics"
  by (simp_all add: fake_an_tests fake_an_ops fake_run_defs)

end
