(* ===== verification/Tests_Http.thy ===== *)
theory Tests_Http
  imports Test_Support Voice_Manager_Http Post_Call_Http Analytics_Http "HOL-Library.Sublist"
begin

text \<open>
  The unit tests of the three HTTP adapters (\<^verbatim>\<open>adapters/src/voice_manager_http.rs\<close>,
  \<^verbatim>\<open>post_call_http.rs\<close>, \<^verbatim>\<open>analytics_http.rs\<close>) against a mock server, and that each
  passes for every clock, jitter, timer and source of ids. The server is the documented behaviour of
  \<^verbatim>\<open>wiremock\<close>: the mocks are tried in the order they were mounted, one that was limited stops
  matching after its number of requests, a request no mock matches is answered with 404, and the expected
  numbers of requests are verified when the server is dropped. Of \<^verbatim>\<open>serde_json\<close> the tests need that
  the bodies they mount decode as the derives say, of \<^verbatim>\<open>uuid\<close> that a printed id parses back and is
  made of hexadecimal digits and dashes.
\<close>

section \<open>The mock server\<close>

datatype json = J_Null | J_Int int | J_Float f64 | J_Str string | J_Arr "json list" | J_Obj "(string \<times> json) list"

record 'j Mock =
  given :: "'j http_request \<Rightarrow> bool"
  template :: "json option http_response"
  up_to_n_times :: "nat option"
  expects :: "nat option"
  hits :: nat

definition respond :: "nat \<Rightarrow> json option http_response" where
  "respond status = \<lparr>resp_status = status, resp_body = None\<rparr>"

definition respond_json :: "nat \<Rightarrow> json \<Rightarrow> json option http_response" where
  "respond_json status j = \<lparr>resp_status = status, resp_body = Some j\<rparr>"

definition mount :: "('j http_request \<Rightarrow> bool) \<Rightarrow> json option http_response \<Rightarrow> 'j Mock" where
  "mount g t = \<lparr>given = g, template = t, up_to_n_times = None, expects = None, hits = 0\<rparr>"

fun serve_mocks :: "'j http_request \<Rightarrow> 'j Mock list \<Rightarrow> 'j Mock list \<times> json option http_response" where
  "serve_mocks req [] = ([], respond 404)"
| "serve_mocks req (m # ms) =
     (if given m req \<and> (case up_to_n_times m of None \<Rightarrow> True | Some n \<Rightarrow> hits m < n)
      then (m\<lparr>hits := hits m + 1\<rparr> # ms, template m)
      else case serve_mocks req ms of (ms', r) \<Rightarrow> (m # ms', r))"

definition mock_server :: "string \<Rightarrow> ('w \<times> 'j Mock list, 'j, json option) http_adapter" where
  "mock_server uri =
     http_adapter_new (mock_call (\<lambda>req ms. case serve_mocks req ms of (ms', r) \<Rightarrow> (ms', Inr r))) uri"

definition verify :: "'j Mock list \<Rightarrow> unit exec" where
  "verify ms = assert_true (list_all (\<lambda>m. case expects m of None \<Rightarrow> True | Some n \<Rightarrow> hits m = n) ms)"

section \<open>Matchers\<close>

definition url_path :: "string \<Rightarrow> 'j http_request \<Rightarrow> string" where
  "url_path uri req = takeWhile (\<lambda>c. c \<noteq> CHR ''?'') (drop (length uri) (req_url req))"

definition url_query :: "string \<Rightarrow> 'j http_request \<Rightarrow> string" where
  "url_query uri req = drop 1 (dropWhile (\<lambda>c. c \<noteq> CHR ''?'') (drop (length uri) (req_url req)))"

fun query_pairs :: "string \<Rightarrow> string \<Rightarrow> (string \<times> string) list" where
  "query_pairs acc [] = [(takeWhile (\<lambda>c. c \<noteq> CHR ''='') acc, drop 1 (dropWhile (\<lambda>c. c \<noteq> CHR ''='') acc))]"
| "query_pairs acc (c # cs) = (if c = CHR ''&'' then query_pairs acc [] @ query_pairs [] cs else query_pairs (acc @ [c]) cs)"

definition hex_dash :: "char \<Rightarrow> bool" where
  "hex_dash c = (c \<in> set ''0123456789abcdef-'')"

definition lower :: "char \<Rightarrow> char" where
  "lower c = (if 65 \<le> (of_char c :: nat) \<and> (of_char c :: nat) \<le> 90 then char_of ((of_char c :: nat) + 32) else c)"

definition method_is :: "http_method \<Rightarrow> 'j http_request \<Rightarrow> bool" where
  "method_is mt req = (req_method req = mt)"

definition path_is :: "string \<Rightarrow> string \<Rightarrow> 'j http_request \<Rightarrow> bool" where
  "path_is uri p req = (url_path uri req = p)"

text \<open>\<^verbatim>\<open>path_regex("^p[0-9a-f-]+$")\<close> and \<^verbatim>\<open>path_regex("p")\<close>.\<close>

definition path_with_id :: "string \<Rightarrow> string \<Rightarrow> 'j http_request \<Rightarrow> bool" where
  "path_with_id uri p req =
     (let path = url_path uri req; rest = drop (length p) path
      in take (length p) path = p \<and> rest \<noteq> [] \<and> list_all hex_dash rest)"

definition path_has :: "string \<Rightarrow> string \<Rightarrow> 'j http_request \<Rightarrow> bool" where
  "path_has uri p req = sublist p (url_path uri req)"

definition query_param :: "string \<Rightarrow> string \<Rightarrow> string \<Rightarrow> 'j http_request \<Rightarrow> bool" where
  "query_param uri k v req = ((k, v) \<in> set (query_pairs [] (url_query uri req) @ req_query req))"

definition header_exists :: "string \<Rightarrow> 'j http_request \<Rightarrow> bool" where
  "header_exists name req = list_ex (\<lambda>(k, v). map lower k = map lower name) (req_headers req)"

section \<open>What the tests rely on\<close>

definition uuid_text :: "('z) codec_scheme \<Rightarrow> bool" where
  "uuid_text cd \<longleftrightarrow>
     (\<forall>u. parse_uuid cd (uuid_to_string cd u) = Inr u \<and> uuid_to_string cd u \<noteq> [] \<and>
          list_all hex_dash (uuid_to_string cd u))"

lemma uuid_textD:
  assumes "uuid_text cd"
  shows "parse_uuid cd (uuid_to_string cd u) = Inr u" "uuid_to_string cd u \<noteq> []"
    "list_all hex_dash (uuid_to_string cd u)"
  using assms by (simp_all add: uuid_text_def)

lemma hex_dash_plain: "hex_dash c \<Longrightarrow> c \<noteq> CHR ''?''"
  by (auto simp: hex_dash_def)

lemma takeWhile_id:
  assumes "list_all hex_dash s"
  shows "takeWhile (\<lambda>c. c \<noteq> CHR ''?'') (s @ t) = s @ takeWhile (\<lambda>c. c \<noteq> CHR ''?'') t"
    "takeWhile (\<lambda>c. c \<noteq> CHR ''?'') s = s"
    "dropWhile (\<lambda>c. c \<noteq> CHR ''?'') (s @ t) = dropWhile (\<lambda>c. c \<noteq> CHR ''?'') t"
    "dropWhile (\<lambda>c. c \<noteq> CHR ''?'') s = []"
  using assms hex_dash_plain by (auto simp: takeWhile_append dropWhile_append list_all_iff takeWhile_eq_all_conv dropWhile_eq_Nil_conv)

lemmas uuid_text_simps = uuid_textD takeWhile_id [OF uuid_textD(3)]

lemma lower_simps [simp]:
  "lower CHR ''X'' = CHR ''x''" "lower CHR ''R'' = CHR ''r''" "lower CHR ''I'' = CHR ''i''"
  "lower CHR ''x'' = CHR ''x''" "lower CHR ''r'' = CHR ''r''" "lower CHR ''i'' = CHR ''i''"
  by code_simp+

definition serde_vm :: "json option vm_http_lib \<Rightarrow> bool" where
  "serde_vm lib \<longleftrightarrow>
     (\<forall>s. json_session lib (Some (J_Obj [(''session_ref'', J_Obj [(''id'', J_Str s)])])) =
        Inr \<lparr>svr_session_ref = \<lparr>vsd_id = s\<rparr>\<rparr>) \<and>
     (\<forall>i org ph. json_telephony lib (Some (J_Obj [(''telephony'',
           J_Obj [(''id'', J_Str i), (''org_id'', J_Str org), (''phone_number'', J_Str ph)])])) =
        Inr \<lparr>trs_telephony = \<lparr>td_id = i, td_org_id = org, td_phone_number = ph\<rparr>\<rparr>) \<and>
     json_telephonies lib (Some (J_Obj [(''telephonies'', J_Arr [])])) = Inr \<lparr>lts_telephonies = []\<rparr>"

lemmas http_run_defs = test_defs with_retry_def retry_loop.simps exchange_def deadline_gate_def dur_mul_def metrics_ops_def
  WRITE_RETRY_def CLEANUP_RETRY_def DEFAULT_RETRY_def GRACEFUL_STOP_RETRY_def from_millis_def from_secs_def
  DURATION_MAX_def Let_def respond_def respond_json_def mount_def mock_server_def http_adapter_new_def verify_def
  url_path_def url_query_def method_is_def path_is_def path_with_id_def path_has_def query_param_def header_exists_def
  is_success_def is_client_error_def read_response_def

section \<open>The tests of the Voice Manager adapter\<close>

definition http_start_req :: "uuid \<Rightarrow> StartVoiceSessionReq" where
  "http_start_req eng = \<lparr>sv_engagement_id = EngagementId eng, sv_org_id = ''org-1''\<rparr>"

definition session_json :: "string \<Rightarrow> json" where
  "session_json i = J_Obj [(''session_ref'', J_Obj [(''id'', J_Str i)])]"

definition http_start_voice_session_happy ::
  "json option vm_http_lib \<Rightarrow> 'w adapter_env \<Rightarrow> string \<Rightarrow> uuid \<Rightarrow> uuid \<Rightarrow> 'w \<Rightarrow> unit exec" where
  "http_start_voice_session_happy lib env uri sid eng w =
     awaiting (vmh_start_voice_session (mock_env env) lib (mock_server uri) (http_start_req eng)
         (w, [mount (\<lambda>q. method_is POST q \<and> path_is uri ''/v1/voice/sessions'' q)
                (respond_json 200 (session_json (uuid_to_string lib sid)))]))
       (\<lambda>r (w', ms) log. exec_bind (expect_ok r) (\<lambda>r.
          exec_bind (assert_true (session_id r = sid)) (\<lambda>_. verify ms)))"

definition start_voice_session_stamps_x_request_id_header ::
  "json option vm_http_lib \<Rightarrow> 'w adapter_env \<Rightarrow> string \<Rightarrow> uuid \<Rightarrow> uuid \<Rightarrow> 'w \<Rightarrow> unit exec" where
  "start_voice_session_stamps_x_request_id_header lib env uri sid eng w =
     awaiting (vmh_start_voice_session (mock_env env) lib (mock_server uri) (http_start_req eng)
         (w, [(mount (\<lambda>q. method_is POST q \<and> path_is uri ''/v1/voice/sessions'' q \<and> header_exists ''x-request-id'' q)
                (respond_json 200 (session_json (uuid_to_string lib sid))))\<lparr>expects := Some 1\<rparr>]))
       (\<lambda>r (w', ms) log. exec_bind (expect_ok r) (\<lambda>_. verify ms))"

definition stop_voice_session_abort_retries_5_times_on_503 ::
  "json option vm_http_lib \<Rightarrow> 'w adapter_env \<Rightarrow> string \<Rightarrow> uuid \<Rightarrow> 'w \<Rightarrow> unit exec" where
  "stop_voice_session_abort_retries_5_times_on_503 lib env uri ref w =
     awaiting (vmh_stop_voice_session (mock_env env) lib (mock_server uri) \<lparr>session_id = ref\<rparr> Abort
         (w, [(mount (\<lambda>q. method_is DELETE q \<and> path_with_id uri ''/v1/voice/sessions/'' q \<and> query_param uri ''mode'' ''abort'' q)
                (respond 503))\<lparr>expects := Some 5\<rparr>]))
       (\<lambda>r (w', ms) log. exec_bind (expect_err r) (\<lambda>e.
          exec_bind (assert_true (e = Vm_Unavailable)) (\<lambda>_. verify ms)))"

definition stop_voice_session_graceful_attempts_only_once_on_503 ::
  "json option vm_http_lib \<Rightarrow> 'w adapter_env \<Rightarrow> string \<Rightarrow> uuid \<Rightarrow> 'w \<Rightarrow> unit exec" where
  "stop_voice_session_graceful_attempts_only_once_on_503 lib env uri ref w =
     awaiting (vmh_stop_voice_session (mock_env env) lib (mock_server uri) \<lparr>session_id = ref\<rparr> Graceful
         (w, [(mount (\<lambda>q. method_is DELETE q \<and> path_with_id uri ''/v1/voice/sessions/'' q \<and> query_param uri ''mode'' ''graceful'' q)
                (respond 503))\<lparr>expects := Some 1\<rparr>]))
       (\<lambda>r (w', ms) log. verify ms)"

definition http_4xx_maps_to_permanent ::
  "json option vm_http_lib \<Rightarrow> 'w adapter_env \<Rightarrow> string \<Rightarrow> uuid \<Rightarrow> 'w \<Rightarrow> unit exec" where
  "http_4xx_maps_to_permanent lib env uri eng w =
     awaiting (vmh_start_voice_session (mock_env env) lib (mock_server uri) (http_start_req eng)
         (w, [mount (\<lambda>q. method_is POST q \<and> path_is uri ''/v1/voice/sessions'' q)
                (respond_json 400 (J_Obj [(''error'',
                   J_Obj [(''code'', J_Str ''bad_request''), (''message'', J_Str ''engagement_id required'')])]))]))
       (\<lambda>r (w', ms) log. exec_bind (expect_err r) (\<lambda>e.
          exec_bind (assert_true (case e of Vm_Permanent _ \<Rightarrow> True | _ \<Rightarrow> False)) (\<lambda>_. verify ms)))"

definition http_500_maps_to_transient_and_retries_for_writes ::
  "json option vm_http_lib \<Rightarrow> 'w adapter_env \<Rightarrow> string \<Rightarrow> 'w \<Rightarrow> unit exec" where
  "http_500_maps_to_transient_and_retries_for_writes lib env uri w =
     awaiting (vmh_create_telephony (mock_env env) lib (mock_server uri)
         \<lparr>ct_org_id = ''org-1'', ct_phone_number = ''+60123456789''\<rparr>
         (w, [(mount (\<lambda>q. method_is POST q \<and> path_is uri ''/v1/telephonies'' q) (respond 500))\<lparr>expects := Some 2\<rparr>]))
       (\<lambda>r (w', ms) log. verify ms)"

definition telephony_json :: "string \<Rightarrow> json" where
  "telephony_json i =
     J_Obj [(''telephony'', J_Obj [(''id'', J_Str i), (''org_id'', J_Str ''org-1''), (''phone_number'', J_Str ''+60123456789'')])]"

definition telephony_crud_happy ::
  "json option vm_http_lib \<Rightarrow> 'w adapter_env \<Rightarrow> string \<Rightarrow> uuid \<Rightarrow> 'w \<Rightarrow> unit exec" where
  "telephony_crud_happy lib env uri tid w =
     (let body = telephony_json (uuid_to_string lib tid);
          server =
            [mount (\<lambda>q. method_is POST q \<and> path_is uri ''/v1/telephonies'' q) (respond_json 200 body),
             mount (\<lambda>q. method_is GET q \<and> path_with_id uri ''/v1/telephonies/'' q) (respond_json 200 body),
             mount (\<lambda>q. method_is PATCH q \<and> path_with_id uri ''/v1/telephonies/'' q) (respond_json 200 body),
             mount (\<lambda>q. method_is DELETE q \<and> path_with_id uri ''/v1/telephonies/'' q) (respond 204),
             mount (\<lambda>q. method_is GET q \<and> path_is uri ''/v1/telephonies'' q)
               (respond_json 200 (J_Obj [(''telephonies'', J_Arr [])]))]
      in
     awaiting (vmh_create_telephony (mock_env env) lib (mock_server uri)
         \<lparr>ct_org_id = ''org-1'', ct_phone_number = ''+60123456789''\<rparr> (w, server))
       (\<lambda>r1 m1 _. exec_bind (expect_ok r1) (\<lambda>t.
          exec_bind (assert_true (telephony_id t = TelephonyId tid)) (\<lambda>_.
     awaiting (vmh_get_telephony (mock_env env) lib (mock_server uri) (TelephonyId tid) m1)
       (\<lambda>r2 m2 _. exec_bind (expect_ok r2) (\<lambda>got.
          exec_bind (assert_true (telephony_org_id got = ''org-1'')) (\<lambda>_.
     awaiting (vmh_update_telephony (mock_env env) lib (mock_server uri)
         \<lparr>ut_id = TelephonyId tid, ut_phone_number = ''+60111111111''\<rparr> m2)
       (\<lambda>r3 m3 _. exec_bind (expect_ok r3) (\<lambda>updated.
          exec_bind (assert_true (telephony_id updated = TelephonyId tid)) (\<lambda>_.
     awaiting (vmh_delete_telephony (mock_env env) lib (mock_server uri) (TelephonyId tid) ''decommissioned'' m3)
       (\<lambda>r4 m4 _. exec_bind (expect_ok r4) (\<lambda>_.
     awaiting (vmh_list_telephonies (mock_env env) lib (mock_server uri) \<lparr>lt_org_id = ''org-1'', page_token = None\<rparr> m4)
       (\<lambda>r5 (w', ms) _. exec_bind (expect_ok r5) (\<lambda>list.
          exec_bind (assert_true (list = [])) (\<lambda>_. verify ms)))))))))))))))"

lemmas vmh_test_defs = http_start_voice_session_happy_def start_voice_session_stamps_x_request_id_header_def
  stop_voice_session_abort_retries_5_times_on_503_def stop_voice_session_graceful_attempts_only_once_on_503_def
  http_4xx_maps_to_permanent_def http_500_maps_to_transient_and_retries_for_writes_def telephony_crud_happy_def
  http_start_req_def session_json_def telephony_json_def

lemmas vmh_defs = vmh_start_voice_session_def vmh_stop_voice_session_def vmh_create_telephony_def vmh_get_telephony_def
  vmh_update_telephony_def vmh_delete_telephony_def vmh_list_telephonies_def vm_read_def vmh_session_def
  vmh_telephony_def vmh_telephonies_def telephony_from_dto_def vm_map_http_status_def vm_error_traits_def

lemma vmh_tests_pass:
  assumes "uuid_text lib" "serde_vm lib"
  shows "passes (http_start_voice_session_happy lib env uri sid eng w)"
    "passes (start_voice_session_stamps_x_request_id_header lib env uri sid eng w)"
    "passes (stop_voice_session_abort_retries_5_times_on_503 lib env uri ref w)"
    "passes (stop_voice_session_graceful_attempts_only_once_on_503 lib env uri ref w)"
    "passes (http_4xx_maps_to_permanent lib env uri eng w)"
    "passes (http_500_maps_to_transient_and_retries_for_writes lib env uri w)"
    "passes (telephony_crud_happy lib env uri tid w)"
  using assms(2)
  by (simp_all add: vmh_test_defs vmh_defs http_run_defs uuid_text_simps [OF assms(1)] serde_vm_def)

section \<open>The tests of the post-call adapter\<close>

definition serde_pc :: "json option pc_http_lib \<Rightarrow> bool" where
  "serde_pc lib \<longleftrightarrow>
     (\<forall>msg role. json_transcriptions lib (Some (J_Obj [(''data'', J_Arr [J_Obj [(''message'', J_Str msg), (''role'', J_Str role),
           (''audio_url'', J_Null), (''emotion'', J_Null)]]), (''totalSize'', J_Int 1)])) =
        Inr \<lparr>tsr_data = [\<lparr>ti_message = msg, ti_role = role, ti_audio_url = None, ti_emotion = None\<rparr>], tsr_total_size = Some 1\<rparr>) \<and>
     json_transcriptions lib (Some (J_Obj [(''data'', J_Arr []), (''totalSize'', J_Int 0)])) =
        Inr \<lparr>tsr_data = [], tsr_total_size = Some 0\<rparr> \<and>
     (\<forall>s. json_summary lib (Some (J_Obj [(''data'', J_Obj [(''summary'', J_Str s), (''resolution'', J_Null),
           (''resolution_explanation'', J_Null)])])) =
        Inr \<lparr>sur_data = Some \<lparr>sud_summary = s, sud_resolution = None, sud_resolution_explanation = None\<rparr>\<rparr>) \<and>
     (\<forall>s j. json_sentiment lib (Some (J_Obj [(''data'', J_Obj [(''sentiment'', J_Str s), (''justification'', J_Str j)])])) =
        Inr \<lparr>ser_data = Some \<lparr>sed_sentiment = s, sed_justification = j\<rparr>\<rparr>) \<and>
     (\<forall>k v. json_extraction lib (Some (J_Obj [(''data'', J_Arr [J_Obj [(''key'', J_Str k), (''value'', J_Str v),
           (''audio_file_paths'', J_Str [])]])])) =
        Inr \<lparr>oer_data = [\<lparr>oei_key = k, oei_value = v\<rparr>]\<rparr>) \<and>
     (\<forall>i t. json_call_logs lib (Some (J_Obj [(''data'', J_Arr [J_Obj [(''id'', J_Str i), (''created_at'', J_Str t)]]),
           (''total_size'', J_Int 1)])) =
        Inr \<lparr>clr_data = Some [\<lparr>cli_id = i, cli_room_name = None, cli_batch_id = None, cli_duration = None,
               cli_identity = None, cli_created_at = t\<rparr>], clr_total_size = Some 1\<rparr>)"

definition call_path :: "('z) codec_scheme \<Rightarrow> uuid \<Rightarrow> string \<Rightarrow> string" where
  "call_path lib eng rest = ''/calls/'' @ uuid_to_string lib eng @ rest"

definition get_transcript_maps_messages ::
  "json option pc_http_lib \<Rightarrow> 'w adapter_env \<Rightarrow> string \<Rightarrow> uuid \<Rightarrow> 'w \<Rightarrow> unit exec" where
  "get_transcript_maps_messages lib env uri eng w =
     awaiting (pch_get_transcript (mock_env env) lib (mock_server uri) (EngagementId eng)
         (w, [mount (\<lambda>q. method_is GET q \<and> path_is uri (call_path lib eng ''/transcription'') q)
                (respond_json 200 (J_Obj
                   [(''data'', J_Arr [J_Obj [(''message'', J_Str ''hello''), (''role'', J_Str ''agent''),
                       (''audio_url'', J_Null), (''emotion'', J_Null)]]),
                    (''totalSize'', J_Int 1)]))]))
       (\<lambda>r m log. exec_bind (expect_ok r) (\<lambda>t.
          assert_true (length (messages t) = 1 \<and> tm_message (messages t ! 0) = ''hello'' \<and> transcript_total_size t = 1)))"

definition get_summary_unwraps_data ::
  "json option pc_http_lib \<Rightarrow> 'w adapter_env \<Rightarrow> string \<Rightarrow> uuid \<Rightarrow> 'w \<Rightarrow> unit exec" where
  "get_summary_unwraps_data lib env uri eng w =
     awaiting (pch_get_summary (mock_env env) lib (mock_server uri) (EngagementId eng)
         (w, [mount (\<lambda>q. method_is GET q \<and> path_is uri (call_path lib eng ''/summary'') q)
                (respond_json 200 (J_Obj
                   [(''data'', J_Obj [(''summary'', J_Str ''great call''), (''resolution'', J_Null),
                       (''resolution_explanation'', J_Null)])]))]))
       (\<lambda>r m log. exec_bind (expect_ok r) (\<lambda>s. assert_true (summary s = ''great call'')))"

definition get_sentiment_unwraps_data ::
  "json option pc_http_lib \<Rightarrow> 'w adapter_env \<Rightarrow> string \<Rightarrow> uuid \<Rightarrow> 'w \<Rightarrow> unit exec" where
  "get_sentiment_unwraps_data lib env uri eng w =
     awaiting (pch_get_sentiment (mock_env env) lib (mock_server uri) (EngagementId eng)
         (w, [mount (\<lambda>q. method_is GET q \<and> path_is uri (call_path lib eng ''/sentiment'') q)
                (respond_json 200 (J_Obj
                   [(''data'', J_Obj [(''sentiment'', J_Str ''positive''), (''justification'', J_Str ''customer was happy'')])]))]))
       (\<lambda>r m log. exec_bind (expect_ok r) (\<lambda>s. assert_true (label s = ''positive'')))"

definition get_output_extraction_maps_fields ::
  "json option pc_http_lib \<Rightarrow> 'w adapter_env \<Rightarrow> string \<Rightarrow> uuid \<Rightarrow> 'w \<Rightarrow> unit exec" where
  "get_output_extraction_maps_fields lib env uri eng w =
     awaiting (pch_get_output_extraction (mock_env env) lib (mock_server uri) (EngagementId eng)
         (w, [mount (\<lambda>q. method_is GET q \<and> path_is uri (call_path lib eng ''/state'') q)
                (respond_json 200 (J_Obj
                   [(''data'', J_Arr [J_Obj [(''key'', J_Str ''name''), (''value'', J_Str ''Alice''),
                       (''audio_file_paths'', J_Str [])]])]))]))
       (\<lambda>r m log. exec_bind (expect_ok r) (\<lambda>oe.
          assert_true (length (output_fields oe) = 1 \<and> field_key (output_fields oe ! 0) = ''name'')))"

definition list_agent_call_logs_returns_items :: "json option pc_http_lib \<Rightarrow> 'w adapter_env \<Rightarrow> string \<Rightarrow> 'w \<Rightarrow> unit exec" where
  "list_agent_call_logs_returns_items lib env uri w =
     awaiting (pch_list_agent_call_logs (mock_env env) lib (mock_server uri)
         \<lparr>la_agent_id = ''agent-1'', la_skip = None, la_limit = None, la_start_date = None, la_end_date = None,
          la_identity = None, la_id = None, la_batch_id = None\<rparr>
         (w, [mount (\<lambda>q. method_is GET q \<and> path_has uri ''/calls/agent-1/history-call'' q)
                (respond_json 200 (J_Obj
                   [(''data'', J_Arr [J_Obj [(''id'', J_Str ''c1''), (''created_at'', J_Str ''2026-01-01T00:00:00Z'')]]),
                    (''total_size'', J_Int 1)]))]))
       (\<lambda>r m log. exec_bind (expect_ok r) (\<lambda>page.
          assert_true (length (items page) = 1 \<and> page_total_size page = Some 1)))"

definition list_org_call_logs_returns_items :: "json option pc_http_lib \<Rightarrow> 'w adapter_env \<Rightarrow> string \<Rightarrow> 'w \<Rightarrow> unit exec" where
  "list_org_call_logs_returns_items lib env uri w =
     awaiting (pch_list_org_call_logs (mock_env env) lib (mock_server uri)
         \<lparr>lo_org_id = ''org-1'', lo_skip = None, lo_limit = None, lo_start_date = None, lo_end_date = None,
          lo_contact_number = None, lo_call_id = None\<rparr>
         (w, [mount (\<lambda>q. method_is GET q \<and> path_has uri ''/calls/organizations/org-1'' q)
                (respond_json 200 (J_Obj
                   [(''data'', J_Arr [J_Obj [(''id'', J_Str ''c2''), (''created_at'', J_Str ''2026-01-02T00:00:00Z'')]]),
                    (''total_size'', J_Int 1)]))]))
       (\<lambda>r m log. exec_bind (expect_ok r) (\<lambda>page. assert_true (length (items page) = 1)))"

definition pc_not_found_maps_to_permanent ::
  "json option pc_http_lib \<Rightarrow> 'w adapter_env \<Rightarrow> string \<Rightarrow> uuid \<Rightarrow> 'w \<Rightarrow> unit exec" where
  "pc_not_found_maps_to_permanent lib env uri eng w =
     awaiting (pch_get_transcript (mock_env env) lib (mock_server uri) (EngagementId eng)
         (w, [mount (\<lambda>q. method_is GET q \<and> path_is uri (call_path lib eng ''/transcription'') q) (respond 404)]))
       (\<lambda>r m log. exec_bind (expect_err r) (\<lambda>err. assert_true (case err of PostCall_Permanent _ \<Rightarrow> True | _ \<Rightarrow> False)))"

definition retries_on_503_then_succeeds ::
  "json option pc_http_lib \<Rightarrow> 'w adapter_env \<Rightarrow> string \<Rightarrow> uuid \<Rightarrow> 'w \<Rightarrow> unit exec" where
  "retries_on_503_then_succeeds lib env uri eng w =
     awaiting (pch_get_transcript (mock_env env) lib (mock_server uri) (EngagementId eng)
         (w, [(mount (\<lambda>q. method_is GET q \<and> path_is uri (call_path lib eng ''/transcription'') q) (respond 503))
                \<lparr>up_to_n_times := Some 1\<rparr>,
              mount (\<lambda>q. method_is GET q \<and> path_is uri (call_path lib eng ''/transcription'') q)
                (respond_json 200 (J_Obj [(''data'', J_Arr []), (''totalSize'', J_Int 0)]))]))
       (\<lambda>r m log. exec_bind (expect_ok r) (\<lambda>t. assert_true (length (messages t) = 0)))"

lemmas pc_test_defs = get_transcript_maps_messages_def get_summary_unwraps_data_def get_sentiment_unwraps_data_def
  get_output_extraction_maps_fields_def list_agent_call_logs_returns_items_def list_org_call_logs_returns_items_def
  pc_not_found_maps_to_permanent_def retries_on_503_then_succeeds_def call_path_def

lemmas pch_defs = pch_get_transcript_def pch_get_summary_def pch_get_sentiment_def pch_get_output_extraction_def
  pch_list_agent_call_logs_def pch_list_org_call_logs_def list_agent_call_logs_query_def list_org_call_logs_query_def
  get_request_def get_json_def transcript_of_def summary_of_def sentiment_of_def extraction_of_def call_log_of_def
  page_of_def pc_map_http_status_def post_call_error_traits_def

lemma pc_tests_pass:
  assumes "uuid_text lib" "serde_pc lib"
  shows "passes (get_transcript_maps_messages lib env uri eng w)"
    "passes (get_summary_unwraps_data lib env uri eng w)"
    "passes (get_sentiment_unwraps_data lib env uri eng w)"
    "passes (get_output_extraction_maps_fields lib env uri eng w)"
    "passes (list_agent_call_logs_returns_items lib env uri w)"
    "passes (list_org_call_logs_returns_items lib env uri w)"
    "passes (pc_not_found_maps_to_permanent lib env uri eng w)"
    "passes (retries_on_503_then_succeeds lib env uri eng w)"
  using assms(2)
  by (simp_all add: pc_test_defs pch_defs http_run_defs uuid_text_simps [OF assms(1)] engagement_id_to_string_def serde_pc_def)

section \<open>The tests of the analytics adapter\<close>

text \<open>\<open>lit\<close> reads a float literal and \<open>near\<close> is \<^verbatim>\<open>(a - b).abs() < 1e-9\<close>.\<close>

definition analytics_json :: "(string \<Rightarrow> f64) \<Rightarrow> json" where
  "analytics_json lit =
     J_Obj
       [(''average_conversation_duration'', J_Float (lit ''45.5'')),
        (''containment_rate'', J_Float (lit ''0.75'')),
        (''customer_satisfaction_rate'', J_Float (lit ''0.85'')),
        (''dropoff_rate'', J_Float (lit ''0.1'')),
        (''escalation_rate'', J_Float (lit ''0.05'')),
        (''total_inquiries'', J_Int 100),
        (''category_counts'', J_Obj [])]"

definition metrics_json :: "(string \<Rightarrow> f64) \<Rightarrow> json" where
  "metrics_json lit =
     J_Obj [(''data'', J_Obj [(''categories'', J_Arr [J_Str ''mon'', J_Str ''tue'']),
       (''series'', J_Arr [J_Float (lit ''1.0''), J_Float (lit ''2.0'')])])]"

definition serde_an :: "json option an_http_lib \<Rightarrow> bool" where
  "serde_an lib \<longleftrightarrow>
     (\<forall>a b c d e. json_analytics lib (Some (J_Obj
          [(''average_conversation_duration'', J_Float a), (''containment_rate'', J_Float b),
           (''customer_satisfaction_rate'', J_Float c), (''dropoff_rate'', J_Float d), (''escalation_rate'', J_Float e),
           (''total_inquiries'', J_Int 100), (''category_counts'', J_Obj [])])) =
        Inr \<lparr>ar_average_conversation_duration = a, ar_containment_rate = b, ar_customer_satisfaction_rate = c,
             ar_dropoff_rate = d, ar_escalation_rate = e, ar_total_inquiries = 100, ar_category_counts = Map.empty\<rparr>) \<and>
     (\<forall>s t x y. json_metrics lib (Some (J_Obj [(''data'', J_Obj [(''categories'', J_Arr [J_Str s, J_Str t]),
           (''series'', J_Arr [J_Float x, J_Float y])])])) =
        Inr \<lparr>mr_data = \<lparr>md_categories = [s, t], md_series = [x, y]\<rparr>\<rparr>)"

definition http_get_agent_analytics_success ::
  "json option an_http_lib \<Rightarrow> (string \<Rightarrow> f64) \<Rightarrow> 'w adapter_env \<Rightarrow> string \<Rightarrow> 'w \<Rightarrow> unit exec" where
  "http_get_agent_analytics_success lib lit env uri w =
     awaiting (anh_get_agent_analytics (mock_env env) lib (mock_server uri)
         \<lparr>gaa_agent_id = ''a1'', gaa_metric = None, gaa_granularity = None, gaa_start_date = None, gaa_end_date = None\<rparr>
         (w, [mount (\<lambda>q. method_is GET q \<and> path_has uri ''/calls/agents/a1/analytics'' q) (respond_json 200 (analytics_json lit))]))
       (\<lambda>r m log. exec_bind (expect_ok r) (\<lambda>a. assert_true (total_inquiries a = 100)))"

definition http_get_agent_metrics_unwraps_data ::
  "json option an_http_lib \<Rightarrow> (string \<Rightarrow> f64) \<Rightarrow> 'w adapter_env \<Rightarrow> string \<Rightarrow> 'w \<Rightarrow> unit exec" where
  "http_get_agent_metrics_unwraps_data lib lit env uri w =
     awaiting (anh_get_agent_metrics (mock_env env) lib (mock_server uri)
         \<lparr>gam_agent_id = ''a1'', gam_metric = None, gam_granularity = None, gam_start_date = None, gam_end_date = None\<rparr>
         (w, [mount (\<lambda>q. method_is GET q \<and> path_has uri ''/calls/agents/a1/metrics'' q) (respond_json 200 (metrics_json lit))]))
       (\<lambda>r x log. exec_bind (expect_ok r) (\<lambda>m.
          assert_true (categories m = [''mon'', ''tue''] \<and> length (series m) = 2)))"

definition http_get_org_analytics_success ::
  "json option an_http_lib \<Rightarrow> (string \<Rightarrow> f64) \<Rightarrow> (f64 \<Rightarrow> f64 \<Rightarrow> bool) \<Rightarrow> 'w adapter_env \<Rightarrow> string \<Rightarrow> 'w \<Rightarrow> unit exec" where
  "http_get_org_analytics_success lib lit near env uri w =
     awaiting (anh_get_org_analytics (mock_env env) lib (mock_server uri)
         \<lparr>goa_org_id = ''org1'', goa_metric = None, goa_granularity = None, goa_start_date = None, goa_end_date = None\<rparr>
         (w, [mount (\<lambda>q. method_is GET q \<and> path_has uri ''/calls/organizations/org1/analytics'' q) (respond_json 200 (analytics_json lit))]))
       (\<lambda>r m log. exec_bind (expect_ok r) (\<lambda>a. assert_true (near (containment_rate a) (lit ''0.75''))))"

definition http_get_org_metrics_success ::
  "json option an_http_lib \<Rightarrow> (string \<Rightarrow> f64) \<Rightarrow> 'w adapter_env \<Rightarrow> string \<Rightarrow> 'w \<Rightarrow> unit exec" where
  "http_get_org_metrics_success lib lit env uri w =
     awaiting (anh_get_org_metrics (mock_env env) lib (mock_server uri)
         \<lparr>gom_org_id = ''org1'', gom_metric = None, gom_granularity = None, gom_start_date = None, gom_end_date = None\<rparr>
         (w, [mount (\<lambda>q. method_is GET q \<and> path_has uri ''/calls/organizations/org1/metrics'' q) (respond_json 200 (metrics_json lit))]))
       (\<lambda>r x log. exec_bind (expect_ok r) (\<lambda>m. assert_true (series m = [lit ''1.0'', lit ''2.0''])))"

definition an_not_found_maps_to_permanent :: "json option an_http_lib \<Rightarrow> 'w adapter_env \<Rightarrow> string \<Rightarrow> 'w \<Rightarrow> unit exec" where
  "an_not_found_maps_to_permanent lib env uri w =
     awaiting (anh_get_agent_analytics (mock_env env) lib (mock_server uri)
         \<lparr>gaa_agent_id = ''missing'', gaa_metric = None, gaa_granularity = None, gaa_start_date = None, gaa_end_date = None\<rparr>
         (w, [mount (\<lambda>q. method_is GET q \<and> path_has uri ''/calls/agents/missing/analytics'' q) (respond 404)]))
       (\<lambda>r m log. exec_bind (expect_err r) (\<lambda>err. assert_true (case err of Analytics_Permanent _ \<Rightarrow> True | _ \<Rightarrow> False)))"

lemmas an_test_defs = http_get_agent_analytics_success_def http_get_agent_metrics_unwraps_data_def
  http_get_org_analytics_success_def http_get_org_metrics_success_def an_not_found_maps_to_permanent_def
  analytics_json_def metrics_json_def

lemmas anh_defs = anh_get_agent_analytics_def anh_get_agent_metrics_def anh_get_org_analytics_def anh_get_org_metrics_def
  analytics_query_def analytics_of_def metrics_of_def an_map_http_status_def analytics_error_traits_def

lemma an_tests_pass:
  assumes "serde_an lib" "\<forall>x. near x x"
  shows "passes (http_get_agent_analytics_success lib lit env uri w)"
    "passes (http_get_agent_metrics_unwraps_data lib lit env uri w)"
    "passes (http_get_org_analytics_success lib lit near env uri w)"
    "passes (http_get_org_metrics_success lib lit env uri w)"
    "passes (an_not_found_maps_to_permanent lib env uri w)"
  using assms by (simp_all add: an_test_defs anh_defs http_run_defs serde_an_def)

end
