(* ===== verification/Tests_Hub.thy ===== *)
theory Tests_Hub
  imports Test_Support Payload_Text Config
begin

text \<open>
  The unit tests of \<^verbatim>\<open>hub/audit.rs\<close>, \<^verbatim>\<open>config.rs\<close>, \<^verbatim>\<open>idempotency.rs\<close> and
  \<^verbatim>\<open>notify.rs\<close>, and that each passes. What they take from outside is a parameter with what the
  tests need of it: a printed UUID has 36 characters, four of them dashes; SHA-256 gives 32 bytes and tells the
  two inputs of a test apart; the text of an object reads back as the object and is written without blanks. A
  broadcast channel is the log of what its one receiver may still read.
\<close>

section \<open>Audit\<close>

definition audit_sample_row :: "uuid \<Rightarrow> uuid \<Rightarrow> uuid \<Rightarrow> uuid \<Rightarrow> AuditRow" where
  "audit_sample_row aid org eng req =
     \<lparr>ar_audit_id = AuditId aid, ar_organization_id = Some org, ar_acting_principal_kind = ServiceAccount,
      ar_acting_principal_id = ''svc-test'', ar_acting_user_id = None, ar_acting_via = ''grpc/StartEngagement'',
      ar_rpc_name = ''StartEngagement'', ar_engagement_id = Some eng, ar_request_id = Some req,
      ar_request_summary = Some (''{'' @ quoted ''channel'' @ '':1}''), ar_trace_id = Some ''abc123''\<rparr>"

definition audit_id_display_is_uuid_string :: "(uuid \<Rightarrow> string) \<Rightarrow> uuid \<Rightarrow> unit exec" where
  "audit_id_display_is_uuid_string str u =
     (let s = str (audit_id_as_uuid (AuditId u))
      in assert_true (length s = 36 \<and> length (filter (\<lambda>c. c = CHR ''-'') s) = 4))"

definition audit_outcome_discriminants :: "unit exec" where
  "audit_outcome_discriminants =
     assert_true (outcome_as_i16 Audit_Pending = 0 \<and> outcome_as_i16 Audit_Success = 1 \<and>
       outcome_as_i16 ClientError = 2 \<and> outcome_as_i16 ServerError = 3)"

definition principal_kind_discriminants :: "unit exec" where
  "principal_kind_discriminants =
     assert_true (principal_as_i16 Principal_Unknown = 0 \<and> principal_as_i16 User = 1 \<and>
       principal_as_i16 ServiceAccount = 2 \<and> principal_as_i16 System = 3)"

definition sample_row_builds :: "uuid \<Rightarrow> uuid \<Rightarrow> uuid \<Rightarrow> uuid \<Rightarrow> unit exec" where
  "sample_row_builds aid org eng req = assert_true (ar_rpc_name (audit_sample_row aid org eng req) = ''StartEngagement'')"

lemma audit_tests_pass:
  "\<forall>u. length (str u) = 36 \<and> length (filter (\<lambda>c. c = CHR ''-'') (str u)) = 4 \<Longrightarrow>
     passes (audit_id_display_is_uuid_string str u)"
  "passes audit_outcome_discriminants"
  "passes principal_kind_discriminants"
  "passes (sample_row_builds aid org eng req)"
  by (simp_all add: audit_id_display_is_uuid_string_def audit_outcome_discriminants_def principal_kind_discriminants_def
      sample_row_builds_def audit_sample_row_def test_defs)

section \<open>Configuration\<close>

text \<open>What the parser makes of an environment, an adapter and a database URL: the declared defaults in every
  other field.\<close>

definition parsed :: "Env \<Rightarrow> RegistryAdapter \<Rightarrow> string \<Rightarrow> Config" where
  "parsed e adapter url =
     \<lparr>env = e, registry_adapter = adapter, track_0_idle_mode = False, database_url = url,
      external_grpc_addr = ''0.0.0.0:8443'', internal_grpc_addr = ''0.0.0.0:8444'', http_addr = ''0.0.0.0:9090'',
      db_pool_min = 10, db_pool_max = 25, db_idle_timeout_secs = 300, db_statement_timeout_ms = 5000,
      db_slow_query_ms = 500, db_acquire_timeout_secs = 3, db_max_lifetime_secs = 1800, log_format = Json,
      otel_export_grafana = True, otel_export_langfuse = False, otel_export_local = False,
      otel_grafana_endpoint = ''http://localhost:4317'',
      otel_langfuse_endpoint = ''https://cloud.langfuse.com/api/public/otel'',
      langfuse_public_key = None, langfuse_secret_key = None\<rparr>"

definition otel_export_local_defaults_true_when_env_is_dev_and_var_not_set :: "unit exec" where
  "otel_export_local_defaults_true_when_env_is_dev_and_var_not_set =
     assert_true (otel_export_local (apply_otel_local_default (parsed Dev Stub ''postgres://localhost/test'') False))"

definition otel_export_local_not_overridden_when_explicitly_set :: "unit exec" where
  "otel_export_local_not_overridden_when_explicitly_set =
     assert_true (\<not> otel_export_local (apply_otel_local_default (parsed Dev Stub ''postgres://localhost/test'') True))"

definition otel_type_both_sets_grafana_and_langfuse :: "unit exec" where
  "otel_type_both_sets_grafana_and_langfuse =
     (let cfg = apply_otel_type_legacy (parsed Dev Stub ''postgres://localhost/test'') (Some ''both'')
      in assert_true (otel_export_grafana cfg \<and> otel_export_langfuse cfg))"

definition otel_type_collector_sets_grafana_only :: "unit exec" where
  "otel_type_collector_sets_grafana_only =
     (let cfg = apply_otel_type_legacy (parsed Dev Stub ''postgres://localhost/test'') (Some ''collector'')
      in assert_true (otel_export_grafana cfg \<and> \<not> otel_export_langfuse cfg))"

lemma config_tests_pass:
  "passes otel_export_local_defaults_true_when_env_is_dev_and_var_not_set"
  "passes otel_export_local_not_overridden_when_explicitly_set"
  "passes otel_type_both_sets_grafana_and_langfuse"
  "passes otel_type_collector_sets_grafana_only"
  by (simp_all add: otel_export_local_defaults_true_when_env_is_dev_and_var_not_set_def
      otel_export_local_not_overridden_when_explicitly_set_def otel_type_both_sets_grafana_and_langfuse_def
      otel_type_collector_sets_grafana_only_def apply_otel_local_default_def apply_otel_type_legacy_def parsed_def test_defs)

text \<open>The declared defaults are valid for every environment and adapter but production on the stub.\<close>

lemma defaults_valid: "validate (parsed e adapter url) = Inr () \<longleftrightarrow> \<not> (e = Production \<and> adapter = Stub)"
  by (simp add: validate_def parsed_def)

section \<open>Idempotency\<close>

definition idem_sample_fields :: StartEngagementFields where
  "idem_sample_fields =
     \<lparr>f_org_id = ''00000000-0000-0000-0000-000000000001'', f_channel = ''1'', f_mode = ''1'',
      f_journey_version = ''v1.0.0'', f_contact_kind = ''2'', f_contact_id = None,
      f_contact_phone = Some ''+60126013446'', f_batch_id = None, f_voice_profile_id = None, f_test_mode = False,
      f_language = Some ''en-MY''\<rparr>"

text \<open>\<^verbatim>\<open>serde_json::to_string\<close> of a map of strings and booleans.\<close>

fun json_value :: "(string \<Rightarrow> string) \<Rightarrow> Value \<Rightarrow> string" where
  "json_value es (String s) = es s"
| "json_value es (Bool b) = (if b then ''true'' else ''false'')"

definition map_text :: "(string \<Rightarrow> string) \<Rightarrow> (string \<times> Value) list \<Rightarrow> string" where
  "map_text es m = ''{'' @ join '','' (map (\<lambda>(k, v). es k @ '':'' @ json_value es v) m) @ ''}''"

fun contains :: "string \<Rightarrow> string \<Rightarrow> bool" where
  "contains [] p = (p = [])"
| "contains (c # cs) p = (take (length p) (c # cs) = p \<or> contains cs p)"

definition canonical_json_keys_are_sorted ::
  "(string \<Rightarrow> string) \<Rightarrow> (string \<Rightarrow> (string \<times> Value) list option) \<Rightarrow> unit exec" where
  "canonical_json_keys_are_sorted es from_str =
     (case from_str (canonical_json_start_engagement (map_text es) idem_sample_fields) of
        None \<Rightarrow> Unwind
      | Some obj \<Rightarrow> let keys = map fst obj in assert_true (keys = sort keys))"

definition canonical_json_omits_absent_optional_fields :: "(string \<Rightarrow> string) \<Rightarrow> unit exec" where
  "canonical_json_omits_absent_optional_fields es =
     (let json = canonical_json_start_engagement (map_text es) idem_sample_fields
      in assert_true (\<not> contains json ''batch_id'' \<and> \<not> contains json ''voice_profile_id''))"

definition canonical_json_includes_present_optional_fields :: "(string \<Rightarrow> string) \<Rightarrow> unit exec" where
  "canonical_json_includes_present_optional_fields es =
     (let json = canonical_json_start_engagement (map_text es) idem_sample_fields
      in assert_true (contains json ''contact_phone'' \<and> contains json ''en-MY''))"

definition canonical_json_no_insignificant_whitespace :: "(string \<Rightarrow> string) \<Rightarrow> unit exec" where
  "canonical_json_no_insignificant_whitespace es =
     (let json = canonical_json_start_engagement (map_text es) idem_sample_fields
      in assert_true (\<not> contains json '': '' \<and> \<not> contains json '', ''))"

definition hash_is_deterministic :: "(string \<Rightarrow> u8 list) \<Rightarrow> (string \<Rightarrow> string) \<Rightarrow> unit exec" where
  "hash_is_deterministic sha es =
     (let f1 = idem_sample_fields; f2 = idem_sample_fields
      in assert_true (canonical_hash_start_engagement sha (map_text es) f1 = canonical_hash_start_engagement sha (map_text es) f2))"

definition hash_changes_when_field_changes :: "(string \<Rightarrow> u8 list) \<Rightarrow> (string \<Rightarrow> string) \<Rightarrow> unit exec" where
  "hash_changes_when_field_changes sha es =
     (let f1 = idem_sample_fields; f2 = idem_sample_fields\<lparr>f_channel := ''2''\<rparr>
      in assert_true (canonical_hash_start_engagement sha (map_text es) f1 \<noteq> canonical_hash_start_engagement sha (map_text es) f2))"

definition hash_changes_when_optional_field_added ::
  "(string \<Rightarrow> u8 list) \<Rightarrow> (string \<Rightarrow> string) \<Rightarrow> (uuid \<Rightarrow> string) \<Rightarrow> uuid \<Rightarrow> unit exec" where
  "hash_changes_when_optional_field_added sha es str u =
     (let f1 = idem_sample_fields; f2 = idem_sample_fields\<lparr>f_batch_id := Some (str u)\<rparr>
      in assert_true (canonical_hash_start_engagement sha (map_text es) f1 \<noteq> canonical_hash_start_engagement sha (map_text es) f2))"

definition hash_excludes_metadata_and_display_name :: "(string \<Rightarrow> string) \<Rightarrow> unit exec" where
  "hash_excludes_metadata_and_display_name es =
     (let json = canonical_json_start_engagement (map_text es) idem_sample_fields
      in assert_true (\<not> contains json ''metadata'' \<and> \<not> contains json ''display_name''))"

definition payload_hash_roundtrip_via_vec :: "(string \<Rightarrow> u8 list) \<Rightarrow> (string \<Rightarrow> string) \<Rightarrow> unit exec" where
  "payload_hash_roundtrip_via_vec sha es =
     (let hash = canonical_hash_start_engagement sha (map_text es) idem_sample_fields
      in case from_vec (as_bytes hash) of None \<Rightarrow> Unwind | Some recovered \<Rightarrow> assert_true (hash = recovered))"

definition payload_hash_from_vec_rejects_wrong_length :: "unit exec" where
  "payload_hash_from_vec_rejects_wrong_length = assert_true (from_vec (replicate 16 0) = None)"

definition is_ascii_hexdigit :: "char \<Rightarrow> bool" where
  "is_ascii_hexdigit c = (c \<in> set ''0123456789abcdefABCDEF'')"

definition payload_hash_hex_is_64_chars :: "(string \<Rightarrow> u8 list) \<Rightarrow> (string \<Rightarrow> string) \<Rightarrow> unit exec" where
  "payload_hash_hex_is_64_chars sha es =
     (let hex = to_hex (canonical_hash_start_engagement sha (map_text es) idem_sample_fields)
      in assert_true (length hex = 64 \<and> list_all is_ascii_hexdigit hex))"

definition idempotency_result_variants_are_distinguishable :: "uuid \<Rightarrow> unit exec" where
  "idempotency_result_variants_are_distinguishable eid =
     (let r1 = New; r2 = Replay eid False; r3 = Conflict in assert_true (r1 \<noteq> r2 \<and> r1 \<noteq> r3 \<and> r2 \<noteq> r3))"

subsection \<open>The canonical text of the sample\<close>

lemma sample_map:
  "canonical_map idem_sample_fields =
     [(''channel'', String ''1''), (''contact_kind'', String ''2''), (''contact_phone'', String ''+60126013446''),
      (''journey_version'', String ''v1.0.0''), (''language'', String ''en-MY''), (''mode'', String ''1''),
      (''org_id'', String ''00000000-0000-0000-0000-000000000001''), (''test_mode'', Bool False)]"
  by code_simp

text \<open>A string without quotes, backslashes and control characters is only quoted.\<close>

definition plain :: "string \<Rightarrow> bool" where
  "plain s = list_all (\<lambda>c. c \<noteq> CHR 34 \<and> c \<noteq> CHR 92 \<and> 32 \<le> (of_char c :: nat)) s"

definition escapes :: "(string \<Rightarrow> string) \<Rightarrow> bool" where
  "escapes es \<longleftrightarrow> (\<forall>s. plain s \<longrightarrow> es s = quoted s)"

lemma sample_text:
  assumes "escapes es"
  shows "map_text es (canonical_map idem_sample_fields) = map_text quoted (canonical_map idem_sample_fields)"
proof -
  have "list_all (\<lambda>(k, v). plain k \<and> (case v of String s \<Rightarrow> plain s | Bool b \<Rightarrow> True)) (canonical_map idem_sample_fields)"
    by code_simp
  then show ?thesis using assms unfolding sample_map by (simp add: map_text_def escapes_def)
qed

lemma sample_text_contains:
  "\<not> contains (map_text quoted (canonical_map idem_sample_fields)) ''batch_id''"
  "\<not> contains (map_text quoted (canonical_map idem_sample_fields)) ''voice_profile_id''"
  "contains (map_text quoted (canonical_map idem_sample_fields)) ''contact_phone''"
  "contains (map_text quoted (canonical_map idem_sample_fields)) ''en-MY''"
  "\<not> contains (map_text quoted (canonical_map idem_sample_fields)) '': ''"
  "\<not> contains (map_text quoted (canonical_map idem_sample_fields)) '', ''"
  "\<not> contains (map_text quoted (canonical_map idem_sample_fields)) ''metadata''"
  "\<not> contains (map_text quoted (canonical_map idem_sample_fields)) ''display_name''"
  by code_simp+

lemma digit_hex: "d < 16 \<Longrightarrow> is_ascii_hexdigit (digit_char d)"
proof -
  have "list_all (\<lambda>d. is_ascii_hexdigit (digit_char d)) [0..<16]" by code_simp
  then show "d < 16 \<Longrightarrow> is_ascii_hexdigit (digit_char d)" by (simp add: list_all_iff)
qed

lemma hex_digits: "list_all is_ascii_hexdigit (to_hex h)"
proof -
  have "list_all is_ascii_hexdigit (hex02 (unat b))" for b :: u8
    using unsigned_less [of b, where ?'a = nat] by (simp add: hex02_def digit_hex less_mult_imp_div_less)
  then show ?thesis by (auto simp: to_hex_def list_all_iff)
qed

lemma hex_length: "length (to_hex h) = 2 * length (as_bytes h)"
proof -
  have "sum_list (map (length \<circ> (\<lambda>b. hex02 (unat b))) bs) = 2 * length bs" for bs :: "u8 list"
    by (induction bs) (simp_all add: hex02_def)
  then show ?thesis by (simp add: to_hex_def length_concat)
qed

text \<open>The digest must tell apart the texts the two tests hash, and the texts the requests: here by reading
  them back.\<close>

lemma idempotency_tests_pass:
  assumes "escapes es" "\<forall>f. from_str (map_text es (canonical_map f)) = Some (canonical_map f)" "\<forall>t. length (sha t) = 32"
    and "inj_on sha ((\<lambda>f. map_text es (canonical_map f)) `
      {idem_sample_fields, idem_sample_fields\<lparr>f_channel := ''2''\<rparr>, idem_sample_fields\<lparr>f_batch_id := Some (str u)\<rparr>})"
  shows "passes (canonical_json_keys_are_sorted es from_str)"
    "passes (canonical_json_omits_absent_optional_fields es)"
    "passes (canonical_json_includes_present_optional_fields es)"
    "passes (canonical_json_no_insignificant_whitespace es)"
    "passes (hash_is_deterministic sha es)"
    "passes (hash_changes_when_field_changes sha es)"
    "passes (hash_changes_when_optional_field_added sha es str u)"
    "passes (hash_excludes_metadata_and_display_name es)"
    "passes (payload_hash_roundtrip_via_vec sha es)"
    "passes payload_hash_from_vec_rejects_wrong_length"
    "passes (payload_hash_hex_is_64_chars sha es)"
    "passes (idempotency_result_variants_are_distinguishable eid)"
proof -
  note json = canonical_json_start_engagement_def sample_text [OF assms(1)] sample_text_contains test_defs Let_def
  have keys: "sort (map fst (canonical_map idem_sample_fields)) = map fst (canonical_map idem_sample_fields)"
    unfolding sample_map by code_simp
  show "passes (canonical_json_keys_are_sorted es from_str)"
    using keys assms(2) by (simp add: canonical_json_keys_are_sorted_def canonical_json_start_engagement_def test_defs Let_def)
  show "passes (canonical_json_omits_absent_optional_fields es)"
    by (simp add: canonical_json_omits_absent_optional_fields_def json)
  show "passes (canonical_json_includes_present_optional_fields es)"
    by (simp add: canonical_json_includes_present_optional_fields_def json)
  show "passes (canonical_json_no_insignificant_whitespace es)"
    by (simp add: canonical_json_no_insignificant_whitespace_def json)
  show "passes (hash_excludes_metadata_and_display_name es)"
    by (simp add: hash_excludes_metadata_and_display_name_def json)
  have inj: "map_text es (canonical_map f) = map_text es (canonical_map g) \<longleftrightarrow> f = g" for f g
    using assms(2) by (metis canonical_map_eq_iff option.inject)
  have hash: "canonical_hash_start_engagement sha (map_text es) f = canonical_hash_start_engagement sha (map_text es) g \<longleftrightarrow> f = g"
    if "f \<in> {idem_sample_fields, idem_sample_fields\<lparr>f_channel := ''2''\<rparr>, idem_sample_fields\<lparr>f_batch_id := Some (str u)\<rparr>}"
      "g \<in> {idem_sample_fields, idem_sample_fields\<lparr>f_channel := ''2''\<rparr>, idem_sample_fields\<lparr>f_batch_id := Some (str u)\<rparr>}" for f g
    using inj_on_eq_iff [OF assms(4), of "map_text es (canonical_map f)" "map_text es (canonical_map g)"] that inj
    by (auto simp: canonical_hash_start_engagement_def canonical_json_start_engagement_def)
  show "passes (hash_is_deterministic sha es)" by (simp add: hash_is_deterministic_def test_defs)
  show "passes (hash_changes_when_field_changes sha es)"
    by (simp add: hash_changes_when_field_changes_def hash test_defs) (simp add: idem_sample_fields_def)
  show "passes (hash_changes_when_optional_field_added sha es str u)"
    by (simp add: hash_changes_when_optional_field_added_def hash test_defs) (simp add: idem_sample_fields_def)
  show "passes (payload_hash_roundtrip_via_vec sha es)" "passes (payload_hash_hex_is_64_chars sha es)"
    using assms(3) by (simp_all add: payload_hash_roundtrip_via_vec_def payload_hash_hex_is_64_chars_def from_vec_def
        canonical_hash_start_engagement_def hex_digits hex_length test_defs)
  show "passes payload_hash_from_vec_rejects_wrong_length" "passes (idempotency_result_variants_are_distinguishable eid)"
    by (simp_all add: payload_hash_from_vec_rejects_wrong_length_def from_vec_def
        idempotency_result_variants_are_distinguishable_def test_defs)
qed

section \<open>Notifications\<close>

text \<open>\<^verbatim>\<open>serde_json::from_str::<NotifyPayload>\<close>: the text as an object, then the derived decoder.\<close>

definition payload_from_str :: "(string \<Rightarrow> json_object option) \<Rightarrow> string \<Rightarrow> (unit, NotifyPayload) result" where
  "payload_from_str from_text s = (case Option.bind (from_text s) decode_payload of None \<Rightarrow> Inl () | Some p \<Rightarrow> Inr p)"

definition W3C_TRACEPARENT :: string where
  "W3C_TRACEPARENT = ''00-4bf92f3577b34da6a3ce929d0e0e4736-00f067aa0ba902b7-01''"

definition payload_of :: "uuid \<Rightarrow> uuid \<Rightarrow> uuid option \<Rightarrow> i64 \<Rightarrow> i64 \<Rightarrow> i16 \<Rightarrow> string option \<Rightarrow> NotifyPayload" where
  "payload_of e org b sq pk ty tp =
     \<lparr>np_engagement_id = e, np_organization_id = org, np_batch_id = b, np_sequence = sq, np_event_pk = pk,
      np_event_type = ty, np_traceparent = tp\<rparr>"

definition payload_round_trips_with_all_fields ::
  "texts \<Rightarrow> (string \<Rightarrow> json_object option) \<Rightarrow> uuid \<Rightarrow> uuid \<Rightarrow> uuid \<Rightarrow> unit exec" where
  "payload_round_trips_with_all_fields tx from_text u1 u2 u3 =
     (let original = payload_of u1 u2 (Some u3) 42 1001 3 (Some W3C_TRACEPARENT)
      in exec_bind (expect_ok (payload_from_str from_text (serde_text tx original))) (\<lambda>decoded.
           assert_true (original = decoded)))"

definition payload_round_trips_with_null_fields ::
  "texts \<Rightarrow> (string \<Rightarrow> json_object option) \<Rightarrow> uuid \<Rightarrow> uuid \<Rightarrow> unit exec" where
  "payload_round_trips_with_null_fields tx from_text u1 u2 =
     (let original = payload_of u1 u2 None 1 7 1 None
      in exec_bind (expect_ok (payload_from_str from_text (serde_text tx original))) (\<lambda>decoded.
           assert_true (original = decoded)))"

definition payload_json_size_under_200_bytes_typical_case :: "texts \<Rightarrow> unit exec" where
  "payload_json_size_under_200_bytes_typical_case tx =
     assert_true (length (serde_text tx (payload_of 0x550e8400e29b41d4a716446655440000
       0x550e8400e29b41d4a716446655440001 None 42 1001 1 None)) < 200)"

definition payload_json_size_worst_case_documented :: "texts \<Rightarrow> unit exec" where
  "payload_json_size_worst_case_documented tx =
     assert_true (length (serde_text tx (payload_of 0x550e8400e29b41d4a716446655440000
       0x550e8400e29b41d4a716446655440001 (Some 0x550e8400e29b41d4a716446655440002) 9999999999 9999999999 32767
       (Some W3C_TRACEPARENT))) < 400)"

definition payload_malformed_json_does_not_panic :: "(string \<Rightarrow> json_object option) \<Rightarrow> unit exec" where
  "payload_malformed_json_does_not_panic from_text =
     assert_true (\<not> is_ok (payload_from_str from_text ''{not valid json}''))"

definition missing_field_object :: json_object where
  "missing_field_object =
     [(''organization_id'', V_Uuid 0x550e8400e29b41d4a716446655440001), (''sequence'', V_Int 1), (''event_pk'', V_Int 1),
      (''event_type'', V_Int 1)]"

definition payload_missing_required_field_is_error :: "texts \<Rightarrow> (string \<Rightarrow> json_object option) \<Rightarrow> unit exec" where
  "payload_missing_required_field_is_error tx from_text =
     assert_true (\<not> is_ok (payload_from_str from_text (object_text '':'' '','' tx missing_field_object)))"

definition sequence_order_is_independent_of_occurred_at :: "uuid \<Rightarrow> uuid \<Rightarrow> uuid \<Rightarrow> uuid \<Rightarrow> unit exec" where
  "sequence_order_is_independent_of_occurred_at u1 u2 u3 u4 =
     (let payloads = sort_key np_sequence [payload_of u1 u2 None 2 200 2 None, payload_of u3 u4 None 1 100 1 None]
      in assert_true (np_sequence (payloads ! 0) = 1 \<and> np_sequence (payloads ! 1) = 2))"

text \<open>The first message a receiver may still read.\<close>

definition try_recv :: "nat \<Rightarrow> chan_world \<Rightarrow> (unit, NotifyPayload) result" where
  "try_recv rx w = (case accepted w rx of [] \<Rightarrow> Inl () | p # ps \<Rightarrow> Inr p)"

definition drop_receiver :: "nat \<Rightarrow> chan_world \<Rightarrow> chan_world" where
  "drop_receiver rx w = w\<lparr>alive := (alive w)(rx := False)\<rparr>"

definition fanout_delivers_to_engagement_subscriber :: "uuid \<Rightarrow> uuid \<Rightarrow> chan_world \<Rightarrow> unit exec" where
  "fanout_delivers_to_engagement_subscriber e org w =
     (case subscribe_engagement log_channels e registry_default w of (rx, reg, w1) \<Rightarrow>
        let payload = payload_of e org None 1 1 1 None in
        case fanout log_channels payload reg w1 of (reg', w2) \<Rightarrow>
          exec_bind (expect_ok (try_recv rx w2)) (\<lambda>received. assert_true (received = payload)))"

definition fanout_delivers_to_batch_subscriber :: "uuid \<Rightarrow> uuid \<Rightarrow> uuid \<Rightarrow> chan_world \<Rightarrow> unit exec" where
  "fanout_delivers_to_batch_subscriber b e org w =
     (case subscribe_batch log_channels b registry_default w of (rx, reg, w1) \<Rightarrow>
        let payload = payload_of e org (Some b) 1 1 1 None in
        case fanout log_channels payload reg w1 of (reg', w2) \<Rightarrow>
          exec_bind (expect_ok (try_recv rx w2)) (\<lambda>received. assert_true (received = payload)))"

definition fanout_does_not_deliver_to_wrong_engagement :: "uuid \<Rightarrow> uuid \<Rightarrow> uuid \<Rightarrow> chan_world \<Rightarrow> unit exec" where
  "fanout_does_not_deliver_to_wrong_engagement e e' org w =
     (case subscribe_engagement log_channels e' registry_default w of (rx, reg, w1) \<Rightarrow>
        case fanout log_channels (payload_of e org None 1 1 1 None) reg w1 of (reg', w2) \<Rightarrow>
          assert_true (\<not> is_ok (try_recv rx w2)))"

definition fanout_prunes_dead_senders :: "uuid \<Rightarrow> uuid \<Rightarrow> chan_world \<Rightarrow> unit exec" where
  "fanout_prunes_dead_senders e org w =
     (case subscribe_engagement log_channels e registry_default w of (rx, reg, w1) \<Rightarrow>
        case fanout log_channels (payload_of e org None 1 1 1 None) reg (drop_receiver rx w1) of (reg', w2) \<Rightarrow>
          assert_true (map_of (by_engagement reg') e = None))"

definition multiple_subscribers_all_receive :: "uuid \<Rightarrow> uuid \<Rightarrow> chan_world \<Rightarrow> unit exec" where
  "multiple_subscribers_all_receive e org w =
     (case subscribe_engagement log_channels e registry_default w of (rx1, reg1, w1) \<Rightarrow>
      case subscribe_engagement log_channels e reg1 w1 of (rx2, reg2, w2) \<Rightarrow>
        let payload = payload_of e org None 1 1 1 None in
        case fanout log_channels payload reg2 w2 of (reg', w3) \<Rightarrow>
          exec_bind (expect_ok (try_recv rx1 w3)) (\<lambda>p1. exec_bind (assert_true (p1 = payload)) (\<lambda>_.
          exec_bind (expect_ok (try_recv rx2 w3)) (\<lambda>p2. assert_true (p2 = payload)))))"

definition text_laws :: "texts \<Rightarrow> (string \<Rightarrow> json_object option) \<Rightarrow> bool" where
  "text_laws tx from_text \<longleftrightarrow>
     (\<forall>u. length (id_text tx u) = 36) \<and> escapes (esc tx) \<and>
     (\<forall>p. from_text (serde_text tx p) = Some (payload_object p)) \<and>
     from_text (object_text '':'' '','' tx missing_field_object) = Some missing_field_object \<and>
     from_text ''{not valid json}'' = None"

lemma show_int_values:
  "length (show_int 1) = 1" "length (show_int 42) = 2" "length (show_int 1001) = 4" "length (show_int 9999999999) = 10"
  "length (show_int 32767) = 5"
  by (simp_all add: show_int_def show_nat.simps)

lemma traceparent_plain: "plain W3C_TRACEPARENT" "length W3C_TRACEPARENT = 55"
  by code_simp+

lemma payload_tests_pass:
  assumes "text_laws tx from_text"
  shows "passes (payload_round_trips_with_all_fields tx from_text u1 u2 u3)"
    "passes (payload_round_trips_with_null_fields tx from_text u1 u2)"
    "passes (payload_json_size_under_200_bytes_typical_case tx)"
    "passes (payload_json_size_worst_case_documented tx)"
    "passes (payload_malformed_json_does_not_panic from_text)"
    "passes (payload_missing_required_field_is_error tx from_text)"
    "passes (sequence_order_is_independent_of_occurred_at u1 u2 u3 u4)"
proof -
  have len: "\<forall>u. length (id_text tx u) = 36" and esc: "esc tx W3C_TRACEPARENT = quoted W3C_TRACEPARENT"
    and rt: "\<And>p. from_text (serde_text tx p) = Some (payload_object p)"
    and rest: "from_text (object_text '':'' '','' tx missing_field_object) = Some missing_field_object"
    "from_text ''{not valid json}'' = None"
    using assms traceparent_plain by (simp_all add: text_laws_def escapes_def)
  note defs = payload_from_str_def rt decode_payload_object in_range_def payload_of_def test_defs Let_def
  show "passes (payload_round_trips_with_all_fields tx from_text u1 u2 u3)"
    by (simp add: payload_round_trips_with_all_fields_def defs)
  show "passes (payload_round_trips_with_null_fields tx from_text u1 u2)"
    by (simp add: payload_round_trips_with_null_fields_def defs)
  show "passes (payload_json_size_under_200_bytes_typical_case tx)"
    by (simp add: payload_json_size_under_200_bytes_typical_case_def serde_text_def object_text_length [OF len]
        payload_of_def show_int_values test_defs)
  show "passes (payload_json_size_worst_case_documented tx)"
    by (simp add: payload_json_size_worst_case_documented_def serde_text_def object_text_length [OF len]
        payload_of_def show_int_values esc quoted_def traceparent_plain test_defs)
  show "passes (payload_malformed_json_does_not_panic from_text)"
    by (simp add: payload_malformed_json_does_not_panic_def payload_from_str_def rest test_defs)
  have "decode_payload missing_field_object = None"
    by (simp add: missing_field_object_def decode_payload_def)
  then show "passes (payload_missing_required_field_is_error tx from_text)"
    by (simp add: payload_missing_required_field_is_error_def payload_from_str_def rest test_defs)
  show "passes (sequence_order_is_independent_of_occurred_at u1 u2 u3 u4)"
    by (simp add: sequence_order_is_independent_of_occurred_at_def payload_of_def test_defs)
qed

lemmas fanout_run_defs = subscribe_engagement_def subscribe_batch_def fanout_def fanout_entry_def entry_push_def
  registry_default_def log_channels_def try_recv_def drop_receiver_def payload_of_def test_defs Let_def

lemma fanout_tests_pass:
  shows "passes (fanout_delivers_to_engagement_subscriber e org w)"
    "passes (fanout_delivers_to_batch_subscriber b e org w)"
    "e \<noteq> e' \<Longrightarrow> passes (fanout_does_not_deliver_to_wrong_engagement e e' org w)"
    "passes (fanout_prunes_dead_senders e org w)"
    "passes (multiple_subscribers_all_receive e org w)"
  by (simp_all add: fanout_delivers_to_engagement_subscriber_def fanout_delivers_to_batch_subscriber_def
      fanout_does_not_deliver_to_wrong_engagement_def fanout_prunes_dead_senders_def multiple_subscribers_all_receive_def
      fanout_run_defs)

end
