(* ===== verification/Otlp_Text.thy ===== *)
theory Otlp_Text
  imports Local_Exporter "HOL-Library.Monad_Syntax"
begin

text \<open>
  The text of a trace line. The structs of \<^verbatim>\<open>telemetry/otlp_json.rs\<close> derive
  \<^verbatim>\<open>Serialize\<close> with \<^verbatim>\<open>rename_all = "camelCase"\<close>: \<open>traces_value\<close> is the tree
  they describe, \<open>value_json\<close> its text as \<^verbatim>\<open>serde_json::to_string\<close> lays it out, without
  blanks. How a string is quoted and how a double is printed are the library's (\<open>json_texts\<close>), with
  what is used of them in \<open>json_laws\<close>. A reader of the file goes the other way: it splits the text
  into lines, parses each and looks the fields up by name. The theorem at the end joins the two through the
  exporter.
\<close>

section \<open>Values and their text\<close>

text \<open>\<open>J_Atom\<close> is a number, a boolean or \<^verbatim>\<open>null\<close>, by its text.\<close>

datatype json_value =
    J_Atom string
  | J_Str string
  | J_Arr "json_value list"
  | J_Obj "(string \<times> json_value) list"

record json_texts =
  str_json :: "string \<Rightarrow> string"
  str_read :: "string \<Rightarrow> (string \<times> string) option"
  f64_json :: "f64 \<Rightarrow> string"
  f64_read :: "string \<Rightarrow> f64 option"

primrec value_json :: "json_texts \<Rightarrow> json_value \<Rightarrow> string" where
  "value_json tx (J_Atom a) = a"
| "value_json tx (J_Str s) = str_json tx s"
| "value_json tx (J_Arr vs) = ''['' @ join '','' (map (value_json tx) vs) @ '']''"
| "value_json tx (J_Obj kvs) =
     ''{'' @ join '','' (map (\<lambda>(k, s). str_json tx k @ '':'' @ s) (map (map_prod id (value_json tx)) kvs)) @ ''}''"

section \<open>The derived serialisation\<close>

fun kv_value_value :: "json_texts \<Rightarrow> KvValue \<Rightarrow> json_value" where
  "kv_value_value tx (StringValue s) = J_Obj [(''stringValue'', J_Str s)]"
| "kv_value_value tx (BoolValue b) = J_Obj [(''boolValue'', J_Atom (if b then ''true'' else ''false''))]"
| "kv_value_value tx (IntValue i) = J_Obj [(''intValue'', J_Str i)]"
| "kv_value_value tx (DoubleValue d) = J_Obj [(''doubleValue'', J_Atom (f64_json tx d))]"

definition kv_attribute_value :: "json_texts \<Rightarrow> KvAttribute \<Rightarrow> json_value" where
  "kv_attribute_value tx kv = J_Obj [(''key'', J_Str (kv_key kv)), (''value'', kv_value_value tx (kv_value kv))]"

definition otlp_status_value :: "OtlpStatus \<Rightarrow> json_value" where
  "otlp_status_value st = J_Obj [(''code'', J_Str (status_code st))]"

definition otlp_span_value :: "json_texts \<Rightarrow> OtlpSpan \<Rightarrow> json_value" where
  "otlp_span_value tx s =
     J_Obj
       [(''traceId'', J_Str (trace_id s)), (''spanId'', J_Str (span_id s)),
        (''parentSpanId'', J_Str (parent_span_id s)), (''name'', J_Str (otlp_name s)),
        (''kind'', J_Atom (show_int (kind s))),
        (''startTimeUnixNano'', J_Str (start_time_unix_nano s)),
        (''endTimeUnixNano'', J_Str (end_time_unix_nano s)),
        (''attributes'', J_Arr (map (kv_attribute_value tx) (attributes s))),
        (''status'', otlp_status_value (otlp_status s))]"

definition otlp_resource_value :: "json_texts \<Rightarrow> OtlpResource \<Rightarrow> json_value" where
  "otlp_resource_value tx r = J_Obj [(''attributes'', J_Arr (map (kv_attribute_value tx) (resource_attributes r)))]"

definition otlp_scope_value :: "OtlpScope \<Rightarrow> json_value" where
  "otlp_scope_value s = J_Obj [(''name'', J_Str (scope_name s))]"

definition scope_spans_value :: "json_texts \<Rightarrow> ScopeSpans \<Rightarrow> json_value" where
  "scope_spans_value tx ss =
     J_Obj [(''scope'', otlp_scope_value (scope ss)), (''spans'', J_Arr (map (otlp_span_value tx) (spans ss)))]"

definition resource_spans_value :: "json_texts \<Rightarrow> ResourceSpans \<Rightarrow> json_value" where
  "resource_spans_value tx rs =
     J_Obj [(''resource'', otlp_resource_value tx (resource rs)),
       (''scopeSpans'', J_Arr (map (scope_spans_value tx) (scope_spans rs)))]"

definition traces_value :: "json_texts \<Rightarrow> TracesData \<Rightarrow> json_value" where
  "traces_value tx t = J_Obj [(''resourceSpans'', J_Arr (map (resource_spans_value tx) (resource_spans t)))]"

definition traces_json :: "json_texts \<Rightarrow> TracesData \<Rightarrow> string" where
  "traces_json tx t = value_json tx (traces_value tx t)"

text \<open>The exporter's library with this serialisation, which has no way to fail.\<close>

definition serde_lib :: "json_texts \<Rightarrow> ('d, 'a) trace_lib \<Rightarrow> ('d, 'a) trace_lib" where
  "serde_lib tx lib = lib\<lparr>to_json := \<lambda>t. Some (traces_json tx t)\<rparr>"

section \<open>Reading a line\<close>

definition atom_char :: "char \<Rightarrow> bool" where
  "atom_char c \<longleftrightarrow> c \<in> set ''+-.0123456789abcdefghijklmnopqrstuvwxyzABCDEFGHIJKLMNOPQRSTUVWXYZ''"

text \<open>A parser of values, of the items of an array and of the members of an object, with fuel.\<close>

fun parse_value :: "json_texts \<Rightarrow> nat \<Rightarrow> string \<Rightarrow> (json_value \<times> string) option"
  and parse_items :: "json_texts \<Rightarrow> nat \<Rightarrow> string \<Rightarrow> (json_value list \<times> string) option"
  and parse_members :: "json_texts \<Rightarrow> nat \<Rightarrow> string \<Rightarrow> ((string \<times> json_value) list \<times> string) option" where
  "parse_value tx 0 s = None"
| "parse_value tx (Suc n) s =
     (if s = [] then None
      else if hd s = CHR 34 then map_option (\<lambda>(a, r). (J_Str a, r)) (str_read tx s)
      else if hd s = CHR ''['' then
        (if tl s \<noteq> [] \<and> hd (tl s) = CHR '']'' then Some (J_Arr [], tl (tl s))
         else map_option (\<lambda>(vs, r). (J_Arr vs, r)) (parse_items tx n (tl s)))
      else if hd s = CHR ''{'' then
        (if tl s \<noteq> [] \<and> hd (tl s) = CHR ''}'' then Some (J_Obj [], tl (tl s))
         else map_option (\<lambda>(kvs, r). (J_Obj kvs, r)) (parse_members tx n (tl s)))
      else if atom_char (hd s) then Some (J_Atom (takeWhile atom_char s), dropWhile atom_char s)
      else None)"
| "parse_items tx 0 s = None"
| "parse_items tx (Suc n) s =
     (case parse_value tx n s of
        None \<Rightarrow> None
      | Some (v, r) \<Rightarrow>
          if r = [] then None
          else if hd r = CHR '']'' then Some ([v], tl r)
          else if hd r = CHR '','' then map_option (\<lambda>(vs, q). (v # vs, q)) (parse_items tx n (tl r))
          else None)"
| "parse_members tx 0 s = None"
| "parse_members tx (Suc n) s =
     (case str_read tx s of
        None \<Rightarrow> None
      | Some (k, r) \<Rightarrow>
          if r = [] \<or> hd r \<noteq> CHR '':'' then None
          else case parse_value tx n (tl r) of
            None \<Rightarrow> None
          | Some (v, r) \<Rightarrow>
              if r = [] then None
              else if hd r = CHR ''}'' then Some ([(k, v)], tl r)
              else if hd r = CHR '','' then map_option (\<lambda>(kvs, q). ((k, v) # kvs, q)) (parse_members tx n (tl r))
              else None)"

fun as_str :: "json_value \<Rightarrow> string option" where
  "as_str (J_Str s) = Some s"
| "as_str _ = None"

fun as_atom :: "json_value \<Rightarrow> string option" where
  "as_atom (J_Atom a) = Some a"
| "as_atom _ = None"

fun as_arr :: "json_value \<Rightarrow> json_value list option" where
  "as_arr (J_Arr vs) = Some vs"
| "as_arr _ = None"

fun json_field :: "json_value \<Rightarrow> string \<Rightarrow> json_value option" where
  "json_field (J_Obj kvs) k = map_of kvs k"
| "json_field _ k = None"

fun all_some :: "('a \<Rightarrow> 'b option) \<Rightarrow> 'a list \<Rightarrow> 'b list option" where
  "all_some f [] = Some []"
| "all_some f (x # xs) = (case f x of None \<Rightarrow> None | Some y \<Rightarrow> map_option ((#) y) (all_some f xs))"

definition str_of :: "json_value \<Rightarrow> string \<Rightarrow> string option" where
  "str_of v k = Option.bind (json_field v k) as_str"

definition list_of :: "(json_value \<Rightarrow> 'b option) \<Rightarrow> json_value \<Rightarrow> string \<Rightarrow> 'b list option" where
  "list_of f v k = Option.bind (Option.bind (json_field v k) as_arr) (all_some f)"

definition read_int :: "string \<Rightarrow> int" where
  "read_int s = (if s \<noteq> [] \<and> hd s = CHR ''-'' then - int (parse_nat (tl s)) else int (parse_nat s))"

definition read_kv_value :: "json_texts \<Rightarrow> json_value \<Rightarrow> KvValue option" where
  "read_kv_value tx v =
     (case json_field v ''stringValue'' of
        Some s \<Rightarrow> map_option StringValue (as_str s)
      | None \<Rightarrow> (case json_field v ''boolValue'' of
          Some a \<Rightarrow> map_option (\<lambda>t. BoolValue (t = ''true'')) (as_atom a)
        | None \<Rightarrow> (case json_field v ''intValue'' of
            Some s \<Rightarrow> map_option IntValue (as_str s)
          | None \<Rightarrow> map_option DoubleValue
              (Option.bind (Option.bind (json_field v ''doubleValue'') as_atom) (f64_read tx)))))"

definition read_kv_attribute :: "json_texts \<Rightarrow> json_value \<Rightarrow> KvAttribute option" where
  "read_kv_attribute tx v =
     do {k \<leftarrow> str_of v ''key''; x \<leftarrow> json_field v ''value''; y \<leftarrow> read_kv_value tx x;
         Some \<lparr>kv_key = k, kv_value = y\<rparr>}"

definition read_otlp_span :: "json_texts \<Rightarrow> json_value \<Rightarrow> OtlpSpan option" where
  "read_otlp_span tx v =
     do {t \<leftarrow> str_of v ''traceId''; i \<leftarrow> str_of v ''spanId''; p \<leftarrow> str_of v ''parentSpanId'';
         n \<leftarrow> str_of v ''name''; k \<leftarrow> Option.bind (json_field v ''kind'') as_atom;
         a \<leftarrow> str_of v ''startTimeUnixNano''; b \<leftarrow> str_of v ''endTimeUnixNano'';
         ats \<leftarrow> list_of (read_kv_attribute tx) v ''attributes'';
         st \<leftarrow> json_field v ''status''; c \<leftarrow> str_of st ''code'';
         Some \<lparr>trace_id = t, span_id = i, parent_span_id = p, otlp_name = n, kind = read_int k,
           start_time_unix_nano = a, end_time_unix_nano = b, attributes = ats, otlp_status = \<lparr>status_code = c\<rparr>\<rparr>}"

definition read_scope_spans :: "json_texts \<Rightarrow> json_value \<Rightarrow> ScopeSpans option" where
  "read_scope_spans tx v =
     do {sc \<leftarrow> json_field v ''scope''; n \<leftarrow> str_of sc ''name''; ss \<leftarrow> list_of (read_otlp_span tx) v ''spans'';
         Some \<lparr>scope = \<lparr>scope_name = n\<rparr>, spans = ss\<rparr>}"

definition read_resource_spans :: "json_texts \<Rightarrow> json_value \<Rightarrow> ResourceSpans option" where
  "read_resource_spans tx v =
     do {r \<leftarrow> json_field v ''resource''; ats \<leftarrow> list_of (read_kv_attribute tx) r ''attributes'';
         ss \<leftarrow> list_of (read_scope_spans tx) v ''scopeSpans'';
         Some \<lparr>resource = \<lparr>resource_attributes = ats\<rparr>, scope_spans = ss\<rparr>}"

definition read_traces_value :: "json_texts \<Rightarrow> json_value \<Rightarrow> TracesData option" where
  "read_traces_value tx v = map_option (\<lambda>rs. \<lparr>resource_spans = rs\<rparr>) (list_of (read_resource_spans tx) v ''resourceSpans'')"

definition read_line :: "json_texts \<Rightarrow> string \<Rightarrow> TracesData option" where
  "read_line tx s =
     (case parse_value tx (2 * length s + 1) s of
        Some (v, r) \<Rightarrow> if r = [] then read_traces_value tx v else None
      | None \<Rightarrow> None)"

section \<open>What the text of a value reads as\<close>

text \<open>Documented behaviour of the library: a string is written between double quotes on one line and reads
  back whatever follows; a finite double is written as a number that reads back.\<close>

definition json_laws :: "json_texts \<Rightarrow> bool" where
  "json_laws tx \<longleftrightarrow>
     (\<forall>s r. str_read tx (str_json tx s @ r) = Some (s, r)) \<and>
     (\<forall>s. str_json tx s \<noteq> [] \<and> hd (str_json tx s) = CHR 34 \<and> CHR 0x0A \<notin> set (str_json tx s))"

definition atom_text :: "string \<Rightarrow> bool" where
  "atom_text a \<longleftrightarrow> a \<noteq> [] \<and> list_all atom_char a"

definition number_law :: "json_texts \<Rightarrow> f64 \<Rightarrow> bool" where
  "number_law tx d \<longleftrightarrow> f64_read tx (f64_json tx d) = Some d \<and> atom_text (f64_json tx d)"

primrec value_ok :: "json_value \<Rightarrow> bool" where
  "value_ok (J_Atom a) = atom_text a"
| "value_ok (J_Str s) = True"
| "value_ok (J_Arr vs) = list_all id (map value_ok vs)"
| "value_ok (J_Obj kvs) = list_all snd (map (map_prod id value_ok) kvs)"

definition ends :: "string \<Rightarrow> bool" where
  "ends r \<longleftrightarrow> r = [] \<or> \<not> atom_char (hd r)"

lemma ends_simps [simp]: "ends (CHR '','' # r)" "ends (CHR '']'' # r)" "ends (CHR ''}'' # r)" "ends []"
  by (simp_all add: ends_def atom_char_def)

lemma atom_char_not:
  "atom_char c \<Longrightarrow> c \<noteq> CHR 34 \<and> c \<noteq> CHR ''['' \<and> c \<noteq> CHR '']'' \<and> c \<noteq> CHR ''{'' \<and> c \<noteq> CHR ''}'' \<and> c \<noteq> CHR 0x0A"
  by (auto simp: atom_char_def)

lemma value_json_hd:
  assumes "json_laws tx" "value_ok v"
  shows "value_json tx v \<noteq> [] \<and> hd (value_json tx v) \<noteq> CHR '']'' \<and> hd (value_json tx v) \<noteq> CHR ''}''"
  using assms
proof (cases v)
  case (J_Atom a)
  then show ?thesis using assms by (cases a) (auto simp: atom_text_def dest: atom_char_not)
qed (simp_all add: json_laws_def)

lemma parse_atom:
  assumes "atom_text a" "ends r" "0 < n"
  shows "parse_value tx n (a @ r) = Some (J_Atom a, r)"
proof -
  obtain c cs where a: "a = c # cs" "atom_char c" "list_all atom_char cs"
    using assms(1) by (cases a) (auto simp: atom_text_def)
  have "takeWhile atom_char (cs @ r) = cs" "dropWhile atom_char (cs @ r) = r"
    using a(3) assms(2) by (induction cs) (auto simp: ends_def takeWhile_eq_Nil_iff dropWhile_eq_self_iff)
  then show ?thesis using a assms(3) atom_char_not [OF a(2)] by (cases n) auto
qed

text \<open>The text of a value parses as the value, whatever text that ends a number follows.\<close>

definition parses :: "json_texts \<Rightarrow> json_value \<Rightarrow> bool" where
  "parses tx v \<longleftrightarrow> (\<forall>n r. ends r \<longrightarrow> 2 * length (value_json tx v) \<le> n \<longrightarrow>
     parse_value tx n (value_json tx v @ r) = Some (v, r))"

lemma parse_items_json:
  assumes "\<forall>v \<in> set vs. parses tx v" "vs \<noteq> []" "2 * length (join '','' (map (value_json tx) vs)) < n"
  shows "parse_items tx n (join '','' (map (value_json tx) vs) @ CHR '']'' # r) = Some (vs, r)"
  using assms
proof (induction vs arbitrary: n rule: induct_list012)
  case (2 v)
  then show ?case by (cases n) (auto simp: parses_def)
next
  case (3 v w vs)
  then obtain m where n: "n = Suc m" by (cases n) auto
  have "parse_items tx m (join '','' (map (value_json tx) (w # vs)) @ CHR '']'' # r) = Some (w # vs, r)"
    by (rule "3.IH"(2)) (use "3.prems" n in auto)
  then show ?case using "3.prems" n by (auto simp: parses_def)
qed simp

definition member_json :: "json_texts \<Rightarrow> string \<times> json_value \<Rightarrow> string" where
  "member_json tx kv = str_json tx (fst kv) @ '':'' @ value_json tx (snd kv)"

lemma parse_members_json:
  assumes "json_laws tx" "\<forall>kv \<in> set kvs. parses tx (snd kv)" "kvs \<noteq> []"
    and "2 * length (join '','' (map (member_json tx) kvs)) < n"
  shows "parse_members tx n (join '','' (map (member_json tx) kvs) @ CHR ''}'' # r) = Some (kvs, r)"
  using assms(2-)
proof (induction kvs arbitrary: n rule: induct_list012)
  case (2 kv)
  then show ?case using assms(1) by (cases n) (auto simp: json_laws_def parses_def member_json_def)
next
  case (3 kv lw kvs)
  then obtain m where n: "n = Suc m" by (cases n) auto
  have "parse_members tx m (join '','' (map (member_json tx) (lw # kvs)) @ CHR ''}'' # r) = Some (lw # kvs, r)"
    by (rule "3.IH"(2)) (use "3.prems" n in auto)
  moreover have "parse_value tx m (value_json tx (snd kv) @ CHR '','' # q) = Some (snd kv, CHR '','' # q)" for q
    using "3.prems" n by (simp add: parses_def member_json_def)
  moreover have "member_json tx kv @ q = str_json tx (fst kv) @ CHR '':'' # value_json tx (snd kv) @ q" for q
    by (simp add: member_json_def)
  ultimately show ?case using n assms(1) by (simp add: json_laws_def)
qed simp

lemma value_json_obj: "value_json tx (J_Obj kvs) = ''{'' @ join '','' (map (member_json tx) kvs) @ ''}''"
  by (simp add: member_json_def [abs_def] comp_def case_prod_beta)

lemma join_hd: "xs \<noteq> [] \<Longrightarrow> hd xs \<noteq> [] \<Longrightarrow> join sep xs \<noteq> [] \<and> hd (join sep xs) = hd (hd xs)"
  by (cases xs; cases "tl xs") auto

lemma value_json_parses:
  assumes "json_laws tx"
  shows "value_ok v \<Longrightarrow> parses tx v"
proof (induction v)
  case (J_Atom a)
  then have "0 < length a" by (simp add: atom_text_def)
  then have "0 < n" if "2 * length a \<le> n" for n using that by linarith
  with J_Atom show ?case by (simp add: parses_def parse_atom)
next
  case (J_Str s)
  have "0 < length (str_json tx s)" using assms by (simp add: json_laws_def)
  then have "\<exists>m. n = Suc m" if "2 * length (str_json tx s) \<le> n" for n using that by (cases n) auto
  then show ?case using assms by (fastforce simp: parses_def json_laws_def)
next
  case (J_Arr vs)
  show ?case unfolding parses_def
  proof (intro allI impI)
    fix n r
    assume n: "2 * length (value_json tx (J_Arr vs)) \<le> n"
    then obtain m where m: "n = Suc m" by (cases n) auto
    show "parse_value tx n (value_json tx (J_Arr vs) @ r) = Some (J_Arr vs, r)"
    proof (cases "vs = []")
      case False
      have ok: "\<forall>v \<in> set vs. value_ok v" using J_Arr.prems by (simp add: list_all_iff)
      then have h: "value_json tx (hd vs) \<noteq> [] \<and> hd (value_json tx (hd vs)) \<noteq> CHR '']''"
        using value_json_hd [OF assms] False by simp
      have "parse_items tx m (join '','' (map (value_json tx) vs) @ CHR '']'' # r) = Some (vs, r)"
        by (rule parse_items_json) (use ok J_Arr.IH False n m in auto)
      moreover have "join '','' (map (value_json tx) vs) \<noteq> [] \<and> hd (join '','' (map (value_json tx) vs)) \<noteq> CHR '']''"
        using join_hd [of "map (value_json tx) vs" "'',''"] h False by (simp add: hd_map)
      ultimately show ?thesis using m by (simp add: hd_append)
    qed (simp add: m)
  qed
next
  case (J_Obj kvs)
  show ?case unfolding parses_def value_json_obj
  proof (intro allI impI)
    fix n r
    assume n: "2 * length (''{'' @ join '','' (map (member_json tx) kvs) @ ''}'') \<le> n"
    then obtain m where m: "n = Suc m" by (cases n) auto
    show "parse_value tx n ((''{'' @ join '','' (map (member_json tx) kvs) @ ''}'') @ r) = Some (J_Obj kvs, r)"
    proof (cases "kvs = []")
      case False
      have ok: "\<forall>kv \<in> set kvs. value_ok (snd kv)" using J_Obj.prems by (simp add: list_all_iff)
      have "member_json tx (hd kvs) \<noteq> [] \<and> hd (member_json tx (hd kvs)) = CHR 34"
        using assms by (simp add: json_laws_def member_json_def)
      then have "join '','' (map (member_json tx) kvs) \<noteq> [] \<and> hd (join '','' (map (member_json tx) kvs)) = CHR 34"
        using join_hd [of "map (member_json tx) kvs" "'',''"] False by (simp add: hd_map)
      moreover have "\<forall>kv \<in> set kvs. parses tx (snd kv)" using J_Obj.IH ok by (force simp: prod_set_simps)
      then have "parse_members tx m (join '','' (map (member_json tx) kvs) @ CHR ''}'' # r) = Some (kvs, r)"
        by (rule parse_members_json [OF assms]) (use False n m in auto)
      ultimately show ?thesis using m by (simp add: hd_append)
    qed (simp add: m)
  qed
qed

section \<open>A line reads back as the envelope it was written from\<close>

fun kv_ok :: "json_texts \<Rightarrow> KvValue \<Rightarrow> bool" where
  "kv_ok tx (DoubleValue d) = number_law tx d"
| "kv_ok tx _ = True"

definition span_ok :: "json_texts \<Rightarrow> OtlpSpan \<Rightarrow> bool" where
  "span_ok tx s \<longleftrightarrow> list_all (\<lambda>kv. kv_ok tx (kv_value kv)) (attributes s)"

definition traces_ok :: "json_texts \<Rightarrow> TracesData \<Rightarrow> bool" where
  "traces_ok tx t \<longleftrightarrow>
     list_all (\<lambda>rs. list_all (\<lambda>kv. kv_ok tx (kv_value kv)) (resource_attributes (resource rs)) \<and>
       list_all (\<lambda>ss. list_all (span_ok tx) (spans ss)) (scope_spans rs)) (resource_spans t)"

lemma all_some_map: "\<forall>x \<in> set xs. f (g x) = Some x \<Longrightarrow> all_some f (map g xs) = Some xs"
  by (induction xs) simp_all

lemma digit_atom: "d < 10 \<Longrightarrow> atom_char (digit_char d) \<and> digit_char d \<noteq> CHR ''-''"
proof -
  have "list_all (\<lambda>d. atom_char (digit_char d) \<and> digit_char d \<noteq> CHR ''-'') [0..<10]" by code_simp
  then show "d < 10 \<Longrightarrow> atom_char (digit_char d) \<and> digit_char d \<noteq> CHR ''-''" by (simp add: list_all_iff)
qed

lemma show_nat_atom: "atom_text (show_nat n) \<and> hd (show_nat n) \<noteq> CHR ''-''"
proof (induction n rule: show_nat.induct)
  case (1 n)
  then show ?case
    using digit_atom [of "n mod 10"] digit_atom [of n]
    by (subst (1 2) show_nat.simps) (auto simp: atom_text_def hd_append)
qed

lemma show_int_atom: "atom_text (show_int i)"
  using show_nat_atom [of "nat i"] show_nat_atom [of "nat (- i)"]
  by (simp add: show_int_def atom_text_def atom_char_def)

lemma read_show_int [simp]: "read_int (show_int i) = i"
  using show_nat_atom [of "nat i"] by (simp add: read_int_def show_int_def)

lemma read_kv [simp]: "kv_ok tx v \<Longrightarrow> read_kv_value tx (kv_value_value tx v) = Some v"
  by (cases v) (auto simp: read_kv_value_def number_law_def)

lemma read_attribute [simp]: "kv_ok tx (kv_value kv) \<Longrightarrow> read_kv_attribute tx (kv_attribute_value tx kv) = Some kv"
  by (simp add: read_kv_attribute_def str_of_def kv_attribute_value_def)

lemma read_span_value [simp]: "span_ok tx s \<Longrightarrow> read_otlp_span tx (otlp_span_value tx s) = Some s"
  by (simp add: read_otlp_span_def str_of_def list_of_def otlp_span_value_def otlp_status_value_def span_ok_def
      list_all_iff all_some_map)

lemma read_scope_value [simp]:
  "list_all (span_ok tx) (spans ss) \<Longrightarrow> read_scope_spans tx (scope_spans_value tx ss) = Some ss"
  by (simp add: read_scope_spans_def scope_spans_value_def otlp_scope_value_def str_of_def list_of_def
      list_all_iff all_some_map)

lemma read_resource_value [simp]:
  assumes "list_all (\<lambda>kv. kv_ok tx (kv_value kv)) (resource_attributes (resource rs))"
    "list_all (\<lambda>ss. list_all (span_ok tx) (spans ss)) (scope_spans rs)"
  shows "read_resource_spans tx (resource_spans_value tx rs) = Some rs"
  using assms by (simp add: read_resource_spans_def resource_spans_value_def otlp_resource_value_def list_of_def
      list_all_iff [of _ "resource_attributes (resource rs)"] list_all_iff [of _ "scope_spans rs"] all_some_map)

lemma read_traces_json: "traces_ok tx t \<Longrightarrow> read_traces_value tx (traces_value tx t) = Some t"
  by (simp add: read_traces_value_def traces_value_def list_of_def traces_ok_def
      list_all_iff [of _ "resource_spans t"] all_some_map)

lemma kv_attribute_ok: "kv_ok tx (kv_value kv) \<Longrightarrow> value_ok (kv_attribute_value tx kv)"
  by (cases "kv_value kv") (simp_all add: kv_attribute_value_def number_law_def atom_text_def atom_char_def)

lemma span_value_ok: "span_ok tx s \<Longrightarrow> value_ok (otlp_span_value tx s)"
  by (simp add: otlp_span_value_def otlp_status_value_def span_ok_def list_all_iff kv_attribute_ok show_int_atom)

lemma traces_value_ok: "traces_ok tx t \<Longrightarrow> value_ok (traces_value tx t)"
  by (simp add: traces_value_def resource_spans_value_def otlp_resource_value_def scope_spans_value_def
      otlp_scope_value_def traces_ok_def list_all_iff kv_attribute_ok span_value_ok)

lemma read_line_json:
  assumes "json_laws tx" "traces_ok tx t"
  shows "read_line tx (traces_json tx t) = Some t"
proof -
  have "parses tx (traces_value tx t)" by (rule value_json_parses [OF assms(1) traces_value_ok [OF assms(2)]])
  then have "parse_value tx n (traces_json tx t @ r) = Some (traces_value tx t, r)"
    if "ends r" "2 * length (traces_json tx t) \<le> n" for n r
    using that unfolding parses_def traces_json_def by blast
  from this [of "[]" "2 * length (traces_json tx t) + 1"] show ?thesis
    by (simp add: read_line_def read_traces_json assms(2) del: parse_value.simps)
qed

section \<open>Lines of a file\<close>

text \<open>\<^verbatim>\<open>str::lines\<close>: the pieces between line feeds, each without a final carriage return; nothing
  after a last line feed.\<close>

definition strip_cr :: "string \<Rightarrow> string" where
  "strip_cr s = (if s \<noteq> [] \<and> last s = CHR 0x0D then butlast s else s)"

function str_lines :: "string \<Rightarrow> string list" where
  "str_lines s =
     (if s = [] then []
      else if CHR 0x0A \<in> set s then
        strip_cr (takeWhile (\<lambda>c. c \<noteq> CHR 0x0A) s) # str_lines (tl (dropWhile (\<lambda>c. c \<noteq> CHR 0x0A) s))
      else [s])"
  by pat_completeness auto
termination
proof (relation "measure length")
  fix s :: string
  assume "s \<noteq> []"
  then show "(tl (dropWhile (\<lambda>c. c \<noteq> CHR 0x0A) s), s) \<in> measure length"
    using length_dropWhile_le [of "\<lambda>c. c \<noteq> CHR 0x0A" s] length_greater_0_conv [of s]
    by (simp add: less_eq_Suc_le)
qed simp

declare str_lines.simps [simp del]

definition file_content :: "trace_files \<Rightarrow> string \<Rightarrow> string" where
  "file_content fs path = concat (map append_text (filter (\<lambda>a. append_path a = path) (appended fs)))"

lemma set_join: "set (join sep xs) \<subseteq> set sep \<union> (\<Union>x \<in> set xs. set x)"
  by (induction sep xs rule: join.induct) auto

lemma value_single_line:
  assumes "json_laws tx"
  shows "value_ok v \<Longrightarrow> CHR 0x0A \<notin> set (value_json tx v)"
proof (induction v)
  case (J_Atom a)
  then show ?case by (auto simp: atom_text_def list_all_iff dest: atom_char_not)
next
  case (J_Arr vs)
  then show ?case using set_join [of "'',''" "map (value_json tx) vs"] by (auto simp: list_all_iff)
next
  case (J_Obj kvs)
  then have "CHR 0x0A \<notin> set (member_json tx kv)" if "kv \<in> set kvs" for kv
    using assms that by (cases kv) (force simp: member_json_def json_laws_def list_all_iff)
  then show ?case unfolding value_json_obj using set_join [of "'',''" "map (member_json tx) kvs"] by auto
qed (use assms in \<open>simp add: json_laws_def\<close>)

lemma str_lines_cons:
  assumes "CHR 0x0A \<notin> set a" "a \<noteq> []" "last a \<noteq> CHR 0x0D"
  shows "str_lines (a @ CHR 0x0A # b) = a # str_lines b"
proof -
  have "takeWhile (\<lambda>c. c \<noteq> CHR 0x0A) (a @ CHR 0x0A # b) = a"
    "dropWhile (\<lambda>c. c \<noteq> CHR 0x0A) (a @ CHR 0x0A # b) = CHR 0x0A # b"
    using assms(1) by (induction a) auto
  then show ?thesis using assms(3) by (subst str_lines.simps) (simp add: strip_cr_def)
qed

lemma traces_json_line:
  assumes "json_laws tx" "traces_ok tx t"
  shows "str_lines (traces_json tx t @ CHR 0x0A # b) = traces_json tx t # str_lines b"
proof (rule str_lines_cons)
  show "CHR 0x0A \<notin> set (traces_json tx t)"
    unfolding traces_json_def by (rule value_single_line [OF assms(1) traces_value_ok [OF assms(2)]])
qed (simp_all add: traces_json_def traces_value_def)

lemma lines_of_batches:
  assumes "json_laws tx" "\<forall>t \<in> set ts. traces_ok tx t"
  shows "str_lines (concat (map (\<lambda>t. traces_json tx t @ [CHR 0x0A]) ts)) = map (traces_json tx) ts"
  using assms(2)
proof (induction ts)
  case (Cons t ts)
  then show ?case using traces_json_line [OF assms(1)] by simp
qed (simp add: str_lines.simps)

section \<open>The file reads back\<close>

abbreviation batch_data :: "('d, 'a) trace_lib \<Rightarrow> KvAttribute list \<Rightarrow> 'a SpanData list \<Rightarrow> TracesData" where
  "batch_data lib attrs bt \<equiv> spans_to_traces_data (fmt_debug lib) bt attrs ''engagement-hub''"

lemma file_len_content: "file_len fs path = found_size fs path + length (file_content fs path)"
proof -
  have "sum_list (map (\<lambda>a. if append_path a = path then length (append_text a) else 0) as) =
      length (concat (map append_text (filter (\<lambda>a. append_path a = path) as)))" for as
    by (induction as) auto
  then show ?thesis by (simp add: file_len_def file_content_def)
qed

text \<open>One export without a torn write leaves a file as it was or adds the whole line of the batch; below the
  cap, where the file can be opened, it does add it.\<close>

lemma export_line:
  assumes "write_batch (serde_lib tx lib) io bt (self, fs) = ((s1, f1), w)" "jsonl_wf (serde_lib tx lib) self"
    and "io_write io = None"
  shows "jsonl_wf (serde_lib tx lib) s1 \<and> same_setup s1 self \<and> found_size f1 = found_size fs \<and>
    (file_content f1 path = file_content fs path \<or>
     file_path lib self (io_today io) = path \<and>
     file_content f1 path = file_content fs path @ traces_json tx (batch_data lib (resource_attrs self) bt) @ [CHR 0x0A])"
proof -
  obtain counted r where w: "write_batch (serde_lib tx lib) io bt (self, fs) = ((s1, f1), counted, r)"
    using assms(1) by (cases w) auto
  have path: "file_path (serde_lib tx lib) self d = file_path lib self d" for d
    by (simp add: file_path_def serde_lib_def)
  show ?thesis using w assms(2)
  proof (cases rule: write_batch_cases)
    case (wrote p line)
    moreover have "line = traces_json tx (batch_data lib (resource_attrs self) bt) @ [CHR 0x0A]"
      using wrote(3) by (simp add: json_line_def serde_lib_def)
    ultimately show ?thesis by (auto simp: file_content_def path)
  qed (use assms(3) in auto)
qed

lemma export_line_written:
  assumes "write_batch (serde_lib tx lib) io bt (self, fs) = ((s1, f1), w)" "jsonl_wf (serde_lib tx lib) self"
    and "io_write io = None" "io_mkdir io" "io_open io" "file_len fs (file_path lib self (io_today io)) < size_cap self"
  shows "file_content f1 (file_path lib self (io_today io)) = file_content fs (file_path lib self (io_today io)) @
     traces_json tx (batch_data lib (resource_attrs self) bt) @ [CHR 0x0A]"
proof -
  let ?p = "file_path lib self (io_today io)"
  have path: "file_path (serde_lib tx lib) s d = file_path lib s d" for s :: "'a JsonlFileExporter" and d
    by (simp add: file_path_def serde_lib_def)
  obtain s where e: "ensure_file (serde_lib tx lib) io self = (s, Inr ?p)" "resource_attrs s = resource_attrs self"
    "size_cap s = size_cap self"
    using assms(2,4,5)
    by (cases "io_today io = current_date self"; cases "current_file self")
       (auto simp: ensure_file_def Let_def path jsonl_wf_def, auto simp: file_path_def)
  have "(if io_meta io then file_len fs ?p else 0) < size_cap self" using assms(6) by auto
  then have "f1 = fs\<lparr>appended := appended fs @ [Whole ?p (traces_json tx (batch_data lib (resource_attrs self) bt) @ [CHR 0x0A])]\<rparr>"
    using assms(1,3) e by (auto simp: write_batch_def serde_lib_def [of tx lib])
  then show ?thesis by (simp add: file_content_def)
qed

definition into :: "('d, 'a) trace_lib \<Rightarrow> 'd JsonlFileExporter \<Rightarrow> string \<Rightarrow> ('d trace_io \<times> 'b) list \<Rightarrow> 'b list" where
  "into lib self path jobs = map snd (filter (\<lambda>j. file_path lib self (io_today (fst j)) = path) jobs)"

lemma export_all_lines:
  assumes "export_all (serde_lib tx lib) jobs (self, fs) = (self', fs')" "jsonl_wf (serde_lib tx lib) self"
    and "\<forall>j \<in> set jobs. io_write (fst j) = None"
  shows "found_size fs' = found_size fs \<and> (\<exists>bs. file_content fs' path = file_content fs path @
      concat (map (\<lambda>bt. traces_json tx (batch_data lib (resource_attrs self) bt) @ [CHR 0x0A]) bs) \<and>
    subseq bs (into lib self path jobs) \<and>
    ((\<forall>j \<in> set jobs. io_mkdir (fst j) \<and> io_open (fst j)) \<and> file_len fs' path < size_cap self \<longrightarrow>
       bs = into lib self path jobs))"
  using assms
proof (induction jobs arbitrary: self fs)
  case Nil
  then show ?case by (auto simp: into_def intro: exI [of _ "[]"])
next
  case (Cons j jobs)
  obtain io bt where j: "j = (io, bt)" by force
  obtain s1 f1 r where e: "write_batch (serde_lib tx lib) io bt (self, fs) = ((s1, f1), r)" by (metis prod.exhaust)
  let ?text = "\<lambda>bt. traces_json tx (batch_data lib (resource_attrs self) bt) @ [CHR 0x0A]"
  let ?here = "file_path lib self (io_today io) = path"
  have w: "io_write io = None" using Cons.prems(3) j by simp
  note step = export_line [OF e Cons.prems(2) w, of path]
  have same: "resource_attrs s1 = resource_attrs self" "size_cap s1 = size_cap self" "into lib s1 path jobs = into lib self path jobs"
    using step by (auto simp: same_setup_def file_path_def into_def)
  obtain bs where bs: "found_size fs' = found_size fs" "file_content fs' path = file_content f1 path @ concat (map ?text bs)"
    "subseq bs (into lib self path jobs)"
    "(\<forall>j \<in> set jobs. io_mkdir (fst j) \<and> io_open (fst j)) \<and> file_len fs' path < size_cap self \<longrightarrow> bs = into lib self path jobs"
    using Cons.IH [of s1 f1] Cons.prems e j step unfolding same by auto
  have into: "into lib self path (j # jobs) = (if ?here then bt # into lib self path jobs else into lib self path jobs)"
    by (simp add: into_def j)
  show ?case
  proof (cases "file_content f1 path = file_content fs path")
    case True
    have "file_len fs path \<le> file_len fs' path" using bs(1,2) True by (simp add: file_len_content)
    then have "\<not> ?here" if "io_mkdir io" "io_open io" "file_len fs' path < size_cap self"
      using export_line_written [OF e Cons.prems(2) w that(1,2)] that(3) True by auto
    then show ?thesis using bs j True into by (intro conjI exI [of _ bs]) auto
  next
    case False
    then show ?thesis using bs j step into by (intro conjI exI [of _ "bt # bs"]) auto
  qed
qed

definition doubles_ok :: "json_texts \<Rightarrow> 'a SpanData \<Rightarrow> bool" where
  "doubles_ok tx s \<longleftrightarrow> list_all (\<lambda>kv. case snd kv of OF64 d \<Rightarrow> number_law tx d | _ \<Rightarrow> True) (sd_attributes s)"

lemma kv_ok_value: "kv_ok tx (otel_value_to_kv dbg v) \<longleftrightarrow> (case v of OF64 d \<Rightarrow> number_law tx d | _ \<Rightarrow> True)"
  by (cases v) simp_all

lemma clone_kv_value [simp]: "clone_kv_value v = v"
  by (cases v) simp_all

lemma batch_traces_ok:
  assumes "list_all (\<lambda>kv. kv_ok tx (kv_value kv)) attrs" "\<forall>s \<in> set bt. doubles_ok tx s"
  shows "traces_ok tx (batch_data lib attrs bt)"
  using assms
  by (auto simp: traces_ok_def span_ok_def spans_to_traces_data_def span_to_otlp_def doubles_ok_def list_all_iff kv_ok_value
      case_prod_beta)

text \<open>C25. A trace file reads back: from the text of a file the exporter began and wrote without a torn write,
  split into lines and parsed, come the spans of the stored batches, batch by batch and in order, with their
  identifiers, parents, names, kinds, times, typed attributes and status codes; the stored batches are among
  the ones exported on the days of that file, and they are all of them when directory and file could always
  be opened and the file stayed below the cap. Doubles must be finite, and strings quoted so that they read
  back.\<close>

theorem trace_file_reads_back:
  assumes "json_laws tx" "list_all (\<lambda>kv. kv_ok tx (kv_value kv)) attrs"
    and "\<forall>j \<in> set jobs. io_write (fst j) = None \<and> (\<forall>s \<in> set (snd j). length (sd_parent_span_id s) = 8 \<and> doubles_ok tx s)"
    and "export_all (serde_lib tx lib) jobs (new_inner name dir date cap counter attrs, fs) = (self', fs')"
    and "file_len fs path = 0"
  shows "\<exists>bs. map (\<lambda>line. map_option read_traces (read_line tx line)) (str_lines (file_content fs' path)) =
      map (\<lambda>bt. Some (map (view_of (fmt_debug lib)) bt)) bs \<and>
    subseq bs (map snd (filter (\<lambda>j. path = path_join dir (name @ ''-'' @ fmt_date lib (io_today (fst j)) @ ''.jsonl'')) jobs)) \<and>
    ((\<forall>j \<in> set jobs. io_mkdir (fst j) \<and> io_open (fst j)) \<and> file_len fs' path < cap \<longrightarrow>
      bs = map snd (filter (\<lambda>j. path = path_join dir (name @ ''-'' @ fmt_date lib (io_today (fst j)) @ ''.jsonl'')) jobs))"
proof -
  let ?self = "new_inner name dir date cap counter attrs"
  have self: "jsonl_wf (serde_lib tx lib) ?self" "resource_attrs ?self = attrs" "size_cap ?self = cap"
    "into lib ?self path jobs =
       map snd (filter (\<lambda>j. path = path_join dir (name @ ''-'' @ fmt_date lib (io_today (fst j)) @ ''.jsonl'')) jobs)"
    by (auto simp: jsonl_wf_def new_inner_def file_path_def into_def intro!: arg_cong [of _ _ "map snd"] filter_cong)
  have "file_content fs path = []" using assms(5) by (simp add: file_len_content)
  then obtain bs where bs: "file_content fs' path = concat (map (\<lambda>t. traces_json tx t @ [CHR 0x0A]) (map (batch_data lib attrs) bs))"
    "subseq bs (into lib ?self path jobs)"
    "(\<forall>j \<in> set jobs. io_mkdir (fst j) \<and> io_open (fst j)) \<and> file_len fs' path < cap \<longrightarrow> bs = into lib ?self path jobs"
    using export_all_lines [OF assms(4) self(1), of path] assms(3) unfolding self(2,3) by (auto simp: comp_def)
  have mem: "\<exists>j \<in> set jobs. bt = snd j" if "bt \<in> set bs" for bt
    using list_emb_set [OF bs(2) that] by (auto simp: into_def)
  then have ok: "\<forall>t \<in> set (map (batch_data lib attrs) bs). traces_ok tx t"
    using assms(2,3) by (auto intro!: batch_traces_ok)
  have read: "read_traces (batch_data lib attrs bt) = map (view_of (fmt_debug lib)) bt" if "bt \<in> set bs" for bt
    using mem [OF that] assms(3) by (intro otlp_round_trip) auto
  have "map (\<lambda>line. map_option read_traces (read_line tx line)) (str_lines (file_content fs' path)) =
      map (\<lambda>bt. Some (map (view_of (fmt_debug lib)) bt)) bs"
    unfolding bs(1) lines_of_batches [OF assms(1) ok]
    using ok read read_line_json [OF assms(1)] by (auto simp: comp_def)
  then show ?thesis using bs(2,3) unfolding self(4) by blast
qed

section \<open>A concrete text\<close>

text \<open>A quoting that escapes the quote, the backslash and the line feed, and doubles by their bit pattern.\<close>

definition escape :: "char \<Rightarrow> string" where
  "escape c = (if c = CHR 34 then [CHR 92, CHR 34] else if c = CHR 92 then [CHR 92, CHR 92]
     else if c = CHR 0x0A then [CHR 92, CHR ''n''] else [c])"

fun unescape :: "string \<Rightarrow> (string \<times> string) option" where
  "unescape [] = None"
| "unescape [c] = (if c = CHR 34 then Some ([], []) else None)"
| "unescape (c # d # cs) =
     (if c = CHR 34 then Some ([], d # cs)
      else if c = CHR 92 then map_option (\<lambda>(s, r). ((if d = CHR ''n'' then CHR 0x0A else d) # s, r)) (unescape cs)
      else map_option (\<lambda>(s, r). (c # s, r)) (unescape (d # cs)))"

definition escaped_texts :: json_texts where
  "escaped_texts =
     \<lparr>str_json = \<lambda>s. CHR 34 # concat (map escape s) @ [CHR 34],
      str_read = \<lambda>s. if s \<noteq> [] \<and> hd s = CHR 34 then unescape (tl s) else None,
      f64_json = \<lambda>d. show_nat (unat d), f64_read = \<lambda>s. Some (of_nat (parse_nat s))\<rparr>"

lemma unescape_quote [simp]: "unescape (CHR 34 # r) = Some ([], r)"
  by (cases r) simp_all

lemma unescape_other: "c \<noteq> CHR 34 \<Longrightarrow> c \<noteq> CHR 92 \<Longrightarrow> s \<noteq> [] \<Longrightarrow>
    unescape (c # s) = map_option (\<lambda>(t, r). (c # t, r)) (unescape s)"
  by (cases s) simp_all

lemma unescape_escape: "unescape (concat (map escape s) @ CHR 34 # r) = Some (s, r)"
  by (induction s) (auto simp: escape_def unescape_other)

lemma escaped_laws: "json_laws escaped_texts"
  by (simp add: json_laws_def escaped_texts_def unescape_escape escape_def)

definition two_exports :: "(bool trace_io \<times> unit SpanData list) list" where
  "two_exports = [(calm True, [sample_span]), (calm False, [sample_span\<lparr>sd_status := Status_Error ''e''\<rparr>]),
     (calm True, [sample_span, sample_span])]"

theorem trace_file_reads_back_witness:
  "\<exists>self' fs' bs. export_all (serde_lib escaped_texts two_days) two_exports (new_inner ''hub'' ''d'' True 100 None [], no_files) = (self', fs') \<and>
    map (\<lambda>line. map_option read_traces (read_line escaped_texts line)) (str_lines (file_content fs' ''d/hub-2024-01-09.jsonl'')) =
      map (\<lambda>bt. Some (map (view_of (\<lambda>_. [])) bt)) bs \<and>
    subseq bs [[sample_span], [sample_span, sample_span]]"
proof -
  obtain self' fs' where e:
    "export_all (serde_lib escaped_texts two_days) two_exports (new_inner ''hub'' ''d'' True 100 None [], no_files) = (self', fs')"
    by force
  have ok: "\<forall>j \<in> set two_exports. io_write (fst j) = None \<and>
      (\<forall>s \<in> set (snd j). length (sd_parent_span_id s) = 8 \<and> doubles_ok escaped_texts s)"
    by (simp add: two_exports_def calm_def sample_span_def doubles_ok_def INVALID_SPAN_def)
  have z: "file_len no_files ''d/hub-2024-01-09.jsonl'' = 0" by (simp add: no_files_def file_len_def)
  have p: "map snd (filter (\<lambda>j. ''d/hub-2024-01-09.jsonl'' =
        path_join ''d'' (''hub'' @ ''-'' @ fmt_date two_days (io_today (fst j)) @ ''.jsonl'')) two_exports) =
      [[sample_span], [sample_span, sample_span]]"
    by (simp add: two_exports_def calm_def path_join_def two_days_def)
  have "fmt_debug two_days = (\<lambda>_. [])" by (simp add: two_days_def)
  then show ?thesis
    using trace_file_reads_back [OF escaped_laws _ ok e z] e unfolding p by auto
qed

end
