(* ===== verification/Tests_Telemetry.thy ===== *)
theory Tests_Telemetry
  imports Otlp_Text Telemetry Test_Support
begin

text \<open>
  The unit tests of \<^verbatim>\<open>telemetry/otlp_json.rs\<close>, \<^verbatim>\<open>local_exporter.rs\<close>,
  \<^verbatim>\<open>processor.rs\<close> and \<^verbatim>\<open>telemetry/mod.rs\<close>, and when each passes. How the runtime schedules a
  background task between two points of a test is a parameter, a list of turns; the calendar and the texts of
  strings are parameters with the laws the tests need. The temporary directory of a test works: its calls succeed
  (\<open>test_io\<close>). In a test build \<^verbatim>\<open>ensure_file\<close> does not consult the clock, which is the same as a
  clock that shows the exporter's own date.
\<close>

section \<open>Fake spans and their text\<close>

datatype StatusForTest = For_Ok | For_Error | For_Unset

fun otel_status :: "StatusForTest \<Rightarrow> SpanStatus" where
  "otel_status For_Ok = Status_Ok"
| "otel_status For_Error = Status_Error ''test error''"
| "otel_status For_Unset = Status_Unset"

definition fake_span_for_test :: "string \<Rightarrow> nat \<Rightarrow> StatusForTest \<Rightarrow> 'a SpanData" where
  "fake_span_for_test name duration_ms status =
     (let start_time = 1000000 * 1000000000 in
      \<lparr>sd_trace_id = replicate 16 1, sd_span_id = replicate 8 2, sd_parent_span_id = INVALID_SPAN,
       sd_span_kind = SpanKind.Internal, sd_name = name, sd_start_time = start_time,
       sd_end_time = start_time + int duration_ms * 1000000, sd_attributes = [], sd_status = otel_status status\<rparr>)"

definition contains :: "string \<Rightarrow> string \<Rightarrow> bool" where
  "contains s pat \<longleftrightarrow> sublist pat s"

definition span_serializes_to_otlp_json_envelope :: "json_texts \<Rightarrow> ('a \<Rightarrow> string) \<Rightarrow> unit exec" where
  "span_serializes_to_otlp_json_envelope tx dbg =
     (let span = fake_span_for_test ''my-op'' 42 For_Ok;
          data = spans_to_traces_data dbg [span] [] ''test-scope'';
          line = traces_json tx data
      in assert_true (contains line ''resourceSpans'' \<and> contains line ''my-op'' \<and> contains line ''traceId'' \<and>
           contains line ''spanId'' \<and> contains line ''startTimeUnixNano'' \<and> contains line ''STATUS_CODE_OK''))"

definition error_span_has_error_status_code :: "json_texts \<Rightarrow> ('a \<Rightarrow> string) \<Rightarrow> unit exec" where
  "error_span_has_error_status_code tx dbg =
     (let span = fake_span_for_test ''fail-op'' 10 For_Error;
          data = spans_to_traces_data dbg [span] [] ''test'';
          line = traces_json tx data
      in assert_true (contains line ''STATUS_CODE_ERROR''))"

text \<open>Letters, digits, dashes and underscores stand for themselves inside the quotes.\<close>

definition plain_law :: "json_texts \<Rightarrow> bool" where
  "plain_law tx \<longleftrightarrow> (\<forall>s. list_all (\<lambda>c. atom_char c \<or> c = CHR ''_'') s \<longrightarrow> sublist s (str_json tx s))"

lemmas sublist_trans = sublist_order.order.trans

lemma sublist_join: "x \<in> set xs \<Longrightarrow> sublist x (join sep xs)"
proof (induction sep xs rule: join.induct)
  case (3 sep x' y zs)
  have "sublist (join sep (y # zs)) (join sep (x' # y # zs))"
    using sublist_appendI [of "join sep (y # zs)" "x' @ sep" "[]"] by simp
  with 3 show ?case by (auto intro: sublist_trans)
qed simp_all

text \<open>A value inside another, and that its text is inside the other's.\<close>

inductive inside :: "json_value \<Rightarrow> json_value \<Rightarrow> bool" where
  here: "inside v v"
| item: "v \<in> set vs \<Longrightarrow> inside u v \<Longrightarrow> inside u (J_Arr vs)"
| field: "(k, v) \<in> set kvs \<Longrightarrow> inside u v \<Longrightarrow> inside u (J_Obj kvs)"

lemma member_inside: "kv \<in> set kvs \<Longrightarrow> sublist (member_json tx kv) (value_json tx (J_Obj kvs))"
  unfolding value_json_obj
  by (rule sublist_trans [OF sublist_join [of _ "map (member_json tx) kvs"] sublist_appendI]) simp

lemma inside_text: "inside u v \<Longrightarrow> sublist (value_json tx u) (value_json tx v)"
proof (induction rule: inside.induct)
  case (item v vs u)
  have "sublist (value_json tx v) (value_json tx (J_Arr vs))"
    unfolding value_json.simps
    by (rule sublist_trans [OF sublist_join [of _ "map (value_json tx) vs"] sublist_appendI]) (use item in simp)
  with item show ?case by (blast intro: sublist_trans)
next
  case (field k v kvs u)
  have "sublist (value_json tx v) (member_json tx (k, v))"
    using sublist_appendI [of "value_json tx v" "str_json tx k @ '':''" "[]"] by (simp add: member_json_def)
  with field member_inside show ?case by (blast intro: sublist_trans)
qed simp

lemma key_inside: "(k, v) \<in> set kvs \<Longrightarrow> sublist (str_json tx k) (value_json tx (J_Obj kvs))"
  by (rule sublist_trans [OF _ member_inside]) (simp_all add: member_json_def)

lemma span_inside:
  "span \<in> set bt \<Longrightarrow> inside (otlp_span_value tx (span_to_otlp dbg span)) (traces_value tx (spans_to_traces_data dbg bt attrs sc))"
  by (auto simp: traces_value_def resource_spans_value_def scope_spans_value_def spans_to_traces_data_def
      intro!: inside.intros)

lemma traces_json_contains:
  assumes "plain_law tx" "list_all (\<lambda>c. atom_char c \<or> c = CHR ''_'') s"
    and "s = ''resourceSpans'' \<or> (\<exists>span \<in> set bt. s \<in> {''traceId'', ''spanId'', ''startTimeUnixNano''} \<or>
      s = sd_name span \<or> s = status_code (status_to_otlp (sd_status span)))"
  shows "contains (traces_json tx (spans_to_traces_data dbg bt attrs sc)) s"
proof -
  let ?t = "traces_value tx (spans_to_traces_data dbg bt attrs sc)"
  have plain: "sublist s (str_json tx s)" using assms(1,2) by (simp add: plain_law_def)
  from assms(3) consider "s = ''resourceSpans''"
    | span where "span \<in> set bt" "s \<in> {''traceId'', ''spanId'', ''startTimeUnixNano''}"
    | span where "span \<in> set bt" "s = sd_name span \<or> s = status_code (status_to_otlp (sd_status span))" by blast
  then have "sublist (str_json tx s) (value_json tx ?t)"
  proof cases
    case 1
    then show ?thesis unfolding traces_value_def by (intro key_inside) simp
  next
    case 2
    have "sublist (str_json tx s) (value_json tx (otlp_span_value tx (span_to_otlp dbg span)))"
      using 2(2) unfolding otlp_span_value_def by (elim insertE) (auto intro!: key_inside simp del: value_json.simps)
    then show ?thesis using inside_text [OF span_inside [OF 2(1)]] by (rule sublist_trans)
  next
    case 3
    have "inside (J_Str s) (otlp_span_value tx (span_to_otlp dbg span))"
      using 3(2)
    proof
      assume "s = sd_name span"
      then show ?thesis
        unfolding otlp_span_value_def span_to_otlp_def by (intro inside.field [of "''name''" "J_Str s"]) (auto intro: inside.here)
    next
      assume "s = status_code (status_to_otlp (sd_status span))"
      then have "inside (J_Str s) (otlp_status_value (status_to_otlp (sd_status span)))"
        by (auto simp: otlp_status_value_def intro!: inside.intros)
      then show ?thesis
        unfolding otlp_span_value_def span_to_otlp_def
        by (intro inside.field [of "''status''" "otlp_status_value (status_to_otlp (sd_status span))"]) auto
    qed
    from inside_text [OF this] have "sublist (str_json tx s) (value_json tx (otlp_span_value tx (span_to_otlp dbg span)))"
      by simp
    then show ?thesis using inside_text [OF span_inside [OF 3(1)]] by (rule sublist_trans)
  qed
  with plain show ?thesis unfolding contains_def traces_json_def by (rule sublist_trans)
qed

lemma otlp_tests_pass:
  assumes "plain_law tx"
  shows "passes (span_serializes_to_otlp_json_envelope tx dbg)" "passes (error_span_has_error_status_code tx dbg)"
  unfolding span_serializes_to_otlp_json_envelope_def error_span_has_error_status_code_def Let_def
  by (simp_all add: test_defs traces_json_contains [OF assms] fake_span_for_test_def atom_char_def STATUS_OK_def STATUS_ERROR_def)

section \<open>Local files\<close>

definition new_for_test :: "string \<Rightarrow> string \<Rightarrow> 'd \<Rightarrow> 'd JsonlFileExporter" where
  "new_for_test name dir today = new_inner name dir today MAX_FILE_BYTES None []"

definition new_for_test_with_date :: "string \<Rightarrow> string \<Rightarrow> 'd \<Rightarrow> 'd JsonlFileExporter" where
  "new_for_test_with_date name dir date = new_inner name dir date MAX_FILE_BYTES None []"

definition new_for_test_with_size_cap :: "string \<Rightarrow> string \<Rightarrow> nat \<Rightarrow> string \<Rightarrow> 'd \<Rightarrow> 'd JsonlFileExporter" where
  "new_for_test_with_size_cap name dir cap counter today = new_inner name dir today cap (Some counter) []"

definition advance_date_for_test :: "'d \<Rightarrow> 'd JsonlFileExporter \<Rightarrow> 'd JsonlFileExporter" where
  "advance_date_for_test date self = self\<lparr>current_date := date, current_file := None\<rparr>"

definition test_io :: "'d JsonlFileExporter \<Rightarrow> 'd trace_io" where
  "test_io self = \<lparr>io_today = current_date self, io_mkdir = True, io_open = True, io_meta = True, io_write = None\<rparr>"

text \<open>A fresh directory, and the files in it: those written to.\<close>

definition test_dir :: trace_files where
  "test_dir = \<lparr>found_size = \<lambda>_. 0, appended = []\<rparr>"

definition read_dir :: "trace_files \<Rightarrow> string list" where
  "read_dir fs = remdups (map append_path (appended fs))"

text \<open>An export that has to succeed, with the increments it made.\<close>

definition run_export ::
  "('d, 'a) trace_lib \<Rightarrow> 'd JsonlFileExporter \<times> trace_files \<Rightarrow> 'a SpanData list \<Rightarrow>
     (('d JsonlFileExporter \<times> trace_files) \<times> (string \<times> nat) list) exec" where
  "run_export lib st bt =
     (case write_batch lib (test_io (fst st)) bt st of
        (st', counted, Inr _) \<Rightarrow> Ret (st', counted) | (st', counted, Inl _) \<Rightarrow> Unwind)"

definition creates_file_and_writes_valid_jsonl ::
  "('d, 'a) trace_lib \<Rightarrow> (string \<Rightarrow> bool) \<Rightarrow> string \<Rightarrow> 'd \<Rightarrow> unit exec" where
  "creates_file_and_writes_valid_jsonl lib from_str dir today =
     exec_bind (run_export lib (new_for_test ''test-svc'' dir today, test_dir) [fake_span_for_test ''op'' 10 For_Ok])
       (\<lambda>((exporter, fs), _).
          let files = read_dir fs;
              content = file_content fs (hd files);
              lines = str_lines content
          in assert_true (length files = 1 \<and> length lines = 1 \<and> from_str (hd lines) \<and> contains content ''resourceSpans''))"

text \<open>The dates of the test are two different days; the names are compared without their directory.\<close>

definition daily_rotation_opens_new_file :: "('d, 'a) trace_lib \<Rightarrow> string \<Rightarrow> 'd \<Rightarrow> 'd \<Rightarrow> unit exec" where
  "daily_rotation_opens_new_file lib dir date_a date_b =
     exec_bind (run_export lib (new_for_test_with_date ''test-svc'' dir date_a, test_dir) [fake_span_for_test ''op'' 5 For_Ok])
       (\<lambda>((exporter, fs), _).
          exec_bind (run_export lib (advance_date_for_test date_b exporter, fs) [fake_span_for_test ''op2'' 5 For_Ok])
            (\<lambda>((exporter, fs), _).
               let files = sort (map (drop (length dir + 1)) (read_dir fs))
               in assert_true (length files = 2 \<and> contains (files ! 0) ''2024-01-01'' \<and> contains (files ! 1) ''2024-01-02'')))"

text \<open>The counter of the test is new, so its value is the sum of what was added to it.\<close>

definition size_cap_stops_writes_and_increments_counter :: "('d, 'a) trace_lib \<Rightarrow> string \<Rightarrow> 'd \<Rightarrow> unit exec" where
  "size_cap_stops_writes_and_increments_counter lib dir today =
     (let counter = ''test_dropped_local'' in
      exec_bind (run_export lib (new_for_test_with_size_cap ''test-svc'' dir 10 counter today, test_dir)
          [fake_span_for_test ''op'' 5 For_Ok])
       (\<lambda>(st, first). exec_bind (run_export lib st [fake_span_for_test ''op2'' 5 For_Ok])
         (\<lambda>(st, second). assert_true (added counter (first @ second) > 0))))"

lemma run_export_writes:
  assumes "current_file self = None" "found_size fs = (\<lambda>_. 0)" "file_content fs (file_path lib self (current_date self)) = []"
    and "0 < size_cap self"
  shows "run_export (serde_lib tx lib) (self, fs) bt =
    Ret ((self\<lparr>current_file := Some (file_path lib self (current_date self))\<rparr>,
          fs\<lparr>appended := appended fs @ [Whole (file_path lib self (current_date self))
            (traces_json tx (batch_data lib (resource_attrs self) bt) @ [CHR 0x0A])]\<rparr>), [])"
proof -
  have "file_path (serde_lib tx lib) self d = file_path lib self d" for d by (simp add: file_path_def serde_lib_def)
  moreover have "file_len fs (file_path lib self (current_date self)) = 0" using assms(2,3) by (simp add: file_len_content)
  ultimately show ?thesis
    using assms(1,4)
    by (simp add: run_export_def write_batch_def ensure_file_def test_io_def Let_def)
       (simp add: serde_lib_def)
qed

lemma fake_traces_ok: "traces_ok tx (batch_data lib [] [fake_span_for_test name ms st])"
  by (rule batch_traces_ok) (simp_all add: doubles_ok_def fake_span_for_test_def Let_def)

lemmas exporter_defs = new_for_test_def new_for_test_with_date_def new_for_test_with_size_cap_def new_inner_def
  advance_date_for_test_def test_dir_def read_dir_def

lemma creates_file_passes:
  assumes "json_laws tx" "plain_law tx" "\<forall>t. from_str (traces_json tx t)"
  shows "passes (creates_file_and_writes_valid_jsonl (serde_lib tx lib) from_str dir today)"
proof -
  let ?self = "new_for_test ''test-svc'' dir today"
  let ?p = "file_path lib ?self today"
  let ?t = "traces_json tx (batch_data lib [] [fake_span_for_test ''op'' 10 For_Ok])"
  have run: "run_export (serde_lib tx lib) (?self, test_dir) [fake_span_for_test ''op'' 10 For_Ok] =
      Ret ((?self\<lparr>current_file := Some ?p\<rparr>, test_dir\<lparr>appended := [Whole ?p (?t @ [CHR 0x0A])]\<rparr>), [])"
    by (subst run_export_writes) (simp_all add: exporter_defs file_content_def MAX_FILE_BYTES_def)
  have "str_lines (?t @ [CHR 0x0A]) = [?t]"
    using lines_of_batches [OF assms(1), of "[batch_data lib [] [fake_span_for_test ''op'' 10 For_Ok]]"] by (simp add: fake_traces_ok)
  moreover have "contains (?t @ [CHR 0x0A]) ''resourceSpans''"
    using traces_json_contains [OF assms(2), of "''resourceSpans''"] unfolding contains_def
    by (rule sublist_trans [rotated, OF sublist_append_rightI]) (simp_all add: atom_char_def)
  ultimately show ?thesis
    unfolding creates_file_and_writes_valid_jsonl_def run using assms(3)
    by (simp add: read_dir_def file_content_def test_defs)
qed

lemma daily_rotation_passes:
  assumes "fmt_date lib date_a = ''2024-01-01''" "fmt_date lib date_b = ''2024-01-02''"
  shows "passes (daily_rotation_opens_new_file (serde_lib tx lib) dir date_a date_b)"
proof -
  let ?self = "new_for_test_with_date ''test-svc'' dir date_a"
  let ?a = "path_join dir ''test-svc-2024-01-01.jsonl''" and ?b = "path_join dir ''test-svc-2024-01-02.jsonl''"
  let ?t = "\<lambda>n. traces_json tx (batch_data lib [] [fake_span_for_test n 5 For_Ok]) @ [CHR 0x0A]"
  let ?fs = "test_dir\<lparr>appended := [Whole ?a (?t ''op'')]\<rparr>"
  have path: "file_path lib ?self date_a = ?a" "file_path lib (advance_date_for_test date_b (?self\<lparr>current_file := f\<rparr>)) date_b = ?b" for f
    using assms by (simp_all add: file_path_def exporter_defs)
  have run1: "run_export (serde_lib tx lib) (?self, test_dir) [fake_span_for_test ''op'' 5 For_Ok] =
      Ret ((?self\<lparr>current_file := Some ?a\<rparr>, ?fs), [])"
    using path(1) by (subst run_export_writes) (simp_all add: exporter_defs file_content_def MAX_FILE_BYTES_def)
  have run2: "run_export (serde_lib tx lib) (advance_date_for_test date_b (?self\<lparr>current_file := Some ?a\<rparr>), ?fs)
        [fake_span_for_test ''op2'' 5 For_Ok] =
      Ret (((advance_date_for_test date_b (?self\<lparr>current_file := Some ?a\<rparr>))\<lparr>current_file := Some ?b\<rparr>,
            ?fs\<lparr>appended := [Whole ?a (?t ''op''), Whole ?b (?t ''op2'')]\<rparr>), [])"
    using path(2) by (subst run_export_writes)
      (simp_all add: exporter_defs file_content_def MAX_FILE_BYTES_def path_join_def)
  have "sort [''test-svc-2024-01-01.jsonl'', ''test-svc-2024-01-02.jsonl''] = [''test-svc-2024-01-01.jsonl'', ''test-svc-2024-01-02.jsonl'']"
    by code_simp
  moreover have "contains (x @ d @ y) d" for x d y by (simp add: contains_def)
  from this [of "''test-svc-''" "''2024-01-01''" "''.jsonl''"] this [of "''test-svc-''" "''2024-01-02''" "''.jsonl''"]
  have "contains ''test-svc-2024-01-01.jsonl'' ''2024-01-01''" "contains ''test-svc-2024-01-02.jsonl'' ''2024-01-02''"
    by simp_all
  ultimately show ?thesis
    unfolding daily_rotation_opens_new_file_def run1 exec_bind.simps prod.case run2
    by (simp add: read_dir_def path_join_def test_defs Let_def)
qed

lemma size_cap_passes:
  assumes "plain_law tx"
  shows "passes (size_cap_stops_writes_and_increments_counter (serde_lib tx lib) dir today)"
proof -
  let ?self = "new_for_test_with_size_cap ''test-svc'' dir 10 ''test_dropped_local'' today"
  let ?p = "file_path lib ?self today"
  let ?t = "traces_json tx (batch_data lib [] [fake_span_for_test ''op'' 5 For_Ok])"
  have run: "run_export (serde_lib tx lib) (?self, test_dir) [fake_span_for_test ''op'' 5 For_Ok] =
      Ret ((?self\<lparr>current_file := Some ?p\<rparr>, test_dir\<lparr>appended := [Whole ?p (?t @ [CHR 0x0A])]\<rparr>), [])"
    by (subst run_export_writes) (simp_all add: exporter_defs file_content_def)
  have "contains ?t ''resourceSpans''"
    by (rule traces_json_contains [OF assms]) (simp_all add: atom_char_def)
  then have "10 \<le> length ?t" unfolding contains_def by (auto dest: sublist_length_le)
  then have "run_export (serde_lib tx lib) (?self\<lparr>current_file := Some ?p\<rparr>, test_dir\<lparr>appended := [Whole ?p (?t @ [CHR 0x0A])]\<rparr>)
      [fake_span_for_test ''op2'' 5 For_Ok] =
      Ret ((?self\<lparr>current_file := Some ?p\<rparr>, test_dir\<lparr>appended := [Whole ?p (?t @ [CHR 0x0A])]\<rparr>), [(''test_dropped_local'', 1)])"
    by (simp add: run_export_def write_batch_def ensure_file_def test_io_def Let_def file_len_def
        exporter_defs)
  with run show ?thesis
    unfolding size_cap_stops_writes_and_increments_counter_def by (simp add: test_defs added_def Let_def)
qed

text \<open>The purge test: a file for each of the nine days before today; \<open>days_ago\<close> is the calendar's
  subtraction.\<close>

function trim_start_matches :: "string \<Rightarrow> string \<Rightarrow> string" where
  "trim_start_matches pat s =
     (if pat \<noteq> [] \<and> prefix pat s then trim_start_matches pat (drop (length pat) s) else s)"
  by pat_completeness auto
termination
  by (relation "measure (\<lambda>(pat, s). length s)") (auto simp: prefix_def)

declare trim_start_matches.simps [simp del]

definition retention_deletes_files_older_than_7_days ::
  "('d, 'a) trace_lib \<Rightarrow> ('d \<Rightarrow> nat \<Rightarrow> 'd) \<Rightarrow> string \<Rightarrow> 'd \<Rightarrow> unit exec" where
  "retention_deletes_files_older_than_7_days lib days_ago dir today =
     (let written = map (\<lambda>k. let name = ''test-svc-'' @ fmt_date lib (days_ago today k) @ ''.jsonl''
                             in \<lparr>entry_path = path_join dir name, entry_name = name\<rparr>) [1..<10];
          (gone, r) = purge_old_files lib today 7 (\<lambda>_. True) (Some (map Inr written));
          remaining = filter (\<lambda>e. entry_path e \<notin> set gone) written
      in exec_bind r (\<lambda>_. assert_true (length remaining = 7 \<and>
           list_all (\<lambda>e. case parse_date lib (trim_end_matches ''.jsonl'' (trim_start_matches ''test-svc-'' (entry_name e))) of
              None \<Rightarrow> False | Some d \<Rightarrow> days_since lib today d \<le> 7) remaining)))"

lemma trim_name:
  assumes "date_text d"
  shows "trim_end_matches ''.jsonl'' (trim_start_matches ''test-svc-'' (''test-svc-'' @ d @ ''.jsonl'')) = d"
proof -
  obtain c cs where d: "d = c # cs" "digit_or_dash c" "list_all digit_or_dash d"
    using assms by (cases d) (auto simp: date_text_def)
  have "c \<noteq> CHR ''t''" using d(2) by (auto simp: digit_or_dash_def)
  then have "trim_start_matches ''test-svc-'' (d @ ''.jsonl'') = d @ ''.jsonl''"
    using d(1) by (subst trim_start_matches.simps) simp
  then have start: "trim_start_matches ''test-svc-'' (''test-svc-'' @ d @ ''.jsonl'') = d @ ''.jsonl''"
    by (subst trim_start_matches.simps) simp
  have "last d \<noteq> CHR ''l''" using d digit_or_dash_ascii by (auto simp: list_all_iff)
  moreover have "last d = CHR ''l''" if "suffix ''.jsonl'' d"
    using that unfolding suffix_def by (metis last_appendR last.simps list.distinct(1))
  ultimately show ?thesis unfolding start by (intro trim_once) auto
qed

lemma retention_passes:
  assumes "\<forall>k < 10. date_text (fmt_date lib (days_ago today k)) \<and>
      parse_date lib (fmt_date lib (days_ago today k)) = Some (days_ago today k) \<and>
      days_since lib today (days_ago today k) = int k"
  shows "passes (retention_deletes_files_older_than_7_days lib days_ago dir today)"
proof -
  let ?self = "new_for_test ''test-svc'' dir today"
  let ?days = "map (days_ago today) [1..<10]"
  let ?entry = "\<lambda>k. own_entry lib ?self (days_ago today k)"
  have entry: "(let name = ''test-svc-'' @ fmt_date lib (days_ago today k) @ ''.jsonl''
      in \<lparr>entry_path = path_join dir name, entry_name = name\<rparr>) = ?entry k" for k
    by (simp add: own_entry_def file_path_def new_for_test_def new_inner_def Let_def)
  have gone: "purge_old_files lib today 7 (\<lambda>_. True) (Some (map Inr (map ?entry [1..<10]))) =
      (map (\<lambda>k. entry_path (?entry k)) (filter (\<lambda>k. 7 < k) [1..<10]), Ret ())"
    using own_files_retained [of ?days lib today 7 ?self] assms
    by (simp add: comp_def filter_map own_entry_def del: map_eq_conv) (auto intro!: arg_cong [of _ _ "map _"] filter_cong)
  have inj: "entry_path (?entry k) = entry_path (?entry m) \<longleftrightarrow> k = m" if "k < 10" "m < 10" for k m
  proof
    assume "entry_path (?entry k) = entry_path (?entry m)"
    then have "fmt_date lib (days_ago today k) = fmt_date lib (days_ago today m)"
      by (simp add: own_entry_def file_path_def path_join_def)
    then show "k = m" using assms that by (metis option.inject of_nat_eq_iff)
  qed simp
  have rest: "filter (\<lambda>e. entry_path e \<notin> set (map (\<lambda>k. entry_path (?entry k)) (filter (\<lambda>k. 7 < k) [1..<10]))) (map ?entry [1..<10]) =
      map ?entry [1, 2, 3, 4, 5, 6, 7]"
  proof -
    have "filter (\<lambda>k. \<not> (7 < k \<and> k < 10)) [1..<10] = [1, 2, 3, 4, 5, 6, 7 :: nat]" by code_simp
    moreover have "entry_path (?entry k) \<notin> set (map (\<lambda>k. entry_path (?entry k)) (filter (\<lambda>k. 7 < k) [1..<10])) \<longleftrightarrow>
        \<not> (7 < k \<and> k < 10)" if "k < 10" for k
      using that by (auto simp: inj image_iff)
    then have "filter (\<lambda>k. entry_path (?entry k) \<notin> set (map (\<lambda>k. entry_path (?entry k)) (filter (\<lambda>k. 7 < k) [1..<10]))) [1..<10] =
        filter (\<lambda>k. \<not> (7 < k \<and> k < 10)) [1..<10]"
      by (intro filter_cong) auto
    ultimately show ?thesis by (simp only: filter_map comp_def)
  qed
  have "parse_date lib (trim_end_matches ''.jsonl'' (trim_start_matches ''test-svc-'' (entry_name (?entry k)))) = Some (days_ago today k)" if "k < 10" for k
    using trim_name [of "fmt_date lib (days_ago today k)"] assms that
    by (simp add: own_entry_def new_for_test_def new_inner_def)
  then show ?thesis
    unfolding retention_deletes_files_older_than_7_days_def entry unfolding Let_def gone prod.case rest using assms
    by (simp add: test_defs)
qed

section \<open>The processor\<close>

text \<open>A turn of the background task: a tick, a received span, the end of an export; nothing where the task
  cannot take it.\<close>

datatype turn = T_Tick | T_Recv | T_Export

fun take_turn :: "(unit, 's, 'x) span_exporter \<Rightarrow> turn \<Rightarrow> ('s, 'x) processor \<Rightarrow> ('s, 'x) processor" where
  "take_turn export T_Tick p = (if task p = Selecting then tick p else p)"
| "take_turn export T_Recv p =
     (if task p = Selecting \<and> channel p \<noteq> [] then push_span To_Select (hd (channel p)) (tl (channel p)) p else p)"
| "take_turn export T_Export p =
     (case task p of Exporting b nxt \<Rightarrow> (let (x', own, r) = export () b (exporter p) in export_ends x' own r b nxt p) | _ \<Rightarrow> p)"

definition run_turns :: "(unit, 's, 'x) span_exporter \<Rightarrow> turn list \<Rightarrow> ('s, 'x) processor \<Rightarrow> ('s, 'x) processor" where
  "run_turns export ts p = foldl (\<lambda>p t. take_turn export t p) p ts"

lemma run_turns_simps [simp]:
  "run_turns export [] p = p" "run_turns export (t # ts) p = run_turns export ts (take_turn export t p)"
  by (simp_all add: run_turns_def)

lemma take_turn_run:
  assumes "proc_run export n c x es p"
  shows "\<exists>es'. proc_run export n c x es' (take_turn export t p)"
proof (cases t)
  case T_Tick
  then show ?thesis using assms by (cases "task p = Selecting") (auto intro: proc_run.step proc_step.ticked)
next
  case T_Recv
  show ?thesis
  proof (cases "task p = Selecting \<and> channel p \<noteq> []")
    case True
    then have "proc_step export p (Received (hd (channel p))) (take_turn export t p)"
      using T_Recv by (auto intro: proc_step.received)
    then show ?thesis using assms by (blast intro: proc_run.step)
  qed (use T_Recv assms in auto)
next
  case T_Export
  then show ?thesis using assms
    by (cases "task p") (auto intro: proc_run.step proc_step.export_ended split: prod.splits)
qed

lemma run_turns_run: "proc_run export n c x es p \<Longrightarrow> \<exists>es'. proc_run export n c x es' (run_turns export ts p)"
proof (induction ts arbitrary: es p)
  case (Cons t ts)
  from take_turn_run [OF Cons.prems, of t] show ?case using Cons.IH by auto
qed auto

text \<open>The wait loop of a test: at each poll the store is looked at, between two polls the task takes the turns
  the scheduler gives it; at the deadline the test panics.\<close>

fun polls ::
  "(unit, 's, 'x) span_exporter \<Rightarrow> ('x \<Rightarrow> 's list) \<Rightarrow> turn list list \<Rightarrow> ('s, 'x) processor \<Rightarrow> ('s, 'x) processor exec" where
  "polls export store [] p = (if store (exporter p) \<noteq> [] then Ret p else Unwind)"
| "polls export store (ts # tss) p =
     (if store (exporter p) \<noteq> [] then Ret p else polls export store tss (run_turns export ts p))"

text \<open>Until it sees the shutdown signal the task is at the \<^verbatim>\<open>select!\<close> or in an export that goes back to it.\<close>

definition awake :: "('s, 'x) processor \<Rightarrow> bool" where
  "awake p \<longleftrightarrow> task p = Selecting \<or> (\<exists>b. task p = Exporting b To_Select)"

text \<open>An exporter that stores every batch it is given, as long as it is \<open>good\<close>.\<close>

locale storing_exporter =
  fixes export :: "(unit, 's, 'x) span_exporter"
    and store :: "'x \<Rightarrow> 's list"
    and good :: "'x \<Rightarrow> bool"
  assumes stores: "good x \<Longrightarrow> export i b x = (x', own, r) \<Longrightarrow> good x' \<and> own = 0 \<and> r = ExportOk \<and> store x' = store x @ b"
begin

lemma turn_keeps:
  assumes "good (exporter p)"
  shows "good (exporter (take_turn export t p)) \<and> dropped (take_turn export t p) = dropped p \<and>
    store (exporter (take_turn export t p)) @ pending (take_turn export t p) = store (exporter p) @ pending p"
proof (cases t)
  case T_Tick
  then show ?thesis using assms by (auto simp: pending_def tick_def start_export_def)
next
  case T_Recv
  then show ?thesis using assms by (auto simp: pending_push [symmetric]) (auto simp: push_span_def start_export_def Let_def pending_def)
next
  case T_Export
  show ?thesis
  proof (cases "task p")
    case (Exporting b nxt)
    obtain x' own r where e: "export () b (exporter p) = (x', own, r)" using prod_cases3 by blast
    from stores [OF assms e] have x: "good x'" "own = 0" "r = ExportOk" "store x' = store (exporter p) @ b" by auto
    then have "pending p = b @ pending (export_ends x' own r b nxt p)" using Exporting by (intro pending_export_ends) simp_all
    then show ?thesis using T_Export Exporting e x by (cases nxt) (simp_all add: export_ends_def return_task_def Let_def)
  qed (use T_Export assms in simp_all)
qed

lemma turns_keep:
  "good (exporter p) \<Longrightarrow> good (exporter (run_turns export ts p)) \<and> dropped (run_turns export ts p) = dropped p \<and>
    store (exporter (run_turns export ts p)) @ pending (run_turns export ts p) = store (exporter p) @ pending p"
  by (induction ts arbitrary: p) (simp_all add: turn_keeps)

lemma turn_awake:
  assumes "awake p" "good (exporter p)"
  shows "awake (take_turn export t p) \<and> shutdown_tx (take_turn export t p) = shutdown_tx p \<and>
    shutdown_sent (take_turn export t p) = shutdown_sent p \<and> released (take_turn export t p) = released p \<and> (t = T_Export \<longrightarrow> task (take_turn export t p) = Selecting)"
proof (cases "task p")
  case (Exporting b nxt)
  obtain x' own r where e: "export () b (exporter p) = (x', own, r)" using prod_cases3 by blast
  from stores [OF assms(2) e] have "r = ExportOk" by simp
  then show ?thesis using assms(1) Exporting e by (cases t) (auto simp: awake_def export_ends_def Let_def)
qed (use assms(1) in \<open>cases t; auto simp: awake_def tick_def push_span_def start_export_def Let_def\<close>)+

lemma turns_awake:
  "awake p \<Longrightarrow> good (exporter p) \<Longrightarrow> awake (run_turns export ts p) \<and>
    shutdown_tx (run_turns export ts p) = shutdown_tx p \<and> shutdown_sent (run_turns export ts p) = shutdown_sent p \<and>
    released (run_turns export ts p) = released p"
  by (induction ts arbitrary: p) (simp_all add: turn_awake turn_keeps)

lemma polls_deliver:
  "good (exporter p) \<Longrightarrow> store (exporter p) @ pending p = [s] \<Longrightarrow> polls export store tss p = Ret q \<Longrightarrow>
    store (exporter q) = [s]"
proof (induction tss arbitrary: p)
  case Nil
  then show ?case by (cases "store (exporter p)") (auto split: if_splits)
next
  case (Cons ts tss)
  show ?case
  proof (cases "store (exporter p) = []")
    case True
    then show ?thesis using Cons.prems turns_keep [OF Cons.prems(1), of ts]
      by (intro Cons.IH [of "run_turns export ts p"]) simp_all
  next
    case False
    then show ?thesis using Cons.prems by (cases "store (exporter p)") auto
  qed
qed

end

text \<open>The way of one span: in the channel, in the batch, in the export, in the store. Each turn either takes it
  one place further or leaves it where it is.\<close>

definition way :: "turn list" where
  "way = [T_Recv, T_Tick, T_Export]"

definition place :: "('x \<Rightarrow> 's list) \<Rightarrow> nat \<Rightarrow> 's \<Rightarrow> ('s, 'x) processor \<Rightarrow> bool" where
  "place store k s p \<longleftrightarrow>
     task p = (if k = 2 then Exporting [s] To_Select else Selecting) \<and> channel p = (if k = 0 then [s] else []) \<and>
     batch p = (if k = 1 then [s] else []) \<and> store (exporter p) = (if k = 3 then [s] else [])"

definition further :: "nat \<Rightarrow> turn \<Rightarrow> nat" where
  "further k t = (if k < 3 \<and> t = way ! k then Suc k else k)"

lemma further_le: "k \<le> 3 \<Longrightarrow> further k t \<le> 3"
  by (simp add: further_def)

lemma foldl_further: "k \<le> 3 \<Longrightarrow> foldl further k ts = 3 \<longleftrightarrow> subseq (drop k way) ts"
proof (induction ts arbitrary: k)
  case Nil
  then show ?case by (auto simp: way_def dest: list_emb_Nil2)
next
  case (Cons t ts)
  show ?case
  proof (cases "k < 3")
    case True
    then have "drop k way = way ! k # drop (Suc k) way" by (intro Cons_nth_drop_Suc [symmetric]) (simp add: way_def)
    then show ?thesis using True Cons by (auto simp: further_def)
  next
    case False
    then have "k = 3" using Cons.prems by simp
    then show ?thesis using Cons.IH [of 3] by (simp add: further_def way_def)
  qed
qed

context storing_exporter
begin

lemma turn_place:
  assumes "place store k s p" "k \<le> 3" "good (exporter p)"
  shows "place store (further k t) s (take_turn export t p)"
proof -
  obtain x' own r where e: "export () [s] (exporter p) = (x', own, r)" using prod_cases3 by blast
  from stores [OF assms(3) e] have x: "own = 0" "r = ExportOk" "store x' = store (exporter p) @ [s]" by auto
  from assms(2) consider "k = 0" | "k = 1" | "k = 2" | "k = 3" by linarith
  then show ?thesis
  proof cases
    case 1
    then show ?thesis using assms(1)
      by (cases t) (simp_all add: place_def further_def way_def tick_def push_span_def Let_def MAX_BATCH_def)
  next
    case 2
    then show ?thesis using assms(1)
      by (cases t) (simp_all add: place_def further_def way_def tick_def start_export_def)
  next
    case 3
    then show ?thesis using assms(1) e x
      by (cases t) (simp_all add: place_def further_def way_def export_ends_def Let_def)
  next
    case 4
    then show ?thesis using assms(1)
      by (cases t) (simp_all add: place_def further_def tick_def)
  qed
qed

lemma turns_place:
  "place store k s p \<Longrightarrow> k \<le> 3 \<Longrightarrow> good (exporter p) \<Longrightarrow> place store (foldl further k ts) s (run_turns export ts p)"
proof (induction ts arbitrary: k p)
  case (Cons t ts)
  then show ?case using turn_place [of k s p t] turn_keeps [of p t] further_le [of k t] by simp
qed simp

lemma polls_place:
  "place store k s p \<Longrightarrow> k \<le> 3 \<Longrightarrow> good (exporter p) \<Longrightarrow>
    polls export store tss p = Unwind \<longleftrightarrow> foldl further k (concat tss) \<noteq> 3"
proof (induction tss arbitrary: k p)
  case Nil
  then show ?case by (simp add: place_def)
next
  case (Cons ts tss)
  show ?case
  proof (cases "k = 3")
    case True
    then show ?thesis using Cons.prems foldl_further [of 3] by (simp add: place_def way_def flip: foldl_append)
  next
    case False
    have "foldl further k ts \<le> 3" using Cons.prems(2) by (induction ts arbitrary: k) (simp_all add: further_le)
    then show ?thesis
      using False Cons.prems Cons.IH [OF turns_place [OF Cons.prems, of ts]] turns_keep [OF Cons.prems(3), of ts]
      by (simp add: place_def)
  qed
qed

text \<open>A wait for one span ends with exactly that span in the store when the turns contain a receive, then a
  tick, then the end of an export, and otherwise runs into the deadline.\<close>

lemma wait_for_span:
  assumes "place store 0 s p" "good (exporter p)"
  shows "\<exists>q. store (exporter q) = [s] \<and>
    polls export store tss p = (if subseq way (concat tss) then Ret q else Unwind)"
proof (cases "polls export store tss p")
  case (Ret q)
  have "store (exporter p) @ pending p = [s]" using assms(1) by (simp add: place_def pending_def)
  from polls_deliver [OF assms(2) this Ret] show ?thesis
    using Ret polls_place [OF assms(1) _ assms(2), of tss] foldl_further [of 0] by auto
next
  case Unwind
  have "\<not> subseq way (concat tss)"
    using Unwind polls_place [OF assms(1) _ assms(2), of tss] foldl_further [of 0 "concat tss"] by simp
  moreover have "store (exporter (run_turns export way p)) = [s]"
    using turns_place [OF assms(1) _ assms(2), of way] foldl_further [of 0 way] by (simp add: place_def)
  ultimately show ?thesis using Unwind by auto
qed

end

section \<open>The exporters of the tests\<close>

text \<open>\<^verbatim>\<open>RecordingExporter\<close> is the store it shares with the test.\<close>

definition RecordingExporter_export :: "(unit, 's, 's list) span_exporter" where
  "RecordingExporter_export i b x = (x @ b, 0, ExportOk)"

record 's FakeExporter =
  fe_store :: "'s list"
  panic_on_export :: bool

definition FakeExporter_new :: "'s FakeExporter" where
  "FakeExporter_new = \<lparr>fe_store = [], panic_on_export = False\<rparr>"

definition FakeExporter_panicking :: "'s FakeExporter" where
  "FakeExporter_panicking = \<lparr>fe_store = [], panic_on_export = True\<rparr>"

definition FakeExporter_export :: "(unit, 's, 's FakeExporter) span_exporter" where
  "FakeExporter_export i b x =
     (if panic_on_export x then (x, 0, ExportPanic) else (x\<lparr>fe_store := fe_store x @ b\<rparr>, 0, ExportOk))"

interpretation recording: storing_exporter RecordingExporter_export "\<lambda>x. x" "\<lambda>_. True"
  by unfold_locales (simp add: RecordingExporter_export_def)

interpretation fake: storing_exporter FakeExporter_export fe_store "\<lambda>x. \<not> panic_on_export x"
  by unfold_locales (auto simp: FakeExporter_export_def)

definition processor_delivers_spans_to_exporter :: "turn list list \<Rightarrow> unit exec" where
  "processor_delivers_spans_to_exporter sched =
     exec_bind (new_processor [] 0)
       (\<lambda>p. let span = fake_span_for_test ''op'' 10 For_Ok :: unit SpanData;
                p = fst (on_end span p)
            in exec_bind (polls RecordingExporter_export (\<lambda>x. x) sched p) (\<lambda>p. assert_true (length (exporter p) = 1)))"

text \<open>On the one thread of this test the task runs only during the final sleep.\<close>

definition processor_increments_dropped_counter_when_queue_full :: "turn list \<Rightarrow> unit exec" where
  "processor_increments_dropped_counter_when_queue_full sched =
     exec_bind (new_with_capacity [] 0 1)
       (\<lambda>p. let p = foldl (\<lambda>p _. fst (on_end (fake_span_for_test ''op'' 1 For_Ok :: unit SpanData) p)) p [0..<100];
                p = run_turns RecordingExporter_export sched p
            in assert_true (0 < dropped p))"

text \<open>\<open>before\<close> and \<open>after\<close> are the turns before the call of \<^verbatim>\<open>shutdown\<close> and from then until the task sees
  the signal; an export under way ends first.\<close>

definition processor_shuts_down_cleanly :: "turn list \<Rightarrow> turn list \<Rightarrow> unit exec" where
  "processor_shuts_down_cleanly before after =
     exec_bind (new_processor [] 0)
       (\<lambda>p. let p = fst (on_end (fake_span_for_test ''op'' 5 For_Ok :: unit SpanData) p);
                p = fst (shutdown_begin (run_turns RecordingExporter_export before p));
                p = take_turn RecordingExporter_export T_Export (run_turns RecordingExporter_export after p);
                p = snd (finish RecordingExporter_export (\<lambda>_. ()) 0 (shutdown_fires p))
            in assert_true (exporter p \<noteq> []))"

definition exporter_independence_one_panic_does_not_block_others :: "turn list \<Rightarrow> turn list list \<Rightarrow> unit exec" where
  "exporter_independence_one_panic_does_not_block_others bad_sched sched =
     exec_bind (new_processor FakeExporter_panicking 0)
       (\<lambda>bad_proc. exec_bind (new_processor FakeExporter_new 0)
         (\<lambda>good_proc.
            let span = fake_span_for_test ''op'' 5 For_Ok :: unit SpanData;
                bad_proc = run_turns FakeExporter_export bad_sched (fst (on_end span bad_proc));
                good_proc = fst (on_end span good_proc)
            in exec_bind (polls FakeExporter_export fe_store sched good_proc)
                 (\<lambda>good_proc. assert_true (length (fe_store (exporter good_proc)) = 1))))"

lemma new_then_end:
  obtains p where "new_processor x 0 = Ret p" "fst (on_end s p) = p\<lparr>channel := [s]\<rparr>" "exporter p = x" "task p = Selecting"
    "batch p = []" "channel p = []" "shutdown_tx p" "\<not> released p" "pending (p\<lparr>channel := [s]\<rparr>) = [s]"
    "new_with_capacity x 0 QUEUE_CAPACITY = Ret p"
  by (simp add: new_processor_def new_with_capacity_def on_end_def try_send_def QUEUE_CAPACITY_def pending_def)

lemma processor_delivers_iff:
  "passes (processor_delivers_spans_to_exporter sched) \<longleftrightarrow> subseq way (concat sched)"
proof -
  let ?s = "fake_span_for_test ''op'' 10 For_Ok :: unit SpanData"
  obtain p :: "(unit SpanData, unit SpanData list) processor" where p: "new_processor [] 0 = Ret p"
    "fst (on_end ?s p) = p\<lparr>channel := [?s]\<rparr>" "exporter p = []" "task p = Selecting" "batch p = []"
    by (rule new_then_end)
  then have "place (\<lambda>x. x) 0 ?s (p\<lparr>channel := [?s]\<rparr>)" by (simp add: place_def)
  from recording.wait_for_span [OF this, of sched] p show ?thesis
    by (auto simp: processor_delivers_spans_to_exporter_def Let_def test_defs split: if_splits)
qed

lemma exporter_independence_iff:
  "passes (exporter_independence_one_panic_does_not_block_others bad_sched sched) \<longleftrightarrow> subseq way (concat sched)"
proof -
  let ?s = "fake_span_for_test ''op'' 5 For_Ok :: unit SpanData"
  obtain q :: "(unit SpanData, unit SpanData FakeExporter) processor" where q: "new_processor FakeExporter_panicking 0 = Ret q"
    by (rule new_then_end)
  obtain p :: "(unit SpanData, unit SpanData FakeExporter) processor" where p: "new_processor FakeExporter_new 0 = Ret p"
    "fst (on_end ?s p) = p\<lparr>channel := [?s]\<rparr>" "exporter p = FakeExporter_new" "task p = Selecting" "batch p = []"
    by (rule new_then_end)
  then have "place fe_store 0 ?s (p\<lparr>channel := [?s]\<rparr>)" "\<not> panic_on_export (exporter (p\<lparr>channel := [?s]\<rparr>))"
    by (simp_all add: place_def FakeExporter_new_def)
  from fake.wait_for_span [OF this, of sched] p q show ?thesis
    by (auto simp: exporter_independence_one_panic_does_not_block_others_def Let_def test_defs split: if_splits)
qed

lemma full_queue_drops:
  assumes "new_with_capacity x 0 1 = Ret p"
  shows "foldl (\<lambda>p _. fst (on_end s p)) p [0..<Suc n] = p\<lparr>channel := [s], dropped := of_nat n\<rparr>"
proof (induction n)
  case 0
  show ?case using assms by (auto simp: new_with_capacity_def on_end_def try_send_def)
next
  case (Suc n)
  have "fst (on_end s (p\<lparr>channel := [s], dropped := of_nat n\<rparr>)) = p\<lparr>channel := [s], dropped := of_nat (Suc n)\<rparr>"
    using assms by (auto simp: new_with_capacity_def on_end_def try_send_def)
  then show ?case using Suc by simp
qed

lemma dropped_counter_passes: "passes (processor_increments_dropped_counter_when_queue_full sched)"
proof -
  obtain p :: "(unit SpanData, unit SpanData list) processor" where p: "new_with_capacity [] 0 1 = Ret p"
    by (simp add: new_with_capacity_def)
  have "dropped (run_turns RecordingExporter_export sched
      (foldl (\<lambda>p _. fst (on_end (fake_span_for_test ''op'' 1 For_Ok) p)) p [0..<100])) = 99"
    using full_queue_drops [OF p, of "fake_span_for_test ''op'' 1 For_Ok" 99] by (simp add: recording.turns_keep)
  then show ?thesis
    using p by (simp add: processor_increments_dropped_counter_when_queue_full_def Let_def test_defs)
qed

text \<open>Whatever turns the task takes before and after the call, the span is in the store when the call returns.\<close>

lemma recording_stores_all: "proc_run RecordingExporter_export n c [] es p \<Longrightarrow> exporter p = over exported_of es"
proof (induction rule: proc_run.induct)
  case (start p)
  then show ?case by (auto simp: new_with_capacity_def split: if_splits)
next
  case (step es p e p')
  from step.hyps(2) show ?case
  proof cases
    case (export_ended b nxt i x' own r)
    then show ?thesis using step.IH
      by (cases nxt) (simp_all add: RecordingExporter_export_def export_ends_def return_task_def Let_def)
  qed (use step.IH in \<open>auto simp: proc_defs drain_def Let_def split: list.splits if_splits\<close>)
qed

lemma shuts_down_passes: "passes (processor_shuts_down_cleanly before after)"
proof -
  let ?s = "fake_span_for_test ''op'' 5 For_Ok :: unit SpanData" and ?e = "RecordingExporter_export"
  obtain p :: "(unit SpanData, unit SpanData list) processor" where p: "new_processor [] 0 = Ret p"
    "fst (on_end ?s p) = p\<lparr>channel := [?s]\<rparr>" "exporter p = []" "pending (p\<lparr>channel := [?s]\<rparr>) = [?s]"
    "new_with_capacity [] 0 QUEUE_CAPACITY = Ret p" "task p = Selecting" "shutdown_tx p" "\<not> released p" by (rule new_then_end)
  let ?p0 = "p\<lparr>channel := [?s]\<rparr>"
  define p1 where "p1 = run_turns ?e before ?p0"
  define p2 where "p2 = fst (shutdown_begin p1)"
  define p3 where "p3 = take_turn ?e T_Export (run_turns ?e after p2)"
  have "proc_run ?e QUEUE_CAPACITY 0 [] [] p" using p(5) by (rule proc_run.start)
  then have "proc_run ?e QUEUE_CAPACITY 0 [] ([] @ [Span_Ended ?s (snd (on_end ?s p))]) ?p0"
    by (rule proc_run.step) (rule proc_step.span_ended, simp_all add: p(2) [symmetric] p(8))
  from run_turns_run [OF this, of before] obtain es where "proc_run ?e QUEUE_CAPACITY 0 [] es p1" unfolding p1_def ..
  moreover have "\<not> released p1"
    using recording.turns_awake [where p = ?p0 and ts = before] p by (simp add: p1_def awake_def)
  ultimately have "proc_run ?e QUEUE_CAPACITY 0 [] (es @ [Shutdown_Called (snd (shutdown_begin p1))]) p2"
    by (auto intro!: proc_run.step proc_step.shutdown_called simp: p2_def)
  from run_turns_run [OF this, of after] obtain es where "proc_run ?e QUEUE_CAPACITY 0 [] es (run_turns ?e after p2)" ..
  from take_turn_run [OF this, of T_Export] obtain es where run: "proc_run ?e QUEUE_CAPACITY 0 [] es p3" unfolding p3_def ..
  have p2: "awake p2" "shutdown_sent p2" "exporter p2 @ pending p2 = [?s]"
    using recording.turns_awake [where p = ?p0 and ts = before] recording.turns_keep [where p = ?p0 and ts = before] p
    by (simp_all add: p1_def [symmetric] p2_def shutdown_begin_def awake_def pending_def)
  then have p3: "task p3 = Selecting" "shutdown_sent p3" "exporter p3 @ pending p3 = [?s]"
    using recording.turns_awake [where p = p2 and ts = after] recording.turns_keep [where p = p2 and ts = after]
      recording.turn_awake [where p = "run_turns ?e after p2" and t = T_Export] recording.turn_keeps [where p = "run_turns ?e after p2" and t = T_Export]
    by (simp_all add: p3_def)
  have fires: "proc_run ?e QUEUE_CAPACITY 0 [] (es @ [Shutdown_Seen]) (shutdown_fires p3)"
    using run p3(1,2) by (auto intro!: proc_run.step proc_step.shutdown_seen simp: signalled_def)
  have "exporter (snd (finish ?e (\<lambda>_. ()) 0 (shutdown_fires p3))) = exporter p3 @ pending (shutdown_fires p3)"
    using finish_run [OF _ _ fires, of "\<lambda>_. ()" 0] recording_stores_all recording_stores_all [OF run]
    by (fastforce simp: finishing_def shutdown_fires_def RecordingExporter_export_def over_def)
  also have "\<dots> = [?s]" using p3 by (simp add: pending_def shutdown_fires_def)
  finally show ?thesis
    unfolding processor_shuts_down_cleanly_def p(1) exec_bind.simps Let_def p(2)
      p1_def [symmetric] p2_def [symmetric] p3_def [symmetric]
    by (simp add: test_defs)
qed

end
