(* ===== verification/Spec2Isabelle.thy ===== *)
theory Spec2Isabelle
  imports Registry_Grpc Registry_Stub Journey_Manager_Grpc Voice_Manager_Match Post_Call_Http Analytics_Http
    Fakes Config Event_Pipeline Hub_Main Payload_Text Tests_Policies Tests_Grpc
    Tests_Fakes Tests_Http Tests_Hub Tests_Telemetry
begin

text \<open>
  A verification library for the Engagement Hub: the Rust workspace under \<^verbatim>\<open>src/crates\<close>
  that binds the Registry, the Journey Manager, the Voice Manager and the post-call and analytics
  services behind five ports, and the hub process that audits, deduplicates and streams engagements.

  \<^bold>\<open>The program.\<close>
  \<^item> \<^verbatim>\<open>engagement-hub-ports\<close> declares the domain types, one error enum per port, the port
    traits and fake ports for tests.
  \<^item> \<^verbatim>\<open>engagement-hub-adapters\<close> implements the ports over gRPC and HTTP. Every operation
    builds one request and runs \<^verbatim>\<open>policies::with_retry\<close> around sending it; metrics count
    retries, refused retries and saga compensations.
  \<^item> \<^verbatim>\<open>engagement-hub\<close> is the process: configuration and start-up, idempotency of
    requests, the two-phase audit writer, the LISTEN/NOTIFY fan-out, telemetry and the servers.

  \<^bold>\<open>The theories.\<close>
  \<^item> \<open>Prelude\<close>: results, panics, durations, a mutex with poisoning, ordered maps, printing
    of numbers.
  \<^item> \<open>Port_Errors\<close> (\<^verbatim>\<open>ports/error.rs\<close>): the five error enums, their
    \<^verbatim>\<open>Display\<close> and retryability; the locale \<open>retry_error\<close> is what the retry
    combinator relies on, interpreted on all five.
  \<^item> \<open>Port_Types\<close> (\<^verbatim>\<open>ports/types.rs\<close>, \<^verbatim>\<open>ports/ports.rs\<close>):
    the structs as records, the ids as ordered newtypes, each trait as the record of its methods.
  \<^item> \<open>Fakes\<close> (\<^verbatim>\<open>ports/fake\<close>): the five fakes with their queues and their shared
    mutex; the locale \<open>fake_method\<close> is the contract of a method, interpreted on all 23.
  \<^item> \<open>Adapter_Metrics\<close> (\<^verbatim>\<open>adapters/metrics.rs\<close>, \<^verbatim>\<open>saga.rs\<close>): the
    counters as the operations issued on them; after construction the saga counter has exactly its eight
    series, with exact counts.
  \<^item> \<open>Policies\<close> (\<^verbatim>\<open>adapters/policies.rs\<close>): the retry loop with its deadline gate,
    back-off and panic catch; its closed form, the bounds on attempts and on pauses, what panics and
    deadlines do, a Hoare rule and a bisimulation rule the adapters use.
  \<^item> \<open>Adapter_Calls\<close>, \<open>Http_Calls\<close>: the request-and-answer step all adapters share,
    journals of the requests sent (locales \<open>journaled\<close> and \<open>journaled_call\<close>,
    interpreted for every environment and client), scripted servers, and the calls of each port as a
    datatype.
  \<^item> \<open>Registry_Grpc\<close>, \<open>Journey_Manager_Grpc\<close>, \<open>Voice_Manager_Grpc\<close>,
    \<open>Voice_Manager_Http\<close>, \<open>Post_Call_Http\<close>, \<open>Analytics_Http\<close>,
    \<open>Registry_Stub\<close> (the files of the same names in \<^verbatim>\<open>adapters/src\<close>): every
    operation; for each adapter one theorem states, for all its operations and every server behaviour,
    which request is sent, that all attempts send the same one (request id included) and how many there
    can be; further theorems state how answers are read. \<open>Voice_Manager_Match\<close> shows the two
    Voice Manager adapters interchangeable behind servers that answer alike.
  \<^item> \<open>Config\<close> (\<^verbatim>\<open>hub/config.rs\<close> and the start-up of \<^verbatim>\<open>main.rs\<close>):
    validation, the telemetry switches and the exit codes.
  \<^item> \<open>Idempotency\<close> (\<^verbatim>\<open>hub/idempotency.rs\<close>): the canonical object of a request is
    sorted and determines the request; a stored request id replays exactly for equal requests.
  \<^item> \<open>Audit_Writer\<close> (\<^verbatim>\<open>hub/audit.rs\<close>): the insert and the finalising loop, as
    operations and by their effect on the audit table behind a connection that may be lost before or after a
    statement took effect.
  \<^item> \<open>Notify\<close> (\<^verbatim>\<open>hub/notify.rs\<close>): the subscriber registry with its invariant,
    delivery of payloads, gap fill, and the manager loop as a step relation with its runs.
  \<^item> \<open>Schema\<close> (\<^verbatim>\<open>src/migrations\<close>): the tables of the migration as data, with their
    column types, defaults, keys, checks, references and triggers, and statements and transactions on them;
    every reachable database satisfies all constraints (\<open>db_wf\<close>). \<open>Hub_Db\<close>: the SQL of the audit
    writer, of the idempotency check and of the gap fill on that schema; the locale \<open>audit_refinement\<close>
    relates two stores the writer runs on, and its interpretations carry what is shown on a table over to the
    schema. \<open>Event_Pipeline\<close>: transactions, trigger, session and manager as one system, from the
    commit of an event to the subscriber's channel, with sessions that are lost whether or not the manager
    sees it: what is complete while a session is up, at most once in general, and lost while none is. \<open>Payload_Text\<close>: the text of a notification, as the
    database and as \<^verbatim>\<open>serde_json\<close> write it, with its exact length.
  \<^item> \<open>Span_Processor\<close> (\<^verbatim>\<open>hub/telemetry/processor.rs\<close>): the bounded channel and the
    background task as a step relation over any exporter; every span is accounted for in every
    interleaving, in a drop counter it may share with its exporter, and a shutdown flushes. The locale \<open>counting_exporter\<close> is what the processor
    relies on in an exporter that keeps books.
  \<^item> \<open>Otlp_Json\<close> (\<^verbatim>\<open>hub/telemetry/otlp_json.rs\<close>): the conversion of spans, with the
    round trip through the envelope. \<open>Local_Exporter\<close>
    (\<^verbatim>\<open>hub/telemetry/local_exporter.rs\<close>): daily files, cap and purge over a file system whose
    failures are arbitrary; it interprets \<open>counting_exporter\<close>, which gives the balance of the
    whole local pipeline. \<open>Otlp_Text\<close>: the JSON text of a line as the derived serialisation lays it out, a
    parser for it, and the way back from a trace file to the spans. \<open>Telemetry\<close> (\<^verbatim>\<open>hub/telemetry/mod.rs\<close>): base64 with its
    decoder, and which processors the provider gets.
  \<^item> \<open>Hub_Metrics\<close> (\<^verbatim>\<open>hub/metrics.rs\<close>): the thirty metrics, their registration and the
    series seeded; names, labels and buckets are checked against the client's documented rules.
  \<^item> \<open>Servers\<close> (\<^verbatim>\<open>hub/server\<close>, \<^verbatim>\<open>hub/shutdown.rs\<close>, the end of
    \<^verbatim>\<open>main.rs\<close>): endpoints, health reporters and the shutdown sequence interleaved with the ends
    of the server tasks; its order is an invariant, and every signalled process ends
    without any server task having to fail.
  \<^item> \<open>Hub_Main\<close> (\<^verbatim>\<open>main.rs\<close>, \<^verbatim>\<open>hub/db.rs\<close>): start-up over all these
    components, and what holds of a process for its whole life. This theory adds what spans all of them for
    local traces: every span of a running process is in a file, in the counter or still held.
  \<^item> \<open>Test_Support\<close>, \<open>Tests_Policies\<close>, \<open>Tests_Grpc\<close>, \<open>Tests_Http\<close>,
    \<open>Tests_Fakes\<close>, \<open>Tests_Hub\<close>, \<open>Tests_Telemetry\<close> (the \<^verbatim>\<open>#[cfg(test)]\<close> modules): the unit tests and their mock
    servers as computations over the same definitions, and that each passes in every environment; of the two
    tests that wait for a background task, exactly which schedules let them pass.

  \<^bold>\<open>Modelling conventions.\<close> A Rust \<^verbatim>\<open>Result\<close> is a sum with the error on the
  left; a computation that may panic is \<open>exec\<close>. Effects on the outside are state passing over a
  world \<open>'w\<close>; an operation of an adapter returns the new world, the metric operations it issued
  and its result. Code outside the repository is a parameter: the clock, the jitter and the timer
  (\<open>retry_env\<close>), minting and printing of UUIDs, the gRPC and HTTP clients, JSON decoding, SHA-256,
  the database, the broadcast channels, calendar dates, the Prometheus client and the OTLP exporters. Where a theorem needs a property of such code it is a premise
  (\<open>jitter_in_range\<close>, \<open>broadcast_laws\<close>, \<open>client_laws\<close>, \<open>json_laws\<close>, injectivity on the
  two inputs at hand), and a
  witness instantiates it. Loops are functions with termination proofs (\<open>retry_loop\<close>,
  \<open>phase2_loop\<close>, the drain \<open>finish\<close> of the span processor), so no fuel is used; only the parser that
  reads trace lines back takes fuel, and twice the length of the line and one is shown to be enough. The manager
  loop, the span processor and the process after start-up, which interleave with their surroundings, are
  relations.
  Tracing and log output is not modelled.

  \<^bold>\<open>Not modelled.\<close> The command-line parser (a \<open>Config\<close> is its result), the log
  subscriber and log output, the socket and protocol work of the gRPC and HTTP stacks, the indexes
  and the down migration of the schema, the build scripts and the generated protobuf code, the
  integration tests under \<^verbatim>\<open>tests/\<close> (they need a running database or server), the unit tests of
  \<^verbatim>\<open>hub/metrics.rs\<close> (they search the text the Prometheus client prints) and the test that only
  builds a provider for each choice of exporters; PostgreSQL's limits on sizes (8,000 bytes for a notification, a gigabyte for a text). Wall-clock time is
  kept where the code computes with it (deadlines, back-off, timeouts as bounds); how long a server task or
  an export takes is not.
\<close>

section \<open>Local telemetry from start-up to the files\<close>

text \<open>C18. Every span of a running process with local traces is accounted for, from main to the files: in a
  process that got past start-up, the processor of the local exporter has its drop counter in the metric set
  at zero, and along every interleaving of the threads that end spans with its background task, whatever the
  file system does, the complete lines appended to the trace files are in order one per stored batch, with
  the resource attributes of the effective configuration; every span that ended is in exactly one of them, or
  is counted in that counter (rejected at the full channel of 2048, in a batch that could not be written, or
  in one refused at the size cap), or is still held; and the counter holds nothing else.\<close>

theorem local_spans_accounted:
  assumes "hub_main w cfg local_var_set otel_type = Hub_Up cfg' ss provider pool h"
    and "p \<in> set (provider_processors provider)" "proc_exporter p = Jsonl_File x"
    and "proc_run (jsonl_export (trace_library w) (proc_drop_label p)) QUEUE_CAPACITY 0 (x, fs) es q"
  shows "(md_name otel_exporter_dropped_spans_desc, [proc_drop_label p], 0) \<in> set ss \<and>
    (\<exists>bs capped.
       whole_lines (appended (snd (exporter q))) = whole_lines (appended fs) @
         map (json_line (trace_library w) (build_resource_attrs (pkg_version (telemetry_env w)) cfg')) bs \<and>
       dropped q = of_nat (length (over rejected_of es) + length (over failed_of es) + capped) \<and>
       subseq (concat bs) (over ended_of es) \<and>
       length (over ended_of es) =
         length (concat bs) + length (over rejected_of es) + length (over failed_of es) + capped + length (pending q))"
proof -
  let ?attrs = "build_resource_attrs (pkg_version (telemetry_env w)) cfg'"
  obtain url gone where up: "ss = series_of (Metrics_setup (registry_adapter cfg') (env cfg') (track_0_idle_mode cfg'))"
    "init_telemetry (trace_library w) (telemetry_env w) cfg' = (gone, Ret provider)"
    by (rule hub_main_Up [OF assms(1)])
  note only = local_processor_only [OF up(2) assms(2,3)]
  then have "jsonl_good (trace_library w) (proc_drop_label p) ?attrs (x, fs)"
    by (simp add: jsonl_good_def jsonl_wf_def new_with_counter_def new_inner_def)
  from jsonl.books_balance [OF assms(4) this] drop_series [of "proc_drop_label p"] only show ?thesis
    unfolding up(1) by (simp add: jsonl_stored_def)
qed

text \<open>A production process in idle mode with local traces, in which one span has ended.\<close>

definition traced_config :: Config where
  "traced_config = idle_config\<lparr>otel_export_local := True\<rparr>"

definition traced_exporter :: "bool JsonlFileExporter" where
  "traced_exporter = new_with_counter ''engagement-hub'' (build_resource_attrs ''0.1.0'' traced_config) ''local'' True"

lemma traced_up:
  "\<exists>ss provider pool h. hub_main calm_outside traced_config True None = Hub_Up traced_config ss provider pool h \<and>
     \<lparr>proc_name = ''local'', proc_exporter = Jsonl_File traced_exporter, proc_drop_label = ''local''\<rparr>
       \<in> set (provider_processors provider)"
proof -
  have "client_laws (create_metric calm_outside) (register_metric calm_outside) set"
    by (simp add: client_laws_def calm_outside_def list_register_def)
  from run_setup_ok [OF this, of "Metrics_setup Stub Production True" "[]"]
  obtain r where "Metrics_new (create_metric calm_outside) (register_metric calm_outside) []
      Stub Production True = (r, series_of (Metrics_setup Stub Production True), Ret (Inr ()))"
    unfolding Metrics_new_def using fields_ok fields_distinct setup_seeds by (auto simp: setup_descs)
  then show ?thesis
    by (simp add: hub_main_def effective_config_def apply_otel_local_default_def validate_def traced_config_def idle_config_def
        sample_config_def calm_outside_def init_telemetry_def Let_def build_pool_def spawn_servers_def purge_old_files_def
        quiet_start_def local_processor_def traced_exporter_def)
qed

theorem local_spans_accounted_witness:
  "\<exists>(q :: (unit SpanData, bool JsonlFileExporter \<times> trace_files) processor) bs capped.
     proc_run (jsonl_export two_days ''local'') QUEUE_CAPACITY 0 (traced_exporter, no_files) [Span_Ended sample_span True] q \<and>
     dropped q = of_nat (0 + 0 + capped) \<and> subseq (concat bs) [sample_span] \<and>
     length [sample_span] = length (concat bs) + 0 + 0 + capped + length (pending q)"
proof -
  let ?es = "[Span_Ended sample_span True]"
  obtain p0 :: "(unit SpanData, bool JsonlFileExporter \<times> trace_files) processor"
    where p0: "new_with_capacity (traced_exporter, no_files) 0 QUEUE_CAPACITY = Ret p0"
    by (simp add: new_with_capacity_def QUEUE_CAPACITY_def)
  have "\<not> released p0" "snd (on_end sample_span p0)"
    using p0 by (auto simp: new_with_capacity_def on_end_def try_send_def QUEUE_CAPACITY_def)
  then have "proc_step (jsonl_export two_days ''local'') p0 (Span_Ended sample_span True) (fst (on_end sample_span p0))"
    by (intro proc_step.span_ended) (simp_all add: prod_eq_iff)
  from proc_run.step [OF proc_run.start [OF p0] this]
  have run: "proc_run (jsonl_export two_days ''local'') QUEUE_CAPACITY 0 (traced_exporter, no_files) ?es (fst (on_end sample_span p0))"
    by simp
  obtain ss provider pool h where up: "hub_main calm_outside traced_config True None = Hub_Up traced_config ss provider pool h"
    "\<lparr>proc_name = ''local'', proc_exporter = Jsonl_File traced_exporter, proc_drop_label = ''local''\<rparr>
       \<in> set (provider_processors provider)"
    using traced_up by blast
  have es: "over ended_of ?es = [sample_span]" "length (over rejected_of ?es) = 0" "length (over failed_of ?es) = 0"
    by (simp_all add: over_def)
  have lib: "trace_library calm_outside = two_days" by (simp add: calm_outside_def)
  from local_spans_accounted [OF up, unfolded lib processor_spec.simps, OF refl run, unfolded es] run show ?thesis by blast
qed

end
